(* ===== verification/Prelude.thy ===== *)
theory Prelude
  imports Main "HOL-Library.Word" "HOL-Library.Signed_Division"
begin

text \<open>
  The prelude of the development: the results of Go calls (a value, an error or a panic), the
  effectful calls that thread a world, the error values of the driver with Go's
  \<open>errors.Is\<close> and \<open>errors.As\<close>, 64-bit integers, slices, and the parts of Go's \<open>strings\<close>
  and \<open>strconv\<close> packages the driver uses. The generic relations between calls (simulation
  through a projection of the world, frame relations, absence of panics) and their rules for
  \<open>call\<close> are here too; the component theories use them through the collections below.
\<close>

named_theorems io_defs \<open>unfolding rules of the io combinators\<close>
named_theorems sim_rules \<open>introduction rules for io_sim\<close>
named_theorems rel_rules \<open>introduction rules for io_rel\<close>
named_theorems np_rules \<open>introduction rules for no_panic\<close>

section \<open>Searching lists\<close>

text \<open>A Go loop that returns at the first match is \<open>find\<close>, one that only asks whether there is a match is
  \<open>list_ex\<close>.\<close>

lemma find_append:
  "find P (xs @ ys) = (case find P xs of None \<Rightarrow> find P ys | Some x \<Rightarrow> Some x)"
  by (induction xs) auto

lemma find_SomeD: "find P xs = Some x \<Longrightarrow> x \<in> set xs \<and> P x"
  by (induction xs) (auto split: if_splits)

section \<open>Error values\<close>

text \<open>The gRPC status codes the driver returns.\<close>

datatype code =
    InvalidArgument | NotFound | AlreadyExists | OutOfRange | ResourceExhausted
  | FailedPrecondition | Aborted | Unimplemented | Internal

text \<open>The sentinel errors of \<open>internal/service/service.go\<close>, then those of \<open>internal/filesystem\<close>.\<close>

datatype sentinel =
    ErrStorageNotFound | ErrServerNotFound | ErrServerStorageNotFound | ErrBackupInProgress
  | ErrFileStorageNotFound | ErrFileStorageCreateNotImpl | ErrFileStorageShareACLNotImpl
  | ErrFileStorageNetworkNotImpl
  | ErrNotMounted | ErrNodeDiskNotFound | ErrPartitionNotFound | ErrToolNotFound

text \<open>The error codes of API problems; the driver names one of them.\<close>

datatype problem_code = ErrCodeStorageDeviceLimitReached | ErrCodeOther string

text \<open>
  An error value is a sentinel, an API \<open>upcloud.Problem\<close> (HTTP status and error code), a gRPC
  status, the exit code of a command, an error made by \<open>errors.New\<close> or \<open>fmt.Errorf\<close> (with a
  label for its text), or an error wrapped by \<open>%w\<close>. The text of messages is not modelled: the
  code only branches on the identity and the kind of an error.
\<close>

datatype err =
    Sentinel sentinel
  | Problem int problem_code
  | Status code
  | ExitError int
  | Errorf string
  | Wrapped string err

text \<open>Go's \<open>errors.Is\<close> for a sentinel target and \<open>errors.As\<close> for a \<open>*upcloud.Problem\<close> walk the chain of
  wrapped errors.\<close>

fun errors_Is :: "err \<Rightarrow> sentinel \<Rightarrow> bool" where
  "errors_Is (Sentinel s) t = (s = t)"
| "errors_Is (Wrapped _ e) t = errors_Is e t"
| "errors_Is _ t = False"

fun errors_As_Problem :: "err \<Rightarrow> (int \<times> problem_code) option" where
  "errors_As_Problem (Problem st c) = Some (st, c)"
| "errors_As_Problem (Wrapped _ e) = errors_As_Problem e"
| "errors_As_Problem _ = None"

fun errors_As_ExitError :: "err \<Rightarrow> int option" where
  "errors_As_ExitError (ExitError n) = Some n"
| "errors_As_ExitError (Wrapped _ e) = errors_As_ExitError e"
| "errors_As_ExitError _ = None"

text \<open>The test \<open>errors.As(err, &problem) && problem.Status == st\<close>.\<close>

definition problem_status :: "err \<Rightarrow> int \<Rightarrow> bool" where
  "problem_status e st = (case errors_As_Problem e of None \<Rightarrow> False | Some (s, _) \<Rightarrow> s = st)"

lemma problem_status_simps [simp]:
  "problem_status (Problem s c) st = (s = st)"
  "problem_status (Wrapped l e) st = problem_status e st"
  "problem_status (Sentinel n) st = False"
  "problem_status (Status k) st = False"
  "problem_status (ExitError x) st = False"
  "problem_status (Errorf l) st = False"
  by (simp_all add: problem_status_def)

lemma errors_Is_not_problem: "errors_Is e t \<Longrightarrow> errors_As_Problem e = None"
  by (induction e) auto

section \<open>Calls\<close>

text \<open>A call ends with a value, with an error or with a runtime panic.\<close>

datatype 'a res = Ok 'a | Err err | Panic

text \<open>
  A call reads and changes a world of type \<open>'w\<close> (the state of the cloud, of the node's operating
  system, of the metrics). The world reached so far is kept when the call fails, as the effects
  of earlier requests are.
\<close>

type_synonym ('a, 'w) io = "'w \<Rightarrow> 'a res \<times> 'w"

definition ret :: "'a \<Rightarrow> ('a, 'w) io" where
  "ret x = (\<lambda>w. (Ok x, w))"

definition throw :: "err \<Rightarrow> ('a, 'w) io" where
  "throw e = (\<lambda>w. (Err e, w))"

definition panic :: "('a, 'w) io" where
  "panic = (\<lambda>w. (Panic, w))"

text \<open>\<open>call m h k\<close> is \<open>x, err := m(); if err != nil { h(err) } else { k(x) }\<close>; a panic of \<open>m\<close> is not caught.\<close>

definition call :: "('a, 'w) io \<Rightarrow> (err \<Rightarrow> ('b, 'w) io) \<Rightarrow> ('a \<Rightarrow> ('b, 'w) io) \<Rightarrow> ('b, 'w) io" where
  "call m h k = (\<lambda>w. case m w of
      (Ok x, w') \<Rightarrow> k x w'
    | (Err e, w') \<Rightarrow> h e w'
    | (Panic, w') \<Rightarrow> (Panic, w'))"

lemmas io_basic [io_defs] = ret_def throw_def panic_def call_def

lemma call_ret [simp]: "call (ret x) h k = k x"
  by (simp add: io_defs)

lemma call_throw [simp]: "call (throw e) h k = h e"
  by (simp add: io_defs)

lemma call_panic [simp]: "call panic h k = panic"
  by (simp add: io_defs)

lemma call_Ok: "m w = (Ok x, w') \<Longrightarrow> call m h k w = k x w'"
  by (simp add: io_defs)

lemma call_Err: "m w = (Err e, w') \<Longrightarrow> call m h k w = h e w'"
  by (simp add: io_defs)

lemma call_Panic: "m w = (Panic, w') \<Longrightarrow> call m h k w = (Panic, w')"
  by (simp add: io_defs)

lemma call_OkE:
  assumes "call m h k w = (Ok y, w'')"
  obtains (ok) x w' where "m w = (Ok x, w')" and "k x w' = (Ok y, w'')"
  | (err) e w' where "m w = (Err e, w')" and "h e w' = (Ok y, w'')"
  using assms by (auto simp: call_def split: prod.splits res.splits)

lemma call_throw_OkE:
  assumes "call m throw k w = (Ok y, w'')"
  obtains x w' where "m w = (Ok x, w')" and "k x w' = (Ok y, w'')"
  using assms by (auto simp: io_defs split: prod.splits res.splits)

lemma call_assoc:
  "call (call m h k) h' k' = call m (\<lambda>e. call (h e) h' k') (\<lambda>x. call (k x) h' k')"
  by (auto simp: call_def fun_eq_iff split: prod.splits res.splits)

lemma io_app: "ret x w = (Ok x, w)" "throw e w = (Err e, w)" "panic w = (Panic, w)"
  by (simp_all add: io_defs)

subsection \<open>Simulation through a projection of the world\<close>

text \<open>\<open>io_sim p m' m\<close>: the call \<open>m'\<close> on the larger world has the results of \<open>m\<close> on the projected one and
  changes the projected world alike.\<close>

definition io_sim :: "('v \<Rightarrow> 'w) \<Rightarrow> ('a, 'v) io \<Rightarrow> ('a, 'w) io \<Rightarrow> bool" where
  "io_sim p m' m \<longleftrightarrow> (\<forall>v. map_prod id p (m' v) = m (p v))"

lemma io_simI: "(\<And>v. map_prod id p (m' v) = m (p v)) \<Longrightarrow> io_sim p m' m"
  by (simp add: io_sim_def)

lemma io_simD: "io_sim p m' m \<Longrightarrow> map_prod id p (m' v) = m (p v)"
  by (simp add: io_sim_def)

lemma io_sim_basic [sim_rules]:
  "io_sim p (ret x) (ret x)" "io_sim p (throw e) (throw e)" "io_sim p panic panic"
  by (simp_all add: io_sim_def io_app)

lemma io_sim_call [sim_rules]:
  assumes m: "io_sim p m' m" and h: "\<And>e. io_sim p (h' e) (h e)" and k: "\<And>x. io_sim p (k' x) (k x)"
  shows "io_sim p (call m' h' k') (call m h k)"
proof (rule io_simI)
  fix v
  obtain r v' where mv: "m' v = (r, v')" by fastforce
  have "m (p v) = (r, p v')"
    using io_simD [OF m, of v] mv by simp
  with mv show "map_prod id p (call m' h' k' v) = call m h k (p v)"
    using io_simD [OF h] io_simD [OF k] by (cases r) (simp_all add: call_def)
qed

lemma io_sim_trans:
  assumes "io_sim p m1 m2" and "io_sim q m2 m3"
  shows "io_sim (\<lambda>v. q (p v)) m1 m3"
proof (rule io_simI)
  fix v
  have "map_prod id q (map_prod id p (m1 v)) = m3 (q (p v))"
    using io_simD [OF assms(1)] io_simD [OF assms(2)] by simp
  then show "map_prod id (\<lambda>v. q (p v)) (m1 v) = m3 (q (p v))" by (cases "m1 v") simp
qed

subsection \<open>Frame relations and panics\<close>

text \<open>\<open>io_rel R m\<close>: whatever the result, the world after \<open>m\<close> is related by \<open>R\<close> to the world before.\<close>

definition io_rel :: "('w \<Rightarrow> 'w \<Rightarrow> bool) \<Rightarrow> ('a, 'w) io \<Rightarrow> bool" where
  "io_rel R m \<longleftrightarrow> (\<forall>w. R w (snd (m w)))"

lemma io_relI: "(\<And>w. R w (snd (m w))) \<Longrightarrow> io_rel R m"
  by (simp add: io_rel_def)

lemma io_relD: "io_rel R m \<Longrightarrow> m w = (r, w') \<Longrightarrow> R w w'"
  unfolding io_rel_def by (metis snd_conv)

lemma io_rel_basic [rel_rules]:
  assumes "reflp R"
  shows "io_rel R (ret x)" "io_rel R (throw e)" "io_rel R panic"
  using assms by (auto simp: io_rel_def io_app dest: reflpD)

lemma io_rel_call [rel_rules]:
  assumes t: "transp R" and m: "io_rel R m" and h: "\<And>e. io_rel R (h e)" and k: "\<And>x. io_rel R (k x)"
  shows "io_rel R (call m h k)"
proof (rule io_relI)
  fix w
  obtain r w' where mw: "m w = (r, w')" by fastforce
  have 1: "R w w'" using m mw by (rule io_relD)
  show "R w (snd (call m h k w))"
    using 1 mw h k by (cases r) (auto simp: call_def io_rel_def intro: transpD [OF t 1])
qed

text \<open>A call whose parts change the world by different relations.\<close>

lemma io_rel_call_comp:
  assumes "io_rel R m" and "\<And>e. io_rel S (h e)" and "\<And>x. io_rel S (k x)"
    and "\<And>w w'. R w w' \<Longrightarrow> T w w'" and "\<And>w w' w''. R w w' \<Longrightarrow> S w' w'' \<Longrightarrow> T w w''"
  shows "io_rel T (call m h k)"
proof (rule io_relI)
  fix w
  obtain r w' where mw: "m w = (r, w')" by fastforce
  have "R w w'" using assms(1) mw by (rule io_relD)
  then show "T w (snd (call m h k w))"
    using mw assms by (cases r) (auto simp: call_def io_rel_def)
qed

definition no_panic :: "('a, 'w) io \<Rightarrow> bool" where
  "no_panic m \<longleftrightarrow> (\<forall>w. fst (m w) \<noteq> Panic)"

lemma no_panicI: "(\<And>w. fst (m w) \<noteq> Panic) \<Longrightarrow> no_panic m"
  by (simp add: no_panic_def)

lemma no_panicD: "no_panic m \<Longrightarrow> m w \<noteq> (Panic, w')"
  by (auto simp: no_panic_def dest: spec [of _ w])

lemma no_panic_basic [np_rules]: "no_panic (ret x)" "no_panic (throw e)"
  by (simp_all add: no_panic_def io_app)

lemma no_panic_call [np_rules]:
  assumes "no_panic m" and "\<And>e. no_panic (h e)" and "\<And>x. no_panic (k x)"
  shows "no_panic (call m h k)"
  using assms by (auto simp: no_panic_def call_def split: prod.splits res.splits) (metis fst_conv)+

lemma if_rules [sim_rules]:
  "(b \<Longrightarrow> io_sim p m1 n1) \<Longrightarrow> (\<not> b \<Longrightarrow> io_sim p m2 n2) \<Longrightarrow>
     io_sim p (if b then m1 else m2) (if b then n1 else n2)"
  by simp

lemma if_rel_rules [rel_rules]:
  "(b \<Longrightarrow> io_rel R m1) \<Longrightarrow> (\<not> b \<Longrightarrow> io_rel R m2) \<Longrightarrow> io_rel R (if b then m1 else m2)"
  by simp

lemma if_np_rules [np_rules]:
  "(b \<Longrightarrow> no_panic m1) \<Longrightarrow> (\<not> b \<Longrightarrow> no_panic m2) \<Longrightarrow> no_panic (if b then m1 else m2)"
  by simp

lemma case_option_rules:
  "(x = None \<Longrightarrow> io_sim p m1 n1) \<Longrightarrow> (\<And>y. x = Some y \<Longrightarrow> io_sim p (m2 y) (n2 y)) \<Longrightarrow>
     io_sim p (case x of None \<Rightarrow> m1 | Some y \<Rightarrow> m2 y) (case x of None \<Rightarrow> n1 | Some y \<Rightarrow> n2 y)"
  "(x = None \<Longrightarrow> io_rel R m1) \<Longrightarrow> (\<And>y. x = Some y \<Longrightarrow> io_rel R (m2 y)) \<Longrightarrow>
     io_rel R (case x of None \<Rightarrow> m1 | Some y \<Rightarrow> m2 y)"
  "(x = None \<Longrightarrow> no_panic m1) \<Longrightarrow> (\<And>y. x = Some y \<Longrightarrow> no_panic (m2 y)) \<Longrightarrow>
     no_panic (case x of None \<Rightarrow> m1 | Some y \<Rightarrow> m2 y)"
  by (cases x; simp)+

lemma case_prod_rules:
  "(\<And>a b. x = (a, b) \<Longrightarrow> io_sim p (f a b) (g a b)) \<Longrightarrow>
     io_sim p (case x of (a, b) \<Rightarrow> f a b) (case x of (a, b) \<Rightarrow> g a b)"
  "(\<And>a b. x = (a, b) \<Longrightarrow> io_rel R (f' a b)) \<Longrightarrow> io_rel R (case x of (a, b) \<Rightarrow> f' a b)"
  "(\<And>a b. x = (a, b) \<Longrightarrow> no_panic (f' a b)) \<Longrightarrow> no_panic (case x of (a, b) \<Rightarrow> f' a b)"
  by (cases x; simp)+

lemma case_list_rules:
  "(x = [] \<Longrightarrow> io_sim p m1 n1) \<Longrightarrow> (\<And>y ys. x = y # ys \<Longrightarrow> io_sim p (m2 y ys) (n2 y ys)) \<Longrightarrow>
     io_sim p (case x of [] \<Rightarrow> m1 | y # ys \<Rightarrow> m2 y ys) (case x of [] \<Rightarrow> n1 | y # ys \<Rightarrow> n2 y ys)"
  "(x = [] \<Longrightarrow> io_rel R m1) \<Longrightarrow> (\<And>y ys. x = y # ys \<Longrightarrow> io_rel R (m2 y ys)) \<Longrightarrow>
     io_rel R (case x of [] \<Rightarrow> m1 | y # ys \<Rightarrow> m2 y ys)"
  by (cases x; simp)+

declare case_option_rules(1) [sim_rules]
declare case_prod_rules(1) [sim_rules]
declare case_list_rules(1) [sim_rules]
declare case_list_rules(2) [rel_rules]
declare case_prod_rules(2) [rel_rules]
declare case_prod_rules(3) [np_rules]
declare case_option_rules(2) [rel_rules]
declare case_option_rules(3) [np_rules]

end
