(* ===== verification/Cloud_Types.thy ===== *)
theory Cloud_Types
  imports Go_Lib
begin

text \<open>
  The data the driver exchanges with the UpCloud API: the structs of the SDK with the fields the
  driver reads or writes, the request structs it fills in, and the client interface
  \<open>upCloudClient\<close> of \<open>internal/service/upcloud_service.go\<close> as a record of operations over a
  world \<open>'w\<close>. The SDK is not part of the repository: a client is an argument of every definition
  that calls it. Contexts are not modelled; a time-out of a wait is an error the client returns.
\<close>

datatype storage_state =
    StorageStateOnline | StorageStateMaintenance | StorageStateBackuping | StorageStateOther string

datatype storage_type = StorageTypeNormal | StorageTypeBackup | StorageTypeOther string

datatype storage_tier = TierUnset | StorageTierMaxIOPS | StorageTierHDD | StorageTierStandard

datatype server_state = ServerStateStarted | ServerStateMaintenance | ServerStateOther string

datatype network_type = NetworkTypePrivate | NetworkTypeOther string

datatype file_storage_state = FileStorageOperationalStateRunning | FileStorageOperationalStateOther string

record Label =
  Label_Key :: string
  Label_Value :: string

record Storage =
  Storage_UUID :: string
  Storage_Title :: string
  Storage_Size :: int
  Storage_Zone :: string
  Storage_Type :: storage_type
  Storage_State :: storage_state
  Storage_Origin :: string
  Storage_Created :: int
  Storage_Encrypted :: bool
  Storage_Labels :: "Label list"

text \<open>\<open>StorageDetails\<close> embeds \<open>Storage\<close>, \<open>ServerDetails\<close> embeds \<open>Server\<close>.\<close>

record StorageDetails = Storage +
  ServerUUIDs :: "string list"

record ServerStorageDevice =
  Device_Address :: string
  Device_UUID :: string
  Device_Size :: int

record ServerInterface =
  Interface_Network :: string
  Interface_Type :: network_type

record Server =
  Server_UUID :: string
  Server_Hostname :: string
  Server_Zone :: string
  Server_State :: server_state

record ServerDetails = Server +
  StorageDevices :: "ServerStorageDevice list"
  Networking_Interfaces :: "ServerInterface list"

record Network =
  Network_UUID :: string
  Network_Name :: string

record FileStorageNetwork =
  FSNetwork_UUID :: string
  FSNetwork_Name :: string
  FSNetwork_Family :: string
  FSNetwork_IPAddress :: string

record FileStorage =
  FileStorage_UUID :: string
  FileStorage_Name :: string
  FileStorage_Zone :: string
  FileStorage_SizeGiB :: int
  FileStorage_Encrypted :: bool
  FileStorage_Networks :: "FileStorageNetwork list"
  FileStorage_OperationalState :: file_storage_state

record FileStorageShareACL =
  ACL_Name :: string
  ACL_Target :: string
  ACL_ReadWrite :: bool

record FileStorageShare =
  Share_Name :: string
  Share_Path :: string

record CreateStorageRequest =
  CreateStorage_Zone :: string
  CreateStorage_Title :: string
  CreateStorage_Size :: int
  CreateStorage_Tier :: storage_tier
  CreateStorage_Labels :: "Label list"
  CreateStorage_Encrypted :: bool

record CloneStorageRequest =
  CloneStorage_UUID :: string
  CloneStorage_Zone :: string
  CloneStorage_Tier :: storage_tier
  CloneStorage_Title :: string
  CloneStorage_Encrypted :: bool

text \<open>A modify request leaves what it does not mention: a zero size or absent labels.\<close>

record ModifyStorageRequest =
  ModifyStorage_UUID :: string
  ModifyStorage_Size :: int
  ModifyStorage_Labels :: "Label list option"

record CreateFileStorageRequest =
  CreateFS_Name :: string
  CreateFS_Zone :: string
  CreateFS_Started :: bool
  CreateFS_SizeGiB :: int
  CreateFS_Encrypted :: bool
  CreateFS_Networks :: "FileStorageNetwork list"

record CreateFileStorageShareRequest =
  CreateShare_ServiceUUID :: string
  CreateShare_Name :: string
  CreateShare_Path :: string
  CreateShare_ACL :: "FileStorageShareACL list"

record CreateFileStorageShareACLRequest =
  CreateACL_ServiceUUID :: string
  CreateACL_ShareName :: string
  CreateACL_ACL :: FileStorageShareACL

record 'w upCloudClient =
  api_GetStorages :: "storage_type \<Rightarrow> (Storage list, 'w) io"
  api_GetStorageDetails :: "string \<Rightarrow> (StorageDetails, 'w) io"
  api_CreateStorage :: "CreateStorageRequest \<Rightarrow> (StorageDetails, 'w) io"
  api_CloneStorage :: "CloneStorageRequest \<Rightarrow> (StorageDetails, 'w) io"
  api_ModifyStorage :: "ModifyStorageRequest \<Rightarrow> (StorageDetails, 'w) io"
  api_DeleteStorage :: "string \<Rightarrow> (unit, 'w) io"
  api_AttachStorage :: "string \<Rightarrow> string \<Rightarrow> string \<Rightarrow> (ServerDetails, 'w) io"
  api_DetachStorage :: "string \<Rightarrow> string \<Rightarrow> (ServerDetails, 'w) io"
  api_CreateBackup :: "string \<Rightarrow> string \<Rightarrow> (StorageDetails, 'w) io"
  api_ResizeStorageFilesystem :: "string \<Rightarrow> (string, 'w) io"
  api_WaitForStorageState :: "string \<Rightarrow> storage_state \<Rightarrow> (StorageDetails, 'w) io"
  api_WaitForServerState :: "string \<Rightarrow> server_state \<Rightarrow> (unit, 'w) io"
  api_GetServers :: "(Server list, 'w) io"
  api_GetServerDetails :: "string \<Rightarrow> (ServerDetails, 'w) io"
  api_GetFileStorages :: "(FileStorage list, 'w) io"
  api_GetFileStorage :: "string \<Rightarrow> (FileStorage, 'w) io"
  api_CreateFileStorage :: "CreateFileStorageRequest \<Rightarrow> (FileStorage, 'w) io"
  api_DeleteFileStorage :: "string \<Rightarrow> (unit, 'w) io"
  api_ModifyFileStorage :: "string \<Rightarrow> int \<Rightarrow> (FileStorage, 'w) io"
  api_WaitForFileStorageOperationalState :: "string \<Rightarrow> file_storage_state \<Rightarrow> (FileStorage, 'w) io"
  api_GetFileStorageNetworks :: "string \<Rightarrow> (FileStorageNetwork list, 'w) io"
  api_GetFileStorageShares :: "string \<Rightarrow> (FileStorageShare list, 'w) io"
  api_CreateFileStorageShare :: "CreateFileStorageShareRequest \<Rightarrow> (FileStorageShare, 'w) io"
  api_CreateFileStorageShareACL :: "CreateFileStorageShareACLRequest \<Rightarrow> (FileStorageShareACL, 'w) io"
  api_GetNetworkDetails :: "string \<Rightarrow> (Network, 'w) io"
  api_GetNetworks :: "(Network list, 'w) io"

text \<open>\<open>AttachStorage\<close> takes the server, the storage and the bus address, \<open>DetachStorage\<close> the server and the
  device address; \<open>ResizeStorageFilesystem\<close> returns the identifier of the backup it made;
  of the server details \<open>WaitForServerState\<close> returns the driver uses nothing.\<close>

end
