(* ===== verification/Service_Iface.thy ===== *)
theory Service_Iface
  imports Cloud_Types
begin

text \<open>
  The interface \<open>Service\<close> of \<open>internal/service/service.go\<close>: the operations the controller calls, as a
  record over a world \<open>'w\<close>. Two providers are modelled in other theories: the API-backed
  \<open>UpCloudService\<close> and the metrics wrapper \<open>instrumentedService\<close>. Two contracts between a provider and its client are stated here as
  locales: \<open>service_errors\<close> (a missing resource is reported by a sentinel, never by a bare API
  problem) and \<open>service_wrapper\<close> (a provider that only adds state of its own around another).
\<close>

record NetworkRef =
  NetworkRef_UUID :: string
  NetworkRef_Name :: string
  NetworkRef_Zone :: string

record 'w Service =
  svc_GetBlockStorageByUUID :: "string \<Rightarrow> (StorageDetails, 'w) io"
  svc_GetBlockStorageByName :: "string \<Rightarrow> (StorageDetails option list, 'w) io"
  svc_ListBlockStorage :: "string \<Rightarrow> (Storage list, 'w) io"
  svc_CreateBlockStorage :: "CreateStorageRequest \<Rightarrow> (StorageDetails, 'w) io"
  svc_CloneBlockStorage :: "CloneStorageRequest \<Rightarrow> Label list \<Rightarrow> (StorageDetails, 'w) io"
  svc_DeleteBlockStorage :: "string \<Rightarrow> (unit, 'w) io"
  svc_AttachBlockStorage :: "string \<Rightarrow> string \<Rightarrow> (unit, 'w) io"
  svc_DetachBlockStorage :: "string \<Rightarrow> string \<Rightarrow> (unit, 'w) io"
  svc_ResizeBlockStorage :: "string \<Rightarrow> int \<Rightarrow> bool \<Rightarrow> (StorageDetails, 'w) io"
  svc_ResizeBlockDevice :: "string \<Rightarrow> int \<Rightarrow> (StorageDetails, 'w) io"
  svc_RequireBlockStorageOnline :: "Storage \<Rightarrow> (unit, 'w) io"
  svc_GetBlockStorageBackupByName :: "string \<Rightarrow> (Storage, 'w) io"
  svc_ListBlockStorageBackups :: "string \<Rightarrow> (Storage list, 'w) io"
  svc_CreateBlockStorageBackup :: "string \<Rightarrow> string \<Rightarrow> (StorageDetails, 'w) io"
  svc_DeleteBlockStorageBackup :: "string \<Rightarrow> (unit, 'w) io"
  svc_GetFileStorageByUUID :: "string \<Rightarrow> (FileStorage, 'w) io"
  svc_GetFileStorages :: "(FileStorage list, 'w) io"
  svc_DeleteFileStorage :: "string \<Rightarrow> (unit, 'w) io"
  svc_ModifyFileStorage :: "string \<Rightarrow> int \<Rightarrow> (FileStorage, 'w) io"
  svc_CreateFileStorage :: "string \<Rightarrow> NetworkRef \<Rightarrow> int \<Rightarrow> bool \<Rightarrow> (FileStorage, 'w) io"
  svc_CreateFileStorageShareACL :: "string \<Rightarrow> string \<Rightarrow> (unit, 'w) io"
  svc_GetFileStorageNetworks :: "string \<Rightarrow> (FileStorageNetwork list, 'w) io"
  svc_GetNetworkDetails :: "string \<Rightarrow> (Network, 'w) io"
  svc_GetNetworks :: "(Network list, 'w) io"
  svc_GetServerByHostname :: "string \<Rightarrow> (ServerDetails, 'w) io"

text \<open>An entry of \<open>GetBlockStorageByName\<close> is a pointer: \<open>None\<close> is \<open>nil\<close>.\<close>

section \<open>The error contract\<close>

text \<open>\<open>never_404 m\<close>: an error of \<open>m\<close> is never an API problem with HTTP status 404.\<close>

definition never_404 :: "('a, 'w) io \<Rightarrow> bool" where
  "never_404 m \<longleftrightarrow> (\<forall>w e w'. m w = (Err e, w') \<longrightarrow> \<not> problem_status e 404)"

locale service_errors =
  fixes svc :: "'w Service"
  assumes volume_errors: "never_404 (svc_GetBlockStorageByUUID svc u)"
    and delete_errors: "never_404 (svc_DeleteBlockStorage svc u)"
    and file_errors: "never_404 (svc_GetFileStorageByUUID svc u)"
    and file_delete_errors: "never_404 (svc_DeleteFileStorage svc u)"

lemma never_404I: "(\<And>w e w'. m w = (Err e, w') \<Longrightarrow> \<not> problem_status e 404) \<Longrightarrow> never_404 m"
  by (simp add: never_404_def)

lemma never_404D: "never_404 m \<Longrightarrow> m w = (Err e, w') \<Longrightarrow> \<not> problem_status e 404"
  unfolding never_404_def by blast

section \<open>The wrapper contract\<close>

text \<open>\<open>outer\<close> behaves as \<open>inner\<close> on the part \<open>proj\<close> of its world, operation by operation.\<close>

locale service_wrapper =
  fixes outer :: "'v Service" and inner :: "'w Service" and proj :: "'v \<Rightarrow> 'w"
  assumes sim_GetBlockStorageByUUID [sim_rules]:
      "io_sim proj (svc_GetBlockStorageByUUID outer u) (svc_GetBlockStorageByUUID inner u)"
    and sim_GetBlockStorageByName [sim_rules]:
      "io_sim proj (svc_GetBlockStorageByName outer n) (svc_GetBlockStorageByName inner n)"
    and sim_ListBlockStorage [sim_rules]:
      "io_sim proj (svc_ListBlockStorage outer z) (svc_ListBlockStorage inner z)"
    and sim_CreateBlockStorage [sim_rules]:
      "io_sim proj (svc_CreateBlockStorage outer cr) (svc_CreateBlockStorage inner cr)"
    and sim_CloneBlockStorage [sim_rules]:
      "io_sim proj (svc_CloneBlockStorage outer cl ls) (svc_CloneBlockStorage inner cl ls)"
    and sim_DeleteBlockStorage [sim_rules]:
      "io_sim proj (svc_DeleteBlockStorage outer u) (svc_DeleteBlockStorage inner u)"
    and sim_AttachBlockStorage [sim_rules]:
      "io_sim proj (svc_AttachBlockStorage outer u s) (svc_AttachBlockStorage inner u s)"
    and sim_DetachBlockStorage [sim_rules]:
      "io_sim proj (svc_DetachBlockStorage outer u s) (svc_DetachBlockStorage inner u s)"
    and sim_ResizeBlockStorage [sim_rules]:
      "io_sim proj (svc_ResizeBlockStorage outer u sz b) (svc_ResizeBlockStorage inner u sz b)"
    and sim_ResizeBlockDevice [sim_rules]:
      "io_sim proj (svc_ResizeBlockDevice outer u sz) (svc_ResizeBlockDevice inner u sz)"
    and sim_RequireBlockStorageOnline [sim_rules]:
      "io_sim proj (svc_RequireBlockStorageOnline outer st) (svc_RequireBlockStorageOnline inner st)"
    and sim_GetBlockStorageBackupByName [sim_rules]:
      "io_sim proj (svc_GetBlockStorageBackupByName outer n) (svc_GetBlockStorageBackupByName inner n)"
    and sim_ListBlockStorageBackups [sim_rules]:
      "io_sim proj (svc_ListBlockStorageBackups outer u) (svc_ListBlockStorageBackups inner u)"
    and sim_CreateBlockStorageBackup [sim_rules]:
      "io_sim proj (svc_CreateBlockStorageBackup outer u n) (svc_CreateBlockStorageBackup inner u n)"
    and sim_DeleteBlockStorageBackup [sim_rules]:
      "io_sim proj (svc_DeleteBlockStorageBackup outer u) (svc_DeleteBlockStorageBackup inner u)"
    and sim_GetFileStorageByUUID [sim_rules]:
      "io_sim proj (svc_GetFileStorageByUUID outer u) (svc_GetFileStorageByUUID inner u)"
    and sim_GetFileStorages [sim_rules]:
      "io_sim proj (svc_GetFileStorages outer) (svc_GetFileStorages inner)"
    and sim_DeleteFileStorage [sim_rules]:
      "io_sim proj (svc_DeleteFileStorage outer u) (svc_DeleteFileStorage inner u)"
    and sim_ModifyFileStorage [sim_rules]:
      "io_sim proj (svc_ModifyFileStorage outer u sz) (svc_ModifyFileStorage inner u sz)"
    and sim_CreateFileStorage [sim_rules]:
      "io_sim proj (svc_CreateFileStorage outer n net sz b) (svc_CreateFileStorage inner n net sz b)"
    and sim_CreateFileStorageShareACL [sim_rules]:
      "io_sim proj (svc_CreateFileStorageShareACL outer u n) (svc_CreateFileStorageShareACL inner u n)"
    and sim_GetFileStorageNetworks [sim_rules]:
      "io_sim proj (svc_GetFileStorageNetworks outer u) (svc_GetFileStorageNetworks inner u)"
    and sim_GetNetworkDetails [sim_rules]:
      "io_sim proj (svc_GetNetworkDetails outer u) (svc_GetNetworkDetails inner u)"
    and sim_GetNetworks [sim_rules]:
      "io_sim proj (svc_GetNetworks outer) (svc_GetNetworks inner)"
    and sim_GetServerByHostname [sim_rules]:
      "io_sim proj (svc_GetServerByHostname outer n) (svc_GetServerByHostname inner n)"

end
