(* ===== verification/UpCloud_Service.thy ===== *)
theory UpCloud_Service
  imports Service_Iface
begin

text \<open>
  \<open>UpCloudService\<close>, the API-backed provider of the \<open>Service\<close> interface: the operations of
  \<open>upcloud_service.go\<close>, \<open>upcloud_block_storage.go\<close> and \<open>upcloud_file_storage.go\<close>, each as the
  sequence of client calls the method makes. The per-server mutex of \<open>AttachBlockStorage\<close> and
  \<open>DetachBlockStorage\<close> is the subject of the theory \<open>Node_Sync\<close>; here are the bodies that run
  while it is held. The theory ends with the record of the operations and with the error contract.
\<close>

section \<open>Identifiers and waiting\<close>

text \<open>\<open>google/uuid\<close>'s \<open>Parse\<close> is an argument: it tells whether a string is a UUID.\<close>

definition blockStorageUUIDPrefix :: string where
  "blockStorageUUIDPrefix = ''01''"

definition fileStorageUUIDPrefix :: string where
  "fileStorageUUIDPrefix = ''17''"

definition IsValidBlockStorageUUID :: "(string \<Rightarrow> bool) \<Rightarrow> string \<Rightarrow> bool" where
  "IsValidBlockStorageUUID uuidParse s = (if \<not> uuidParse s then False else HasPrefix s blockStorageUUIDPrefix)"

definition IsValidFileStorageUUID :: "(string \<Rightarrow> bool) \<Rightarrow> string \<Rightarrow> bool" where
  "IsValidFileStorageUUID uuidParse s = (if \<not> uuidParse s then False else HasPrefix s fileStorageUUIDPrefix)"

definition waitForStorageOnline :: "'w upCloudClient \<Rightarrow> string \<Rightarrow> (StorageDetails, 'w) io" where
  "waitForStorageOnline c uuid = api_WaitForStorageState c uuid StorageStateOnline"

definition waitForServerOnline :: "'w upCloudClient \<Rightarrow> string \<Rightarrow> (unit, 'w) io" where
  "waitForServerOnline c uuid = api_WaitForServerState c uuid ServerStateStarted"

definition waitForFileStorageRunning :: "'w upCloudClient \<Rightarrow> string \<Rightarrow> (FileStorage, 'w) io" where
  "waitForFileStorageRunning c uuid =
     api_WaitForFileStorageOperationalState c uuid FileStorageOperationalStateRunning"

section \<open>Servers\<close>

definition UpCloudService_GetServerByHostname :: "'w upCloudClient \<Rightarrow> string \<Rightarrow> (ServerDetails, 'w) io" where
  "UpCloudService_GetServerByHostname c hostname =
     call (api_GetServers c) (\<lambda>e. throw (Wrapped ''failed to fetch servers'' e)) (\<lambda>servers.
       case find (\<lambda>server. Server_Hostname server = hostname) servers of
         Some server \<Rightarrow> api_GetServerDetails c (Server_UUID server)
       | None \<Rightarrow> throw (Sentinel ErrServerNotFound))"

section \<open>Block storage\<close>

definition UpCloudService_GetBlockStorageByUUID :: "'w upCloudClient \<Rightarrow> string \<Rightarrow> (StorageDetails, 'w) io" where
  "UpCloudService_GetBlockStorageByUUID c storageUUID =
     call (api_GetStorageDetails c storageUUID)
       (\<lambda>e. if problem_status e 404 then throw (Sentinel ErrStorageNotFound) else throw e)
       ret"

text \<open>The loop of \<open>GetBlockStorageByName\<close>: the details of every storage with the title, in order; the
  error of a details request is dropped and its \<open>nil\<close> result is kept.\<close>

fun byName_details :: "'w upCloudClient \<Rightarrow> string \<Rightarrow> Storage list \<Rightarrow> (StorageDetails option list, 'w) io" where
  "byName_details c storageName [] = ret []"
| "byName_details c storageName (s # ss) =
     (if Storage_Title s = storageName
      then call (call (api_GetStorageDetails c (Storage_UUID s)) (\<lambda>_. ret None) (\<lambda>sd. ret (Some sd))) throw
        (\<lambda>sd. call (byName_details c storageName ss) throw (\<lambda>volumes. ret (sd # volumes)))
      else byName_details c storageName ss)"

definition UpCloudService_GetBlockStorageByName ::
    "'w upCloudClient \<Rightarrow> string \<Rightarrow> (StorageDetails option list, 'w) io" where
  "UpCloudService_GetBlockStorageByName c storageName =
     call (api_GetStorages c StorageTypeNormal) throw (\<lambda>storages. byName_details c storageName storages)"

definition UpCloudService_CreateBlockStorage ::
    "'w upCloudClient \<Rightarrow> CreateStorageRequest \<Rightarrow> (StorageDetails, 'w) io" where
  "UpCloudService_CreateBlockStorage c csr =
     call (api_CreateStorage c csr) throw (\<lambda>s. waitForStorageOnline c (Storage_UUID s))"

definition UpCloudService_CloneBlockStorage ::
    "'w upCloudClient \<Rightarrow> CloneStorageRequest \<Rightarrow> Label list \<Rightarrow> (StorageDetails, 'w) io" where
  "UpCloudService_CloneBlockStorage c r label =
     call (api_CloneStorage c r) throw (\<lambda>s.
     call (waitForStorageOnline c (Storage_UUID s)) throw (\<lambda>s.
       if length label > 0
       then call (api_ModifyStorage c \<lparr>ModifyStorage_UUID = Storage_UUID s, ModifyStorage_Size = 0,
                    ModifyStorage_Labels = Some label\<rparr>) throw (\<lambda>s.
              waitForStorageOnline c (Storage_UUID s))
       else ret s))"

definition UpCloudService_DeleteBlockStorage :: "'w upCloudClient \<Rightarrow> string \<Rightarrow> (unit, 'w) io" where
  "UpCloudService_DeleteBlockStorage c storageUUID =
     call (api_DeleteStorage c storageUUID)
       (\<lambda>e. if problem_status e 404 then throw (Sentinel ErrStorageNotFound) else throw e)
       ret"

definition UpCloudService_AttachBlockStorage :: "'w upCloudClient \<Rightarrow> string \<Rightarrow> string \<Rightarrow> (unit, 'w) io" where
  "UpCloudService_AttachBlockStorage c storageUUID serverUUID =
     call (waitForServerOnline c serverUUID)
       (\<lambda>e. throw (Wrapped ''failed to attach storage, pre-condition failed'' e)) (\<lambda>_.
     call (api_AttachStorage c serverUUID storageUUID ''virtio'') throw (\<lambda>details.
       if list_ex (\<lambda>s. storageUUID = Device_UUID s) (StorageDevices details)
       then waitForServerOnline c serverUUID
       else throw (Errorf ''storage device not found after attaching to server'')))"

definition UpCloudService_DetachBlockStorage :: "'w upCloudClient \<Rightarrow> string \<Rightarrow> string \<Rightarrow> (unit, 'w) io" where
  "UpCloudService_DetachBlockStorage c storageUUID serverUUID =
     call (api_GetServerDetails c serverUUID) throw (\<lambda>sd.
     call (if Server_State sd \<noteq> ServerStateStarted then waitForServerOnline c serverUUID else ret ())
       (\<lambda>e. throw (Wrapped ''failed to detach storage, pre-condition failed'' e)) (\<lambda>_.
       case find (\<lambda>device. Device_UUID device = storageUUID) (StorageDevices sd) of
         None \<Rightarrow> throw (Sentinel ErrServerStorageNotFound)
       | Some device \<Rightarrow>
           call (api_DetachStorage c serverUUID (Device_Address device)) throw (\<lambda>details.
             if list_ex (\<lambda>s. storageUUID = Device_UUID s) (StorageDevices details)
             then throw (Errorf ''storage device still attached'')
             else waitForServerOnline c serverUUID)))"

definition UpCloudService_ListBlockStorage :: "'w upCloudClient \<Rightarrow> string \<Rightarrow> (Storage list, 'w) io" where
  "UpCloudService_ListBlockStorage c zone =
     call (api_GetStorages c StorageTypeNormal) throw (\<lambda>storages.
       ret (filter (\<lambda>s. Storage_Zone s = zone \<and> Storage_Type s = StorageTypeNormal) storages))"

definition UpCloudService_ResizeBlockStorage ::
    "'w upCloudClient \<Rightarrow> string \<Rightarrow> int \<Rightarrow> bool \<Rightarrow> (StorageDetails, 'w) io" where
  "UpCloudService_ResizeBlockStorage c uuid newSize deleteBackup =
     call (api_ModifyStorage c \<lparr>ModifyStorage_UUID = uuid, ModifyStorage_Size = newSize,
             ModifyStorage_Labels = None\<rparr>) throw (\<lambda>storage.
     call (waitForStorageOnline c (Storage_UUID storage)) throw (\<lambda>_.
     call (api_ResizeStorageFilesystem c uuid) throw (\<lambda>backup.
     call (if deleteBackup then api_DeleteStorage c backup else ret ()) throw (\<lambda>_.
       waitForStorageOnline c (Storage_UUID storage)))))"

definition UpCloudService_ResizeBlockDevice :: "'w upCloudClient \<Rightarrow> string \<Rightarrow> int \<Rightarrow> (StorageDetails, 'w) io" where
  "UpCloudService_ResizeBlockDevice c uuid newSize =
     call (api_ModifyStorage c \<lparr>ModifyStorage_UUID = uuid, ModifyStorage_Size = newSize,
             ModifyStorage_Labels = None\<rparr>) throw (\<lambda>storage.
       waitForStorageOnline c (Storage_UUID storage))"

definition UpCloudService_RequireBlockStorageOnline :: "'w upCloudClient \<Rightarrow> Storage \<Rightarrow> (unit, 'w) io" where
  "UpCloudService_RequireBlockStorageOnline c s =
     (if Storage_State s \<noteq> StorageStateOnline
      then call (waitForStorageOnline c (Storage_UUID s)) throw (\<lambda>_. ret ())
      else ret ())"

section \<open>Backups\<close>

definition UpCloudService_CreateBlockStorageBackup ::
    "'w upCloudClient \<Rightarrow> string \<Rightarrow> string \<Rightarrow> (StorageDetails, 'w) io" where
  "UpCloudService_CreateBlockStorageBackup c uuid title =
     call (UpCloudService_GetBlockStorageByUUID c uuid) throw (\<lambda>storage.
       if Storage_State storage = StorageStateBackuping then throw (Sentinel ErrBackupInProgress)
       else call (api_CreateBackup c uuid title) throw (\<lambda>backup.
         waitForStorageOnline c (Storage_UUID backup)))"

definition UpCloudService_ListBlockStorageBackups :: "'w upCloudClient \<Rightarrow> string \<Rightarrow> (Storage list, 'w) io" where
  "UpCloudService_ListBlockStorageBackups c originUUID =
     call (api_GetStorages c StorageTypeBackup) throw (\<lambda>storages.
       ret (filter (\<lambda>b. originUUID = [] \<and> Storage_Origin b \<noteq> [] \<or>
                        originUUID \<noteq> [] \<and> Storage_Origin b = originUUID) storages))"

definition UpCloudService_DeleteBlockStorageBackup :: "'w upCloudClient \<Rightarrow> string \<Rightarrow> (unit, 'w) io" where
  "UpCloudService_DeleteBlockStorageBackup c uuid =
     call (api_GetStorageDetails c uuid) throw (\<lambda>s.
       if Storage_Type s \<noteq> StorageTypeBackup
       then throw (Errorf ''unable to delete storage backup: invalid type'')
       else api_DeleteStorage c (Storage_UUID s))"

definition UpCloudService_GetBlockStorageBackupByName :: "'w upCloudClient \<Rightarrow> string \<Rightarrow> (Storage, 'w) io" where
  "UpCloudService_GetBlockStorageBackupByName c name =
     call (api_GetStorages c StorageTypeBackup) throw (\<lambda>storages.
       case find (\<lambda>s. Storage_Title s = name) storages of
         Some s \<Rightarrow> ret s
       | None \<Rightarrow> throw (Sentinel ErrStorageNotFound))"

section \<open>File storage\<close>

definition UpCloudService_GetFileStorageByUUID :: "'w upCloudClient \<Rightarrow> string \<Rightarrow> (FileStorage, 'w) io" where
  "UpCloudService_GetFileStorageByUUID c uuid =
     call (api_GetFileStorage c uuid)
       (\<lambda>e. if problem_status e 404 then throw (Sentinel ErrFileStorageNotFound) else throw e)
       ret"

definition UpCloudService_GetFileStorages :: "'w upCloudClient \<Rightarrow> (FileStorage list, 'w) io" where
  "UpCloudService_GetFileStorages c = api_GetFileStorages c"

definition UpCloudService_DeleteFileStorage :: "'w upCloudClient \<Rightarrow> string \<Rightarrow> (unit, 'w) io" where
  "UpCloudService_DeleteFileStorage c uuid =
     call (api_DeleteFileStorage c uuid)
       (\<lambda>e. if problem_status e 404 then throw (Sentinel ErrFileStorageNotFound) else throw e)
       ret"

definition UpCloudService_ModifyFileStorage :: "'w upCloudClient \<Rightarrow> string \<Rightarrow> int \<Rightarrow> (FileStorage, 'w) io" where
  "UpCloudService_ModifyFileStorage c uuid newSize =
     call (api_ModifyFileStorage c uuid newSize) (\<lambda>e. throw (Wrapped ''modify file storage'' e)) (\<lambda>fs.
       waitForFileStorageRunning c (FileStorage_UUID fs))"

definition allow_all :: FileStorageShareACL where
  "allow_all = \<lparr>ACL_Name = ''allow-all'', ACL_Target = ''*'', ACL_ReadWrite = True\<rparr>"

text \<open>The name of the first share with the path, or the empty string.\<close>

definition share_name_for :: "FileStorageShare list \<Rightarrow> string \<Rightarrow> string" where
  "share_name_for shares sharePath =
     (case find (\<lambda>s. Share_Path s = sharePath) shares of Some s \<Rightarrow> Share_Name s | None \<Rightarrow> [])"

definition UpCloudService_CreateFileStorageShareACL ::
    "'w upCloudClient \<Rightarrow> string \<Rightarrow> string \<Rightarrow> (unit, 'w) io" where
  "UpCloudService_CreateFileStorageShareACL c fsUUID sharePath =
     call (api_GetFileStorageShares c fsUUID) (\<lambda>e. throw (Wrapped ''list file storage shares'' e)) (\<lambda>shares.
       let shareName = share_name_for shares sharePath in
       if shareName = []
       then call (api_CreateFileStorageShare c \<lparr>CreateShare_ServiceUUID = fsUUID, CreateShare_Name = ''default'',
                    CreateShare_Path = sharePath, CreateShare_ACL = [allow_all]\<rparr>)
              (\<lambda>e. throw (Wrapped ''create file storage share'' e)) (\<lambda>_. ret ())
       else call (api_CreateFileStorageShareACL c \<lparr>CreateACL_ServiceUUID = fsUUID,
                    CreateACL_ShareName = shareName, CreateACL_ACL = allow_all\<rparr>) throw (\<lambda>_. ret ()))"

definition UpCloudService_CreateFileStorage ::
    "'w upCloudClient \<Rightarrow> string \<Rightarrow> NetworkRef \<Rightarrow> int \<Rightarrow> bool \<Rightarrow> (FileStorage, 'w) io" where
  "UpCloudService_CreateFileStorage c name net sizeGiB encrypted =
     call (api_CreateFileStorage c \<lparr>CreateFS_Name = name, CreateFS_Zone = NetworkRef_Zone net,
             CreateFS_Started = True, CreateFS_SizeGiB = sizeGiB, CreateFS_Encrypted = encrypted,
             CreateFS_Networks = [\<lparr>FSNetwork_UUID = NetworkRef_UUID net, FSNetwork_Name = NetworkRef_Name net,
               FSNetwork_Family = ''IPv4'', FSNetwork_IPAddress = []\<rparr>]\<rparr>)
       (\<lambda>e. throw (Wrapped ''create FileStorage'' e)) (\<lambda>fs.
     call (waitForFileStorageRunning c (FileStorage_UUID fs))
       (\<lambda>e. throw (Wrapped ''wait for FileStorage running'' e)) (\<lambda>fs.
     call (UpCloudService_CreateFileStorageShareACL c (FileStorage_UUID fs) ''/share-1'')
       (\<lambda>e. throw (Wrapped ''create FileStorage share ACL'' e)) (\<lambda>_.
       ret fs)))"

definition UpCloudService_GetFileStorageNetworks ::
    "'w upCloudClient \<Rightarrow> string \<Rightarrow> (FileStorageNetwork list, 'w) io" where
  "UpCloudService_GetFileStorageNetworks c fsUUID = api_GetFileStorageNetworks c fsUUID"

definition UpCloudService_GetNetworkDetails :: "'w upCloudClient \<Rightarrow> string \<Rightarrow> (Network, 'w) io" where
  "UpCloudService_GetNetworkDetails c uuid = api_GetNetworkDetails c uuid"

definition UpCloudService_GetNetworks :: "'w upCloudClient \<Rightarrow> (Network list, 'w) io" where
  "UpCloudService_GetNetworks c = api_GetNetworks c"

section \<open>The provider\<close>

definition NewUpCloudService :: "'w upCloudClient \<Rightarrow> 'w Service" where
  "NewUpCloudService c =
     \<lparr>svc_GetBlockStorageByUUID = UpCloudService_GetBlockStorageByUUID c,
      svc_GetBlockStorageByName = UpCloudService_GetBlockStorageByName c,
      svc_ListBlockStorage = UpCloudService_ListBlockStorage c,
      svc_CreateBlockStorage = UpCloudService_CreateBlockStorage c,
      svc_CloneBlockStorage = UpCloudService_CloneBlockStorage c,
      svc_DeleteBlockStorage = UpCloudService_DeleteBlockStorage c,
      svc_AttachBlockStorage = UpCloudService_AttachBlockStorage c,
      svc_DetachBlockStorage = UpCloudService_DetachBlockStorage c,
      svc_ResizeBlockStorage = UpCloudService_ResizeBlockStorage c,
      svc_ResizeBlockDevice = UpCloudService_ResizeBlockDevice c,
      svc_RequireBlockStorageOnline = UpCloudService_RequireBlockStorageOnline c,
      svc_GetBlockStorageBackupByName = UpCloudService_GetBlockStorageBackupByName c,
      svc_ListBlockStorageBackups = UpCloudService_ListBlockStorageBackups c,
      svc_CreateBlockStorageBackup = UpCloudService_CreateBlockStorageBackup c,
      svc_DeleteBlockStorageBackup = UpCloudService_DeleteBlockStorageBackup c,
      svc_GetFileStorageByUUID = UpCloudService_GetFileStorageByUUID c,
      svc_GetFileStorages = UpCloudService_GetFileStorages c,
      svc_DeleteFileStorage = UpCloudService_DeleteFileStorage c,
      svc_ModifyFileStorage = UpCloudService_ModifyFileStorage c,
      svc_CreateFileStorage = UpCloudService_CreateFileStorage c,
      svc_CreateFileStorageShareACL = UpCloudService_CreateFileStorageShareACL c,
      svc_GetFileStorageNetworks = UpCloudService_GetFileStorageNetworks c,
      svc_GetNetworkDetails = UpCloudService_GetNetworkDetails c,
      svc_GetNetworks = UpCloudService_GetNetworks c,
      svc_GetServerByHostname = UpCloudService_GetServerByHostname c\<rparr>"

section \<open>Properties\<close>

lemmas upcloud_block_defs =
  UpCloudService_GetBlockStorageByUUID_def UpCloudService_DeleteBlockStorage_def
  UpCloudService_GetFileStorageByUUID_def UpCloudService_DeleteFileStorage_def

lemmas uuid_defs =
  IsValidBlockStorageUUID_def IsValidFileStorageUUID_def
  blockStorageUUIDPrefix_def fileStorageUUIDPrefix_def HasPrefix_def

text \<open>No identifier is both a block storage's and a file storage's.\<close>

lemma uuid_kinds_disjoint: "IsValidBlockStorageUUID p s \<Longrightarrow> \<not> IsValidFileStorageUUID p s"
  by (auto simp: uuid_defs split: if_splits)

lemma empty_uuid [simp]: "\<not> IsValidBlockStorageUUID p []" "\<not> IsValidFileStorageUUID p []"
  by (simp_all add: uuid_defs)

text \<open>The translation of API problem 404 into a sentinel, shared by four operations.\<close>

lemma translated_never_404:
  "never_404 (call m (\<lambda>e. if problem_status e 404 then throw (Sentinel s) else throw e) ret)"
  by (rule never_404I) (auto simp: io_defs split: prod.splits res.splits if_splits)

interpretation upcloud_errors: service_errors "NewUpCloudService c" for c :: "'w upCloudClient"
  by unfold_locales (simp_all add: NewUpCloudService_def upcloud_block_defs translated_never_404)

text \<open>What \<open>GetBlockStorageByUUID\<close> answers, in terms of the client's answer.\<close>

lemma GetBlockStorageByUUID_cases:
  "UpCloudService_GetBlockStorageByUUID c u w =
     (case api_GetStorageDetails c u w of
        (Ok sd, w') \<Rightarrow> (Ok sd, w')
      | (Err e, w') \<Rightarrow> (Err (if problem_status e 404 then Sentinel ErrStorageNotFound else e), w')
      | (Panic, w') \<Rightarrow> (Panic, w'))"
  by (auto simp: UpCloudService_GetBlockStorageByUUID_def io_defs split: prod.splits res.splits)

text \<open>\<open>DeleteBlockStorageBackup\<close> deletes nothing but a storage whose details say it is a backup.\<close>

lemma DeleteBlockStorageBackup_only_backups:
  assumes "api_GetStorageDetails c u w = (Ok s, w')" and "Storage_Type s \<noteq> StorageTypeBackup"
  shows "\<exists>l. UpCloudService_DeleteBlockStorageBackup c u w = (Err (Errorf l), w')"
  using assms by (simp add: UpCloudService_DeleteBlockStorageBackup_def call_Ok io_app)

text \<open>\<open>byName_details\<close> never fails and never panics unless the client panics, and it keeps one entry
  per storage with the title.\<close>

lemma byName_details_length:
  "byName_details c n ss w = (Ok vs, w') \<Longrightarrow> length vs = length (filter (\<lambda>s. Storage_Title s = n) ss)"
proof (induction ss arbitrary: w w' vs)
  case Nil
  then show ?case by (simp add: io_app)
next
  case (Cons s ss)
  show ?case
  proof (cases "Storage_Title s = n")
    case True
    with Cons.prems Cons.IH show ?thesis
      by (auto simp: io_app elim!: call_throw_OkE)
  next
    case False
    with Cons show ?thesis by simp
  qed
qed

lemma byName_details_no_error:
  "byName_details c n ss w \<noteq> (Err e, w')"
proof (induction ss arbitrary: w w')
  case (Cons s ss)
  then show ?case by (auto simp: io_defs split: prod.splits res.splits)
qed (simp add: io_app)

end
