(* ===== verification/CSI_Types.thy ===== *)
theory CSI_Types
  imports Cloud_Types
begin

text \<open>
  The messages of the CSI protocol the controller and the node handlers read and build, with the
  fields they use. A nil pointer is \<open>None\<close>; a getter of a nil message returns the zero value, as the
  generated Go getters do. A Go map is a partial function from strings.
\<close>

datatype access_mode =
    UNKNOWN | SINGLE_NODE_WRITER | SINGLE_NODE_READER_ONLY | MULTI_NODE_READER_ONLY
  | MULTI_NODE_SINGLE_WRITER | MULTI_NODE_MULTI_WRITER | SINGLE_NODE_SINGLE_WRITER
  | SINGLE_NODE_MULTI_WRITER

record MountVolume =
  FsType :: string
  MountFlags :: "string list"

text \<open>The access type of a capability: a raw block device or a mount (whose message may be nil).\<close>

datatype access_type = Block | Mount "MountVolume option"

record VolumeCapability =
  AccessMode :: "access_mode option"
  AccessType :: "access_type option"

definition GetMode :: "VolumeCapability \<Rightarrow> access_mode" where
  "GetMode c = (case AccessMode c of None \<Rightarrow> UNKNOWN | Some m \<Rightarrow> m)"

record CapacityRange =
  RequiredBytes :: int
  LimitBytes :: int

text \<open>The content source of a volume; \<open>None\<close> inside is a source message that is nil.\<close>

datatype content_source = SnapshotSource "string option" | VolumeSource "string option"

type_synonym VolumeContentSource = "content_source option"

type_synonym segments = "string \<Rightarrow> string option"

text \<open>Reading a Go map: the zero value for a missing key.\<close>

definition map_get :: "(string \<Rightarrow> string option) \<Rightarrow> string \<Rightarrow> string" where
  "map_get m k = (case m k of None \<Rightarrow> [] | Some v \<Rightarrow> v)"

record CreateVolumeRequest =
  CreateVolume_Name :: string
  CreateVolume_CapacityRange :: "CapacityRange option"
  CreateVolume_VolumeCapabilities :: "VolumeCapability list"
  CreateVolume_Parameters :: "string \<Rightarrow> string option"
  CreateVolume_VolumeContentSource :: "VolumeContentSource option"
  CreateVolume_Requisite :: "segments list option"

text \<open>\<open>CreateVolume_Requisite\<close> is \<open>AccessibilityRequirements.Requisite\<close>: \<open>None\<close> without requirements.\<close>

record Volume =
  Volume_VolumeId :: string
  Volume_CapacityBytes :: int
  Volume_AccessibleTopology :: "segments list"
  Volume_ContentSource :: "VolumeContentSource option"
  Volume_VolumeContext :: "string \<Rightarrow> string option"

record ControllerPublishVolumeRequest =
  Publish_VolumeId :: string
  Publish_NodeId :: string
  Publish_VolumeCapability :: "VolumeCapability option"
  Publish_Readonly :: bool
  Publish_VolumeContext :: "string \<Rightarrow> string option"

record ControllerUnpublishVolumeRequest =
  Unpublish_VolumeId :: string
  Unpublish_NodeId :: string

record ControllerExpandVolumeRequest =
  Expand_VolumeId :: string
  Expand_CapacityRange :: "CapacityRange option"
  Expand_VolumeCapability :: "VolumeCapability option"

record ControllerExpandVolumeResponse =
  Expand_CapacityBytes :: int
  Expand_NodeExpansionRequired :: bool

record CreateSnapshotRequest =
  CreateSnapshot_Name :: string
  CreateSnapshot_SourceVolumeId :: string

record Snapshot =
  Snapshot_SizeBytes :: int
  Snapshot_SnapshotId :: string
  Snapshot_SourceVolumeId :: string
  Snapshot_CreationTime :: int
  Snapshot_ReadyToUse :: bool

record ListSnapshotsRequest =
  ListSnapshots_StartingToken :: string
  ListSnapshots_MaxEntries :: int
  ListSnapshots_SourceVolumeId :: string
  ListSnapshots_SnapshotId :: string

text \<open>Whether a request's capability asks for a raw block device:
  \<open>req.VolumeCapability != nil\<close> and its access type is \<open>*csi.VolumeCapability_Block\<close>.\<close>

definition isBlockDevice :: "VolumeCapability option \<Rightarrow> bool" where
  "isBlockDevice cap = (case cap of None \<Rightarrow> False | Some c \<Rightarrow> AccessType c = Some Block)"

end
