(* ===== verification/Controller_Utils.thy ===== *)
theory Controller_Utils
  imports UpCloud_Service CSI_Types
begin

text \<open>
  The pure parts of the controller: the validation of requests, the choice of a capacity, the page
  arithmetic of the list operations and the storage labels (\<open>controller_utils.go\<close> and the helpers at
  the end of \<open>controller.go\<close>). A pure function that can fail returns a \<open>res\<close>; \<open>lift_res\<close> makes
  it a call.
\<close>

definition lift_res :: "'a res \<Rightarrow> ('a, 'w) io" where
  "lift_res r = (\<lambda>w. (r, w))"

lemma lift_res_simps [simp]:
  "lift_res (Ok x) = ret x" "lift_res (Err e) = throw e" "lift_res Panic = panic"
  by (simp_all add: lift_res_def io_defs)

lemma lift_res_app: "lift_res r w = (r, w)"
  by (simp add: lift_res_def)

lemma lift_res_sim [sim_rules]: "io_sim p (lift_res r) (lift_res r)"
  by (simp add: io_sim_def lift_res_app)

lemma lift_res_rel [rel_rules]: "reflp R \<Longrightarrow> io_rel R (lift_res r)"
  by (auto simp: io_rel_def lift_res_app dest: reflpD)

lemma lift_res_np [np_rules]: "r \<noteq> Panic \<Longrightarrow> no_panic (lift_res r)"
  by (simp add: no_panic_def lift_res_app)

section \<open>Constants\<close>

definition kiB :: int where "kiB = 2 ^ 10"

definition miB :: int where "miB = 2 ^ 20"

definition giB :: int where "giB = 2 ^ 30"

definition tiB :: int where "tiB = 2 ^ 40"

definition topologyRegionKey :: string where
  "topologyRegionKey = ''region''"

definition volumeContextTypeKey :: string where
  "volumeContextTypeKey = ''type''"

definition nfsServerKey :: string where
  "nfsServerKey = ''nfsServer''"

definition nfsPathKey :: string where
  "nfsPathKey = ''nfsPath''"

definition volumeTypeFileStorage :: string where
  "volumeTypeFileStorage = ''nfs''"

definition fileStorageSharePath :: string where
  "fileStorageSharePath = ''/share-1''"

definition minBlockStorageSize :: int where
  "minBlockStorageSize = 1 * giB"

definition maxBlockStorageSize :: int where
  "maxBlockStorageSize = 4096 * giB"

definition minFileStorageSize :: int where
  "minFileStorageSize = 250 * giB"

definition maxFileStorageSize :: int where
  "maxFileStorageSize = 25000 * giB"

lemmas size_defs = minBlockStorageSize_def maxBlockStorageSize_def minFileStorageSize_def
  maxFileStorageSize_def giB_def

section \<open>Capacity\<close>

definition validateCapacityRange :: "CapacityRange option \<Rightarrow> int \<Rightarrow> int \<Rightarrow> int res" where
  "validateCapacityRange cr minBytes maxBytes =
     (case cr of None \<Rightarrow> Ok minBytes
      | Some r \<Rightarrow>
          let required = RequiredBytes r; limit = LimitBytes r;
              inRange = (\<lambda>lo hi.
                if hi < minBytes then Err (Errorf ''requested size can not be less than minimum supported volume size'')
                else if lo > maxBytes then Err (Errorf ''required size can not exceed maximum supported volume size'')
                else if required > 0 then Ok required
                else Ok limit)
          in if required \<le> 0 \<and> limit \<le> 0 then Ok minBytes
             else if required \<le> 0 then inRange limit limit
             else if limit \<le> 0 then inRange required required
             else if limit < required then Err (Errorf ''limit can not be less than required size'')
             else inRange required limit)"

section \<open>Capabilities\<close>

text \<open>A violation, for the text the code inserts in its set of strings.\<close>

datatype violation =
    UnsupportedAccessMode access_mode
  | UnsupportedAccessModeFor access_mode access_mode
  | UnsupportedAccessType
  | OnlyMountForFileStorage
  | BlockNotForFileStorage

text \<open>Each loop inserts its violations into one set, whatever the order of the capabilities.\<close>

definition accessModeSingleNodeWrite :: access_mode where
  "accessModeSingleNodeWrite = SINGLE_NODE_WRITER"

definition accessModeMultiNodeWrite :: access_mode where
  "accessModeMultiNodeWrite = MULTI_NODE_MULTI_WRITER"

definition validateCapabilities :: "VolumeCapability list \<Rightarrow> violation set" where
  "validateCapabilities capacities = set (concat (map (\<lambda>capacity.
     (if GetMode capacity \<noteq> accessModeSingleNodeWrite then [UnsupportedAccessMode (GetMode capacity)] else []) @
     (case AccessType capacity of Some Block \<Rightarrow> [] | Some (Mount _) \<Rightarrow> [] | None \<Rightarrow> [UnsupportedAccessType]))
     capacities))"

definition validateFileStorageCapabilities :: "VolumeCapability list \<Rightarrow> violation set" where
  "validateFileStorageCapabilities caps = set (concat (map (\<lambda>cap.
     (if GetMode cap \<noteq> MULTI_NODE_MULTI_WRITER then [UnsupportedAccessMode (GetMode cap)] else []) @
     (case AccessType cap of Some (Mount _) \<Rightarrow> [] | _ \<Rightarrow> [OnlyMountForFileStorage]))
     caps))"

definition validateVolumeCapabilitiesAgainstVolume :: "VolumeCapability list \<Rightarrow> access_mode \<Rightarrow> violation set" where
  "validateVolumeCapabilitiesAgainstVolume caps volumeAccessMode = set (concat (map (\<lambda>cap.
     (if AccessMode cap \<noteq> None \<and> GetMode cap \<noteq> volumeAccessMode
      then [UnsupportedAccessModeFor (GetMode cap) volumeAccessMode] else []) @
     (case AccessType cap of
        Some Block \<Rightarrow> if volumeAccessMode = MULTI_NODE_MULTI_WRITER then [BlockNotForFileStorage] else []
      | Some (Mount _) \<Rightarrow> []
      | None \<Rightarrow> [UnsupportedAccessType]))
     caps))"

section \<open>Requests\<close>

text \<open>The topology loop: the first requisite segment that names a region other than the zone.\<close>

definition wrong_region :: "string \<Rightarrow> segments list option \<Rightarrow> bool" where
  "wrong_region zone requisite = (case requisite of None \<Rightarrow> False
     | Some ts \<Rightarrow> list_ex (\<lambda>t. case t topologyRegionKey of None \<Rightarrow> False | Some region \<Rightarrow> region \<noteq> zone) ts)"

definition validateCreateVolumeRequest :: "CreateVolumeRequest \<Rightarrow> string \<Rightarrow> unit res" where
  "validateCreateVolumeRequest r zone =
     (if CreateVolume_Name r = [] then Err (Status InvalidArgument)
      else if CreateVolume_VolumeCapabilities r = [] then Err (Status InvalidArgument)
      else if validateCapabilities (CreateVolume_VolumeCapabilities r) \<noteq> {} then Err (Status InvalidArgument)
      else if wrong_region zone (CreateVolume_Requisite r) then Err (Status ResourceExhausted)
      else Ok ())"

definition validateFileStorageCreateVolumeRequest :: "CreateVolumeRequest \<Rightarrow> string \<Rightarrow> unit res" where
  "validateFileStorageCreateVolumeRequest r zone =
     (if CreateVolume_Name r = [] then Err (Status InvalidArgument)
      else if CreateVolume_VolumeCapabilities r = [] then Err (Status InvalidArgument)
      else if validateFileStorageCapabilities (CreateVolume_VolumeCapabilities r) \<noteq> {} then Err (Status InvalidArgument)
      else if CreateVolume_VolumeContentSource r \<noteq> None then Err (Status InvalidArgument)
      else if wrong_region zone (CreateVolume_Requisite r) then Err (Status ResourceExhausted)
      else Ok ())"

definition validateControllerPublishVolumeRequest :: "ControllerPublishVolumeRequest \<Rightarrow> unit res" where
  "validateControllerPublishVolumeRequest r =
     (if Publish_VolumeId r = [] then Err (Status InvalidArgument)
      else if Publish_NodeId r = [] then Err (Status InvalidArgument)
      else if Publish_VolumeCapability r = None then Err (Status InvalidArgument)
      else if Publish_Readonly r then Err (Status InvalidArgument)
      else Ok ())"

definition createVolumeRequestTier :: "CreateVolumeRequest \<Rightarrow> storage_tier res" where
  "createVolumeRequestTier r =
     (case CreateVolume_Parameters r ''tier'' of
        None \<Rightarrow> Ok TierUnset
      | Some p \<Rightarrow>
          if p = ''maxiops'' then Ok StorageTierMaxIOPS
          else if p = ''hdd'' then Ok StorageTierHDD
          else if p = ''standard'' then Ok StorageTierStandard
          else Err (Status InvalidArgument))"

definition createVolumeRequestEncryptionAtRest :: "CreateVolumeRequest \<Rightarrow> bool" where
  "createVolumeRequestEncryptionAtRest r =
     (case CreateVolume_Parameters r ''encryption'' of None \<Rightarrow> False | Some e \<Rightarrow> e = ''data-at-rest'')"

section \<open>Pages\<close>

definition parseToken :: "string \<Rightarrow> int res" where
  "parseToken t = (if t = [] then Ok 0 else case Atoi t of Some n \<Rightarrow> Ok n | None \<Rightarrow> Err (Errorf ''strconv.Atoi''))"

definition of_slice :: "'a option \<Rightarrow> 'b \<Rightarrow> ('a \<times> 'b) res" where
  "of_slice s next = (case s of Some xs \<Rightarrow> Ok (xs, next) | None \<Rightarrow> Panic)"

definition paginateStorage :: "'a list \<Rightarrow> int \<Rightarrow> int \<Rightarrow> ('a list \<times> int) res" where
  "paginateStorage s start pageSize =
     (if start > int (length s) then of_slice (slice_from s (int (length s))) 0
      else if pageSize = 0 then of_slice (slice_from s start) 0
      else let next = i64 (start + pageSize) in
        if next \<ge> int (length s) \<or> pageSize = 0 then of_slice (slice_from s start) 0
        else of_slice (slice s start next) next)"

section \<open>Labels\<close>

definition upcloudLabels :: "string list \<Rightarrow> Label list" where
  "upcloudLabels labels = concat (map (\<lambda>l.
     if l = [] then []
     else (case SplitN2 l (CHR ''='') of
       [k, v] \<Rightarrow> [\<lparr>Label_Key = k, Label_Value = v\<rparr>]
     | _ \<Rightarrow> []))
     labels)"

definition isValidUUID :: "(string \<Rightarrow> bool) \<Rightarrow> string \<Rightarrow> bool" where
  "isValidUUID uuidParse s = uuidParse s"

end
