(* ===== verification/Controller.thy ===== *)
theory Controller
  imports Controller_Utils
begin

text \<open>
  The CSI controller (\<open>internal/controller\<close>): one definition per handler and helper, over any
  provider of the \<open>Service\<close> interface. A handler is a function of the controller's fields, the UUID
  parser and the request; it returns the response or a gRPC status. Logging is left out.
\<close>

record 'w Controller =
  zone :: string
  nodeHost :: string
  maxVolumesPerNode :: int
  svc :: "'w Service"
  storageLabels :: "Label list"

definition NewController ::
    "'w Service \<Rightarrow> string \<Rightarrow> string \<Rightarrow> int \<Rightarrow> string list \<Rightarrow> 'w Controller res" where
  "NewController s z host maxVols labels =
     (if z = [] then Err (Errorf ''controller zone is required field'')
      else Ok \<lparr>zone = z, nodeHost = host, maxVolumesPerNode = maxVols, svc = s,
               storageLabels = upcloudLabels labels\<rparr>)"

section \<open>Capabilities\<close>

datatype rpc_type =
    CREATE_DELETE_VOLUME | PUBLISH_UNPUBLISH_VOLUME | LIST_VOLUMES | CREATE_DELETE_SNAPSHOT
  | LIST_SNAPSHOTS | EXPAND_VOLUME | CLONE_VOLUME | GET_SNAPSHOT | GET_CAPACITY | GET_VOLUME | MODIFY_VOLUME

definition supportedCapabilities :: "rpc_type list" where
  "supportedCapabilities =
     [CREATE_DELETE_VOLUME, PUBLISH_UNPUBLISH_VOLUME, LIST_VOLUMES, CREATE_DELETE_SNAPSHOT,
      LIST_SNAPSHOTS, EXPAND_VOLUME, CLONE_VOLUME, GET_SNAPSHOT]"

definition ControllerGetCapabilities :: "(rpc_type list, 'w) io" where
  "ControllerGetCapabilities = ret supportedCapabilities"

definition ControllerGetVolume :: "(unit, 'w) io" where
  "ControllerGetVolume = throw (Status Unimplemented)"

definition ControllerModifyVolume :: "(unit, 'w) io" where
  "ControllerModifyVolume = throw (Status Unimplemented)"

definition GetCapacity :: "(unit, 'w) io" where
  "GetCapacity = throw (Status Unimplemented)"

section \<open>Looking volumes up\<close>

text \<open>A volume found by its identifier: block storage or file storage.\<close>

datatype found_volume = FoundBlock StorageDetails | FoundFile FileStorage

definition lookupVolume ::
    "(string \<Rightarrow> bool) \<Rightarrow> 'w Controller \<Rightarrow> string \<Rightarrow> (found_volume \<times> access_mode, 'w) io" where
  "lookupVolume up c uid =
     (if IsValidBlockStorageUUID up uid
      then call (svc_GetBlockStorageByUUID (svc c) uid) throw (\<lambda>vol. ret (FoundBlock vol, accessModeSingleNodeWrite))
      else if IsValidFileStorageUUID up uid
      then call (svc_GetFileStorageByUUID (svc c) uid) throw (\<lambda>fs. ret (FoundFile fs, accessModeMultiNodeWrite))
      else throw (Errorf ''invalid volume UUID''))"

section \<open>Creating block storage volumes\<close>

definition createVolumeExistsResponse ::
    "CreateVolumeRequest \<Rightarrow> StorageDetails option list \<Rightarrow> (Volume, 'w) io" where
  "createVolumeExistsResponse req volumes =
     (if length volumes > 1 then throw (Errorf ''fatal: duplicate volume exists'')
      else case volumes of [] \<Rightarrow> panic
      | None # _ \<Rightarrow> panic
      | Some vol # _ \<Rightarrow>
          call (lift_res (validateCapacityRange (CreateVolume_CapacityRange req) minBlockStorageSize maxBlockStorageSize))
            (\<lambda>_. throw (Status OutOfRange)) (\<lambda>storageSize.
            if i64 (Storage_Size vol * giB) \<noteq> storageSize then throw (Status AlreadyExists)
            else ret \<lparr>Volume_VolumeId = Storage_UUID vol, Volume_CapacityBytes = i64 (Storage_Size vol * giB),
                      Volume_AccessibleTopology = [], Volume_ContentSource = CreateVolume_VolumeContentSource req,
                      Volume_VolumeContext = Map.empty\<rparr>))"

definition createVolumeFromSource ::
    "'w Controller \<Rightarrow> CreateVolumeRequest \<Rightarrow> int \<Rightarrow> storage_tier \<Rightarrow> (StorageDetails, 'w) io" where
  "createVolumeFromSource c req storageSizeGB tier =
     (case CreateVolume_VolumeContentSource req of
        None \<Rightarrow> throw (Status Internal)
      | Some None \<Rightarrow> throw (Status InvalidArgument)
      | Some (Some src) \<Rightarrow>
          (case (case src of SnapshotSource s \<Rightarrow> s | VolumeSource v \<Rightarrow> v) of
             None \<Rightarrow> throw (Status Internal)
           | Some sourceID \<Rightarrow>
               call (svc_GetBlockStorageByUUID (svc c) sourceID)
                 (\<lambda>e. if errors_Is e ErrStorageNotFound then throw (Status NotFound)
                      else throw (Status InvalidArgument)) (\<lambda>src.
                 if Storage_Type src \<noteq> StorageTypeBackup \<and>
                    Storage_Encrypted src \<noteq> createVolumeRequestEncryptionAtRest req
                 then throw (Status InvalidArgument)
                 else call (svc_RequireBlockStorageOnline (svc c) (Storage.truncate src))
                   (\<lambda>_. throw (Status Internal)) (\<lambda>_.
                 call (svc_CloneBlockStorage (svc c)
                     \<lparr>CloneStorage_UUID = Storage_UUID src, CloneStorage_Zone = zone c, CloneStorage_Tier = tier,
                      CloneStorage_Title = CreateVolume_Name req,
                      CloneStorage_Encrypted = createVolumeRequestEncryptionAtRest req\<rparr>
                     (storageLabels c))
                   (\<lambda>_. throw (Status Internal)) (\<lambda>vol.
                   if storageSizeGB > Storage_Size vol
                   then call (svc_ResizeBlockStorage (svc c) (Storage_UUID vol) storageSizeGB True)
                     (\<lambda>_. throw (Status Internal)) ret
                   else ret vol)))))"

definition createBlockStorageVolume :: "'w Controller \<Rightarrow> CreateVolumeRequest \<Rightarrow> (Volume, 'w) io" where
  "createBlockStorageVolume c req =
     call (lift_res (createVolumeRequestTier req)) throw (\<lambda>tier.
     call (lift_res (validateCapacityRange (CreateVolume_CapacityRange req) minBlockStorageSize maxBlockStorageSize))
       (\<lambda>_. throw (Status OutOfRange)) (\<lambda>storageSize.
     let storageSizeGB = storageSize sdiv giB in
     call (if CreateVolume_VolumeContentSource req \<noteq> None
           then createVolumeFromSource c req storageSizeGB tier
           else call (svc_CreateBlockStorage (svc c)
                  \<lparr>CreateStorage_Zone = zone c, CreateStorage_Title = CreateVolume_Name req,
                   CreateStorage_Size = storageSizeGB, CreateStorage_Tier = tier,
                   CreateStorage_Labels = storageLabels c,
                   CreateStorage_Encrypted = createVolumeRequestEncryptionAtRest req\<rparr>)
                (\<lambda>_. throw (Status Internal)) ret)
       throw (\<lambda>vol.
       ret \<lparr>Volume_VolumeId = Storage_UUID vol, Volume_CapacityBytes = storageSize,
            Volume_AccessibleTopology = [[topologyRegionKey \<mapsto> zone c]],
            Volume_ContentSource = CreateVolume_VolumeContentSource req,
            Volume_VolumeContext = Map.empty\<rparr>)))"

section \<open>Creating file storage volumes\<close>

text \<open>The first network with an address, as the server of the share.\<close>

definition fileStorageServerFromFS :: "FileStorage \<Rightarrow> string" where
  "fileStorageServerFromFS fs =
     (case find (\<lambda>n. FSNetwork_IPAddress n \<noteq> []) (FileStorage_Networks fs) of
        Some n \<Rightarrow> FSNetwork_IPAddress n | None \<Rightarrow> [])"

definition discoverClusterNetwork :: "'w Controller \<Rightarrow> (NetworkRef, 'w) io" where
  "discoverClusterNetwork c =
     call (svc_GetServerByHostname (svc c) (nodeHost c))
       (\<lambda>e. if errors_Is e ErrServerNotFound then throw (Status NotFound) else throw (Status Internal)) (\<lambda>srv.
     let netUUID = (case find (\<lambda>iface. Interface_Type iface = NetworkTypePrivate) (Networking_Interfaces srv) of
            Some iface \<Rightarrow> Interface_Network iface | None \<Rightarrow> []) in
     if netUUID = [] then throw (Status Internal)
     else call (svc_GetNetworks (svc c)) (\<lambda>_. throw (Status Internal)) (\<lambda>networks.
       case find (\<lambda>n. Network_UUID n = netUUID) networks of
         Some n \<Rightarrow> ret \<lparr>NetworkRef_UUID = Network_UUID n, NetworkRef_Name = Network_Name n,
                        NetworkRef_Zone = Server_Zone srv\<rparr>
       | None \<Rightarrow> throw (Status Internal)))"

definition nfsVolumeContext :: "string \<Rightarrow> string \<Rightarrow> string option" where
  "nfsVolumeContext fsIP =
     [volumeContextTypeKey \<mapsto> volumeTypeFileStorage, nfsServerKey \<mapsto> fsIP, nfsPathKey \<mapsto> fileStorageSharePath]"

definition createFileStorageExistsResponse :: "CreateVolumeRequest \<Rightarrow> FileStorage \<Rightarrow> (Volume, 'w) io" where
  "createFileStorageExistsResponse req fs =
     call (lift_res (validateCapacityRange (CreateVolume_CapacityRange req) minFileStorageSize maxFileStorageSize))
       (\<lambda>_. throw (Status OutOfRange)) (\<lambda>storageSize.
       if i64 (FileStorage_SizeGiB fs * giB) \<noteq> storageSize then throw (Status AlreadyExists)
       else ret \<lparr>Volume_VolumeId = FileStorage_UUID fs,
                 Volume_CapacityBytes = i64 (FileStorage_SizeGiB fs * giB),
                 Volume_AccessibleTopology = [[topologyRegionKey \<mapsto> FileStorage_Zone fs]],
                 Volume_ContentSource = None,
                 Volume_VolumeContext = nfsVolumeContext (fileStorageServerFromFS fs)\<rparr>)"

definition createFileStorageVolume :: "'w Controller \<Rightarrow> CreateVolumeRequest \<Rightarrow> (Volume, 'w) io" where
  "createFileStorageVolume c req =
     call (lift_res (validateCapacityRange (CreateVolume_CapacityRange req) minFileStorageSize maxFileStorageSize))
       (\<lambda>_. throw (Status OutOfRange)) (\<lambda>storageSize.
     let storageSizeGB = storageSize sdiv giB; encrypted = createVolumeRequestEncryptionAtRest req in
     call (discoverClusterNetwork c) throw (\<lambda>net.
     call (svc_CreateFileStorage (svc c) (CreateVolume_Name req) net storageSizeGB encrypted)
       (\<lambda>_. throw (Status Internal)) (\<lambda>fs.
     let fsIP = fileStorageServerFromFS fs in
     if fsIP = [] then throw (Status Internal)
     else ret \<lparr>Volume_VolumeId = FileStorage_UUID fs, Volume_CapacityBytes = storageSize,
               Volume_AccessibleTopology = [[topologyRegionKey \<mapsto> NetworkRef_Zone net]],
               Volume_ContentSource = None, Volume_VolumeContext = nfsVolumeContext fsIP\<rparr>)))"

section \<open>CreateVolume and DeleteVolume\<close>

definition CreateVolume :: "'w Controller \<Rightarrow> CreateVolumeRequest \<Rightarrow> (Volume, 'w) io" where
  "CreateVolume c req =
     (if map_get (CreateVolume_Parameters req) volumeContextTypeKey = volumeTypeFileStorage
      then call (lift_res (validateFileStorageCreateVolumeRequest req (zone c))) throw (\<lambda>_.
        call (svc_GetFileStorages (svc c)) (\<lambda>_. throw (Status Internal)) (\<lambda>fileStorages.
          case find (\<lambda>fs. FileStorage_Name fs = CreateVolume_Name req \<and> FileStorage_Zone fs = zone c) fileStorages of
            Some fs \<Rightarrow> createFileStorageExistsResponse req fs
          | None \<Rightarrow> createFileStorageVolume c req))
      else call (lift_res (validateCreateVolumeRequest req (zone c))) throw (\<lambda>_.
        call (svc_GetBlockStorageByName (svc c) (CreateVolume_Name req)) (\<lambda>_. throw (Status Internal)) (\<lambda>volumes.
          if length volumes > 0 then createVolumeExistsResponse req volumes
          else createBlockStorageVolume c req)))"

definition DeleteVolume :: "(string \<Rightarrow> bool) \<Rightarrow> 'w Controller \<Rightarrow> string \<Rightarrow> (unit, 'w) io" where
  "DeleteVolume up c volumeId =
     (if volumeId = [] then throw (Status InvalidArgument)
      else if IsValidFileStorageUUID up volumeId
      then call (svc_DeleteFileStorage (svc c) volumeId)
        (\<lambda>e. if errors_Is e ErrFileStorageNotFound then ret () else throw e) ret
      else call (svc_DeleteBlockStorage (svc c) volumeId)
        (\<lambda>e. if errors_Is e ErrStorageNotFound then ret () else throw e) ret)"

section \<open>Publishing\<close>

definition findPublishTarget ::
    "'w Controller \<Rightarrow> ControllerPublishVolumeRequest \<Rightarrow> (ServerDetails \<times> StorageDetails, 'w) io" where
  "findPublishTarget c req =
     call (svc_GetServerByHostname (svc c) (Publish_NodeId req))
       (\<lambda>e. if errors_Is e ErrServerNotFound then throw (Status NotFound) else throw (Status Internal)) (\<lambda>server.
     call (svc_GetBlockStorageByUUID (svc c) (Publish_VolumeId req))
       (\<lambda>e. if errors_Is e ErrStorageNotFound then throw (Status NotFound) else throw (Status Internal)) (\<lambda>volume.
     call (svc_RequireBlockStorageOnline (svc c) (Storage.truncate volume)) (\<lambda>_. throw (Status Internal)) (\<lambda>_.
       ret (server, volume))))"

text \<open>The last identifier of the list the loop has seen, empty for none.\<close>

definition attachedID :: "string list \<Rightarrow> string" where
  "attachedID ids = (if ids = [] then [] else last ids)"

text \<open>The status of an attach error: the device limit, unless the HTTP status is 409; otherwise the error itself.\<close>

definition attach_error :: "err \<Rightarrow> err" where
  "attach_error e = (case errors_As_Problem e of
     Some (st, code) \<Rightarrow> if st \<noteq> 409 \<and> code = ErrCodeStorageDeviceLimitReached then Status ResourceExhausted else e
   | None \<Rightarrow> e)"

definition attachVolumeToServer ::
    "'w Controller \<Rightarrow> ControllerPublishVolumeRequest \<Rightarrow> ServerDetails \<Rightarrow> StorageDetails \<Rightarrow> (unit, 'w) io" where
  "attachVolumeToServer c req server volume =
     (if list_ex (\<lambda>uid. uid = Server_UUID server) (ServerUUIDs volume) then ret ()
      else if attachedID (ServerUUIDs volume) \<noteq> [] then throw (Status FailedPrecondition)
      else if int (length (StorageDevices server)) > maxVolumesPerNode c then throw (Status ResourceExhausted)
      else call (svc_AttachBlockStorage (svc c) (Publish_VolumeId req) (Server_UUID server))
        (\<lambda>e. throw (attach_error e)) ret)"

text \<open>The publish context carries the correlation identifier; an NFS volume gets none.\<close>

definition ControllerPublishVolume ::
    "'w Controller \<Rightarrow> string \<Rightarrow> ControllerPublishVolumeRequest \<Rightarrow> (string \<Rightarrow> string option, 'w) io" where
  "ControllerPublishVolume c correlationID req =
     call (lift_res (validateControllerPublishVolumeRequest req)) throw (\<lambda>_.
       if map_get (Publish_VolumeContext req) volumeContextTypeKey = volumeTypeFileStorage then ret Map.empty
       else call (findPublishTarget c req) throw (\<lambda>(server, volume).
         call (attachVolumeToServer c req server volume) throw (\<lambda>_.
           ret [''ctx_correlation_id'' \<mapsto> correlationID])))"

definition detachVolumeFromNode :: "'w Controller \<Rightarrow> ControllerUnpublishVolumeRequest \<Rightarrow> (unit, 'w) io" where
  "detachVolumeFromNode c req =
     call (svc_GetBlockStorageByUUID (svc c) (Unpublish_VolumeId req))
       (\<lambda>e. if errors_Is e ErrStorageNotFound then ret () else throw e) (\<lambda>_.
     call (svc_GetServerByHostname (svc c) (Unpublish_NodeId req))
       (\<lambda>e. if errors_Is e ErrServerNotFound then ret () else throw e) (\<lambda>server.
     call (svc_DetachBlockStorage (svc c) (Unpublish_VolumeId req) (Server_UUID server))
       (\<lambda>e. if errors_Is e ErrServerStorageNotFound then ret () else throw e) ret))"

fun detachFromServers :: "'w Controller \<Rightarrow> string \<Rightarrow> string list \<Rightarrow> (unit, 'w) io" where
  "detachFromServers c volumeId [] = ret ()"
| "detachFromServers c volumeId (serverUUID # rest) =
     call (svc_DetachBlockStorage (svc c) volumeId serverUUID)
       (\<lambda>e. if errors_Is e ErrServerStorageNotFound then detachFromServers c volumeId rest else throw e)
       (\<lambda>_. detachFromServers c volumeId rest)"

definition unpublishVolumeFromAllNodes :: "'w Controller \<Rightarrow> ControllerUnpublishVolumeRequest \<Rightarrow> (unit, 'w) io" where
  "unpublishVolumeFromAllNodes c req =
     call (svc_GetBlockStorageByUUID (svc c) (Unpublish_VolumeId req))
       (\<lambda>e. if errors_Is e ErrStorageNotFound then ret () else throw e)
       (\<lambda>volume. detachFromServers c (Unpublish_VolumeId req) (ServerUUIDs volume))"

definition ControllerUnpublishVolume ::
    "(string \<Rightarrow> bool) \<Rightarrow> 'w Controller \<Rightarrow> ControllerUnpublishVolumeRequest \<Rightarrow> (unit, 'w) io" where
  "ControllerUnpublishVolume up c req =
     (if Unpublish_VolumeId req = [] then throw (Status InvalidArgument)
      else if IsValidFileStorageUUID up (Unpublish_VolumeId req) then ret ()
      else if Unpublish_NodeId req = [] then unpublishVolumeFromAllNodes c req
      else detachVolumeFromNode c req)"

section \<open>Validating capabilities\<close>

text \<open>The response confirms the capabilities or carries the violations of its message.\<close>

datatype validate_response = Confirmed "VolumeCapability list" | Unsupported "violation set"

definition ValidateVolumeCapabilities ::
    "(string \<Rightarrow> bool) \<Rightarrow> 'w Controller \<Rightarrow> string \<Rightarrow> VolumeCapability list \<Rightarrow> (validate_response, 'w) io" where
  "ValidateVolumeCapabilities up c volumeId caps =
     (if volumeId = [] then throw (Status InvalidArgument)
      else if caps = [] then throw (Status InvalidArgument)
      else call (lookupVolume up c volumeId)
        (\<lambda>e. if errors_Is e ErrStorageNotFound \<or> errors_Is e ErrFileStorageNotFound
             then throw (Status NotFound) else throw (Status Internal)) (\<lambda>(_, accessMode).
        let violations = validateVolumeCapabilitiesAgainstVolume caps accessMode in
        if violations \<noteq> {} then ret (Unsupported violations) else ret (Confirmed caps)))"

section \<open>Listing volumes\<close>

record ListEntry =
  Entry_VolumeId :: string
  Entry_CapacityBytes :: int

text \<open>A file storage of the zone as an entry of the storage list.\<close>

definition storage_of_file :: "FileStorage \<Rightarrow> Storage" where
  "storage_of_file fs =
     \<lparr>Storage_UUID = FileStorage_UUID fs, Storage_Title = FileStorage_Name fs, Storage_Size = FileStorage_SizeGiB fs,
      Storage_Zone = FileStorage_Zone fs, Storage_Type = StorageTypeOther ''file'',
      Storage_State = StorageStateOther [], Storage_Origin = [], Storage_Created = 0,
      Storage_Encrypted = False, Storage_Labels = []\<rparr>"

definition list_entry :: "Storage \<Rightarrow> ListEntry" where
  "list_entry vol = \<lparr>Entry_VolumeId = Storage_UUID vol, Entry_CapacityBytes = i64 (Storage_Size vol * giB)\<rparr>"

definition next_token :: "int \<Rightarrow> string" where
  "next_token listNext = (if listNext > 0 then Sprint_int listNext else [])"

definition ListVolumes :: "'w Controller \<Rightarrow> string \<Rightarrow> int \<Rightarrow> (ListEntry list \<times> string, 'w) io" where
  "ListVolumes c startingToken maxEntries =
     call (lift_res (parseToken startingToken)) (\<lambda>_. throw (Status Aborted)) (\<lambda>listStart.
     call (svc_ListBlockStorage (svc c) (zone c)) (\<lambda>_. throw (Status Internal)) (\<lambda>volumes.
     call (svc_GetFileStorages (svc c)) (\<lambda>_. throw (Status Internal)) (\<lambda>fileStorages.
     let all = volumes @ map storage_of_file (filter (\<lambda>fs. FileStorage_Zone fs = zone c) fileStorages) in
     call (lift_res (paginateStorage all listStart maxEntries)) throw (\<lambda>(page, listNext).
       ret (map list_entry page, next_token listNext)))))"

section \<open>Expanding\<close>

definition expandBlockStorage ::
    "'w Controller \<Rightarrow> ControllerExpandVolumeRequest \<Rightarrow> StorageDetails \<Rightarrow> (ControllerExpandVolumeResponse, 'w) io" where
  "expandBlockStorage c req volume =
     call (lift_res (validateCapacityRange (Expand_CapacityRange req) minBlockStorageSize maxBlockStorageSize))
       (\<lambda>_. throw (Status OutOfRange)) (\<lambda>resizeBytes.
     let resizeGigaBytes = resizeBytes sdiv giB; block = isBlockDevice (Expand_VolumeCapability req) in
     if resizeGigaBytes \<le> Storage_Size volume
     then ret \<lparr>Expand_CapacityBytes = i64 (Storage_Size volume * giB), Expand_NodeExpansionRequired = \<not> block\<rparr>
     else if length (ServerUUIDs volume) > 0
     then call (svc_ResizeBlockDevice (svc c) (Storage_UUID volume) resizeGigaBytes)
       (\<lambda>_. throw (Status Internal)) (\<lambda>_.
         ret \<lparr>Expand_CapacityBytes = i64 (resizeGigaBytes * giB), Expand_NodeExpansionRequired = \<not> block\<rparr>)
     else call (svc_ResizeBlockDevice (svc c) (Storage_UUID volume) resizeGigaBytes)
       (\<lambda>_. throw (Status Internal)) (\<lambda>_.
         ret \<lparr>Expand_CapacityBytes = i64 (resizeGigaBytes * giB), Expand_NodeExpansionRequired = \<not> block\<rparr>))"

definition expandFileStorage ::
    "'w Controller \<Rightarrow> ControllerExpandVolumeRequest \<Rightarrow> FileStorage \<Rightarrow> (ControllerExpandVolumeResponse, 'w) io" where
  "expandFileStorage c req fs =
     call (lift_res (validateCapacityRange (Expand_CapacityRange req) minFileStorageSize maxFileStorageSize))
       (\<lambda>_. throw (Status OutOfRange)) (\<lambda>resizeBytes.
     let resizeGigaBytes = resizeBytes sdiv giB in
     if resizeGigaBytes \<le> FileStorage_SizeGiB fs
     then ret \<lparr>Expand_CapacityBytes = i64 (FileStorage_SizeGiB fs * giB), Expand_NodeExpansionRequired = False\<rparr>
     else call (svc_ModifyFileStorage (svc c) (FileStorage_UUID fs) resizeGigaBytes)
       (\<lambda>_. throw (Status Internal)) (\<lambda>modifiedFS.
         ret \<lparr>Expand_CapacityBytes = i64 (FileStorage_SizeGiB modifiedFS * giB),
              Expand_NodeExpansionRequired = False\<rparr>))"

definition ControllerExpandVolume ::
    "(string \<Rightarrow> bool) \<Rightarrow> 'w Controller \<Rightarrow> ControllerExpandVolumeRequest \<Rightarrow> (ControllerExpandVolumeResponse, 'w) io" where
  "ControllerExpandVolume up c req =
     (if Expand_VolumeId req = [] then throw (Status InvalidArgument)
      else if Expand_CapacityRange req = None then throw (Status InvalidArgument)
      else call (lookupVolume up c (Expand_VolumeId req))
        (\<lambda>e. if errors_Is e ErrStorageNotFound \<or> errors_Is e ErrFileStorageNotFound
             then throw (Status NotFound) else throw (Status Internal)) (\<lambda>(found, _).
        case found of
          FoundFile fileStorage \<Rightarrow> expandFileStorage c req fileStorage
        | FoundBlock volume \<Rightarrow> expandBlockStorage c req volume))"

section \<open>Snapshots\<close>

definition snapshot_of :: "'a Storage_scheme \<Rightarrow> Snapshot" where
  "snapshot_of s =
     \<lparr>Snapshot_SizeBytes = i64 (Storage_Size s * giB), Snapshot_SnapshotId = Storage_UUID s,
      Snapshot_SourceVolumeId = Storage_Origin s, Snapshot_CreationTime = Storage_Created s,
      Snapshot_ReadyToUse = (Storage_State s = StorageStateOnline)\<rparr>"

definition CreateSnapshot ::
    "(string \<Rightarrow> bool) \<Rightarrow> 'w Controller \<Rightarrow> CreateSnapshotRequest \<Rightarrow> (Snapshot, 'w) io" where
  "CreateSnapshot up c req =
     (if CreateSnapshot_Name req = [] then throw (Status InvalidArgument)
      else if CreateSnapshot_SourceVolumeId req = [] then throw (Status InvalidArgument)
      else if IsValidFileStorageUUID up (CreateSnapshot_SourceVolumeId req) then throw (Status InvalidArgument)
      else call (call (svc_GetBlockStorageBackupByName (svc c) (CreateSnapshot_Name req))
                   (\<lambda>e. if errors_Is e ErrStorageNotFound then ret None else throw (Status Internal))
                   (\<lambda>s. ret (Some s)))
        throw (\<lambda>existing.
        case existing of
          Some s \<Rightarrow> if Storage_Origin s \<noteq> CreateSnapshot_SourceVolumeId req then throw (Status AlreadyExists)
                    else ret (snapshot_of s)
        | None \<Rightarrow>
            call (svc_CreateBlockStorageBackup (svc c) (CreateSnapshot_SourceVolumeId req) (CreateSnapshot_Name req))
              (\<lambda>e. if errors_Is e ErrBackupInProgress then throw (Status Aborted) else throw (Status Internal))
              (\<lambda>sd. ret (snapshot_of sd))))"

definition DeleteSnapshot :: "(string \<Rightarrow> bool) \<Rightarrow> 'w Controller \<Rightarrow> string \<Rightarrow> (unit, 'w) io" where
  "DeleteSnapshot up c snapID =
     (if snapID = [] then throw (Status InvalidArgument)
      else if IsValidBlockStorageUUID up snapID
      then call (svc_DeleteBlockStorageBackup (svc c) snapID)
        (\<lambda>e. if errors_As_Problem e \<noteq> None \<and> \<not> problem_status e 404 then throw (Status Internal) else ret ())
        ret
      else ret ())"

definition listSnapshotsErrorResponse :: "err \<Rightarrow> (Snapshot list \<times> string, 'w) io" where
  "listSnapshotsErrorResponse e =
     (if errors_Is e ErrStorageNotFound then ret ([], []) else throw (Status Internal))"

text \<open>The page of a list of backups, as the end of \<open>ListSnapshots\<close> builds it.\<close>

definition snapshot_page :: "Storage list \<Rightarrow> int \<Rightarrow> int \<Rightarrow> (Snapshot list \<times> string, 'w) io" where
  "snapshot_page backups listStart maxEntries =
     call (lift_res (paginateStorage backups listStart maxEntries)) throw (\<lambda>(page, listNext).
       ret (map snapshot_of page, next_token listNext))"

definition ListSnapshots :: "'w Controller \<Rightarrow> ListSnapshotsRequest \<Rightarrow> (Snapshot list \<times> string, 'w) io" where
  "ListSnapshots c req =
     call (lift_res (parseToken (ListSnapshots_StartingToken req))) (\<lambda>_. throw (Status Aborted)) (\<lambda>listStart.
     if ListSnapshots_SnapshotId req \<noteq> []
     then call (svc_GetBlockStorageByUUID (svc c) (ListSnapshots_SnapshotId req)) listSnapshotsErrorResponse
       (\<lambda>s. snapshot_page [Storage.truncate s] listStart (ListSnapshots_MaxEntries req))
     else call (svc_ListBlockStorageBackups (svc c) (ListSnapshots_SourceVolumeId req)) (\<lambda>_. throw (Status Internal))
       (\<lambda>backups. snapshot_page backups listStart (ListSnapshots_MaxEntries req)))"

definition GetSnapshot :: "'w Controller \<Rightarrow> string \<Rightarrow> (Snapshot, 'w) io" where
  "GetSnapshot c snapID =
     (if snapID = [] then throw (Status InvalidArgument)
      else call (svc_GetBlockStorageByUUID (svc c) snapID)
        (\<lambda>e. if errors_Is e ErrStorageNotFound then throw (Status NotFound) else throw (Status Internal))
        (\<lambda>snap. ret (snapshot_of snap)))"

section \<open>Changing the service\<close>

text \<open>The same controller on another service.\<close>

definition on_service :: "'v Service \<Rightarrow> 'w Controller \<Rightarrow> 'v Controller" where
  "on_service s c = \<lparr>zone = zone c, nodeHost = nodeHost c, maxVolumesPerNode = maxVolumesPerNode c,
     svc = s, storageLabels = storageLabels c\<rparr>"

lemma on_service_simps [simp]:
  "zone (on_service s c) = zone c" "nodeHost (on_service s c) = nodeHost c"
  "maxVolumesPerNode (on_service s c) = maxVolumesPerNode c" "svc (on_service s c) = s"
  "storageLabels (on_service s c) = storageLabels c"
  by (simp_all add: on_service_def)

lemma on_service_same [simp]: "on_service (svc c) c = c"
  by (simp add: on_service_def)

section \<open>Requests and responses\<close>

text \<open>The requests the gRPC server dispatches to the handlers above, with their responses.\<close>

datatype ctrl_request =
    CreateVolumeReq CreateVolumeRequest
  | DeleteVolumeReq string
  | PublishReq string ControllerPublishVolumeRequest
  | UnpublishReq ControllerUnpublishVolumeRequest
  | ValidateReq string "VolumeCapability list"
  | ListVolumesReq string int
  | ExpandReq ControllerExpandVolumeRequest
  | CreateSnapshotReq CreateSnapshotRequest
  | DeleteSnapshotReq string
  | ListSnapshotsReq ListSnapshotsRequest
  | GetSnapshotReq string

datatype ctrl_response =
    VolumeResp Volume
  | EmptyResp
  | PublishResp "string \<Rightarrow> string option"
  | ValidateResp validate_response
  | ListVolumesResp "ListEntry list" string
  | ExpandResp ControllerExpandVolumeResponse
  | SnapshotResp Snapshot
  | ListSnapshotsResp "Snapshot list" string

definition respond :: "('a, 'w) io \<Rightarrow> ('a \<Rightarrow> ctrl_response) \<Rightarrow> (ctrl_response, 'w) io" where
  "respond m f = call m throw (\<lambda>x. ret (f x))"

fun serve :: "(string \<Rightarrow> bool) \<Rightarrow> 'w Controller \<Rightarrow> ctrl_request \<Rightarrow> (ctrl_response, 'w) io" where
  "serve up c (CreateVolumeReq r) = respond (CreateVolume c r) VolumeResp"
| "serve up c (DeleteVolumeReq u) = respond (DeleteVolume up c u) (\<lambda>_. EmptyResp)"
| "serve up c (PublishReq cid r) = respond (ControllerPublishVolume c cid r) PublishResp"
| "serve up c (UnpublishReq r) = respond (ControllerUnpublishVolume up c r) (\<lambda>_. EmptyResp)"
| "serve up c (ValidateReq u caps) = respond (ValidateVolumeCapabilities up c u caps) ValidateResp"
| "serve up c (ListVolumesReq t n) = respond (ListVolumes c t n) (\<lambda>(es, t'). ListVolumesResp es t')"
| "serve up c (ExpandReq r) = respond (ControllerExpandVolume up c r) ExpandResp"
| "serve up c (CreateSnapshotReq r) = respond (CreateSnapshot up c r) SnapshotResp"
| "serve up c (DeleteSnapshotReq u) = respond (DeleteSnapshot up c u) (\<lambda>_. EmptyResp)"
| "serve up c (ListSnapshotsReq r) = respond (ListSnapshots c r) (\<lambda>(ss, t). ListSnapshotsResp ss t)"
| "serve up c (GetSnapshotReq u) = respond (GetSnapshot c u) SnapshotResp"

lemma respond_sim [sim_rules]: "io_sim p m m' \<Longrightarrow> io_sim p (respond m f) (respond m' f)"
  unfolding respond_def by (intro sim_rules)

lemma respond_rel [rel_rules]: "reflp R \<Longrightarrow> transp R \<Longrightarrow> io_rel R m \<Longrightarrow> io_rel R (respond m f)"
  unfolding respond_def by (intro rel_rules)

lemma respond_np [np_rules]: "no_panic m \<Longrightarrow> no_panic (respond m f)"
  unfolding respond_def by (intro np_rules)

end
