(* ===== verification/Metrics_Service.thy ===== *)
theory Metrics_Service
  imports Service_Iface
begin

text \<open>
  \<open>instrumentedService\<close> of \<open>internal/service/metrics.go\<close>: the provider that runs every operation of an
  inner service and counts it. Its world is the inner world with the Prometheus state it updates:
  the request counter by method and result, and the number of observations of the duration
  histogram by method (the durations themselves depend on the clock and are not modelled). A panic of
  the inner call leaves the counters alone, because \<open>record\<close> is not deferred.
\<close>

record api_metrics =
  requests :: "string \<Rightarrow> string \<Rightarrow> nat"
  observations :: "string \<Rightarrow> nat"

definition record_call :: "string \<Rightarrow> bool \<Rightarrow> api_metrics \<Rightarrow> api_metrics" where
  "record_call method failed mx =
     (let result = (if failed then ''error'' else ''success'') in
      mx\<lparr>requests := (requests mx)(method := (requests mx method)(result := requests mx method result + 1)),
         observations := (observations mx)(method := observations mx method + 1)\<rparr>)"

definition instrument :: "string \<Rightarrow> ('a, 'w) io \<Rightarrow> ('a, 'w \<times> api_metrics) io" where
  "instrument method m = (\<lambda>(w, mx). case m w of
      (Ok x, w') \<Rightarrow> (Ok x, (w', record_call method False mx))
    | (Err e, w') \<Rightarrow> (Err e, (w', record_call method True mx))
    | (Panic, w') \<Rightarrow> (Panic, (w', mx)))"

definition NewInstrumentedService :: "'w Service \<Rightarrow> ('w \<times> api_metrics) Service" where
  "NewInstrumentedService inner =
     \<lparr>svc_GetBlockStorageByUUID = (\<lambda>u. instrument ''GetBlockStorageByUUID'' (svc_GetBlockStorageByUUID inner u)),
      svc_GetBlockStorageByName = (\<lambda>n. instrument ''GetBlockStorageByName'' (svc_GetBlockStorageByName inner n)),
      svc_ListBlockStorage = (\<lambda>z. instrument ''ListBlockStorage'' (svc_ListBlockStorage inner z)),
      svc_CreateBlockStorage = (\<lambda>r. instrument ''CreateBlockStorage'' (svc_CreateBlockStorage inner r)),
      svc_CloneBlockStorage = (\<lambda>r ls. instrument ''CloneBlockStorage'' (svc_CloneBlockStorage inner r ls)),
      svc_DeleteBlockStorage = (\<lambda>u. instrument ''DeleteBlockStorage'' (svc_DeleteBlockStorage inner u)),
      svc_AttachBlockStorage = (\<lambda>u s. instrument ''AttachBlockStorage'' (svc_AttachBlockStorage inner u s)),
      svc_DetachBlockStorage = (\<lambda>u s. instrument ''DetachBlockStorage'' (svc_DetachBlockStorage inner u s)),
      svc_ResizeBlockStorage = (\<lambda>u n b. instrument ''ResizeBlockStorage'' (svc_ResizeBlockStorage inner u n b)),
      svc_ResizeBlockDevice = (\<lambda>u n. instrument ''ResizeBlockDevice'' (svc_ResizeBlockDevice inner u n)),
      svc_RequireBlockStorageOnline = (\<lambda>s. instrument ''RequireBlockStorageOnline'' (svc_RequireBlockStorageOnline inner s)),
      svc_GetBlockStorageBackupByName = (\<lambda>n. instrument ''GetBlockStorageBackupByName'' (svc_GetBlockStorageBackupByName inner n)),
      svc_ListBlockStorageBackups = (\<lambda>u. instrument ''ListBlockStorageBackups'' (svc_ListBlockStorageBackups inner u)),
      svc_CreateBlockStorageBackup = (\<lambda>u t. instrument ''CreateBlockStorageBackup'' (svc_CreateBlockStorageBackup inner u t)),
      svc_DeleteBlockStorageBackup = (\<lambda>u. instrument ''DeleteBlockStorageBackup'' (svc_DeleteBlockStorageBackup inner u)),
      svc_GetFileStorageByUUID = (\<lambda>u. instrument ''GetFileStorageByUUID'' (svc_GetFileStorageByUUID inner u)),
      svc_GetFileStorages = instrument ''GetFileStorages'' (svc_GetFileStorages inner),
      svc_DeleteFileStorage = (\<lambda>u. instrument ''DeleteFileStorage'' (svc_DeleteFileStorage inner u)),
      svc_ModifyFileStorage = (\<lambda>u n. instrument ''ModifyFileStorage'' (svc_ModifyFileStorage inner u n)),
      svc_CreateFileStorage = (\<lambda>n net sz b. instrument ''CreateFileStorage'' (svc_CreateFileStorage inner n net sz b)),
      svc_CreateFileStorageShareACL = (\<lambda>u p. instrument ''CreateFileStorageShareACL'' (svc_CreateFileStorageShareACL inner u p)),
      svc_GetFileStorageNetworks = (\<lambda>u. instrument ''GetFileStorageNetworks'' (svc_GetFileStorageNetworks inner u)),
      svc_GetNetworkDetails = (\<lambda>u. instrument ''GetNetworkDetails'' (svc_GetNetworkDetails inner u)),
      svc_GetNetworks = instrument ''GetNetworks'' (svc_GetNetworks inner),
      svc_GetServerByHostname = (\<lambda>n. instrument ''GetServerByHostname'' (svc_GetServerByHostname inner n))\<rparr>"

section \<open>The wrapper is transparent\<close>

lemma instrument_sim: "io_sim fst (instrument n m) m"
  by (rule io_simI) (auto simp: instrument_def split: prod.splits res.splits)

interpretation instrumented: service_wrapper "NewInstrumentedService inner" inner fst for inner :: "'w Service"
  by unfold_locales (simp_all add: NewInstrumentedService_def instrument_sim)

lemma instrument_never_404: "never_404 m \<Longrightarrow> never_404 (instrument n m)"
  by (rule never_404I) (auto simp: instrument_def dest: never_404D split: prod.splits res.splits)

text \<open>The wrapper keeps the error contract of the service it wraps.\<close>

lemma instrumented_service_errors:
  assumes "service_errors inner"
  shows "service_errors (NewInstrumentedService inner)"
proof -
  note errors = service_errors.volume_errors [OF assms] service_errors.delete_errors [OF assms]
    service_errors.file_errors [OF assms] service_errors.file_delete_errors [OF assms]
  show ?thesis
    by unfold_locales (simp_all add: NewInstrumentedService_def instrument_never_404 errors)
qed

section \<open>What is counted\<close>

text \<open>One call counts one request under its method and outcome, and one observation; all other counters stay.\<close>

lemma instrument_counts:
  assumes "instrument n m (w, mx) = (r, (w', mx'))" and "r \<noteq> Panic"
  shows "mx' = record_call n (\<exists>e. r = Err e) mx"
  using assms by (auto simp: instrument_def split: prod.splits res.splits)

text \<open>The consistency of the two metrics: every request counted has been observed.\<close>

definition metrics_consistent :: "api_metrics \<Rightarrow> bool" where
  "metrics_consistent mx \<longleftrightarrow> (\<forall>m. requests mx m ''success'' + requests mx m ''error'' = observations mx m)"

definition metrics_kept :: "'w \<times> api_metrics \<Rightarrow> 'w \<times> api_metrics \<Rightarrow> bool" where
  "metrics_kept v v' \<longleftrightarrow> (metrics_consistent (snd v) \<longrightarrow> metrics_consistent (snd v')) \<and>
     (\<forall>m r. requests (snd v) m r \<le> requests (snd v') m r)"

lemma metrics_kept_refl: "reflp metrics_kept"
  by (auto simp: reflp_def metrics_kept_def)

lemma metrics_kept_trans: "transp metrics_kept"
  unfolding transp_def metrics_kept_def by (blast intro: order_trans)

lemma record_call_consistent: "metrics_consistent mx \<Longrightarrow> metrics_consistent (record_call n b mx)"
  by (auto simp: metrics_consistent_def record_call_def Let_def)

lemma record_call_mono: "requests mx m r \<le> requests (record_call n b mx) m r"
  by (simp add: record_call_def Let_def)

lemma instrument_kept: "io_rel metrics_kept (instrument n m)"
  by (rule io_relI) (auto simp: instrument_def metrics_kept_def record_call_consistent record_call_mono
      split: prod.splits res.splits)

end
