(* ===== verification/Controller_Frame.thy ===== *)
theory Controller_Frame
  imports Controller Metrics_Service
begin

text \<open>
  Frame properties of the controller. The locale \<open>service_quiet\<close> is the contract of a service all of
  whose operations but \<open>AttachBlockStorage\<close> change the world only along a preorder \<open>R\<close>; then every
  handler but \<open>ControllerPublishVolume\<close> does. \<open>service_frame\<close> adds the attach operation, and then
  all handlers do. The instrumented service is a provider, with the growth of its counters as \<open>R\<close>.
\<close>

locale service_quiet =
  fixes sv :: "'w Service" and R :: "'w \<Rightarrow> 'w \<Rightarrow> bool"
  assumes R_refl: "reflp R" and R_trans: "transp R"
    and rel_GetBlockStorageByUUID [rel_rules]: "io_rel R (svc_GetBlockStorageByUUID sv u)"
    and rel_GetBlockStorageByName [rel_rules]: "io_rel R (svc_GetBlockStorageByName sv n)"
    and rel_ListBlockStorage [rel_rules]: "io_rel R (svc_ListBlockStorage sv z)"
    and rel_CreateBlockStorage [rel_rules]: "io_rel R (svc_CreateBlockStorage sv cr)"
    and rel_CloneBlockStorage [rel_rules]: "io_rel R (svc_CloneBlockStorage sv cl ls)"
    and rel_DeleteBlockStorage [rel_rules]: "io_rel R (svc_DeleteBlockStorage sv u)"
    and rel_DetachBlockStorage [rel_rules]: "io_rel R (svc_DetachBlockStorage sv u s)"
    and rel_ResizeBlockStorage [rel_rules]: "io_rel R (svc_ResizeBlockStorage sv u sz b)"
    and rel_ResizeBlockDevice [rel_rules]: "io_rel R (svc_ResizeBlockDevice sv u sz)"
    and rel_RequireBlockStorageOnline [rel_rules]: "io_rel R (svc_RequireBlockStorageOnline sv st)"
    and rel_GetBlockStorageBackupByName [rel_rules]: "io_rel R (svc_GetBlockStorageBackupByName sv n)"
    and rel_ListBlockStorageBackups [rel_rules]: "io_rel R (svc_ListBlockStorageBackups sv u)"
    and rel_CreateBlockStorageBackup [rel_rules]: "io_rel R (svc_CreateBlockStorageBackup sv u n)"
    and rel_DeleteBlockStorageBackup [rel_rules]: "io_rel R (svc_DeleteBlockStorageBackup sv u)"
    and rel_GetFileStorageByUUID [rel_rules]: "io_rel R (svc_GetFileStorageByUUID sv u)"
    and rel_GetFileStorages [rel_rules]: "io_rel R (svc_GetFileStorages sv)"
    and rel_DeleteFileStorage [rel_rules]: "io_rel R (svc_DeleteFileStorage sv u)"
    and rel_ModifyFileStorage [rel_rules]: "io_rel R (svc_ModifyFileStorage sv u sz)"
    and rel_CreateFileStorage [rel_rules]: "io_rel R (svc_CreateFileStorage sv n net sz b)"
    and rel_GetNetworks [rel_rules]: "io_rel R (svc_GetNetworks sv)"
    and rel_GetServerByHostname [rel_rules]: "io_rel R (svc_GetServerByHostname sv n)"
begin

lemma quiet_createVolumeExistsResponse [rel_rules]: "io_rel R (createVolumeExistsResponse req vs)"
  unfolding createVolumeExistsResponse_def by (intro rel_rules R_refl R_trans)

lemma quiet_createFileStorageExistsResponse [rel_rules]: "io_rel R (createFileStorageExistsResponse req fs)"
  unfolding createFileStorageExistsResponse_def by (intro rel_rules R_refl R_trans)

lemma quiet_snapshot_page [rel_rules]: "io_rel R (snapshot_page bs s n)"
  unfolding snapshot_page_def by (intro rel_rules R_refl R_trans)

lemma quiet_listSnapshotsErrorResponse [rel_rules]: "io_rel R (listSnapshotsErrorResponse e)"
  unfolding listSnapshotsErrorResponse_def by (intro rel_rules R_refl R_trans)

lemma quiet_lookupVolume [rel_rules]: "io_rel R (lookupVolume up (on_service sv c) u)"
  unfolding lookupVolume_def on_service_simps by (intro rel_rules R_refl R_trans)

lemma quiet_createVolumeFromSource [rel_rules]: "io_rel R (createVolumeFromSource (on_service sv c) req n t)"
  unfolding createVolumeFromSource_def on_service_simps by (intro rel_rules R_refl R_trans)

lemma quiet_createBlockStorageVolume [rel_rules]: "io_rel R (createBlockStorageVolume (on_service sv c) req)"
  unfolding createBlockStorageVolume_def on_service_simps Let_def by (intro rel_rules R_refl R_trans)

lemma quiet_discoverClusterNetwork [rel_rules]: "io_rel R (discoverClusterNetwork (on_service sv c))"
  unfolding discoverClusterNetwork_def on_service_simps Let_def by (intro rel_rules R_refl R_trans)

lemma quiet_createFileStorageVolume [rel_rules]: "io_rel R (createFileStorageVolume (on_service sv c) req)"
  unfolding createFileStorageVolume_def on_service_simps Let_def by (intro rel_rules R_refl R_trans)

lemma quiet_CreateVolume: "io_rel R (CreateVolume (on_service sv c) req)"
  unfolding CreateVolume_def on_service_simps by (intro rel_rules R_refl R_trans)

lemma quiet_DeleteVolume: "io_rel R (DeleteVolume up (on_service sv c) u)"
  unfolding DeleteVolume_def on_service_simps by (intro rel_rules R_refl R_trans)

lemma quiet_findPublishTarget [rel_rules]: "io_rel R (findPublishTarget (on_service sv c) pr)"
  unfolding findPublishTarget_def on_service_simps by (intro rel_rules R_refl R_trans)

lemma quiet_detachFromServers [rel_rules]: "io_rel R (detachFromServers (on_service sv c) v ss)"
proof (induction ss)
  case Nil
  show ?case unfolding detachFromServers.simps by (intro rel_rules R_refl)
next
  case (Cons s ss)
  show ?case unfolding detachFromServers.simps on_service_simps by (intro rel_rules R_refl R_trans Cons.IH)
qed

lemma quiet_ControllerUnpublishVolume: "io_rel R (ControllerUnpublishVolume up (on_service sv c) ur)"
  unfolding ControllerUnpublishVolume_def unpublishVolumeFromAllNodes_def detachVolumeFromNode_def on_service_simps
  by (intro rel_rules R_refl R_trans)

lemma quiet_ValidateVolumeCapabilities: "io_rel R (ValidateVolumeCapabilities up (on_service sv c) u caps)"
  unfolding ValidateVolumeCapabilities_def on_service_simps Let_def by (intro rel_rules R_refl R_trans)

lemma quiet_ListVolumes: "io_rel R (ListVolumes (on_service sv c) t n)"
  unfolding ListVolumes_def on_service_simps Let_def by (intro rel_rules R_refl R_trans)

lemma quiet_expandBlockStorage [rel_rules]: "io_rel R (expandBlockStorage (on_service sv c) er sd)"
  unfolding expandBlockStorage_def on_service_simps Let_def by (intro rel_rules R_refl R_trans)

lemma quiet_expandFileStorage [rel_rules]: "io_rel R (expandFileStorage (on_service sv c) er fs)"
  unfolding expandFileStorage_def on_service_simps Let_def by (intro rel_rules R_refl R_trans)

lemma quiet_found_volume [rel_rules]:
  assumes "\<And>b. io_rel R (f b)" and "\<And>b. io_rel R (g b)"
  shows "io_rel R (case x of FoundFile b \<Rightarrow> f b | FoundBlock b \<Rightarrow> g b)"
  using assms by (cases x) simp_all

lemma quiet_ControllerExpandVolume: "io_rel R (ControllerExpandVolume up (on_service sv c) er)"
  unfolding ControllerExpandVolume_def on_service_simps by (intro rel_rules R_refl R_trans)

lemma quiet_CreateSnapshot: "io_rel R (CreateSnapshot up (on_service sv c) sr)"
  unfolding CreateSnapshot_def on_service_simps by (intro rel_rules R_refl R_trans)

lemma quiet_DeleteSnapshot: "io_rel R (DeleteSnapshot up (on_service sv c) u)"
  unfolding DeleteSnapshot_def on_service_simps by (intro rel_rules R_refl R_trans)

lemma quiet_ListSnapshots: "io_rel R (ListSnapshots (on_service sv c) lr)"
  unfolding ListSnapshots_def on_service_simps by (intro rel_rules R_refl R_trans)

lemma quiet_GetSnapshot: "io_rel R (GetSnapshot (on_service sv c) u)"
  unfolding GetSnapshot_def on_service_simps by (intro rel_rules R_refl R_trans)

lemmas quiet_handlers = quiet_CreateVolume quiet_DeleteVolume quiet_ControllerUnpublishVolume
  quiet_ValidateVolumeCapabilities quiet_ListVolumes quiet_ControllerExpandVolume quiet_CreateSnapshot
  quiet_DeleteSnapshot quiet_ListSnapshots quiet_GetSnapshot

text \<open>Every request but a publish request.\<close>

lemma quiet_serve:
  "\<forall>cid pr. r \<noteq> PublishReq cid pr \<Longrightarrow> io_rel R (serve up (on_service sv c) r)"
  by (cases r) (simp_all add: quiet_handlers respond_rel R_refl R_trans)

end

locale service_frame = service_quiet +
  assumes rel_AttachBlockStorage [rel_rules]: "io_rel R (svc_AttachBlockStorage sv u s)"
begin

lemma frame_ControllerPublishVolume: "io_rel R (ControllerPublishVolume (on_service sv c) cid pr)"
  unfolding ControllerPublishVolume_def attachVolumeToServer_def on_service_simps
  by (intro rel_rules R_refl R_trans)

lemma frame_serve: "io_rel R (serve up (on_service sv c) r)"
  by (cases r) (simp_all add: quiet_handlers frame_ControllerPublishVolume respond_rel R_refl R_trans)

end

text \<open>The counters of the instrumented service stay consistent and never decrease.\<close>

interpretation metrics_frame: service_frame "NewInstrumentedService inner" metrics_kept for inner :: "'w Service"
  by unfold_locales (simp_all add: NewInstrumentedService_def instrument_kept metrics_kept_refl metrics_kept_trans)

end
