(* ===== verification/Controller_Capacity.thy ===== *)
theory Controller_Capacity
  imports Controller
begin

text \<open>
  Properties of the pure parts of the controller: which capacity ranges are accepted and what size
  they give, what the capability checks accept, the round trips of storage labels and page tokens,
  and the pages of the list operations.
\<close>

section \<open>Capacity ranges\<close>

text \<open>\<open>admits r x\<close>: the size \<open>x\<close> satisfies the bounds the range sets; a bound that is not positive is unset.\<close>

definition admits :: "CapacityRange \<Rightarrow> int \<Rightarrow> bool" where
  "admits r x \<longleftrightarrow> (0 < RequiredBytes r \<longrightarrow> RequiredBytes r \<le> x) \<and> (0 < LimitBytes r \<longrightarrow> x \<le> LimitBytes r)"

lemma validateCapacityRange_Ok:
  assumes "0 < mn" and "mn \<le> mx" and "validateCapacityRange (Some r) mn mx = Ok n"
  shows "admits r n" and "n \<le> mx"
    and "mn \<le> n \<or> n = RequiredBytes r \<and> 0 < n \<and> n < mn \<and> mn \<le> LimitBytes r"
  using assms by (auto simp: validateCapacityRange_def admits_def Let_def split: if_splits)

lemma validateCapacityRange_pos:
  "0 < mn \<Longrightarrow> validateCapacityRange cr mn mx = Ok n \<Longrightarrow> 0 < n"
  by (auto simp: validateCapacityRange_def Let_def split: if_splits option.splits)

lemma validateCapacityRange_not_Panic: "validateCapacityRange cr mn mx \<noteq> Panic"
  by (auto simp: validateCapacityRange_def Let_def split: option.splits)

lemma validateCapacityRange_le_max:
  "mn \<le> mx \<Longrightarrow> validateCapacityRange cr mn mx = Ok n \<Longrightarrow> n \<le> mx"
  by (auto simp: validateCapacityRange_def Let_def split: if_splits option.splits)

text \<open>A single bound is itself the size, and it is refused exactly when it is not a supported size; two
  bounds are refused exactly when they admit no supported size.\<close>

definition refused :: "CapacityRange \<Rightarrow> int \<Rightarrow> int \<Rightarrow> bool" where
  "refused r mn mx \<longleftrightarrow>
     (if 0 < RequiredBytes r \<and> 0 < LimitBytes r then \<not> (\<exists>x. mn \<le> x \<and> x \<le> mx \<and> admits r x)
      else if 0 < RequiredBytes r then \<not> (mn \<le> RequiredBytes r \<and> RequiredBytes r \<le> mx)
      else 0 < LimitBytes r \<and> \<not> (mn \<le> LimitBytes r \<and> LimitBytes r \<le> mx))"

lemma admits_supported:
  assumes "0 < mn" and "mn \<le> mx" and "0 < RequiredBytes r" and "0 < LimitBytes r"
  shows "(\<exists>x. mn \<le> x \<and> x \<le> mx \<and> admits r x) \<longleftrightarrow>
    RequiredBytes r \<le> mx \<and> mn \<le> LimitBytes r \<and> RequiredBytes r \<le> LimitBytes r"
proof
  assume r: "RequiredBytes r \<le> mx \<and> mn \<le> LimitBytes r \<and> RequiredBytes r \<le> LimitBytes r"
  show "\<exists>x. mn \<le> x \<and> x \<le> mx \<and> admits r x"
    by (rule exI [of _ "max mn (RequiredBytes r)"]) (use r assms in \<open>auto simp: admits_def\<close>)
qed (use assms in \<open>auto simp: admits_def\<close>)

lemma validateCapacityRange_Err:
  assumes "0 < mn" and "mn \<le> mx"
  shows "(\<exists>e. validateCapacityRange (Some r) mn mx = Err e) \<longleftrightarrow> refused r mn mx"
  using assms by (auto simp: validateCapacityRange_def refused_def admits_supported Let_def)

section \<open>Capabilities\<close>

text \<open>No violation is inserted exactly when each capability inserts none.\<close>

lemma violations_empty_iff:
  assumes "\<And>x. f x = [] \<longleftrightarrow> P x"
  shows "set (concat (map f xs)) = {} \<longleftrightarrow> (\<forall>x \<in> set xs. P x)"
  using assms by auto

lemma validateCapabilities_empty_iff:
  "validateCapabilities caps = {} \<longleftrightarrow>
     (\<forall>cap \<in> set caps. AccessMode cap = Some SINGLE_NODE_WRITER \<and> AccessType cap \<noteq> None)"
  unfolding validateCapabilities_def accessModeSingleNodeWrite_def
  by (rule violations_empty_iff) (auto simp: GetMode_def split: option.splits access_type.splits)

lemma validateFileStorageCapabilities_empty_iff:
  "validateFileStorageCapabilities caps = {} \<longleftrightarrow>
     (\<forall>cap \<in> set caps. AccessMode cap = Some MULTI_NODE_MULTI_WRITER \<and> (\<exists>m. AccessType cap = Some (Mount m)))"
  unfolding validateFileStorageCapabilities_def
  by (rule violations_empty_iff) (auto simp: GetMode_def split: option.splits access_type.splits)

lemma validateVolumeCapabilitiesAgainstVolume_empty_iff:
  "validateVolumeCapabilitiesAgainstVolume caps mode = {} \<longleftrightarrow>
     (\<forall>cap \<in> set caps. AccessMode cap \<in> {None, Some mode} \<and> AccessType cap \<noteq> None \<and>
        (mode = MULTI_NODE_MULTI_WRITER \<longrightarrow> AccessType cap \<noteq> Some Block))"
  unfolding validateVolumeCapabilitiesAgainstVolume_def
  by (rule violations_empty_iff) (auto simp: GetMode_def split: option.splits access_type.splits)

section \<open>Labels\<close>

definition print_label :: "Label \<Rightarrow> string" where
  "print_label l = Label_Key l @ CHR ''='' # Label_Value l"

lemma upcloudLabels_append: "upcloudLabels (xs @ ys) = upcloudLabels xs @ upcloudLabels ys"
  by (simp add: upcloudLabels_def)

lemma upcloudLabels_print:
  "CHR ''='' \<notin> set (Label_Key l) \<Longrightarrow> upcloudLabels [print_label l] = [l]"
  by (simp add: upcloudLabels_def print_label_def SplitN2_sep)

lemma upcloudLabels_roundtrip:
  assumes "\<forall>l \<in> set ls. CHR ''='' \<notin> set (Label_Key l)"
  shows "upcloudLabels (map print_label ls) = ls"
  using assms
proof (induction ls)
  case (Cons l ls)
  then show ?case
    using upcloudLabels_append [of "[print_label l]" "map print_label ls"] upcloudLabels_print [of l] by simp
qed (simp add: upcloudLabels_def)

text \<open>The other direction: printing the parsed labels gives back the arguments that have a separator.\<close>

lemma upcloudLabels_sound: "map print_label (upcloudLabels args) = filter (\<lambda>a. CHR ''='' \<in> set a) args"
proof (induction args)
  case (Cons a args)
  have "map print_label (upcloudLabels [a]) = filter (\<lambda>a. CHR ''='' \<in> set a) [a]"
    by (cases rule: SplitN2_cases [of "CHR ''=''" a]) (simp_all add: upcloudLabels_def print_label_def)
  with Cons show ?case
    using upcloudLabels_append [of "[a]" args] by simp
qed (simp add: upcloudLabels_def)

end
