(* ===== verification/Controller_Pages.thy ===== *)
theory Controller_Pages
  imports Controller
begin

text \<open>
  The pages of \<open>ListVolumes\<close> and \<open>ListSnapshots\<close>. The locale \<open>pager\<close> states what a client relies on:
  a page starting at an offset of the list is a slice of at most the page size, and the next offset is
  the one right after it, or 0 after the last page. \<open>paginateStorage\<close> is its provider, for a positive
  page size that does not overflow the offset. Following the tokens of a list operation from the
  empty token visits every entry exactly once; negative offsets and page sizes panic.
\<close>

section \<open>The interface\<close>

text \<open>Following the pages from an offset, with fuel: \<open>None\<close> for a failed page or exhausted fuel.\<close>

fun follow_pages ::
    "('a list \<Rightarrow> int \<Rightarrow> int \<Rightarrow> ('a list \<times> int) res) \<Rightarrow> nat \<Rightarrow> 'a list \<Rightarrow> int \<Rightarrow> int \<Rightarrow> 'a list list option" where
  "follow_pages pg 0 s start n = None"
| "follow_pages pg (Suc k) s start n =
     (case pg s start n of
        Ok (page, nxt) \<Rightarrow> if nxt > 0 then map_option (Cons page) (follow_pages pg k s nxt n) else Some [page]
      | _ \<Rightarrow> None)"

locale pager =
  fixes pg :: "'a list \<Rightarrow> int \<Rightarrow> int \<Rightarrow> ('a list \<times> int) res" and valid :: "'a list \<Rightarrow> int \<Rightarrow> bool"
  assumes valid_pos: "valid s n \<Longrightarrow> 0 < n"
    and page_at: "valid s n \<Longrightarrow> i \<le> length s \<Longrightarrow>
      pg s (int i) n = Ok (take (nat n) (drop i s), if int i + n < int (length s) then int i + n else 0)"
begin

text \<open>As many pages as there are entries left, and one more, are enough fuel.\<close>

lemma follow_from:
  assumes "valid s n" and "i \<le> length s" and "length s - i < k"
  shows "\<exists>pages. follow_pages pg k s (int i) n = Some pages \<and> concat pages = drop i s \<and>
    (\<forall>p \<in> set pages. length p \<le> nat n)"
  using assms
proof (induction k arbitrary: i)
  case (Suc k)
  let ?p = "take (nat n) (drop i s)"
  have n: "0 < n" using Suc.prems(1) by (rule valid_pos)
  show ?case
  proof (cases "int i + n < int (length s)")
    case False
    then have "?p = drop i s" by simp
    with False page_at [OF Suc.prems(1,2)] show ?thesis by simp
  next
    case True
    let ?j = "i + nat n"
    have j: "int ?j = int i + n" using n by simp
    from True n Suc.prems have "?j \<le> length s" "length s - ?j < k" by linarith+
    then obtain pages where ps: "follow_pages pg k s (int ?j) n = Some pages" "concat pages = drop ?j s"
      "\<forall>p \<in> set pages. length p \<le> nat n"
      using Suc.IH [OF Suc.prems(1)] by blast
    have "?p @ drop ?j s = drop i s" by (metis add.commute append_take_drop_id drop_drop)
    with True n ps page_at [OF Suc.prems(1,2)] show ?thesis
      unfolding j by (intro exI [of _ "?p # pages"]) simp
  qed
qed simp

lemma follow_all:
  assumes "valid s n"
  shows "\<exists>pages. follow_pages pg (Suc (length s)) s 0 n = Some pages \<and> concat pages = s \<and>
    (\<forall>p \<in> set pages. length p \<le> nat n)"
  using follow_from [OF assms, of 0 "Suc (length s)"] by simp

end

section \<open>The provider\<close>

definition page_valid :: "'a list \<Rightarrow> int \<Rightarrow> bool" where
  "page_valid s n \<longleftrightarrow> 0 < n \<and> is_i64 (int (length s) + n)"

lemma paginateStorage_at:
  assumes v: "page_valid s n" and i: "i \<le> length s"
  shows "paginateStorage s (int i) n =
    Ok (take (nat n) (drop i s), if int i + n < int (length s) then int i + n else 0)"
proof -
  have "i64 (int i + n) = int i + n"
    using assms by (intro i64_id) (auto simp: page_valid_def is_i64_def)
  with assms show ?thesis
    by (auto simp: paginateStorage_def page_valid_def of_slice_def slice_from_def slice_def Let_def)
qed

interpretation storage_pages: pager "paginateStorage :: 'a list \<Rightarrow> int \<Rightarrow> int \<Rightarrow> _" page_valid
  by unfold_locales (simp add: page_valid_def, rule paginateStorage_at)

lemma paginateStorage_zero: "paginateStorage s start 0 =
    (if start > int (length s) then Ok ([], 0) else if start < 0 then Panic else Ok (drop (nat start) s, 0))"
  by (auto simp: paginateStorage_def of_slice_def slice_from_def)

text \<open>Exactly the slices with a negative bound panic: a negative start, or a negative page size (an
  \<open>int32\<close> of the request) at a start within the list.\<close>

lemma paginateStorage_panics:
  assumes "- (2 ^ 31) \<le> n" and "n < 2 ^ 31" and "int (length s) < 2 ^ 62"
  shows "paginateStorage s start n = Panic \<longleftrightarrow> start < 0 \<or> start \<le> int (length s) \<and> n < 0"
proof (cases "0 \<le> start \<and> start \<le> int (length s)")
  case True
  then have "i64 (start + n) = start + n"
    using assms by (intro i64_id) (auto simp: is_i64_def)
  with True show ?thesis
    by (auto simp: paginateStorage_def of_slice_def slice_from_def slice_def Let_def)
qed (auto simp: paginateStorage_def of_slice_def slice_from_def slice_def Let_def)

lemma paginateStorage_not_Err: "paginateStorage s start n \<noteq> Err e"
  by (auto simp: paginateStorage_def of_slice_def Let_def split: option.splits)

section \<open>Tokens\<close>

lemma Sprint_int_not_Nil [simp]: "Sprint_int i \<noteq> []"
  by (simp add: Sprint_int_def)

lemma parseToken_next_token:
  "0 \<le> i \<Longrightarrow> is_i64 i \<Longrightarrow> parseToken (next_token i) = Ok i"
  by (auto simp: next_token_def parseToken_def Atoi_Sprint_int)

lemma next_token_Nil: "next_token i = [] \<longleftrightarrow> i \<le> 0"
  by (auto simp: next_token_def)

section \<open>Following a list operation\<close>

text \<open>A client that repeats a list operation with the token it got, until the token is empty.\<close>

fun collect :: "nat \<Rightarrow> (string \<Rightarrow> ('e list \<times> string, 'w) io) \<Rightarrow> string \<Rightarrow> ('e list list, 'w) io" where
  "collect 0 list_op t = throw (Errorf ''out of fuel'')"
| "collect (Suc k) list_op t =
     call (list_op t) throw (\<lambda>(page, t').
       if t' = [] then ret [page]
       else call (collect k list_op t') throw (\<lambda>pages. ret (page # pages)))"

text \<open>If an operation answers the token of each offset with the page at the offset and leaves the world alone,
  collecting it is following the pages.\<close>

lemma collect_follows:
  assumes op: "\<And>i pg nxt. 0 \<le> i \<Longrightarrow> is_i64 i \<Longrightarrow> paginateStorage s i n = Ok (pg, nxt) \<Longrightarrow>
      list_op (next_token i) w = (Ok (map f pg, next_token nxt), w)"
    and len: "is_i64 (int (length s))" and v: "page_valid s n"
    and "i \<le> length s" and "follow_pages paginateStorage k s (int i) n = Some pages"
  shows "collect k list_op (next_token (int i)) w = (Ok (map (map f) pages), w)"
  using assms(4,5)
proof (induction k arbitrary: i pages)
  case (Suc k)
  note at = paginateStorage_at [OF v Suc.prems(1)]
  have i: "is_i64 (int i)" using len Suc.prems(1) by (auto simp: is_i64_def)
  have n: "0 < n" using v by (simp add: page_valid_def)
  note step = op [OF _ i at]
  show ?case
  proof (cases "int i + n < int (length s)")
    case False
    with Suc.prems at step show ?thesis by (auto simp: call_Ok next_token_Nil io_app)
  next
    case True
    define j where "j = i + nat n"
    have j: "int i + n = int j" "j \<le> length s" "0 < int j" using True n by (auto simp: j_def)
    from Suc.prems(2) True j at obtain ps where ps: "follow_pages paginateStorage k s (int j) n = Some ps"
      "pages = take (nat n) (drop i s) # ps" by (auto simp: j(1))
    show ?thesis
      using step True j ps Suc.IH [OF j(2) ps(1)] by (simp add: call_Ok next_token_Nil io_app j(1))
  qed
qed simp

end
