(* ===== verification/Storage_API.thy ===== *)
theory Storage_API
  imports UpCloud_Service
begin

text \<open>
  What the driver relies on of the storage part of the UpCloud API, as the predicate \<open>storage_api\<close>
  on a client and a view \<open>vs\<close> of the storages a world holds: the list request returns the storages
  of a type, the details request answers 404 for an unknown identifier, a storage that is created
  has a fresh identifier and the requested attributes, waiting changes no more than states, and
  deleting removes one storage. \<open>Sample_Client\<close> is a small in-memory client for which all of it holds; the
  witnesses of the properties run the driver on it.
\<close>

section \<open>The contract\<close>

definition lookup_storage :: "StorageDetails list \<Rightarrow> string \<Rightarrow> StorageDetails option" where
  "lookup_storage ss u = find (\<lambda>s. Storage_UUID s = u) ss"

text \<open>What a storage keeps while its state changes.\<close>

definition storage_key :: "StorageDetails \<Rightarrow> string \<times> string \<times> int \<times> string \<times> storage_type \<times> string" where
  "storage_key s = (Storage_UUID s, Storage_Title s, Storage_Size s, Storage_Zone s, Storage_Type s, Storage_Origin s)"

definition reads_storage :: "'w upCloudClient \<Rightarrow> ('w \<Rightarrow> StorageDetails list) \<Rightarrow> bool" where
  "reads_storage c vs \<longleftrightarrow>
     (\<forall>w t. api_GetStorages c t w = (Ok (map Storage.truncate (filter (\<lambda>s. Storage_Type s = t) (vs w))), w)) \<and>
     (\<forall>w u s. lookup_storage (vs w) u = Some s \<longrightarrow> api_GetStorageDetails c u w = (Ok s, w)) \<and>
     (\<forall>w u. lookup_storage (vs w) u = None \<longrightarrow> (\<exists>k. api_GetStorageDetails c u w = (Err (Problem 404 k), w)))"

definition creates_storage :: "'w upCloudClient \<Rightarrow> ('w \<Rightarrow> StorageDetails list) \<Rightarrow> bool" where
  "creates_storage c vs \<longleftrightarrow> (\<forall>w r s w'. api_CreateStorage c r w = (Ok s, w') \<longrightarrow>
     vs w' = vs w @ [s] \<and> Storage_UUID s \<notin> Storage_UUID ` set (vs w) \<and>
     Storage_Title s = CreateStorage_Title r \<and> Storage_Size s = CreateStorage_Size r \<and>
     Storage_Zone s = CreateStorage_Zone r \<and> Storage_Type s = StorageTypeNormal)"

definition backs_up_storage :: "'w upCloudClient \<Rightarrow> ('w \<Rightarrow> StorageDetails list) \<Rightarrow> bool" where
  "backs_up_storage c vs \<longleftrightarrow> (\<forall>w u t s w'. api_CreateBackup c u t w = (Ok s, w') \<longrightarrow>
     vs w' = vs w @ [s] \<and> Storage_UUID s \<notin> Storage_UUID ` set (vs w) \<and>
     Storage_Title s = t \<and> Storage_Origin s = u \<and> Storage_Type s = StorageTypeBackup)"

definition waits_storage :: "'w upCloudClient \<Rightarrow> ('w \<Rightarrow> StorageDetails list) \<Rightarrow> bool" where
  "waits_storage c vs \<longleftrightarrow> (\<forall>w u st s w'. api_WaitForStorageState c u st w = (Ok s, w') \<longrightarrow>
     s \<in> set (vs w') \<and> Storage_UUID s = u \<and> map storage_key (vs w') = map storage_key (vs w))"

definition deletes_storage :: "'w upCloudClient \<Rightarrow> ('w \<Rightarrow> StorageDetails list) \<Rightarrow> bool" where
  "deletes_storage c vs \<longleftrightarrow>
     (\<forall>w u w'. api_DeleteStorage c u w = (Ok (), w') \<longrightarrow> vs w' = filter (\<lambda>s. Storage_UUID s \<noteq> u) (vs w)) \<and>
     (\<forall>w u e w'. api_DeleteStorage c u w = (Err e, w') \<longrightarrow> \<not> errors_Is e ErrStorageNotFound \<and>
        (problem_status e 404 \<longrightarrow> lookup_storage (vs w) u = None \<and> vs w' = vs w)) \<and>
     (\<forall>w u. lookup_storage (vs w) u = None \<longrightarrow> (\<exists>k. api_DeleteStorage c u w = (Err (Problem 404 k), w)))"

definition storage_api :: "'w upCloudClient \<Rightarrow> ('w \<Rightarrow> StorageDetails list) \<Rightarrow> bool" where
  "storage_api c vs \<longleftrightarrow> reads_storage c vs \<and> creates_storage c vs \<and> backs_up_storage c vs \<and>
     waits_storage c vs \<and> deletes_storage c vs"

definition distinct_storages :: "StorageDetails list \<Rightarrow> bool" where
  "distinct_storages ss \<longleftrightarrow> distinct (map Storage_UUID ss)"

lemmas storage_api_defs = storage_api_def reads_storage_def creates_storage_def backs_up_storage_def
  waits_storage_def deletes_storage_def

section \<open>Consequences for the service\<close>

lemma lookup_storage_distinct:
  "distinct_storages ss \<Longrightarrow> s \<in> set ss \<Longrightarrow> lookup_storage ss (Storage_UUID s) = Some s"
  by (induction ss) (auto simp: lookup_storage_def distinct_storages_def)

lemma map_key_UUID:
  assumes "map storage_key ss = map storage_key ss'"
  shows "map Storage_UUID ss = map Storage_UUID ss'"
proof -
  have "map Storage_UUID xs = map fst (map storage_key xs)" for xs
    by (simp add: storage_key_def)
  with assms show ?thesis by metis
qed

lemma map_key_distinct:
  "map storage_key ss = map storage_key ss' \<Longrightarrow> distinct_storages ss = distinct_storages ss'"
  unfolding distinct_storages_def by (drule map_key_UUID) (rule arg_cong)

text \<open>A selection by key attributes commutes with a change that keeps the keys.\<close>

lemma map_key_filter:
  assumes "map storage_key ss = map storage_key ss'"
  shows "map storage_key (filter (\<lambda>s. P (storage_key s)) ss) = map storage_key (filter (\<lambda>s. P (storage_key s)) ss')"
proof -
  have "map storage_key (filter (\<lambda>s. P (storage_key s)) xs) = filter P (map storage_key xs)" for xs
    by (simp add: filter_map comp_def)
  with assms show ?thesis by simp
qed

text \<open>The storages a lookup by name is about.\<close>

definition named :: "string \<Rightarrow> StorageDetails list \<Rightarrow> StorageDetails list" where
  "named n ss = filter (\<lambda>s. Storage_Type s = StorageTypeNormal \<and> Storage_Title s = n) ss"

lemma byName_details_lookup:
  assumes "reads_storage c vs" and "distinct_storages (vs w)" and "set ss \<subseteq> set (vs w)"
  shows "byName_details c n (map Storage.truncate ss) w =
    (Ok (map Some (filter (\<lambda>s. Storage_Title s = n) ss)), w)"
  using assms(3)
proof (induction ss)
  case (Cons s ss)
  then have "api_GetStorageDetails c (Storage_UUID s) w = (Ok s, w)"
    using assms(1,2) by (simp add: reads_storage_def lookup_storage_distinct)
  with Cons show ?case by (simp add: Storage.truncate_def call_def io_app)
qed (simp add: io_app)

lemma GetBlockStorageByName_lookup:
  assumes "reads_storage c vs" and "distinct_storages (vs w)"
  shows "UpCloudService_GetBlockStorageByName c n w = (Ok (map Some (named n (vs w))), w)"
proof -
  have "api_GetStorages c StorageTypeNormal w =
      (Ok (map Storage.truncate (filter (\<lambda>s. Storage_Type s = StorageTypeNormal) (vs w))), w)"
    using assms(1) by (simp add: reads_storage_def)
  moreover have "byName_details c n (map Storage.truncate (filter (\<lambda>s. Storage_Type s = StorageTypeNormal) (vs w))) w =
      (Ok (map Some (named n (vs w))), w)"
    using byName_details_lookup [OF assms, of "filter (\<lambda>s. Storage_Type s = StorageTypeNormal) (vs w)" n]
    by (simp add: named_def conj_commute Collect_conj_eq)
  ultimately show ?thesis
    by (simp add: UpCloudService_GetBlockStorageByName_def call_Ok)
qed

lemma GetBlockStorageByUUID_lookup:
  assumes "reads_storage c vs"
  shows "UpCloudService_GetBlockStorageByUUID c u w =
    (case lookup_storage (vs w) u of Some s \<Rightarrow> (Ok s, w) | None \<Rightarrow> (Err (Sentinel ErrStorageNotFound), w))"
proof (cases "lookup_storage (vs w) u")
  case None
  then obtain k where "api_GetStorageDetails c u w = (Err (Problem 404 k), w)"
    using assms unfolding reads_storage_def by blast
  with None show ?thesis by (simp add: GetBlockStorageByUUID_cases)
next
  case (Some s)
  with assms have "api_GetStorageDetails c u w = (Ok s, w)" unfolding reads_storage_def by blast
  with Some show ?thesis by (simp add: GetBlockStorageByUUID_cases)
qed

text \<open>Waiting for a storage that was just added: it stays the last one, and its attributes stay.\<close>

lemma wait_added:
  assumes api: "waits_storage c vs" and d: "distinct_storages (vs w)"
    and added: "vs w0 = vs w @ [s0]" "Storage_UUID s0 \<notin> Storage_UUID ` set (vs w)"
    and wt: "waitForStorageOnline c (Storage_UUID s0) w0 = (Ok s, w')"
  obtains old where "vs w' = old @ [s]" and "map storage_key old = map storage_key (vs w)"
    and "distinct_storages (vs w')" and "storage_key s = storage_key s0"
proof -
  have s: "s \<in> set (vs w')" "Storage_UUID s = Storage_UUID s0"
    and keys: "map storage_key (vs w') = map storage_key (vs w @ [s0])"
    using api wt added(1) by (auto simp: waits_storage_def waitForStorageOnline_def)
  have "distinct_storages (vs w0)"
    using d added by (simp add: distinct_storages_def)
  then have d': "distinct_storages (vs w')"
    using map_key_distinct [OF keys] added(1) by simp
  obtain old s1 where w': "vs w' = old @ [s1]" and old: "map storage_key old = map storage_key (vs w)"
    and s1: "storage_key s1 = storage_key s0"
    using keys by (auto simp: map_eq_append_conv)
  have "s1 = s"
    using d' s s1 unfolding w' distinct_storages_def by (auto simp: storage_key_def image_iff)
  with w' old s1 d' that show ?thesis by blast
qed

text \<open>A successful create leaves one more storage, the one returned, under a fresh identifier.\<close>

lemma CreateBlockStorage_created:
  assumes api: "storage_api c vs" and ok: "UpCloudService_CreateBlockStorage c r w = (Ok s, w')"
    and dist: "distinct_storages (vs w)"
  obtains old where "vs w' = old @ [s]" and "map storage_key old = map storage_key (vs w)"
    and "distinct_storages (vs w')" and "Storage_Title s = CreateStorage_Title r"
    and "Storage_Size s = CreateStorage_Size r" and "Storage_Type s = StorageTypeNormal"
    and "Storage_Zone s = CreateStorage_Zone r"
proof -
  obtain s0 w0 where cr: "api_CreateStorage c r w = (Ok s0, w0)"
    and wt: "waitForStorageOnline c (Storage_UUID s0) w0 = (Ok s, w')"
    using ok by (auto simp: UpCloudService_CreateBlockStorage_def elim!: call_throw_OkE)
  have c0: "vs w0 = vs w @ [s0]" "Storage_UUID s0 \<notin> Storage_UUID ` set (vs w)"
    and at: "Storage_Title s0 = CreateStorage_Title r" "Storage_Size s0 = CreateStorage_Size r"
      "Storage_Zone s0 = CreateStorage_Zone r" "Storage_Type s0 = StorageTypeNormal"
    using api cr by (auto simp: storage_api_def creates_storage_def)
  have "waits_storage c vs" using api by (simp add: storage_api_def)
  from wait_added [OF this dist c0 wt] at that show ?thesis
    by (auto simp: storage_key_def)
qed

text \<open>Likewise a backup.\<close>

lemma CreateBlockStorageBackup_created:
  assumes api: "storage_api c vs" and ok: "UpCloudService_CreateBlockStorageBackup c u t w = (Ok s, w')"
    and dist: "distinct_storages (vs w)"
  obtains old where "vs w' = old @ [s]" and "map storage_key old = map storage_key (vs w)"
    and "distinct_storages (vs w')" and "Storage_Title s = t" and "Storage_Origin s = u"
    and "Storage_Type s = StorageTypeBackup"
proof -
  have rd: "snd (UpCloudService_GetBlockStorageByUUID c u w) = w"
    using api by (simp add: storage_api_def GetBlockStorageByUUID_lookup [of c vs] split: option.splits)
  obtain s0 w0 where cr: "api_CreateBackup c u t w = (Ok s0, w0)"
    and wt: "waitForStorageOnline c (Storage_UUID s0) w0 = (Ok s, w')"
    using ok rd by (auto simp: UpCloudService_CreateBlockStorageBackup_def io_app
        elim!: call_throw_OkE split: if_splits)
  have c0: "vs w0 = vs w @ [s0]" "Storage_UUID s0 \<notin> Storage_UUID ` set (vs w)"
    and at: "Storage_Title s0 = t" "Storage_Origin s0 = u" "Storage_Type s0 = StorageTypeBackup"
    using api cr by (auto simp: storage_api_def backs_up_storage_def)
  have "waits_storage c vs" using api by (simp add: storage_api_def)
  from wait_added [OF this dist c0 wt] at that show ?thesis
    by (auto simp: storage_key_def)
qed

section \<open>An in-memory client\<close>

record sample_world =
  sw_storages :: "StorageDetails list"
  sw_servers :: "ServerDetails list"
  sw_files :: "FileStorage list"

text \<open>An identifier longer than all the identifiers in use, hence fresh.\<close>

definition fresh_uuid :: "StorageDetails list \<Rightarrow> string" where
  "fresh_uuid ss = ''01'' @ replicate (sum_list (map (length \<circ> Storage_UUID) ss)) (CHR ''0'')"

lemma fresh_uuid_fresh: "fresh_uuid ss \<notin> Storage_UUID ` set ss"
proof
  assume "fresh_uuid ss \<in> Storage_UUID ` set ss"
  then have "length (fresh_uuid ss) \<in> set (map (length \<circ> Storage_UUID) ss)" by auto
  then have "length (fresh_uuid ss) \<le> sum_list (map (length \<circ> Storage_UUID) ss)"
    by (rule member_le_sum_list) simp
  then show False by (simp add: fresh_uuid_def)
qed

definition problem404 :: err where
  "problem404 = Problem 404 (ErrCodeOther ''NOT_FOUND'')"

definition sample_storage :: "string \<Rightarrow> string \<Rightarrow> int \<Rightarrow> string \<Rightarrow> storage_type \<Rightarrow> string \<Rightarrow> StorageDetails" where
  "sample_storage u title sz zn ty origin =
     \<lparr>Storage_UUID = u, Storage_Title = title, Storage_Size = sz, Storage_Zone = zn, Storage_Type = ty,
      Storage_State = StorageStateOnline, Storage_Origin = origin, Storage_Created = 0,
      Storage_Encrypted = False, Storage_Labels = [], ServerUUIDs = []\<rparr>"

definition sample_details :: "string \<Rightarrow> (StorageDetails, sample_world) io" where
  "sample_details u w = (case lookup_storage (sw_storages w) u of Some s \<Rightarrow> (Ok s, w) | None \<Rightarrow> (Err problem404, w))"

definition sample_create :: "CreateStorageRequest \<Rightarrow> (StorageDetails, sample_world) io" where
  "sample_create r w =
     (let s = sample_storage (fresh_uuid (sw_storages w)) (CreateStorage_Title r) (CreateStorage_Size r)
                (CreateStorage_Zone r) StorageTypeNormal []
      in (Ok s, w\<lparr>sw_storages := sw_storages w @ [s]\<rparr>))"

definition sample_backup :: "string \<Rightarrow> string \<Rightarrow> (StorageDetails, sample_world) io" where
  "sample_backup u title w = (case lookup_storage (sw_storages w) u of None \<Rightarrow> (Err problem404, w)
     | Some og \<Rightarrow>
        (let s = sample_storage (fresh_uuid (sw_storages w)) title (Storage_Size og) (Storage_Zone og) StorageTypeBackup u
         in (Ok s, w\<lparr>sw_storages := sw_storages w @ [s]\<rparr>)))"

definition sample_modify :: "ModifyStorageRequest \<Rightarrow> (StorageDetails, sample_world) io" where
  "sample_modify r w = (case lookup_storage (sw_storages w) (ModifyStorage_UUID r) of None \<Rightarrow> (Err problem404, w)
     | Some s \<Rightarrow>
        (let s' = s\<lparr>Storage_Size := (if ModifyStorage_Size r = 0 then Storage_Size s else ModifyStorage_Size r)\<rparr>
         in (Ok s', w\<lparr>sw_storages := map (\<lambda>x. if Storage_UUID x = ModifyStorage_UUID r then s' else x) (sw_storages w)\<rparr>)))"

definition sample_delete :: "string \<Rightarrow> (unit, sample_world) io" where
  "sample_delete u w = (case lookup_storage (sw_storages w) u of None \<Rightarrow> (Err problem404, w)
     | Some s \<Rightarrow> (Ok (), w\<lparr>sw_storages := filter (\<lambda>s. Storage_UUID s \<noteq> u) (sw_storages w)\<rparr>))"

definition sample_server :: "sample_world \<Rightarrow> string \<Rightarrow> ServerDetails option" where
  "sample_server w u = find (\<lambda>s. Server_UUID s = u) (sw_servers w)"

definition sample_server_details :: "string \<Rightarrow> (ServerDetails, sample_world) io" where
  "sample_server_details u w = (case sample_server w u of Some s \<Rightarrow> (Ok s, w) | None \<Rightarrow> (Err problem404, w))"

text \<open>Attaching and detaching change the devices of the server and the servers of the storage.\<close>

definition sample_put :: "ServerDetails \<Rightarrow> string \<Rightarrow> (string list \<Rightarrow> string list) \<Rightarrow> sample_world \<Rightarrow> sample_world" where
  "sample_put d v f w = w\<lparr>sw_servers := map (\<lambda>x. if Server_UUID x = Server_UUID d then d else x) (sw_servers w),
     sw_storages := map (\<lambda>s. if Storage_UUID s = v then s\<lparr>ServerUUIDs := f (ServerUUIDs s)\<rparr> else s) (sw_storages w)\<rparr>"

definition sample_attach :: "string \<Rightarrow> string \<Rightarrow> string \<Rightarrow> (ServerDetails, sample_world) io" where
  "sample_attach u v a w = (case sample_server w u of None \<Rightarrow> (Err problem404, w)
     | Some d \<Rightarrow>
        (let d' = d\<lparr>StorageDevices := StorageDevices d @ [\<lparr>Device_Address = a @ v, Device_UUID = v, Device_Size = 0\<rparr>]\<rparr>
         in (Ok d', sample_put d' v (\<lambda>us. us @ [u]) w)))"

definition sample_detach :: "string \<Rightarrow> string \<Rightarrow> (ServerDetails, sample_world) io" where
  "sample_detach u a w = (case sample_server w u of None \<Rightarrow> (Err problem404, w)
     | Some d \<Rightarrow> (case find (\<lambda>x. Device_Address x = a) (StorageDevices d) of None \<Rightarrow> (Err problem404, w)
        | Some dev \<Rightarrow>
           (let d' = d\<lparr>StorageDevices := filter (\<lambda>x. Device_Address x \<noteq> a) (StorageDevices d)\<rparr>
            in (Ok d', sample_put d' (Device_UUID dev) (filter (\<lambda>x. x \<noteq> u)) w))))"

definition sample_file :: "string \<Rightarrow> (FileStorage, sample_world) io" where
  "sample_file u w = (case find (\<lambda>f. FileStorage_UUID f = u) (sw_files w) of Some f \<Rightarrow> (Ok f, w) | None \<Rightarrow> (Err problem404, w))"

definition sample_unsupported :: "('a, sample_world) io" where
  "sample_unsupported = throw (Errorf ''not supported'')"

definition Sample_Client :: "sample_world upCloudClient" where
  "Sample_Client =
     \<lparr>api_GetStorages = (\<lambda>t w. (Ok (map Storage.truncate (filter (\<lambda>s. Storage_Type s = t) (sw_storages w))), w)),
      api_GetStorageDetails = sample_details,
      api_CreateStorage = sample_create,
      api_CloneStorage = (\<lambda>_. sample_unsupported),
      api_ModifyStorage = sample_modify,
      api_DeleteStorage = sample_delete,
      api_AttachStorage = sample_attach,
      api_DetachStorage = sample_detach,
      api_CreateBackup = sample_backup,
      api_ResizeStorageFilesystem = (\<lambda>_. sample_unsupported),
      api_WaitForStorageState = (\<lambda>u _. sample_details u),
      api_WaitForServerState = (\<lambda>u _. call (sample_server_details u) throw (\<lambda>_. ret ())),
      api_GetServers = (\<lambda>w. (Ok (map Server.truncate (sw_servers w)), w)),
      api_GetServerDetails = sample_server_details,
      api_GetFileStorages = (\<lambda>w. (Ok (sw_files w), w)),
      api_GetFileStorage = sample_file,
      api_CreateFileStorage = (\<lambda>_. sample_unsupported),
      api_DeleteFileStorage = (\<lambda>_. sample_unsupported),
      api_ModifyFileStorage = (\<lambda>_ _. sample_unsupported),
      api_WaitForFileStorageOperationalState = (\<lambda>u _. sample_file u),
      api_GetFileStorageNetworks = (\<lambda>_. sample_unsupported),
      api_GetFileStorageShares = (\<lambda>_. sample_unsupported),
      api_CreateFileStorageShare = (\<lambda>_. sample_unsupported),
      api_CreateFileStorageShareACL = (\<lambda>_. sample_unsupported),
      api_GetNetworkDetails = (\<lambda>_. sample_unsupported),
      api_GetNetworks = sample_unsupported\<rparr>"

lemma lookup_storage_SomeD: "lookup_storage ss u = Some s \<Longrightarrow> s \<in> set ss \<and> Storage_UUID s = u"
  unfolding lookup_storage_def by (rule find_SomeD)

lemmas sample_defs = Sample_Client_def sample_details_def sample_create_def sample_backup_def sample_modify_def
  sample_delete_def sample_server_def sample_server_details_def sample_put_def sample_attach_def sample_detach_def
  sample_file_def sample_unsupported_def sample_storage_def problem404_def lookup_storage_def

lemma Sample_Client_api: "storage_api Sample_Client sw_storages"
  unfolding storage_api_def
proof (intro conjI)
  show "reads_storage Sample_Client sw_storages"
    by (simp add: reads_storage_def Sample_Client_def sample_details_def problem404_def)
  show "creates_storage Sample_Client sw_storages"
    by (auto simp: creates_storage_def Sample_Client_def sample_create_def sample_storage_def Let_def
        fresh_uuid_fresh)
  show "backs_up_storage Sample_Client sw_storages"
    by (auto simp: backs_up_storage_def Sample_Client_def sample_backup_def sample_storage_def Let_def
        fresh_uuid_fresh split: option.splits)
  show "waits_storage Sample_Client sw_storages"
    by (auto simp: waits_storage_def Sample_Client_def sample_details_def
        dest!: lookup_storage_SomeD split: option.splits)
  show "deletes_storage Sample_Client sw_storages"
    by (auto simp: deletes_storage_def Sample_Client_def sample_delete_def problem404_def split: option.splits)
qed

end
