(* ===== verification/Controller_Lifecycle.thy ===== *)
theory Controller_Lifecycle
  imports Controller_Capacity Controller_Pages Storage_API
begin

text \<open>
  The life of a block volume through the controller over the API-backed service: what a successful
  \<open>CreateVolume\<close> leaves behind, what a retry answers, deletion and its repetition. The hypotheses on
  the API are those of \<open>storage_api\<close>.
\<close>

section \<open>Sizes\<close>

lemma giB_dvd_i64: "giB dvd i64 (n * giB)"
proof -
  have "(2::int) ^ 30 dvd (n * 2 ^ 30 + 2 ^ 63) mod 2 ^ 64"
    by (rule dvd_mod) (simp_all add: dvd_add)
  then show ?thesis by (simp add: giB_def i64_def dvd_diff)
qed

lemma whole_size_i64:
  assumes "validateCapacityRange cr mn mx = Ok n" and "0 < mn" and "mn \<le> mx" and "mx < 2 ^ 63"
  shows "0 \<le> n div giB" and "i64 (n div giB * giB) = n div giB * giB" and "n sdiv giB = n div giB"
proof -
  have n: "0 < n" "n \<le> mx"
    using validateCapacityRange_pos [OF assms(2,1)] validateCapacityRange_le_max [OF assms(3,1)] by simp_all
  then show "n sdiv giB = n div giB" by (simp add: sdiv_nonneg giB_def)
  show "0 \<le> n div giB" using n by (simp add: giB_def pos_imp_zdiv_nonneg_iff)
  moreover have "n div giB * giB \<le> n" by (simp add: giB_def)
  ultimately have "0 \<le> n div giB * giB" "n div giB * giB \<le> mx"
    using n by (simp_all add: giB_def)
  then show "i64 (n div giB * giB) = n div giB * giB"
    using assms(4) by (intro i64_id) (auto simp: is_i64_def)
qed

lemma block_size_i64:
  assumes "validateCapacityRange cr minBlockStorageSize maxBlockStorageSize = Ok n"
  shows "0 \<le> n div giB" and "i64 (n div giB * giB) = n div giB * giB" and "n sdiv giB = n div giB"
  by (rule whole_size_i64 [OF assms]; simp add: size_defs)+

lemma file_size_i64:
  assumes "validateCapacityRange cr minFileStorageSize maxFileStorageSize = Ok n"
  shows "0 \<le> n div giB" and "i64 (n div giB * giB) = n div giB * giB" and "n sdiv giB = n div giB"
  by (rule whole_size_i64 [OF assms]; simp add: size_defs)+

lemma truncated_size_eq: "n div giB * giB = n \<longleftrightarrow> giB dvd n"
  by (metis dvd_div_mult_self dvd_triv_right)

section \<open>Creating\<close>

text \<open>A request for a block volume without a content source.\<close>

definition plain_block_request :: "CreateVolumeRequest \<Rightarrow> bool" where
  "plain_block_request req \<longleftrightarrow>
     map_get (CreateVolume_Parameters req) volumeContextTypeKey \<noteq> volumeTypeFileStorage \<and>
     CreateVolume_VolumeContentSource req = None"

text \<open>\<open>CreateVolume\<close> on such a request: a lookup by name, then one of the two answers.\<close>

lemma CreateVolume_plain:
  assumes req: "plain_block_request req" and s: "svc c = NewUpCloudService cl"
    and api: "storage_api cl vs" and d: "distinct_storages (vs w)"
  shows "CreateVolume c req w =
    (case validateCreateVolumeRequest req (zone c) of
       Ok _ \<Rightarrow> if named (CreateVolume_Name req) (vs w) \<noteq> []
               then createVolumeExistsResponse req (map Some (named (CreateVolume_Name req) (vs w))) w
               else createBlockStorageVolume c req w
     | Err e \<Rightarrow> (Err e, w) | Panic \<Rightarrow> (Panic, w))"
  using req GetBlockStorageByName_lookup [of cl vs w, OF _ d] api
  by (cases "validateCreateVolumeRequest req (zone c)")
    (simp_all add: CreateVolume_def plain_block_request_def s NewUpCloudService_def storage_api_def call_def io_app)

text \<open>The answer for an existing volume.\<close>

lemma createVolumeExistsResponse_one:
  assumes "validateCapacityRange (CreateVolume_CapacityRange req) minBlockStorageSize maxBlockStorageSize = Ok n"
  shows "createVolumeExistsResponse req [Some vol] w =
    (if i64 (Storage_Size vol * giB) \<noteq> n then Err (Status AlreadyExists)
     else Ok \<lparr>Volume_VolumeId = Storage_UUID vol, Volume_CapacityBytes = n, Volume_AccessibleTopology = [],
              Volume_ContentSource = CreateVolume_VolumeContentSource req, Volume_VolumeContext = Map.empty\<rparr>, w)"
  using assms by (auto simp: createVolumeExistsResponse_def io_app)

lemma createVolumeExistsResponse_OkE:
  assumes "createVolumeExistsResponse req vols w = (Ok v, w')"
  obtains vol n where "vols = [Some vol]" and "w' = w"
    and "validateCapacityRange (CreateVolume_CapacityRange req) minBlockStorageSize maxBlockStorageSize = Ok n"
    and "i64 (Storage_Size vol * giB) = n"
    and "v = \<lparr>Volume_VolumeId = Storage_UUID vol, Volume_CapacityBytes = n, Volume_AccessibleTopology = [],
              Volume_ContentSource = CreateVolume_VolumeContentSource req, Volume_VolumeContext = Map.empty\<rparr>"
  using assms
  by (auto simp: createVolumeExistsResponse_def io_defs lift_res_app
      split: if_splits list.splits option.splits res.splits prod.splits)

text \<open>The answer for a new volume: the storage created has the size in whole GiB.\<close>

lemma createBlockStorageVolume_OkE:
  assumes "createBlockStorageVolume c req w = (Ok v, w')" and "CreateVolume_VolumeContentSource req = None"
    and "svc c = NewUpCloudService cl"
  obtains n tier s where
    "validateCapacityRange (CreateVolume_CapacityRange req) minBlockStorageSize maxBlockStorageSize = Ok n"
    and "UpCloudService_CreateBlockStorage cl \<lparr>CreateStorage_Zone = zone c,
        CreateStorage_Title = CreateVolume_Name req, CreateStorage_Size = n div giB, CreateStorage_Tier = tier,
        CreateStorage_Labels = storageLabels c,
        CreateStorage_Encrypted = createVolumeRequestEncryptionAtRest req\<rparr> w = (Ok s, w')"
    and "v = \<lparr>Volume_VolumeId = Storage_UUID s, Volume_CapacityBytes = n,
        Volume_AccessibleTopology = [[topologyRegionKey \<mapsto> zone c]], Volume_ContentSource = None,
        Volume_VolumeContext = Map.empty\<rparr>"
  using assms
  by (auto simp: createBlockStorageVolume_def NewUpCloudService_def io_defs lift_res_app Let_def block_size_i64
      split: res.splits prod.splits)

text \<open>After a new volume, the storages under its name are exactly the one created.\<close>

lemma created_named:
  assumes "named n (vs w) = []" and "vs w' = old @ [s]" and "map storage_key old = map storage_key (vs w)"
    and "Storage_Title s = n" and "Storage_Type s = StorageTypeNormal"
  shows "named n (vs w') = [s]"
proof -
  let ?P = "\<lambda>(u, t, sz, z, ty, og). ty = StorageTypeNormal \<and> t = n"
  have "map storage_key (filter (\<lambda>s. ?P (storage_key s)) old) = map storage_key (filter (\<lambda>s. ?P (storage_key s)) (vs w))"
    by (rule map_key_filter) (rule assms(3))
  then have "map storage_key (named n old) = map storage_key (named n (vs w))"
    by (simp add: named_def storage_key_def)
  with assms show ?thesis by (simp add: named_def)
qed

text \<open>What a successful \<open>CreateVolume\<close> leaves: one storage under the name, with the volume's identifier and
  the capacity in whole GiB; storages that were there keep their identity and attributes.\<close>

lemma CreateVolume_leaves:
  assumes req: "plain_block_request req" and s: "svc c = NewUpCloudService cl"
    and api: "storage_api cl vs" and d: "distinct_storages (vs w)"
    and ok: "CreateVolume c req w = (Ok v, w')"
  obtains vol n where "validateCreateVolumeRequest req (zone c) = Ok ()"
    and "validateCapacityRange (CreateVolume_CapacityRange req) minBlockStorageSize maxBlockStorageSize = Ok n"
    and "Volume_CapacityBytes v = n" and "Volume_VolumeId v = Storage_UUID vol"
    and "Volume_ContentSource v = None" and "Volume_VolumeContext v = Map.empty"
    and "named (CreateVolume_Name req) (vs w') = [vol]" and "distinct_storages (vs w')"
    and "vs w' = vs w \<and> i64 (Storage_Size vol * giB) = n \<or>
         (\<exists>old. vs w' = old @ [vol] \<and> map storage_key old = map storage_key (vs w)) \<and>
           Storage_Size vol = n div giB \<and> Storage_Zone vol = zone c"
proof -
  let ?n = "CreateVolume_Name req"
  have val: "validateCreateVolumeRequest req (zone c) = Ok ()"
    using ok by (simp add: CreateVolume_plain [OF req s api d] split: res.splits)
  show ?thesis
  proof (cases "named ?n (vs w) = []")
    case False
    then have "createVolumeExistsResponse req (map Some (named ?n (vs w))) w = (Ok v, w')"
      using ok val by (simp add: CreateVolume_plain [OF req s api d])
    then show ?thesis
      by (rule createVolumeExistsResponse_OkE)
        (use that val d req in \<open>auto simp: plain_block_request_def map_eq_Cons_conv\<close>)
  next
    case True
    then have "createBlockStorageVolume c req w = (Ok v, w')"
      using ok val by (simp add: CreateVolume_plain [OF req s api d])
    moreover have "CreateVolume_VolumeContentSource req = None"
      using req by (simp add: plain_block_request_def)
    ultimately obtain n tier st where
      n: "validateCapacityRange (CreateVolume_CapacityRange req) minBlockStorageSize maxBlockStorageSize = Ok n"
      and cr: "UpCloudService_CreateBlockStorage cl \<lparr>CreateStorage_Zone = zone c,
        CreateStorage_Title = ?n, CreateStorage_Size = n div giB, CreateStorage_Tier = tier,
        CreateStorage_Labels = storageLabels c,
        CreateStorage_Encrypted = createVolumeRequestEncryptionAtRest req\<rparr> w = (Ok st, w')"
      and v: "v = \<lparr>Volume_VolumeId = Storage_UUID st, Volume_CapacityBytes = n,
        Volume_AccessibleTopology = [[topologyRegionKey \<mapsto> zone c]], Volume_ContentSource = None,
        Volume_VolumeContext = Map.empty\<rparr>"
      using s by (rule createBlockStorageVolume_OkE)
    obtain old where "vs w' = old @ [st]" "map storage_key old = map storage_key (vs w)"
      "distinct_storages (vs w')" "Storage_Title st = ?n" "Storage_Size st = n div giB"
      "Storage_Type st = StorageTypeNormal" "Storage_Zone st = zone c"
      by (rule CreateBlockStorage_created [OF api cr d]) simp
    with that [OF val n] v True created_named [of ?n vs w w' old st] show ?thesis by auto
  qed
qed

section \<open>A sample run\<close>

text \<open>A controller over the in-memory client, with the requests the witnesses use.\<close>

definition sample_controller :: "sample_world Controller" where
  "sample_controller = \<lparr>zone = ''fi-hel1'', nodeHost = ''node-1'', maxVolumesPerNode = 15,
     svc = NewUpCloudService Sample_Client, storageLabels = []\<rparr>"

definition sample_server_of :: "string \<Rightarrow> string \<Rightarrow> ServerDetails" where
  "sample_server_of u h = \<lparr>Server_UUID = u, Server_Hostname = h, Server_Zone = ''fi-hel1'',
     Server_State = ServerStateStarted, StorageDevices = [], Networking_Interfaces = []\<rparr>"

definition sample_empty :: sample_world where
  "sample_empty = \<lparr>sw_storages = [], sw_servers = [sample_server_of ''00a'' ''node-1'', sample_server_of ''00b'' ''node-2''],
     sw_files = []\<rparr>"

definition sample_create_request :: "int \<Rightarrow> CreateVolumeRequest" where
  "sample_create_request bytes = \<lparr>CreateVolume_Name = ''pvc'',
     CreateVolume_CapacityRange = Some \<lparr>RequiredBytes = bytes, LimitBytes = 0\<rparr>,
     CreateVolume_VolumeCapabilities = [\<lparr>AccessMode = Some SINGLE_NODE_WRITER, AccessType = Some Block\<rparr>],
     CreateVolume_Parameters = Map.empty, CreateVolume_VolumeContentSource = None, CreateVolume_Requisite = None\<rparr>"

definition sample_with_volume :: "int \<Rightarrow> sample_world" where
  "sample_with_volume sz = sample_empty\<lparr>sw_storages := [sample_storage ''01'' ''pvc'' sz ''fi-hel1'' StorageTypeNormal []]\<rparr>"

lemmas sample_run_defs = sample_controller_def sample_empty_def sample_create_request_def sample_with_volume_def
  sample_server_of_def

lemma sample_validate: "validateCreateVolumeRequest (sample_create_request n) (zone sample_controller) = Ok ()"
  by (simp add: sample_run_defs validateCreateVolumeRequest_def validateCapabilities_empty_iff wrong_region_def)

lemma sample_plain: "plain_block_request (sample_create_request n)"
  by (simp add: plain_block_request_def sample_run_defs map_get_def volumeTypeFileStorage_def)

lemma sample_distinct: "distinct_storages (sw_storages sample_empty)" "distinct_storages (sw_storages (sample_with_volume n))"
  by (simp_all add: distinct_storages_def sample_run_defs)

lemma sample_svc: "svc sample_controller = NewUpCloudService Sample_Client"
  by (simp add: sample_run_defs)

text \<open>Creating one volume in the empty cloud.\<close>

lemma sample_CreateVolume:
  assumes "minBlockStorageSize \<le> n" and "n \<le> maxBlockStorageSize"
  shows "CreateVolume sample_controller (sample_create_request n) sample_empty =
    (Ok \<lparr>Volume_VolumeId = ''01'', Volume_CapacityBytes = n,
       Volume_AccessibleTopology = [[topologyRegionKey \<mapsto> ''fi-hel1'']], Volume_ContentSource = None,
       Volume_VolumeContext = Map.empty\<rparr>, sample_with_volume (n div giB))"
proof -
  have v: "validateCapacityRange (CreateVolume_CapacityRange (sample_create_request n))
      minBlockStorageSize maxBlockStorageSize = Ok n"
    using assms by (simp add: validateCapacityRange_def sample_create_request_def Let_def size_defs)
  note sz = block_size_i64 [OF v]
  have "createBlockStorageVolume sample_controller (sample_create_request n) sample_empty =
    (Ok \<lparr>Volume_VolumeId = ''01'', Volume_CapacityBytes = n,
       Volume_AccessibleTopology = [[topologyRegionKey \<mapsto> ''fi-hel1'']], Volume_ContentSource = None,
       Volume_VolumeContext = Map.empty\<rparr>, sample_with_volume (n div giB))"
    unfolding createBlockStorageVolume_def v
    by (simp add: call_def io_app sz(3) Let_def createVolumeRequestTier_def sample_run_defs NewUpCloudService_def
        UpCloudService_CreateBlockStorage_def waitForStorageOnline_def sample_defs fresh_uuid_def)
  moreover have "named (CreateVolume_Name (sample_create_request n)) (sw_storages sample_empty) = []"
    by (simp add: named_def sample_empty_def)
  ultimately show ?thesis
    by (simp add: CreateVolume_plain [OF sample_plain sample_svc Sample_Client_api sample_distinct(1)] sample_validate)
qed

section \<open>Properties\<close>





text \<open>Deleting by an identifier that is not a file storage's, in terms of the client's answer.\<close>

lemma DeleteVolume_block:
  assumes "svc c = NewUpCloudService cl" and "\<not> IsValidFileStorageUUID up u" and "u \<noteq> []"
  shows "DeleteVolume up c u w =
    (case api_DeleteStorage cl u w of
       (Ok _, w') \<Rightarrow> (Ok (), w')
     | (Err e, w') \<Rightarrow> (if problem_status e 404 \<or> errors_Is e ErrStorageNotFound then Ok () else Err e, w')
     | (Panic, w') \<Rightarrow> (Panic, w'))"
  using assms
  by (simp add: DeleteVolume_def NewUpCloudService_def UpCloudService_DeleteBlockStorage_def io_defs
      split: prod.splits res.splits)

text \<open>C23. A successful \<open>DeleteVolume\<close> of a block volume removes that storage and no other, and repeating it
  succeeds without changing the storages; deleting a volume that is not there succeeds too.\<close>

theorem DeleteVolume_idempotent:
  assumes s: "svc c = NewUpCloudService cl" and api: "storage_api cl vs"
    and b: "\<not> IsValidFileStorageUUID up u" and ok: "DeleteVolume up c u w = (Ok (), w')"
  shows "vs w' = filter (\<lambda>x. Storage_UUID x \<noteq> u) (vs w) \<and> DeleteVolume up c u w' = (Ok (), w')"
proof -
  have u: "u \<noteq> []" using ok by (auto simp: DeleteVolume_def io_app)
  note del = DeleteVolume_block [OF s b u]
  have no_sentinel: "\<not> errors_Is e ErrStorageNotFound"
    and missing: "problem_status e 404 \<Longrightarrow> lookup_storage (vs w) u = None \<and> vs w1 = vs w"
    if "api_DeleteStorage cl u w = (Err e, w1)" for e w1
    using api that unfolding storage_api_def deletes_storage_def by blast+
  have done_: "vs w1 = filter (\<lambda>x. Storage_UUID x \<noteq> u) (vs w)" if "api_DeleteStorage cl u w = (Ok (), w1)" for w1
    using api that unfolding storage_api_def deletes_storage_def by blast
  have absent: "filter (\<lambda>x. Storage_UUID x \<noteq> u) (vs w) = vs w" if "lookup_storage (vs w) u = None"
    using that by (auto simp: lookup_storage_def find_None_iff filter_id_conv)
  have *: "vs w' = filter (\<lambda>x. Storage_UUID x \<noteq> u) (vs w)"
    using ok no_sentinel missing done_ absent unfolding del
    by (auto split: prod.splits res.splits if_splits)
  then have "lookup_storage (vs w') u = None"
    by (auto simp: lookup_storage_def find_None_iff)
  then obtain k where "api_DeleteStorage cl u w' = (Err (Problem 404 k), w')"
    using api unfolding storage_api_def deletes_storage_def by blast
  then show ?thesis using * by (simp add: del)
qed

theorem DeleteVolume_idempotent_witness:
  "DeleteVolume (\<lambda>_. True) sample_controller ''01'' sample_empty = (Ok (), sample_empty)"
proof -
  have "DeleteVolume (\<lambda>_. True) sample_controller ''01'' (sample_with_volume 2) = (Ok (), sample_empty)"
    by (subst DeleteVolume_block [OF sample_svc])
      (simp_all add: uuid_defs sample_defs sample_with_volume_def sample_empty_def)
  moreover have "\<not> IsValidFileStorageUUID (\<lambda>_. True) ''01''" by (simp add: uuid_defs)
  ultimately show ?thesis
    using DeleteVolume_idempotent [OF sample_svc Sample_Client_api] by blast
qed

text \<open>\<open>ListVolumes\<close> in terms of what the two list requests return.\<close>

definition listed :: "'w Controller \<Rightarrow> Storage list \<Rightarrow> FileStorage list \<Rightarrow> Storage list" where
  "listed c vols fss = vols @ map storage_of_file (filter (\<lambda>fs. FileStorage_Zone fs = zone c) fss)"

lemma ListVolumes_page:
  assumes "svc_ListBlockStorage (svc c) (zone c) w = (Ok vols, w)" and "svc_GetFileStorages (svc c) w = (Ok fss, w)"
    and "parseToken t = Ok start"
  shows "ListVolumes c t n w =
    (case paginateStorage (listed c vols fss) start n of
       Ok (pg, nxt) \<Rightarrow> (Ok (map list_entry pg, next_token nxt), w) | Err e \<Rightarrow> (Err e, w) | Panic \<Rightarrow> (Panic, w))"
  using assms by (simp add: ListVolumes_def listed_def call_def io_app lift_res_app split: res.splits prod.splits)

text \<open>C8. Following the tokens of \<open>ListVolumes\<close> from the empty token, with a positive page size, ends, and
  the pages put together are the entries of the block storages and file storages of the zone, each exactly once
  and in order; no page is longer than the page size. One call more than there are volumes is enough fuel.\<close>

theorem ListVolumes_complete:
  assumes l: "svc_ListBlockStorage (svc c) (zone c) w = (Ok vols, w)" "svc_GetFileStorages (svc c) w = (Ok fss, w)"
    and v: "0 < n" "int (length (listed c vols fss)) + n < 2 ^ 63"
  shows "\<exists>pages. collect (Suc (length (listed c vols fss))) (\<lambda>t. ListVolumes c t n) [] w = (Ok pages, w) \<and>
    concat pages = map list_entry (listed c vols fss) \<and> (\<forall>p \<in> set pages. length p \<le> nat n)"
proof -
  let ?all = "listed c vols fss"
  have pv: "page_valid ?all n" using v by (auto simp: page_valid_def is_i64_def)
  obtain pages where ps: "follow_pages paginateStorage (Suc (length ?all)) ?all (int 0) n = Some pages"
    "concat pages = ?all" "\<forall>p \<in> set pages. length p \<le> nat n"
    using storage_pages.follow_all [OF pv] by auto
  have "collect (Suc (length ?all)) (\<lambda>t. ListVolumes c t n) (next_token (int 0)) w = (Ok (map (map list_entry) pages), w)"
    by (rule collect_follows [OF _ _ pv _ ps(1)])
      (use v in \<open>auto simp: ListVolumes_page [OF l] parseToken_next_token is_i64_def\<close>)
  with ps show ?thesis
    by (intro exI [of _ "map (map list_entry) pages"]) (auto simp: next_token_def simp flip: map_concat)
qed

theorem ListVolumes_complete_witness:
  "\<exists>pages. collect 2 (\<lambda>t. ListVolumes sample_controller t 1) [] (sample_with_volume 2) = (Ok pages, sample_with_volume 2) \<and>
     map Entry_VolumeId (concat pages) = [''01'']"
proof -
  have l: "svc_ListBlockStorage (svc sample_controller) (zone sample_controller) (sample_with_volume 2) =
      (Ok [Storage.truncate (sample_storage ''01'' ''pvc'' 2 ''fi-hel1'' StorageTypeNormal [])], sample_with_volume 2)"
    "svc_GetFileStorages (svc sample_controller) (sample_with_volume 2) = (Ok [], sample_with_volume 2)"
    by (simp_all add: sample_run_defs NewUpCloudService_def UpCloudService_ListBlockStorage_def
        UpCloudService_GetFileStorages_def Sample_Client_def sample_storage_def call_def io_app Storage.truncate_def)
  show ?thesis
    using ListVolumes_complete [OF l, of 1]
    by (auto simp: listed_def list_entry_def sample_storage_def Storage.truncate_def numeral_2_eq_2)
qed

text \<open>C31. A page request panics exactly when the parsed token is negative, or the page size is negative and the
  token lies within the list; a token that is not a number is refused with Aborted. So the starting token
  \<open>-1\<close>, which parses, crashes the handler.\<close>

theorem ListVolumes_panics:
  assumes l: "svc_ListBlockStorage (svc c) (zone c) w = (Ok vols, w)" "svc_GetFileStorages (svc c) w = (Ok fss, w)"
    and n: "- (2 ^ 31) \<le> n" "n < 2 ^ 31" and len: "int (length (listed c vols fss)) < 2 ^ 62"
  shows "ListVolumes c t n w = (Panic, w) \<longleftrightarrow>
    (\<exists>start. parseToken t = Ok start \<and> (start < 0 \<or> start \<le> int (length (listed c vols fss)) \<and> n < 0))"
proof (cases "parseToken t")
  case (Ok start)
  have "ListVolumes c t n w = (Panic, w) \<longleftrightarrow> paginateStorage (listed c vols fss) start n = Panic"
    by (auto simp: ListVolumes_page [OF l Ok] split: res.splits)
  with Ok show ?thesis by (simp add: paginateStorage_panics [OF n len])
qed (auto simp: ListVolumes_def io_app parseToken_def split: if_splits option.splits)

theorem ListVolumes_panics_witness:
  "ListVolumes sample_controller ''-1'' 0 sample_empty = (Panic, sample_empty)"
proof -
  have l: "svc_ListBlockStorage (svc sample_controller) (zone sample_controller) sample_empty = (Ok [], sample_empty)"
    "svc_GetFileStorages (svc sample_controller) sample_empty = (Ok [], sample_empty)"
    by (simp_all add: sample_run_defs NewUpCloudService_def UpCloudService_ListBlockStorage_def
        UpCloudService_GetFileStorages_def Sample_Client_def call_def io_app)
  have "parseToken ''-1'' = Ok (-1)"
    by (simp add: parseToken_def Atoi_def char_digit_def is_i64_def)
  then show ?thesis
    using ListVolumes_panics [OF l, of 0 "''-1''"] by (simp add: listed_def)
qed

end
