(* ===== verification/Controller_Attach.thy ===== *)
theory Controller_Attach
  imports Controller_Frame Controller_Lifecycle
begin

text \<open>
  Attachments. \<open>attach_api\<close> is what the controller relies on of the API: \<open>at w u\<close> are the servers the
  storage \<open>u\<close> is attached to, the details of a storage report them, attaching adds at most one server
  to the storage named in the request, and no other request adds one. Under it a block volume is never
  attached to two servers by any sequence of controller requests: the run of requests is an inductive
  relation, and the invariant is proved by rule induction over it.
\<close>

section \<open>The contract\<close>

text \<open>\<open>good\<close> holds of the worlds the API can be in.\<close>

definition fewer :: "('w \<Rightarrow> bool) \<Rightarrow> ('w \<Rightarrow> string \<Rightarrow> string list) \<Rightarrow> 'w \<Rightarrow> 'w \<Rightarrow> bool" where
  "fewer good at w w' \<longleftrightarrow> (good w \<longrightarrow> good w' \<and> (\<forall>u. length (at w' u) \<le> length (at w u)))"

lemma fewer_refl: "reflp (fewer good at)"
  by (simp add: reflp_def fewer_def)

lemma fewer_trans: "transp (fewer good at)"
  unfolding transp_def fewer_def by (blast intro: order_trans)

text \<open>All client requests but \<open>AttachStorage\<close> change the world along \<open>R\<close>.\<close>

definition quiet_client :: "'w upCloudClient \<Rightarrow> ('w \<Rightarrow> 'w \<Rightarrow> bool) \<Rightarrow> bool" where
  "quiet_client c R \<longleftrightarrow>
     (\<forall>t. io_rel R (api_GetStorages c t)) \<and> (\<forall>u. io_rel R (api_GetStorageDetails c u)) \<and>
     (\<forall>r. io_rel R (api_CreateStorage c r)) \<and> (\<forall>r. io_rel R (api_CloneStorage c r)) \<and>
     (\<forall>r. io_rel R (api_ModifyStorage c r)) \<and> (\<forall>u. io_rel R (api_DeleteStorage c u)) \<and>
     (\<forall>s a. io_rel R (api_DetachStorage c s a)) \<and> (\<forall>u t. io_rel R (api_CreateBackup c u t)) \<and>
     (\<forall>u. io_rel R (api_ResizeStorageFilesystem c u)) \<and> (\<forall>u s. io_rel R (api_WaitForStorageState c u s)) \<and>
     (\<forall>u s. io_rel R (api_WaitForServerState c u s)) \<and> io_rel R (api_GetServers c) \<and>
     (\<forall>u. io_rel R (api_GetServerDetails c u)) \<and> io_rel R (api_GetFileStorages c) \<and>
     (\<forall>u. io_rel R (api_GetFileStorage c u)) \<and> (\<forall>r. io_rel R (api_CreateFileStorage c r)) \<and>
     (\<forall>u. io_rel R (api_DeleteFileStorage c u)) \<and> (\<forall>u n. io_rel R (api_ModifyFileStorage c u n)) \<and>
     (\<forall>u s. io_rel R (api_WaitForFileStorageOperationalState c u s)) \<and>
     (\<forall>u. io_rel R (api_GetFileStorageShares c u)) \<and> (\<forall>r. io_rel R (api_CreateFileStorageShare c r)) \<and>
     (\<forall>r. io_rel R (api_CreateFileStorageShareACL c r)) \<and> io_rel R (api_GetNetworks c)"

definition attach_api :: "'w upCloudClient \<Rightarrow> ('w \<Rightarrow> bool) \<Rightarrow> ('w \<Rightarrow> string \<Rightarrow> string list) \<Rightarrow> bool" where
  "attach_api c good at \<longleftrightarrow> quiet_client c (fewer good at) \<and>
     (\<forall>w u s w'. good w \<longrightarrow> api_GetStorageDetails c u w = (Ok s, w') \<longrightarrow>
        ServerUUIDs s = at w' u \<and> [] \<notin> set (ServerUUIDs s)) \<and>
     (\<forall>w s v a r w'. good w \<longrightarrow> api_AttachStorage c s v a w = (r, w') \<longrightarrow> good w' \<and>
        (\<forall>u. u \<noteq> v \<longrightarrow> length (at w' u) \<le> length (at w u)) \<and> length (at w' v) \<le> Suc (length (at w v)))"

section \<open>The service over it\<close>

lemma quiet_byName_details:
  assumes "quiet_client c R" and "reflp R" and "transp R"
  shows "io_rel R (byName_details c n ss)"
proof (induction ss)
  case (Cons s ss)
  show ?case
    unfolding byName_details.simps
    by (intro rel_rules assms Cons.IH) (use assms in \<open>simp add: quiet_client_def\<close>)
qed (simp add: rel_rules assms)

lemmas upcloud_op_defs =
  UpCloudService_GetServerByHostname_def UpCloudService_GetBlockStorageByUUID_def
  UpCloudService_GetBlockStorageByName_def UpCloudService_CreateBlockStorage_def
  UpCloudService_CloneBlockStorage_def UpCloudService_DeleteBlockStorage_def
  UpCloudService_DetachBlockStorage_def UpCloudService_ListBlockStorage_def UpCloudService_ResizeBlockStorage_def
  UpCloudService_ResizeBlockDevice_def UpCloudService_RequireBlockStorageOnline_def
  UpCloudService_CreateBlockStorageBackup_def UpCloudService_ListBlockStorageBackups_def
  UpCloudService_DeleteBlockStorageBackup_def UpCloudService_GetBlockStorageBackupByName_def
  UpCloudService_GetFileStorageByUUID_def UpCloudService_GetFileStorages_def UpCloudService_DeleteFileStorage_def
  UpCloudService_ModifyFileStorage_def UpCloudService_CreateFileStorageShareACL_def
  UpCloudService_CreateFileStorage_def UpCloudService_GetNetworks_def
  waitForStorageOnline_def waitForServerOnline_def waitForFileStorageRunning_def Let_def

lemma quiet_UpCloudService:
  assumes q: "quiet_client c R" and r: "reflp R" and t: "transp R"
  shows "service_quiet (NewUpCloudService c) R"
proof -
  have q': "\<And>t. io_rel R (api_GetStorages c t)" "\<And>u. io_rel R (api_GetStorageDetails c u)"
     "\<And>r. io_rel R (api_CreateStorage c r)" "\<And>r. io_rel R (api_CloneStorage c r)"
     "\<And>r. io_rel R (api_ModifyStorage c r)" "\<And>u. io_rel R (api_DeleteStorage c u)"
     "\<And>s a. io_rel R (api_DetachStorage c s a)" "\<And>u t. io_rel R (api_CreateBackup c u t)"
     "\<And>u. io_rel R (api_ResizeStorageFilesystem c u)" "\<And>u s. io_rel R (api_WaitForStorageState c u s)"
     "\<And>u s. io_rel R (api_WaitForServerState c u s)" "io_rel R (api_GetServers c)"
     "\<And>u. io_rel R (api_GetServerDetails c u)" "io_rel R (api_GetFileStorages c)"
     "\<And>u. io_rel R (api_GetFileStorage c u)" "\<And>r. io_rel R (api_CreateFileStorage c r)"
     "\<And>u. io_rel R (api_DeleteFileStorage c u)" "\<And>u n. io_rel R (api_ModifyFileStorage c u n)"
     "\<And>u s. io_rel R (api_WaitForFileStorageOperationalState c u s)"
     "\<And>u. io_rel R (api_GetFileStorageShares c u)" "\<And>r. io_rel R (api_CreateFileStorageShare c r)"
     "\<And>r. io_rel R (api_CreateFileStorageShareACL c r)" "io_rel R (api_GetNetworks c)"
    using q by (simp_all add: quiet_client_def)
  show ?thesis
    by (unfold_locales; (rule r | rule t | (simp only: NewUpCloudService_def Service.select_convs upcloud_op_defs,
        intro rel_rules q' r t quiet_byName_details [OF q r t])))
qed

lemma quiet_attach_api:
  assumes "attach_api cl good at"
  shows "service_quiet (NewUpCloudService cl) (fewer good at)"
  using assms by (intro quiet_UpCloudService fewer_refl fewer_trans) (simp add: attach_api_def)

text \<open>Attaching through the service: at most one server more, for the storage asked for.\<close>

lemma AttachBlockStorage_grows:
  assumes api: "attach_api c good at" and g: "good w"
    and run: "UpCloudService_AttachBlockStorage c v srv w = (r, w')"
  shows "good w' \<and> length (at w' u) \<le> length (at w u) + (if u = v then 1 else 0)"
proof -
  have rel: "io_rel (fewer good at) (api_WaitForServerState c srv ServerStateStarted)"
    using api by (simp add: attach_api_def quiet_client_def)
  have wait: "good w1 \<Longrightarrow> good w2 \<and> length (at w2 u) \<le> length (at w1 u)"
    if "api_WaitForServerState c srv ServerStateStarted w1 = (r1, w2)" for w1 w2 r1
    using io_relD [OF rel that] by (auto simp: fewer_def)
  have grow: "good w1 \<Longrightarrow> good w2 \<and> length (at w2 u) \<le> length (at w1 u) + (if u = v then 1 else 0)"
    if "api_AttachStorage c srv v ''virtio'' w1 = (r1, w2)" for w1 w2 r1
    using api that by (cases "u = v") (auto simp: attach_api_def)
  show ?thesis
    using run g
    by (auto simp: UpCloudService_AttachBlockStorage_def waitForServerOnline_def io_defs
        split: prod.splits res.splits if_splits dest!: wait grow)
qed

section \<open>Publishing\<close>

text \<open>The invariant: no volume is attached to two servers.\<close>

definition single_attached :: "('w \<Rightarrow> bool) \<Rightarrow> ('w \<Rightarrow> string \<Rightarrow> string list) \<Rightarrow> 'w \<Rightarrow> bool" where
  "single_attached good at w \<longleftrightarrow> good w \<and> (\<forall>u. length (at w u) \<le> 1)"

lemma single_attached_fewer: "single_attached good at w \<Longrightarrow> fewer good at w w' \<Longrightarrow> single_attached good at w'"
  unfolding single_attached_def fewer_def by (meson order_trans)

text \<open>What \<open>findPublishTarget\<close> has read when it succeeds.\<close>

lemma findPublishTarget_reads:
  assumes s: "svc c = NewUpCloudService cl" and api: "attach_api cl good at" and g: "good w"
    and ok: "findPublishTarget c req w = (Ok (server, volume), w')"
  shows "length (at w' (Publish_VolumeId req)) \<le> length (ServerUUIDs volume)" and "[] \<notin> set (ServerUUIDs volume)"
proof -
  note q = quiet_attach_api [OF api]
  obtain w1 w2 where host: "UpCloudService_GetServerByHostname cl (Publish_NodeId req) w = (Ok server, w1)"
    and det: "UpCloudService_GetBlockStorageByUUID cl (Publish_VolumeId req) w1 = (Ok volume, w2)"
    and onl: "UpCloudService_RequireBlockStorageOnline cl (Storage.truncate volume) w2 = (Ok (), w')"
    using ok by (auto simp: findPublishTarget_def s NewUpCloudService_def io_defs
        split: prod.splits res.splits if_splits)
  have g1: "good w1"
    using io_relD [OF service_quiet.rel_GetServerByHostname [OF q], of "Publish_NodeId req" w "Ok server" w1] host g
    by (simp add: NewUpCloudService_def fewer_def)
  have g2: "good w2"
    using io_relD [OF service_quiet.rel_GetBlockStorageByUUID [OF q], of "Publish_VolumeId req" w1 "Ok volume" w2] det g1
    by (simp add: NewUpCloudService_def fewer_def)
  have "api_GetStorageDetails cl (Publish_VolumeId req) w1 = (Ok volume, w2)"
    using det by (auto simp: GetBlockStorageByUUID_cases split: prod.splits res.splits if_splits)
  then have at: "ServerUUIDs volume = at w2 (Publish_VolumeId req)" "[] \<notin> set (ServerUUIDs volume)"
    using api g1 unfolding attach_api_def by blast+
  from io_relD [OF service_quiet.rel_RequireBlockStorageOnline [OF q], of "Storage.truncate volume" w2 "Ok ()" w'] onl g2
  show "length (at w' (Publish_VolumeId req)) \<le> length (ServerUUIDs volume)"
    by (simp add: NewUpCloudService_def fewer_def at(1))
  show "[] \<notin> set (ServerUUIDs volume)" by (rule at(2))
qed

lemma attachVolumeToServer_single:
  assumes s: "svc c = NewUpCloudService cl" and api: "attach_api cl good at" and inv: "single_attached good at w"
    and rd: "length (at w (Publish_VolumeId req)) \<le> length (ServerUUIDs volume)" "[] \<notin> set (ServerUUIDs volume)"
    and run: "attachVolumeToServer c req server volume w = (r, w')"
  shows "single_attached good at w'"
proof (cases "ServerUUIDs volume = []")
  case False
  then have "attachedID (ServerUUIDs volume) \<noteq> []"
    using rd(2) by (auto simp: attachedID_def) (metis last_in_set)
  with run have "w' = w" by (auto simp: attachVolumeToServer_def io_app split: if_splits)
  with inv show ?thesis by simp
next
  case True
  then have empty: "at w (Publish_VolumeId req) = []" using rd(1) by simp
  have "w' = w \<or> (\<exists>r'. UpCloudService_AttachBlockStorage cl (Publish_VolumeId req) (Server_UUID server) w = (r', w'))"
    using run True
    by (auto simp: attachVolumeToServer_def s NewUpCloudService_def io_defs attachedID_def
        split: if_splits prod.splits res.splits)
  then show ?thesis
  proof (elim disjE exE)
    fix r'
    assume "UpCloudService_AttachBlockStorage cl (Publish_VolumeId req) (Server_UUID server) w = (r', w')"
    note grow = AttachBlockStorage_grows [OF api _ this]
    have g: "good w" using inv by (simp add: single_attached_def)
    show ?thesis
      unfolding single_attached_def
    proof (intro conjI allI)
      show "good w'" using grow [OF g] by simp
      fix u
      have "length (at w u) \<le> 1" using inv by (simp add: single_attached_def)
      with grow [OF g, of u] empty show "length (at w' u) \<le> 1"
        by (cases "u = Publish_VolumeId req") auto
    qed
  qed (use inv in simp)
qed

lemma ControllerPublishVolume_single:
  assumes s: "svc c = NewUpCloudService cl" and api: "attach_api cl good at" and inv: "single_attached good at w"
    and run: "ControllerPublishVolume c cid req w = (r, w')"
  shows "single_attached good at w'"
proof -
  note q = quiet_attach_api [OF api]
  have g: "good w" using inv by (simp add: single_attached_def)
  have "io_rel (fewer good at) (findPublishTarget (on_service (NewUpCloudService cl) c) req)"
    by (rule service_quiet.quiet_findPublishTarget [OF q])
  moreover have "on_service (NewUpCloudService cl) c = c" using s on_service_same [of c] by simp
  ultimately have rel: "io_rel (fewer good at) (findPublishTarget c req)" by simp
  obtain r1 w1 where f: "findPublishTarget c req w = (r1, w1)" by fastforce
  have inv1: "single_attached good at w1"
    using single_attached_fewer [OF inv io_relD [OF rel f]] .
  have "w' = w \<or> w' = w1 \<or> (\<exists>server volume r2. r1 = Ok (server, volume) \<and>
      attachVolumeToServer c req server volume w1 = (r2, w'))"
    using run f
    by (cases "validateControllerPublishVolumeRequest req"; cases r1)
      (auto simp: ControllerPublishVolume_def io_defs split: if_splits prod.splits res.splits)
  then show ?thesis
  proof (elim disjE exE conjE)
    fix server volume r2
    assume r1: "r1 = Ok (server, volume)" and a: "attachVolumeToServer c req server volume w1 = (r2, w')"
    from f r1 have f': "findPublishTarget c req w = (Ok (server, volume), w1)" by simp
    show ?thesis
      by (rule attachVolumeToServer_single [OF s api inv1 findPublishTarget_reads [OF s api g f'] a])
  qed (use inv inv1 in simp_all)
qed

section \<open>Runs of the controller\<close>

text \<open>\<open>reaches up c w w'\<close>: some sequence of requests, whatever their outcomes, leads from \<open>w\<close> to \<open>w'\<close>.\<close>

inductive reaches :: "(string \<Rightarrow> bool) \<Rightarrow> 'w Controller \<Rightarrow> 'w \<Rightarrow> 'w \<Rightarrow> bool" for up c where
  start: "reaches up c w w"
| step: "reaches up c w w' \<Longrightarrow> serve up c r w' = (x, w'') \<Longrightarrow> reaches up c w w''"

lemma serve_single:
  assumes s: "svc c = NewUpCloudService cl" and api: "attach_api cl good at" and inv: "single_attached good at w"
    and run: "serve up c r w = (x, w')"
  shows "single_attached good at w'"
proof (cases "\<exists>cid pr. r = PublishReq cid pr")
  case True
  then obtain cid pr where r: "r = PublishReq cid pr" by blast
  obtain y w1 where p: "ControllerPublishVolume c cid pr w = (y, w1)" by fastforce
  have "w' = w1" using run r p by (cases y) (auto simp: respond_def io_defs)
  with ControllerPublishVolume_single [OF s api inv p] show ?thesis by simp
next
  case False
  have "on_service (NewUpCloudService cl) c = c" using s on_service_same [of c] by simp
  with service_quiet.quiet_serve [OF quiet_attach_api [OF api], of r up c] False
  have "io_rel (fewer good at) (serve up c r)" by simp
  from single_attached_fewer [OF inv io_relD [OF this run]] show ?thesis .
qed

section \<open>The in-memory client keeps the contract\<close>

definition sample_at :: "sample_world \<Rightarrow> string \<Rightarrow> string list" where
  "sample_at w u = (case lookup_storage (sw_storages w) u of None \<Rightarrow> [] | Some s \<Rightarrow> ServerUUIDs s)"

definition sample_good :: "sample_world \<Rightarrow> bool" where
  "sample_good w \<longleftrightarrow> (\<forall>s \<in> set (sw_storages w). [] \<notin> set (ServerUUIDs s)) \<and>
     (\<forall>d \<in> set (sw_servers w). Server_UUID d \<noteq> [])"

lemma lookup_storage_append:
  "lookup_storage (ss @ [s]) u =
     (case lookup_storage ss u of Some x \<Rightarrow> Some x | None \<Rightarrow> if Storage_UUID s = u then Some s else None)"
  by (simp add: lookup_storage_def find_append split: option.splits)

lemma lookup_storage_map:
  assumes "\<And>s. Storage_UUID (f s) = Storage_UUID s"
  shows "lookup_storage (map f ss) u = map_option f (lookup_storage ss u)"
  using assms by (induction ss) (auto simp: lookup_storage_def)

lemma lookup_storage_filter:
  "lookup_storage (filter (\<lambda>s. Storage_UUID s \<noteq> v) ss) u = (if u = v then None else lookup_storage ss u)"
  by (induction ss) (auto simp: lookup_storage_def)

lemma sample_read_quiet: "(\<And>w. snd (m w) = w) \<Longrightarrow> io_rel (fewer sample_good sample_at) m"
  by (simp add: io_rel_def fewer_def)

lemma sample_create_quiet: "io_rel (fewer sample_good sample_at) (sample_create r)"
  by (rule io_relI) (auto simp: sample_create_def sample_storage_def fewer_def sample_good_def sample_at_def
      lookup_storage_append Let_def split: option.splits)

lemma sample_backup_quiet: "io_rel (fewer sample_good sample_at) (sample_backup u t)"
  by (rule io_relI) (auto simp: sample_backup_def sample_storage_def fewer_def sample_good_def sample_at_def
      lookup_storage_append Let_def split: option.splits)

lemma sample_delete_quiet: "io_rel (fewer sample_good sample_at) (sample_delete u)"
  by (rule io_relI) (auto simp: sample_delete_def fewer_def sample_good_def sample_at_def
      lookup_storage_filter split: option.splits)

lemma sample_modify_quiet: "io_rel (fewer sample_good sample_at) (sample_modify r)"
proof (rule io_relI)
  fix w
  show "fewer sample_good sample_at w (snd (sample_modify r w))"
  proof (cases "lookup_storage (sw_storages w) (ModifyStorage_UUID r)")
    case (Some s)
    then have s: "Storage_UUID s = ModifyStorage_UUID r" "s \<in> set (sw_storages w)"
      by (auto dest: lookup_storage_SomeD)
    have "length (sample_at (snd (sample_modify r w)) u) = length (sample_at w u)" for u
    proof (cases "lookup_storage (sw_storages w) u")
      case (Some x)
      then have "Storage_UUID x = u" by (auto dest: lookup_storage_SomeD)
      with Some s \<open>lookup_storage (sw_storages w) (ModifyStorage_UUID r) = Some s\<close> show ?thesis
        by (auto simp: sample_modify_def sample_at_def Let_def lookup_storage_map)
    qed (use Some s in \<open>simp add: sample_modify_def sample_at_def Let_def lookup_storage_map\<close>)
    with Some s show ?thesis
      by (auto simp: fewer_def sample_good_def sample_modify_def Let_def)
  qed (simp add: sample_modify_def fewer_def)
qed

text \<open>A change of one server and of the attachments of one storage.\<close>

lemma sample_put_at:
  "sample_at (sample_put d v f w) u =
     (if u = v \<and> lookup_storage (sw_storages w) u \<noteq> None then f (sample_at w u) else sample_at w u)"
  by (cases "lookup_storage (sw_storages w) u")
    (auto simp: sample_at_def sample_put_def lookup_storage_map dest: lookup_storage_SomeD)

lemma sample_put_good:
  assumes "sample_good w" and "Server_UUID d \<noteq> []" and "\<And>us. [] \<notin> set us \<Longrightarrow> [] \<notin> set (f us)"
  shows "sample_good (sample_put d v f w)"
  using assms by (auto simp: sample_good_def sample_put_def)

lemma sample_server_SomeD: "sample_server w u = Some d \<Longrightarrow> d \<in> set (sw_servers w) \<and> Server_UUID d = u"
  unfolding sample_server_def by (rule find_SomeD)

lemma sample_good_server: "sample_good w \<Longrightarrow> sample_server w u = Some d \<Longrightarrow> Server_UUID d = u \<and> u \<noteq> []"
  by (auto simp: sample_good_def dest: sample_server_SomeD)

lemma sample_detach_quiet: "io_rel (fewer sample_good sample_at) (sample_detach s a)"
  by (rule io_relI) (auto simp: sample_detach_def fewer_def sample_put_at Let_def length_filter_le
      dest: sample_good_server intro!: sample_put_good split: option.splits)

lemma sample_attach_grows:
  assumes "sample_good w" and "sample_attach s v a w = (r, w')"
  shows "sample_good w' \<and> (\<forall>u. u \<noteq> v \<longrightarrow> length (sample_at w' u) \<le> length (sample_at w u)) \<and>
    length (sample_at w' v) \<le> Suc (length (sample_at w v))"
  using assms
  by (auto simp: sample_attach_def sample_put_at Let_def dest: sample_good_server
      intro!: sample_put_good split: option.splits)

lemma Sample_Client_quiet: "quiet_client Sample_Client (fewer sample_good sample_at)"
  unfolding quiet_client_def
  by (intro conjI allI;
        simp add: Sample_Client_def sample_create_quiet sample_backup_quiet sample_delete_quiet sample_modify_quiet
          sample_detach_quiet;
        rule sample_read_quiet;
        simp add: sample_details_def sample_server_details_def sample_file_def sample_unsupported_def io_defs
          split: option.splits)

lemma Sample_Client_attach: "attach_api Sample_Client sample_good sample_at"
  unfolding attach_api_def
proof (intro conjI Sample_Client_quiet allI impI)
  fix w u s w'
  assume "sample_good w" and "api_GetStorageDetails Sample_Client u w = (Ok s, w')"
  then show "ServerUUIDs s = sample_at w' u" "[] \<notin> set (ServerUUIDs s)"
    by (auto simp: Sample_Client_def sample_details_def sample_at_def sample_good_def
        dest: lookup_storage_SomeD split: option.splits)
next
  fix w s v a r w'
  assume "sample_good w" and "api_AttachStorage Sample_Client s v a w = (r, w')"
  then have "sample_good w" "sample_attach s v a w = (r, w')" by (simp_all add: Sample_Client_def)
  note grows = sample_attach_grows [OF this]
  show "sample_good w'" "length (sample_at w' v) \<le> Suc (length (sample_at w v))" using grows by simp_all
  show "length (sample_at w' u) \<le> length (sample_at w u)" if "u \<noteq> v" for u using grows that by simp
qed

section \<open>Detaching\<close>

text \<open>What detaching relies on: the devices of a server include every storage attached to it, the four
  requests of the detach path attach nothing, their errors are the client's, not the driver's sentinels, and a
  storage that does not exist is not attached.\<close>

definition shrinks :: "('w \<Rightarrow> bool) \<Rightarrow> ('w \<Rightarrow> string \<Rightarrow> string list) \<Rightarrow> 'w \<Rightarrow> 'w \<Rightarrow> bool" where
  "shrinks good at w w' \<longleftrightarrow> (good w \<longrightarrow> good w' \<and> (\<forall>u. set (at w' u) \<subseteq> set (at w u)))"

lemma shrinks_refl: "reflp (shrinks good at)"
  by (simp add: reflp_def shrinks_def)

lemma shrinks_trans: "transp (shrinks good at)"
  unfolding transp_def shrinks_def by blast

definition lists_attached :: "('w \<Rightarrow> string \<Rightarrow> string list) \<Rightarrow> string \<Rightarrow> ServerDetails \<Rightarrow> 'w \<Rightarrow> bool" where
  "lists_attached at s d w \<longleftrightarrow> (\<forall>v. s \<in> set (at w v) \<longrightarrow> v \<in> Device_UUID ` set (StorageDevices d))"

definition own_errors :: "('a, 'w) io \<Rightarrow> bool" where
  "own_errors m \<longleftrightarrow> (\<forall>w e w' t. m w = (Err e, w') \<longrightarrow> \<not> errors_Is e t)"

lemma own_errorsD: "own_errors m \<Longrightarrow> m w = (Err e, w') \<Longrightarrow> \<not> errors_Is e t"
  unfolding own_errors_def by blast

definition detach_api :: "'w upCloudClient \<Rightarrow> ('w \<Rightarrow> bool) \<Rightarrow> ('w \<Rightarrow> string \<Rightarrow> string list) \<Rightarrow> bool" where
  "detach_api c good at \<longleftrightarrow>
     (\<forall>u. io_rel (shrinks good at) (api_GetStorageDetails c u)) \<and>
     (\<forall>s. io_rel (shrinks good at) (api_GetServerDetails c s)) \<and>
     (\<forall>s st. io_rel (shrinks good at) (api_WaitForServerState c s st)) \<and>
     (\<forall>s a. io_rel (shrinks good at) (api_DetachStorage c s a)) \<and>
     (\<forall>u. own_errors (api_GetStorageDetails c u)) \<and> (\<forall>s. own_errors (api_GetServerDetails c s)) \<and> (\<forall>s st. own_errors (api_WaitForServerState c s st)) \<and>
     (\<forall>s a. own_errors (api_DetachStorage c s a)) \<and>
     (\<forall>w u e w'. good w \<longrightarrow> api_GetStorageDetails c u w = (Err e, w') \<longrightarrow> problem_status e 404 \<longrightarrow> at w' u = []) \<and>
     (\<forall>w u sd w'. good w \<longrightarrow> api_GetStorageDetails c u w = (Ok sd, w') \<longrightarrow> set (at w' u) \<subseteq> set (ServerUUIDs sd)) \<and>
     (\<forall>w s d w'. good w \<longrightarrow> api_GetServerDetails c s w = (Ok d, w') \<longrightarrow> lists_attached at s d w') \<and>
     (\<forall>w s a d w'. good w \<longrightarrow> api_DetachStorage c s a w = (Ok d, w') \<longrightarrow> lists_attached at s d w')"

text \<open>Whatever its outcome the service's detach attaches nothing; when it returns success or the sentinel for a
  storage that is not attached, the server no longer has the storage.\<close>

lemma DetachBlockStorage_shrinks:
  assumes api: "detach_api c good at"
  shows "io_rel (shrinks good at) (UpCloudService_DetachBlockStorage c v s)"
  unfolding UpCloudService_DetachBlockStorage_def waitForServerOnline_def
  by (intro rel_rules shrinks_refl shrinks_trans) (use api in \<open>simp_all add: detach_api_def\<close>)

lemma DetachBlockStorage_detaches:
  assumes api: "detach_api c good at" and g: "good w"
    and run: "UpCloudService_DetachBlockStorage c v s w = (r, w')"
    and fine: "r = Ok () \<or> (\<exists>e. r = Err e \<and> errors_Is e ErrServerStorageNotFound)"
  shows "s \<notin> set (at w' v)"
proof -
  let ?wait = "\<lambda>d. if Server_State d \<noteq> ServerStateStarted then waitForServerOnline c s else ret ()"
  have rel: "io_rel (shrinks good at) (api_GetServerDetails c s)" "\<And>st. io_rel (shrinks good at) (api_WaitForServerState c s st)"
    "\<And>a. io_rel (shrinks good at) (api_DetachStorage c s a)"
    and own: "own_errors (api_GetServerDetails c s)" "\<And>st. own_errors (api_WaitForServerState c s st)"
    "\<And>a. own_errors (api_DetachStorage c s a)"
    using api by (simp_all add: detach_api_def)
  obtain d w1 where d: "api_GetServerDetails c s w = (Ok d, w1)"
    using run fine own(1) by (auto simp: UpCloudService_DetachBlockStorage_def io_defs own_errors_def
        split: prod.splits res.splits)
  have g1: "good w1" using io_relD [OF rel(1) d] g by (simp add: shrinks_def)
  have l1: "s \<in> set (at w1 v) \<Longrightarrow> v \<in> Device_UUID ` set (StorageDevices d)"
    using api g d unfolding detach_api_def lists_attached_def by blast
  have waitrel: "io_rel (shrinks good at) (?wait d)"
    unfolding waitForServerOnline_def by (intro rel_rules shrinks_refl rel(2))
  obtain w2 where w2: "?wait d w1 = (Ok (), w2)"
    using run d fine own_errorsD [OF own(2)] by (auto simp: UpCloudService_DetachBlockStorage_def waitForServerOnline_def io_defs
        split: prod.splits res.splits if_splits)
  have g2: "good w2" and s2: "set (at w2 v) \<subseteq> set (at w1 v)"
    using io_relD [OF waitrel w2] g1 by (simp_all add: shrinks_def)
  show ?thesis
  proof (cases "find (\<lambda>device. Device_UUID device = v) (StorageDevices d)")
    case None
    then have "v \<notin> Device_UUID ` set (StorageDevices d)" by (auto simp: find_None_iff)
    moreover have "w' = w2"
      using run d w2 None by (simp add: UpCloudService_DetachBlockStorage_def call_Ok io_app)
    ultimately show ?thesis using l1 s2 by blast
  next
    case (Some dev)
    have run': "call (api_DetachStorage c s (Device_Address dev)) throw (\<lambda>details.
        if list_ex (\<lambda>s. v = Device_UUID s) (StorageDevices details)
        then throw (Errorf ''storage device still attached'') else waitForServerOnline c s) w2 = (r, w')"
      using run d w2 Some by (simp add: UpCloudService_DetachBlockStorage_def call_Ok)
    obtain d3 w3 where d3: "api_DetachStorage c s (Device_Address dev) w2 = (Ok d3, w3)"
      using run' fine own(3) by (auto simp: io_defs own_errors_def split: prod.splits res.splits)
    have g3: "good w3" using io_relD [OF rel(3) d3] g2 by (simp add: shrinks_def)
    have l3: "s \<in> set (at w3 v) \<Longrightarrow> v \<in> Device_UUID ` set (StorageDevices d3)"
      using api g2 d3 unfolding detach_api_def lists_attached_def by blast
    have gone: "\<not> list_ex (\<lambda>s. v = Device_UUID s) (StorageDevices d3)"
      using run' d3 fine by (auto simp: call_Ok io_app split: if_splits)
    then have "api_WaitForServerState c s ServerStateStarted w3 = (r, w')"
      using run' d3 by (simp add: call_Ok waitForServerOnline_def)
    from io_relD [OF rel(2) this] g3 have "set (at w' v) \<subseteq> set (at w3 v)" by (simp add: shrinks_def)
    with l3 gone show ?thesis by (auto simp: list_ex_iff)
  qed
qed

lemma detachFromServers_detaches:
  assumes api: "detach_api cl good at" and s: "svc c = NewUpCloudService cl" and g: "good w"
    and run: "detachFromServers c v ss w = (Ok (), w')"
  shows "set (at w' v) \<subseteq> set (at w v) - set ss"
  using g run
proof (induction ss arbitrary: w)
  case (Cons x ss)
  obtain r w1 where r: "UpCloudService_DetachBlockStorage cl v x w = (r, w1)" by fastforce
  from io_relD [OF DetachBlockStorage_shrinks [OF api] r] Cons.prems(1)
  have g1: "good w1" and sub: "set (at w1 v) \<subseteq> set (at w v)" by (simp_all add: shrinks_def)
  have fine: "r = Ok () \<or> (\<exists>e. r = Err e \<and> errors_Is e ErrServerStorageNotFound)"
    and rest: "detachFromServers c v ss w1 = (Ok (), w')"
    using Cons.prems(2) r by (auto simp: s NewUpCloudService_def io_defs split: res.splits if_splits)
  have "x \<notin> set (at w1 v)" by (rule DetachBlockStorage_detaches [OF api Cons.prems(1) r fine])
  with Cons.IH [OF g1 rest] sub show ?case by auto
qed (simp add: io_app)

lemma unpublishVolumeFromAllNodes_detaches:
  assumes api: "detach_api cl good at" and s: "svc c = NewUpCloudService cl" and g: "good w"
    and run: "unpublishVolumeFromAllNodes c req w = (Ok (), w')"
  shows "at w' (Unpublish_VolumeId req) = []"
proof -
  let ?v = "Unpublish_VolumeId req"
  obtain r w1 where r: "api_GetStorageDetails cl ?v w = (r, w1)" by fastforce
  have rel: "io_rel (shrinks good at) (api_GetStorageDetails cl ?v)" and own: "own_errors (api_GetStorageDetails cl ?v)"
    using api by (simp_all add: detach_api_def)
  have g1: "good w1" using io_relD [OF rel r] g by (simp add: shrinks_def)
  show ?thesis
  proof (cases r)
    case (Ok sd)
    then have "set (at w1 ?v) \<subseteq> set (ServerUUIDs sd)"
      using api g r unfolding detach_api_def by blast
    moreover have "detachFromServers c ?v (ServerUUIDs sd) w1 = (Ok (), w')"
      using run r Ok by (simp add: unpublishVolumeFromAllNodes_def s NewUpCloudService_def
          UpCloudService_GetBlockStorageByUUID_def call_def io_app)
    ultimately have "set (at w' ?v) \<subseteq> {}"
      using detachFromServers_detaches [OF api s g1] by blast
    then show ?thesis by simp
  next
    case (Err e)
    have "problem_status e 404 \<and> w' = w1"
      using run r Err own
      by (auto simp: unpublishVolumeFromAllNodes_def s NewUpCloudService_def own_errors_def
          UpCloudService_GetBlockStorageByUUID_def call_def io_app split: if_splits)
    then show ?thesis
      using api g r Err unfolding detach_api_def by blast
  next
    case Panic
    with run r show ?thesis
      by (simp add: unpublishVolumeFromAllNodes_def s NewUpCloudService_def
          UpCloudService_GetBlockStorageByUUID_def call_def)
  qed
qed

section \<open>The in-memory client keeps the detach contract\<close>

definition sample_linked :: "sample_world \<Rightarrow> bool" where
  "sample_linked w \<longleftrightarrow>
     (\<forall>v s. s \<in> set (sample_at w v) \<longrightarrow> (\<exists>d. sample_server w s = Some d \<and> v \<in> Device_UUID ` set (StorageDevices d))) \<and>
     (\<forall>d \<in> set (sw_servers w). distinct (map Device_Address (StorageDevices d)))"

lemma sample_put_server:
  "sample_server (sample_put d v f w) u =
     (if u = Server_UUID d then map_option (\<lambda>_. d) (sample_server w u) else sample_server w u)"
proof -
  have "find (\<lambda>s. Server_UUID s = u) (map (\<lambda>x. if Server_UUID x = Server_UUID d then d else x) xs) =
      (if u = Server_UUID d then map_option (\<lambda>_. d) (find (\<lambda>s. Server_UUID s = u) xs)
       else find (\<lambda>s. Server_UUID s = u) xs)" for xs
    by (induction xs) auto
  then show ?thesis by (simp add: sample_server_def sample_put_def)
qed

lemma sample_detach_linked:
  assumes l: "sample_linked w" and d: "sample_server w s = Some d"
    and dev: "find (\<lambda>x. Device_Address x = a) (StorageDevices d) = Some dev"
  defines "d' \<equiv> d\<lparr>StorageDevices := filter (\<lambda>x. Device_Address x \<noteq> a) (StorageDevices d)\<rparr>"
  shows "sample_linked (sample_put d' (Device_UUID dev) (filter (\<lambda>x. x \<noteq> s)) w)"
proof -
  let ?w = "sample_put d' (Device_UUID dev) (filter (\<lambda>x. x \<noteq> s)) w"
  have ds: "d \<in> set (sw_servers w)" "Server_UUID d' = s"
    using d by (auto simp: d'_def dest: sample_server_SomeD)
  have dist: "distinct (map Device_Address (StorageDevices d))"
    using l ds(1) by (simp add: sample_linked_def)
  have dv: "dev \<in> set (StorageDevices d)" "Device_Address dev = a" using find_SomeD [OF dev] by simp_all
  have "\<exists>e. sample_server ?w x = Some e \<and> v \<in> Device_UUID ` set (StorageDevices e)" if x: "x \<in> set (sample_at ?w v)" for v x
  proof -
    have at: "x \<in> set (sample_at w v)" and ne: "v = Device_UUID dev \<Longrightarrow> x \<noteq> s"
      using x unfolding sample_put_at by (auto simp: sample_at_def split: if_splits)
    then obtain e where e: "sample_server w x = Some e" "v \<in> Device_UUID ` set (StorageDevices e)"
      using l unfolding sample_linked_def by blast
    show ?thesis
    proof (cases "x = s")
      case False
      with e ds(2) show ?thesis by (simp add: sample_put_server)
    next
      case True
      with e d obtain y where y: "y \<in> set (StorageDevices d)" "Device_UUID y = v" by auto
      with ne True have "y \<noteq> dev" by blast
      then have "Device_Address y \<noteq> a" using dist dv y(1) by (auto simp: distinct_map dest: inj_onD)
      with True y d ds(2) show ?thesis by (auto simp: sample_put_server d'_def)
    qed
  qed
  moreover have "distinct (map Device_Address (StorageDevices e))" if "e \<in> set (sw_servers ?w)" for e
    using that l dist by (auto simp: sample_put_def sample_linked_def d'_def distinct_map_filter)
  ultimately show ?thesis unfolding sample_linked_def by blast
qed

lemma sample_linked_reads:
  "(\<And>w. snd (m w) = w) \<Longrightarrow> io_rel (shrinks sample_linked sample_at) m"
  by (simp add: io_rel_def shrinks_def)

lemma sample_detach_shrinks: "io_rel (shrinks sample_linked sample_at) (sample_detach s a)"
  by (rule io_relI) (auto simp: sample_detach_def shrinks_def sample_put_at Let_def
      intro: sample_detach_linked split: option.splits if_splits)

lemma sample_linked_lists:
  "sample_linked w \<Longrightarrow> sample_server w s = Some d \<Longrightarrow> lists_attached sample_at s d w"
  unfolding sample_linked_def lists_attached_def by fastforce

lemma Sample_Client_detach: "detach_api Sample_Client sample_linked sample_at"
  unfolding detach_api_def
proof (intro conjI allI impI)
  fix w s a d w'
  assume l: "sample_linked w" and "api_DetachStorage Sample_Client s a w = (Ok d, w')"
  then have run: "sample_detach s a w = (Ok d, w')" by (simp add: Sample_Client_def)
  have "sample_linked w'" using io_relD [OF sample_detach_shrinks run] l by (simp add: shrinks_def)
  moreover have "sample_server w' s = Some d"
    using run by (auto simp: sample_detach_def Let_def sample_put_server split: option.splits dest: sample_server_SomeD)
  ultimately show "lists_attached sample_at s d w'" by (rule sample_linked_lists)
qed (auto simp: Sample_Client_def sample_details_def sample_server_details_def sample_at_def own_errors_def problem404_def sample_detach_def io_defs Let_def
    intro!: sample_linked_reads sample_detach_shrinks sample_linked_lists split: option.splits)

section \<open>Properties\<close>

text \<open>C2. No sequence of controller requests, whatever their outcomes, attaches a block volume to two servers: from a
  world where every volume has at most one server, every world the controller can reach is such a world. The
  API may be any client that keeps \<open>attach_api\<close>.\<close>

theorem controller_single_attach:
  assumes s: "svc c = NewUpCloudService cl" and api: "attach_api cl good at"
    and inv: "single_attached good at w" and run: "reaches up c w w'"
  shows "single_attached good at w'"
  using run inv
proof (induction rule: reaches.induct)
  case (step w w' r x w'')
  then show ?case using serve_single [OF s api] by blast
qed

definition sample_publish_request :: ControllerPublishVolumeRequest where
  "sample_publish_request = \<lparr>Publish_VolumeId = ''01'', Publish_NodeId = ''node-1'',
     Publish_VolumeCapability = Some \<lparr>AccessMode = Some SINGLE_NODE_WRITER, AccessType = Some Block\<rparr>,
     Publish_Readonly = False, Publish_VolumeContext = Map.empty\<rparr>"

definition sample_attached :: sample_world where
  "sample_attached = snd (serve (\<lambda>_. True) sample_controller (PublishReq [] sample_publish_request) (sample_with_volume 2))"

lemma sample_attached_eq:
  "sample_attached = (sample_with_volume 2)
     \<lparr>sw_servers := [(sample_server_of ''00a'' ''node-1'')\<lparr>StorageDevices := [\<lparr>Device_Address = ''virtio01'',
         Device_UUID = ''01'', Device_Size = 0\<rparr>]\<rparr>, sample_server_of ''00b'' ''node-2''],
      sw_storages := [(sample_storage ''01'' ''pvc'' 2 ''fi-hel1'' StorageTypeNormal [])\<lparr>ServerUUIDs := [''00a'']\<rparr>]\<rparr>"
  by (simp add: sample_attached_def sample_publish_request_def sample_run_defs sample_defs respond_def
      ControllerPublishVolume_def validateControllerPublishVolumeRequest_def findPublishTarget_def
      attachVolumeToServer_def attachedID_def map_get_def volumeTypeFileStorage_def NewUpCloudService_def
      UpCloudService_GetServerByHostname_def UpCloudService_GetBlockStorageByUUID_def
      UpCloudService_RequireBlockStorageOnline_def UpCloudService_AttachBlockStorage_def waitForServerOnline_def
      Storage.truncate_def Server.truncate_def Let_def call_def io_app)

theorem controller_single_attach_witness:
  "single_attached sample_good sample_at sample_attached \<and> sample_at sample_attached ''01'' = [''00a'']"
proof
  have "single_attached sample_good sample_at (sample_with_volume 2)"
    by (auto simp: single_attached_def sample_good_def sample_at_def sample_run_defs sample_storage_def
        lookup_storage_def)
  moreover have "reaches (\<lambda>_. True) sample_controller (sample_with_volume 2) sample_attached"
    unfolding sample_attached_def by (rule reaches.step [OF reaches.start]) (rule prod.collapse [symmetric])
  ultimately show "single_attached sample_good sample_at sample_attached"
    by (rule controller_single_attach [OF sample_svc Sample_Client_attach])
  show "sample_at sample_attached ''01'' = [''00a'']"
    by (simp add: sample_attached_eq sample_at_def lookup_storage_def sample_storage_def)
qed

text \<open>C6. When \<open>ControllerUnpublishVolume\<close> without a node succeeds for a block volume, the volume is attached to
  no server, whether it was attached to one, to several or to none, or does not exist any more.\<close>

theorem ControllerUnpublishVolume_all:
  assumes s: "svc c = NewUpCloudService cl" and api: "detach_api cl good at" and g: "good w"
    and all: "Unpublish_NodeId req = []" and b: "\<not> IsValidFileStorageUUID up (Unpublish_VolumeId req)"
    and ok: "ControllerUnpublishVolume up c req w = (Ok (), w')"
  shows "at w' (Unpublish_VolumeId req) = []"
proof -
  have "unpublishVolumeFromAllNodes c req w = (Ok (), w')"
    using ok all b by (auto simp: ControllerUnpublishVolume_def io_app split: if_splits)
  then show ?thesis by (rule unpublishVolumeFromAllNodes_detaches [OF api s g])
qed

theorem ControllerUnpublishVolume_all_witness:
  "\<exists>w'. ControllerUnpublishVolume (\<lambda>_. True) sample_controller
      \<lparr>Unpublish_VolumeId = ''01'', Unpublish_NodeId = []\<rparr> sample_attached = (Ok (), w') \<and> sample_at w' ''01'' = []"
proof -
  let ?req = "\<lparr>Unpublish_VolumeId = ''01'', Unpublish_NodeId = []\<rparr>"
  obtain w' where ok: "ControllerUnpublishVolume (\<lambda>_. True) sample_controller ?req sample_attached = (Ok (), w')"
    by (simp add: ControllerUnpublishVolume_def unpublishVolumeFromAllNodes_def uuid_defs sample_attached_eq
        sample_run_defs sample_defs NewUpCloudService_def UpCloudService_GetBlockStorageByUUID_def
        UpCloudService_DetachBlockStorage_def waitForServerOnline_def Let_def call_def io_app)
  have linked: "sample_linked sample_attached"
    by (auto simp: sample_linked_def sample_attached_eq sample_at_def sample_run_defs sample_defs split: if_splits)
  have "\<not> IsValidFileStorageUUID (\<lambda>_. True) (Unpublish_VolumeId ?req)" by (simp add: uuid_defs)
  from ControllerUnpublishVolume_all [OF sample_svc Sample_Client_detach linked _ this ok] ok
  show ?thesis by auto
qed

end
