(* ===== verification/Controller_Refinement.thy ===== *)
theory Controller_Refinement
  imports Controller Metrics_Service
begin

text \<open>
  The controller over a wrapped service. Under the contract \<open>service_wrapper\<close> every handler on the
  outer service simulates the same handler on the inner one; the interpretation for
  \<open>instrumentedService\<close> gives the result for the service the plugin runs with.
\<close>

lemma sim_createVolumeExistsResponse [sim_rules]:
  "io_sim p (createVolumeExistsResponse req vs) (createVolumeExistsResponse req vs)"
  unfolding createVolumeExistsResponse_def by (intro sim_rules)

lemma sim_createFileStorageExistsResponse [sim_rules]:
  "io_sim p (createFileStorageExistsResponse req fs) (createFileStorageExistsResponse req fs)"
  unfolding createFileStorageExistsResponse_def by (intro sim_rules)

lemma sim_snapshot_page [sim_rules]: "io_sim p (snapshot_page bs s n) (snapshot_page bs s n)"
  unfolding snapshot_page_def by (intro sim_rules)

lemma sim_listSnapshotsErrorResponse [sim_rules]:
  "io_sim p (listSnapshotsErrorResponse e) (listSnapshotsErrorResponse e)"
  unfolding listSnapshotsErrorResponse_def by (intro sim_rules)

context service_wrapper
begin

lemma sim_lookupVolume [sim_rules]:
  "io_sim proj (lookupVolume up (on_service outer c) u) (lookupVolume up (on_service inner c) u)"
  unfolding lookupVolume_def on_service_simps by (intro sim_rules)

lemma sim_createVolumeFromSource [sim_rules]:
  "io_sim proj (createVolumeFromSource (on_service outer c) req n t) (createVolumeFromSource (on_service inner c) req n t)"
  unfolding createVolumeFromSource_def on_service_simps by (intro sim_rules)

lemma sim_createBlockStorageVolume [sim_rules]:
  "io_sim proj (createBlockStorageVolume (on_service outer c) req) (createBlockStorageVolume (on_service inner c) req)"
  unfolding createBlockStorageVolume_def on_service_simps Let_def by (intro sim_rules)

lemma sim_discoverClusterNetwork [sim_rules]:
  "io_sim proj (discoverClusterNetwork (on_service outer c)) (discoverClusterNetwork (on_service inner c))"
  unfolding discoverClusterNetwork_def on_service_simps Let_def by (intro sim_rules)

lemma sim_createFileStorageVolume [sim_rules]:
  "io_sim proj (createFileStorageVolume (on_service outer c) req) (createFileStorageVolume (on_service inner c) req)"
  unfolding createFileStorageVolume_def on_service_simps Let_def by (intro sim_rules)

lemma sim_CreateVolume:
  "io_sim proj (CreateVolume (on_service outer c) req) (CreateVolume (on_service inner c) req)"
  unfolding CreateVolume_def on_service_simps by (intro sim_rules)

lemma sim_DeleteVolume:
  "io_sim proj (DeleteVolume up (on_service outer c) u) (DeleteVolume up (on_service inner c) u)"
  unfolding DeleteVolume_def on_service_simps by (intro sim_rules)

lemma sim_ControllerPublishVolume:
  "io_sim proj (ControllerPublishVolume (on_service outer c) cid pr) (ControllerPublishVolume (on_service inner c) cid pr)"
  unfolding ControllerPublishVolume_def findPublishTarget_def attachVolumeToServer_def on_service_simps
  by (intro sim_rules)

lemma sim_detachFromServers [sim_rules]:
  "io_sim proj (detachFromServers (on_service outer c) v ss) (detachFromServers (on_service inner c) v ss)"
  by (induction ss) (auto intro!: sim_rules)

lemma sim_ControllerUnpublishVolume:
  "io_sim proj (ControllerUnpublishVolume up (on_service outer c) ur) (ControllerUnpublishVolume up (on_service inner c) ur)"
  unfolding ControllerUnpublishVolume_def unpublishVolumeFromAllNodes_def detachVolumeFromNode_def on_service_simps
  by (intro sim_rules)

lemma sim_ValidateVolumeCapabilities:
  "io_sim proj (ValidateVolumeCapabilities up (on_service outer c) u caps)
     (ValidateVolumeCapabilities up (on_service inner c) u caps)"
  unfolding ValidateVolumeCapabilities_def Let_def by (intro sim_rules)

lemma sim_ListVolumes:
  "io_sim proj (ListVolumes (on_service outer c) t n) (ListVolumes (on_service inner c) t n)"
  unfolding ListVolumes_def on_service_simps Let_def by (intro sim_rules)

lemma sim_expand [sim_rules]:
  "io_sim proj (expandBlockStorage (on_service outer c) er sd) (expandBlockStorage (on_service inner c) er sd)"
  "io_sim proj (expandFileStorage (on_service outer c) er fs) (expandFileStorage (on_service inner c) er fs)"
  unfolding expandBlockStorage_def expandFileStorage_def on_service_simps Let_def by (intro sim_rules)+

lemma sim_found_volume [sim_rules]:
  assumes "\<And>b. io_sim proj (f b) (f' b)" and "\<And>b. io_sim proj (g b) (g' b)"
  shows "io_sim proj (case x of FoundFile b \<Rightarrow> f b | FoundBlock b \<Rightarrow> g b) (case x of FoundFile b \<Rightarrow> f' b | FoundBlock b \<Rightarrow> g' b)"
  using assms by (cases x) simp_all

lemma sim_ControllerExpandVolume:
  "io_sim proj (ControllerExpandVolume up (on_service outer c) er) (ControllerExpandVolume up (on_service inner c) er)"
  unfolding ControllerExpandVolume_def by (intro sim_rules)

lemma sim_CreateSnapshot:
  "io_sim proj (CreateSnapshot up (on_service outer c) sr) (CreateSnapshot up (on_service inner c) sr)"
  unfolding CreateSnapshot_def on_service_simps by (intro sim_rules)

lemma sim_DeleteSnapshot:
  "io_sim proj (DeleteSnapshot up (on_service outer c) u) (DeleteSnapshot up (on_service inner c) u)"
  unfolding DeleteSnapshot_def on_service_simps by (intro sim_rules)

lemma sim_ListSnapshots:
  "io_sim proj (ListSnapshots (on_service outer c) lr) (ListSnapshots (on_service inner c) lr)"
  unfolding ListSnapshots_def on_service_simps by (intro sim_rules)

lemma sim_GetSnapshot:
  "io_sim proj (GetSnapshot (on_service outer c) u) (GetSnapshot (on_service inner c) u)"
  unfolding GetSnapshot_def on_service_simps by (intro sim_rules)

lemmas sim_handlers = sim_CreateVolume sim_DeleteVolume sim_ControllerPublishVolume
  sim_ControllerUnpublishVolume sim_ValidateVolumeCapabilities sim_ListVolumes
  sim_ControllerExpandVolume sim_CreateSnapshot sim_DeleteSnapshot sim_ListSnapshots sim_GetSnapshot

lemma sim_serve: "io_sim proj (serve up (on_service outer c) r) (serve up (on_service inner c) r)"
  by (cases r) (simp_all add: sim_handlers respond_sim)

end

end
