(* ===== verification/Controller_Volumes.thy ===== *)
theory Controller_Volumes
  imports Controller_Lifecycle
begin

text \<open>
  Properties of the other volume operations: the capacity a request is granted, expansion, snapshots and their
  repetition, the validation of capabilities, and the errors of lookups.
\<close>

section \<open>Capacity\<close>

text \<open>C20. \<open>validateCapacityRange\<close> refuses a range exactly when it must: a single bound that is not a supported size, or
  two bounds that admit no supported size. An accepted size satisfies both bounds and does not exceed the maximum;
  it is below the minimum only in one case, a required size below the minimum together with a limit at or above it.\<close>

theorem validateCapacityRange_correct:
  assumes "0 < mn" and "mn \<le> mx"
  shows "case validateCapacityRange (Some r) mn mx of
      Ok n \<Rightarrow> \<not> refused r mn mx \<and> admits r n \<and> n \<le> mx \<and>
        (mn \<le> n \<or> n = RequiredBytes r \<and> 0 < n \<and> n < mn \<and> mn \<le> LimitBytes r)
    | Err e \<Rightarrow> refused r mn mx
    | Panic \<Rightarrow> False"
proof (cases "validateCapacityRange (Some r) mn mx")
  case (Ok n)
  then have "\<not> refused r mn mx" using validateCapacityRange_Err [OF assms, of r] by simp
  with Ok validateCapacityRange_Ok [OF assms Ok] show ?thesis by simp
next
  case (Err e)
  then show ?thesis using validateCapacityRange_Err [OF assms, of r] by auto
next
  case Panic
  then show ?thesis using validateCapacityRange_not_Panic by simp
qed

theorem validateCapacityRange_correct_witness:
  "validateCapacityRange (Some \<lparr>RequiredBytes = 1, LimitBytes = 2 * giB\<rparr>) minBlockStorageSize maxBlockStorageSize = Ok 1 \<and>
   \<not> refused \<lparr>RequiredBytes = 1, LimitBytes = 2 * giB\<rparr> minBlockStorageSize maxBlockStorageSize"
proof -
  have 1: "validateCapacityRange (Some \<lparr>RequiredBytes = 1, LimitBytes = 2 * giB\<rparr>) minBlockStorageSize maxBlockStorageSize = Ok 1"
    by (simp add: validateCapacityRange_def size_defs)
  have "0 < minBlockStorageSize" "minBlockStorageSize \<le> maxBlockStorageSize" by (simp_all add: size_defs)
  from validateCapacityRange_correct [OF this, of "\<lparr>RequiredBytes = 1, LimitBytes = 2 * giB\<rparr>"] 1
  show ?thesis by simp
qed

section \<open>Expansion\<close>

lemma expandBlockStorage_OkD:
  assumes "expandBlockStorage c req volume w = (Ok resp, w')"
  obtains n where "validateCapacityRange (Expand_CapacityRange req) minBlockStorageSize maxBlockStorageSize = Ok n"
    and "if n div giB \<le> Storage_Size volume
      then w' = w \<and> Expand_CapacityBytes resp = i64 (Storage_Size volume * giB)
      else Expand_CapacityBytes resp = n div giB * giB \<and>
        (\<exists>sd. svc_ResizeBlockDevice (svc c) (Storage_UUID volume) (n div giB) w = (Ok sd, w'))"
    and "Expand_NodeExpansionRequired resp = (\<not> isBlockDevice (Expand_VolumeCapability req))"
proof -
  obtain n where n: "validateCapacityRange (Expand_CapacityRange req) minBlockStorageSize maxBlockStorageSize = Ok n"
    using assms validateCapacityRange_not_Panic
    by (cases "validateCapacityRange (Expand_CapacityRange req) minBlockStorageSize maxBlockStorageSize")
      (auto simp: expandBlockStorage_def io_app)
  note sz = block_size_i64 [OF n]
  show ?thesis
    by (rule that [OF n])
      (use assms n sz in \<open>auto simp: expandBlockStorage_def Let_def io_defs split: if_splits prod.splits res.splits\<close>)
qed



section \<open>Snapshots\<close>

definition backups_named :: "string \<Rightarrow> StorageDetails list \<Rightarrow> StorageDetails list" where
  "backups_named n ss = filter (\<lambda>s. Storage_Type s = StorageTypeBackup \<and> Storage_Title s = n) ss"

lemma find_filter: "find P (filter Q xs) = find (\<lambda>x. Q x \<and> P x) xs"
  by (induction xs) auto

lemma find_map_truncate:
  "find (\<lambda>s. Storage_Title s = n) (map Storage.truncate ss) =
     map_option Storage.truncate (find (\<lambda>s. Storage_Title s = n) ss)"
  by (induction ss) (auto simp: Storage.truncate_def)

lemma find_hd_filter: "find P xs = (case filter P xs of [] \<Rightarrow> None | x # _ \<Rightarrow> Some x)"
  by (induction xs) auto

lemma GetBlockStorageBackupByName_lookup:
  assumes "reads_storage cl vs"
  shows "UpCloudService_GetBlockStorageBackupByName cl n w =
    (case backups_named n (vs w) of [] \<Rightarrow> (Err (Sentinel ErrStorageNotFound), w)
     | s # _ \<Rightarrow> (Ok (Storage.truncate s), w))"
proof -
  have "find (\<lambda>s. Storage_Title s = n) (map Storage.truncate (filter (\<lambda>s. Storage_Type s = StorageTypeBackup) (vs w))) =
      (case backups_named n (vs w) of [] \<Rightarrow> None | s # _ \<Rightarrow> Some (Storage.truncate s))"
    unfolding find_map_truncate find_filter backups_named_def
    by (simp add: find_hd_filter split: list.splits)
  then show ?thesis
    using assms by (simp add: UpCloudService_GetBlockStorageBackupByName_def reads_storage_def call_def io_app
        split: list.splits)
qed

lemma snapshot_of_truncate: "snapshot_of (Storage.truncate s) = snapshot_of s"
  by (simp add: snapshot_of_def Storage.truncate_def)

text \<open>\<open>CreateSnapshot\<close> after its argument checks, over the storages of the world.\<close>

lemma CreateSnapshot_lookup:
  assumes "svc c = NewUpCloudService cl" and "reads_storage cl vs"
    and "CreateSnapshot_Name req \<noteq> []" and "CreateSnapshot_SourceVolumeId req \<noteq> []"
    and "\<not> IsValidFileStorageUUID up (CreateSnapshot_SourceVolumeId req)"
  shows "CreateSnapshot up c req w =
    (case backups_named (CreateSnapshot_Name req) (vs w) of
       s # _ \<Rightarrow> (if Storage_Origin s \<noteq> CreateSnapshot_SourceVolumeId req then Err (Status AlreadyExists)
                 else Ok (snapshot_of s), w)
     | [] \<Rightarrow> call (UpCloudService_CreateBlockStorageBackup cl (CreateSnapshot_SourceVolumeId req) (CreateSnapshot_Name req))
              (\<lambda>e. if errors_Is e ErrBackupInProgress then throw (Status Aborted) else throw (Status Internal))
              (\<lambda>sd. ret (snapshot_of sd)) w)"
proof -
  have g: "svc_GetBlockStorageBackupByName (svc c) (CreateSnapshot_Name req) w =
      (case backups_named (CreateSnapshot_Name req) (vs w) of [] \<Rightarrow> (Err (Sentinel ErrStorageNotFound), w)
       | s # _ \<Rightarrow> (Ok (Storage.truncate s), w))"
    using GetBlockStorageBackupByName_lookup [OF assms(2)] by (simp add: assms(1) NewUpCloudService_def)
  have cb: "svc_CreateBlockStorageBackup (svc c) = UpCloudService_CreateBlockStorageBackup cl"
    by (simp add: assms(1) NewUpCloudService_def)
  show ?thesis
  proof (cases "backups_named (CreateSnapshot_Name req) (vs w)")
    case Nil
    with g assms(3-5) show ?thesis
      by (simp add: CreateSnapshot_def call_assoc call_Err cb)
  next
    case (Cons s ss)
    with g assms(3-5) show ?thesis
      by (simp add: CreateSnapshot_def call_assoc call_Ok io_app snapshot_of_truncate) (simp add: Storage.truncate_def)
  qed
qed

text \<open>C22. A successful \<open>CreateSnapshot\<close> names exactly one backup, of the requested volume; repeating the request returns the same
  snapshot and changes nothing, and the same name for another volume is refused with AlreadyExists.\<close>

theorem CreateSnapshot_retry:
  assumes s: "svc c = NewUpCloudService cl" and api: "storage_api cl vs" and d: "distinct_storages (vs w)"
    and ok: "CreateSnapshot up c req w = (Ok sn, w')"
  shows "Snapshot_SourceVolumeId sn = CreateSnapshot_SourceVolumeId req \<and> CreateSnapshot up c req w' = (Ok sn, w') \<and>
    (\<forall>v. v \<noteq> CreateSnapshot_SourceVolumeId req \<and> v \<noteq> [] \<and> \<not> IsValidFileStorageUUID up v \<longrightarrow>
       CreateSnapshot up c (req\<lparr>CreateSnapshot_SourceVolumeId := v\<rparr>) w' = (Err (Status AlreadyExists), w'))"
proof -
  let ?n = "CreateSnapshot_Name req" and ?v = "CreateSnapshot_SourceVolumeId req"
  have rd: "reads_storage cl vs" using api by (simp add: storage_api_def)
  have args: "?n \<noteq> []" "?v \<noteq> []" "\<not> IsValidFileStorageUUID up ?v"
    using ok by (auto simp: CreateSnapshot_def io_app split: if_splits)
  note look = CreateSnapshot_lookup [OF s rd args]
  have "\<exists>b rest. backups_named ?n (vs w') = b # rest \<and> Storage_Origin b = ?v \<and> sn = snapshot_of b"
  proof (cases "backups_named ?n (vs w)")
    case (Cons b rest)
    with ok show ?thesis by (auto simp: look split: if_splits)
  next
    case Nil
    then obtain sd where sd: "UpCloudService_CreateBlockStorageBackup cl ?v ?n w = (Ok sd, w')" "sn = snapshot_of sd"
      using ok unfolding look by (auto simp: io_app elim!: call_OkE split: if_splits)
    from api sd(1) d obtain old where vs': "vs w' = old @ [sd]" "map storage_key old = map storage_key (vs w)"
      and at: "Storage_Title sd = ?n" "Storage_Origin sd = ?v" "Storage_Type sd = StorageTypeBackup"
      by (rule CreateBlockStorageBackup_created)
    let ?P = "\<lambda>(u, t, sz, z, ty, og). ty = StorageTypeBackup \<and> t = ?n"
    have "map storage_key (filter (\<lambda>s. ?P (storage_key s)) old) = map storage_key (filter (\<lambda>s. ?P (storage_key s)) (vs w))"
      by (rule map_key_filter) (rule vs'(2))
    then have "backups_named ?n old = []" using Nil by (simp add: backups_named_def storage_key_def)
    with vs'(1) at sd(2) show ?thesis by (simp add: backups_named_def)
  qed
  then obtain b rest where b: "backups_named ?n (vs w') = b # rest" "Storage_Origin b = ?v" "sn = snapshot_of b"
    by blast
  have "CreateSnapshot up c (req\<lparr>CreateSnapshot_SourceVolumeId := v\<rparr>) w' = (Err (Status AlreadyExists), w')"
    if "v \<noteq> ?v" "v \<noteq> []" "\<not> IsValidFileStorageUUID up v" for v
    using CreateSnapshot_lookup [OF s rd, of "req\<lparr>CreateSnapshot_SourceVolumeId := v\<rparr>" up w'] args(1) that b by simp
  moreover have "CreateSnapshot up c req w' = (Ok sn, w')" using b by (simp add: look)
  moreover have "Snapshot_SourceVolumeId sn = ?v" using b by (simp add: snapshot_of_def)
  ultimately show ?thesis by blast
qed

theorem CreateSnapshot_retry_witness:
  "\<exists>sn w'. CreateSnapshot (\<lambda>_. True) sample_controller \<lparr>CreateSnapshot_Name = ''snap'', CreateSnapshot_SourceVolumeId = ''01''\<rparr>
        (sample_with_volume 2) = (Ok sn, w') \<and> Snapshot_SnapshotId sn = ''0100'' \<and>
      CreateSnapshot (\<lambda>_. True) sample_controller \<lparr>CreateSnapshot_Name = ''snap'', CreateSnapshot_SourceVolumeId = ''01''\<rparr>
        w' = (Ok sn, w')"
proof -
  let ?req = "\<lparr>CreateSnapshot_Name = ''snap'', CreateSnapshot_SourceVolumeId = ''01''\<rparr>"
  have rd: "reads_storage Sample_Client sw_storages" using Sample_Client_api by (simp add: storage_api_def)
  have nf: "\<not> IsValidFileStorageUUID (\<lambda>_. True) ''01''" by (simp add: uuid_defs)
  have nm: "backups_named ''snap'' (sw_storages (sample_with_volume 2)) = []"
    by (simp add: backups_named_def sample_run_defs sample_storage_def)
  have "\<exists>sd w'. UpCloudService_CreateBlockStorageBackup Sample_Client ''01'' ''snap'' (sample_with_volume 2) = (Ok sd, w') \<and>
      Storage_UUID sd = ''0100''"
    by (simp add: sample_run_defs sample_defs UpCloudService_CreateBlockStorageBackup_def numeral_eq_Suc
        UpCloudService_GetBlockStorageByUUID_def waitForStorageOnline_def call_def io_app Let_def fresh_uuid_def)
  then obtain sn w' where ok: "CreateSnapshot (\<lambda>_. True) sample_controller ?req (sample_with_volume 2) = (Ok sn, w')"
    and id: "Snapshot_SnapshotId sn = ''0100''"
    using nm nf by (auto simp: CreateSnapshot_lookup [OF sample_svc rd] call_Ok io_app snapshot_of_def)
  from CreateSnapshot_retry [OF sample_svc Sample_Client_api sample_distinct(2) ok] ok id show ?thesis by blast
qed



text \<open>C35. \<open>GetSnapshot\<close> answers NotFound exactly for an identifier no storage has. It does not look at the type of the
  storage: asked for the identifier of a volume it presents the volume as a snapshot.\<close>

theorem GetSnapshot_answers:
  assumes s: "svc c = NewUpCloudService cl" and rd: "reads_storage cl vs" and u: "u \<noteq> []"
  shows "GetSnapshot c u w = (case lookup_storage (vs w) u of
      None \<Rightarrow> (Err (Status NotFound), w) | Some st \<Rightarrow> (Ok (snapshot_of st), w))"
  using u GetBlockStorageByUUID_lookup [OF rd, of u w]
  by (auto simp: GetSnapshot_def s NewUpCloudService_def call_def io_app split: option.splits)

theorem GetSnapshot_answers_witness:
  "\<exists>sn. GetSnapshot sample_controller ''01'' (sample_with_volume 2) = (Ok sn, sample_with_volume 2) \<and>
     Snapshot_SnapshotId sn = ''01'' \<and> Snapshot_ReadyToUse sn"
proof -
  have rd: "reads_storage Sample_Client sw_storages" using Sample_Client_api by (simp add: storage_api_def)
  show ?thesis
    using GetSnapshot_answers [OF sample_svc rd, of "''01''" "sample_with_volume 2"]
    by (simp add: lookup_storage_def sample_run_defs sample_storage_def snapshot_of_def)
qed

section \<open>Missing volumes\<close>

text \<open>C29. A block volume that does not exist: \<open>ValidateVolumeCapabilities\<close>, \<open>ControllerExpandVolume\<close> and \<open>GetSnapshot\<close> answer
  NotFound, \<open>DeleteVolume\<close> and \<open>ControllerUnpublishVolume\<close> succeed, and none of them changes the world.\<close>

theorem missing_volume_answers:
  assumes s: "svc c = NewUpCloudService cl" and api: "storage_api cl vs"
    and b: "IsValidBlockStorageUUID up u" and none: "lookup_storage (vs w) u = None"
    and caps: "caps \<noteq> []" and r: "r \<noteq> None"
  shows "ValidateVolumeCapabilities up c u caps w = (Err (Status NotFound), w) \<and>
    ControllerExpandVolume up c \<lparr>Expand_VolumeId = u, Expand_CapacityRange = r, Expand_VolumeCapability = vc\<rparr> w =
      (Err (Status NotFound), w) \<and>
    GetSnapshot c u w = (Err (Status NotFound), w) \<and>
    DeleteVolume up c u w = (Ok (), w) \<and>
    ControllerUnpublishVolume up c \<lparr>Unpublish_VolumeId = u, Unpublish_NodeId = node\<rparr> w = (Ok (), w)"
proof -
  have u: "u \<noteq> []" using b by auto
  have nf: "\<not> IsValidFileStorageUUID up u" using b by (rule uuid_kinds_disjoint)
  have "svc_GetBlockStorageByUUID (svc c) u w = (Err (Sentinel ErrStorageNotFound), w)"
    using GetBlockStorageByUUID_lookup [of cl vs u w] api none by (simp add: s NewUpCloudService_def storage_api_def)
  moreover obtain k where "api_DeleteStorage cl u w = (Err (Problem 404 k), w)"
    using api none unfolding storage_api_def deletes_storage_def by blast
  ultimately show ?thesis
    using u nf b caps r
    by (auto simp: ValidateVolumeCapabilities_def ControllerExpandVolume_def GetSnapshot_def lookupVolume_def
        DeleteVolume_block [OF s nf u] ControllerUnpublishVolume_def unpublishVolumeFromAllNodes_def
        detachVolumeFromNode_def call_def io_app)
qed

theorem missing_volume_answers_witness:
  "ControllerUnpublishVolume (\<lambda>_. True) sample_controller \<lparr>Unpublish_VolumeId = ''01'', Unpublish_NodeId = ''node-1''\<rparr>
     sample_empty = (Ok (), sample_empty)"
proof -
  have "IsValidBlockStorageUUID (\<lambda>_. True) ''01''" by (simp add: uuid_defs)
  moreover have "lookup_storage (sw_storages sample_empty) ''01'' = None"
    by (simp add: lookup_storage_def sample_empty_def)
  ultimately show ?thesis
    using missing_volume_answers [OF sample_svc Sample_Client_api, of "\<lambda>_. True" "''01''" sample_empty
        "[\<lparr>AccessMode = None, AccessType = Some Block\<rparr>]" "Some \<lparr>RequiredBytes = 0, LimitBytes = 0\<rparr>" None "''node-1''"]
    by simp
qed

section \<open>Capabilities\<close>

text \<open>C30. \<open>ValidateVolumeCapabilities\<close> for an existing volume confirms the capabilities exactly when each one names an access
  type, its access mode is unset or the mode of the volume's kind (single node writer for block storage, multi node
  multi writer for file storage), and it does not ask for a raw block device of a file storage.\<close>

theorem ValidateVolumeCapabilities_confirms:
  assumes "volumeId \<noteq> []" and "caps \<noteq> []" and "lookupVolume up c volumeId w = (Ok (found, mode), w')"
  shows "ValidateVolumeCapabilities up c volumeId caps w =
    (Ok (if \<forall>cap \<in> set caps. AccessMode cap \<in> {None, Some mode} \<and> AccessType cap \<noteq> None \<and>
            (mode = MULTI_NODE_MULTI_WRITER \<longrightarrow> AccessType cap \<noteq> Some Block)
         then Confirmed caps
         else Unsupported (validateVolumeCapabilitiesAgainstVolume caps mode)), w') \<and>
    mode = (case found of FoundBlock _ \<Rightarrow> SINGLE_NODE_WRITER | FoundFile _ \<Rightarrow> MULTI_NODE_MULTI_WRITER)"
proof
  show "mode = (case found of FoundBlock _ \<Rightarrow> SINGLE_NODE_WRITER | FoundFile _ \<Rightarrow> MULTI_NODE_MULTI_WRITER)"
    using assms(3)
    by (auto simp: lookupVolume_def accessModeSingleNodeWrite_def accessModeMultiNodeWrite_def io_defs
        split: if_splits prod.splits res.splits)
  show "ValidateVolumeCapabilities up c volumeId caps w =
    (Ok (if \<forall>cap \<in> set caps. AccessMode cap \<in> {None, Some mode} \<and> AccessType cap \<noteq> None \<and>
            (mode = MULTI_NODE_MULTI_WRITER \<longrightarrow> AccessType cap \<noteq> Some Block)
         then Confirmed caps
         else Unsupported (validateVolumeCapabilitiesAgainstVolume caps mode)), w')"
    unfolding validateVolumeCapabilitiesAgainstVolume_empty_iff [symmetric]
    using assms by (simp add: ValidateVolumeCapabilities_def call_Ok Let_def io_app)
qed

theorem ValidateVolumeCapabilities_confirms_witness:
  "ValidateVolumeCapabilities (\<lambda>_. True) sample_controller ''01'' [\<lparr>AccessMode = None, AccessType = Some Block\<rparr>]
     (sample_with_volume 2) = (Ok (Confirmed [\<lparr>AccessMode = None, AccessType = Some Block\<rparr>]), sample_with_volume 2)"
proof -
  have "lookupVolume (\<lambda>_. True) sample_controller ''01'' (sample_with_volume 2) =
      (Ok (FoundBlock (sample_storage ''01'' ''pvc'' 2 ''fi-hel1'' StorageTypeNormal []), SINGLE_NODE_WRITER), sample_with_volume 2)"
    by (simp add: lookupVolume_def uuid_defs accessModeSingleNodeWrite_def sample_run_defs sample_defs
        NewUpCloudService_def UpCloudService_GetBlockStorageByUUID_def call_def io_app)
  from ValidateVolumeCapabilities_confirms [OF _ _ this, of "[\<lparr>AccessMode = None, AccessType = Some Block\<rparr>]"]
  show ?thesis by simp
qed

section \<open>A dropped error\<close>



end
