(* ===== verification/Controller_Files.thy ===== *)
theory Controller_Files
  imports Controller_Lifecycle
begin

text \<open>
  File-storage (NFS) volumes through the controller over the API-backed service: what a successful creation leaves behind, and what
  a retry answers after a creation that was cut short. \<open>file_api\<close> is what the driver relies on of the file-storage part of the
  UpCloud API, on a view \<open>fv\<close> of the file storages a world holds and a view \<open>sh\<close> of their shares; \<open>File_Client\<close> is a small
  in-memory client for which it holds.
\<close>

section \<open>The contract\<close>

text \<open>What a file storage keeps while its state and its network addresses change.\<close>

definition file_key :: "FileStorage \<Rightarrow> string \<times> string \<times> string \<times> int" where
  "file_key fs = (FileStorage_UUID fs, FileStorage_Name fs, FileStorage_Zone fs, FileStorage_SizeGiB fs)"

definition keeps_files :: "('w \<Rightarrow> FileStorage list) \<Rightarrow> 'w \<Rightarrow> 'w \<Rightarrow> bool" where
  "keeps_files fv w w' \<longleftrightarrow> map file_key (fv w') = map file_key (fv w)"

text \<open>At most one file storage more, with the name and the size.\<close>

definition adds_file :: "('w \<Rightarrow> FileStorage list) \<Rightarrow> string \<Rightarrow> int \<Rightarrow> 'w \<Rightarrow> 'w \<Rightarrow> bool" where
  "adds_file fv name sz w w' \<longleftrightarrow> keeps_files fv w w' \<or>
     (\<exists>u z. map file_key (fv w') = map file_key (fv w) @ [(u, name, z, sz)])"

text \<open>A request that is refused, or whose answer is lost, may have created the storage or not.\<close>

definition creates_file :: "'w upCloudClient \<Rightarrow> ('w \<Rightarrow> FileStorage list) \<Rightarrow> bool" where
  "creates_file cl fv \<longleftrightarrow> (\<forall>r w x w'. api_CreateFileStorage cl r w = (x, w') \<longrightarrow>
     (fv w' = fv w \<and> (\<forall>fs. x \<noteq> Ok fs)) \<or>
     (\<exists>fs. fv w' = fv w @ [fs] \<and> FileStorage_UUID fs \<notin> FileStorage_UUID ` set (fv w) \<and>
        FileStorage_Name fs = CreateFS_Name r \<and> FileStorage_Zone fs = CreateFS_Zone r \<and>
        FileStorage_SizeGiB fs = CreateFS_SizeGiB r \<and> (\<forall>f. x = Ok f \<longrightarrow> f = fs)))"

definition shares_file :: "'w upCloudClient \<Rightarrow> ('w \<Rightarrow> string \<Rightarrow> FileStorageShare list) \<Rightarrow> bool" where
  "shares_file cl sh \<longleftrightarrow>
     (\<forall>u w l w'. api_GetFileStorageShares cl u w = (Ok l, w') \<longrightarrow> l = sh w u \<and> sh w' = sh w) \<and>
     (\<forall>r w x w'. api_CreateFileStorageShare cl r w = (Ok x, w') \<longrightarrow>
        CreateShare_Path r \<in> Share_Path ` set (sh w' (CreateShare_ServiceUUID r))) \<and>
     (\<forall>r w x w'. api_CreateFileStorageShareACL cl r w = (Ok x, w') \<longrightarrow> sh w' = sh w)"

definition file_api ::
    "'w upCloudClient \<Rightarrow> ('w \<Rightarrow> FileStorage list) \<Rightarrow> ('w \<Rightarrow> string \<Rightarrow> FileStorageShare list) \<Rightarrow> bool" where
  "file_api cl fv sh \<longleftrightarrow> creates_file cl fv \<and> shares_file cl sh \<and>
     (\<forall>w. api_GetFileStorages cl w = (Ok (fv w), w)) \<and>
     (\<forall>u st w fs w'. api_WaitForFileStorageOperationalState cl u st w = (Ok fs, w') \<longrightarrow> FileStorage_UUID fs = u \<and> fs \<in> set (fv w')) \<and>
     (\<forall>u st. io_rel (keeps_files fv) (api_WaitForFileStorageOperationalState cl u st)) \<and>
     (\<forall>u. io_rel (keeps_files fv) (api_GetFileStorageShares cl u)) \<and>
     (\<forall>r. io_rel (keeps_files fv) (api_CreateFileStorageShare cl r)) \<and>
     (\<forall>r. io_rel (keeps_files fv) (api_CreateFileStorageShareACL cl r)) \<and>
     io_rel (keeps_files fv) (api_GetServers cl) \<and> (\<forall>u. io_rel (keeps_files fv) (api_GetServerDetails cl u)) \<and>
     io_rel (keeps_files fv) (api_GetNetworks cl)"

lemma keeps_files_refl: "reflp (keeps_files fv)"
  by (simp add: reflp_def keeps_files_def)

lemma keeps_files_trans: "transp (keeps_files fv)"
  by (simp add: transp_def keeps_files_def)

lemma adds_file_keeps:
  "keeps_files fv w w' \<Longrightarrow> adds_file fv n s w w'"
  "keeps_files fv w w' \<Longrightarrow> adds_file fv n s w' w'' \<Longrightarrow> adds_file fv n s w w''"
  "adds_file fv n s w w' \<Longrightarrow> keeps_files fv w' w'' \<Longrightarrow> adds_file fv n s w w''"
  by (auto simp: adds_file_def keeps_files_def)

lemmas keeps_rules = rel_rules io_rel_basic [OF keeps_files_refl] io_rel_call [OF keeps_files_trans]

lemma file_keys_UUID:
  assumes "map file_key xs = map file_key ys"
  shows "FileStorage_UUID ` set xs = FileStorage_UUID ` set ys"
proof -
  have "FileStorage_UUID ` set l = fst ` set (map file_key l)" for l by (force simp: file_key_def)
  with assms show ?thesis by metis
qed

section \<open>Creating\<close>

lemma keeps_discover:
  assumes "file_api cl fv sh" and "svc c = NewUpCloudService cl"
  shows "io_rel (keeps_files fv) (discoverClusterNetwork c)"
  using assms unfolding discoverClusterNetwork_def UpCloudService_GetServerByHostname_def Let_def
  by (auto simp: NewUpCloudService_def file_api_def UpCloudService_GetServerByHostname_def UpCloudService_GetNetworks_def
      intro!: keeps_rules)

lemma keeps_ShareACL:
  "file_api cl fv sh \<Longrightarrow> io_rel (keeps_files fv) (UpCloudService_CreateFileStorageShareACL cl u p)"
  unfolding UpCloudService_CreateFileStorageShareACL_def Let_def
  by (auto simp: file_api_def intro!: keeps_rules)

lemma adds_CreateFileStorage:
  assumes api: "file_api cl fv sh"
  shows "io_rel (adds_file fv n sz) (UpCloudService_CreateFileStorage cl n net sz enc)"
proof -
  have "io_rel (adds_file fv n sz) (api_CreateFileStorage cl \<lparr>CreateFS_Name = n, CreateFS_Zone = z, CreateFS_Started = b,
      CreateFS_SizeGiB = sz, CreateFS_Encrypted = enc, CreateFS_Networks = ns\<rparr>)" for z b ns
  proof (rule io_relI)
    fix w
    let ?r = "\<lparr>CreateFS_Name = n, CreateFS_Zone = z, CreateFS_Started = b, CreateFS_SizeGiB = sz, CreateFS_Encrypted = enc,
      CreateFS_Networks = ns\<rparr>"
    obtain x w' where run: "api_CreateFileStorage cl ?r w = (x, w')" by fastforce
    have "creates_file cl fv" using api by (simp add: file_api_def)
    then have "fv w' = fv w \<or> (\<exists>fs. fv w' = fv w @ [fs] \<and> FileStorage_Name fs = n \<and> FileStorage_SizeGiB fs = sz)"
      using run unfolding creates_file_def by fastforce
    then have "adds_file fv n sz w w'" by (auto simp: adds_file_def keeps_files_def file_key_def)
    with run show "adds_file fv n sz w (snd (api_CreateFileStorage cl ?r w))" by simp
  qed
  note create = this
  have "io_rel (keeps_files fv) (waitForFileStorageRunning cl u)" for u
    using api by (simp add: file_api_def waitForFileStorageRunning_def)
  then have "io_rel (keeps_files fv) (call (waitForFileStorageRunning cl u) (\<lambda>e. throw (f e)) (\<lambda>fs.
      call (UpCloudService_CreateFileStorageShareACL cl (FileStorage_UUID fs) p) (\<lambda>e. throw (g e)) (\<lambda>_. ret fs)))" for u f g p
    by (intro io_rel_call [OF keeps_files_trans] io_rel_basic [OF keeps_files_refl] keeps_ShareACL [OF api])
  then show ?thesis
    unfolding UpCloudService_CreateFileStorage_def
    by (intro io_rel_call_comp [OF create _ _ _ adds_file_keeps(3), where S = "keeps_files fv"]
        io_rel_basic [OF keeps_files_refl])
qed

lemma adds_createFileStorageVolume:
  assumes api: "file_api cl fv sh" and s: "svc c = NewUpCloudService cl"
    and n: "validateCapacityRange (CreateVolume_CapacityRange req) minFileStorageSize maxFileStorageSize = Ok n"
  shows "io_rel (adds_file fv (CreateVolume_Name req) (n div giB)) (createFileStorageVolume c req)"
proof -
  have "io_rel (adds_file fv (CreateVolume_Name req) (n div giB))
      (call (svc_CreateFileStorage (svc c) (CreateVolume_Name req) net (n div giB) enc) (\<lambda>_. throw (Status Internal)) (\<lambda>fs.
        if fileStorageServerFromFS fs = [] then throw (Status Internal) else ret (f fs)))" for net enc f
    by (rule io_rel_call_comp [where S = "keeps_files fv" and R = "adds_file fv (CreateVolume_Name req) (n div giB)"])
      (auto simp: s NewUpCloudService_def intro!: adds_CreateFileStorage [OF api] keeps_rules intro: adds_file_keeps)
  then have "io_rel (adds_file fv (CreateVolume_Name req) (n div giB)) (call (discoverClusterNetwork c) throw (\<lambda>net.
      call (svc_CreateFileStorage (svc c) (CreateVolume_Name req) net (n div giB) enc) (\<lambda>_. throw (Status Internal)) (\<lambda>fs.
        if fileStorageServerFromFS fs = [] then throw (Status Internal) else ret (f net fs))))" for enc f
    by (intro io_rel_call_comp [OF keeps_discover [OF api s] _ _ _ adds_file_keeps(2)])
      (auto simp: io_rel_def io_app intro: adds_file_keeps(1) reflpD [OF keeps_files_refl])
  then show ?thesis
    by (simp add: createFileStorageVolume_def n file_size_i64(3) [OF n] Let_def)
qed

section \<open>What a creation leaves\<close>

definition nfs_request :: "CreateVolumeRequest \<Rightarrow> bool" where
  "nfs_request req \<longleftrightarrow> map_get (CreateVolume_Parameters req) volumeContextTypeKey = volumeTypeFileStorage"

text \<open>The file storage a request is answered with.\<close>

definition file_named :: "string \<Rightarrow> string \<Rightarrow> FileStorage list \<Rightarrow> FileStorage option" where
  "file_named name z fss = find (\<lambda>fs. FileStorage_Name fs = name \<and> FileStorage_Zone fs = z) fss"

lemma CreateVolume_nfs:
  assumes "nfs_request req" and "file_api cl fv sh" and "svc c = NewUpCloudService cl"
  shows "CreateVolume c req w =
    (case validateFileStorageCreateVolumeRequest req (zone c) of
       Ok _ \<Rightarrow> (case file_named (CreateVolume_Name req) (zone c) (fv w) of
                 Some fs \<Rightarrow> createFileStorageExistsResponse req fs w
               | None \<Rightarrow> createFileStorageVolume c req w)
     | Err e \<Rightarrow> (Err e, w) | Panic \<Rightarrow> (Panic, w))"
  using assms
  by (cases "validateFileStorageCreateVolumeRequest req (zone c)")
    (simp_all add: CreateVolume_def nfs_request_def file_named_def NewUpCloudService_def UpCloudService_GetFileStorages_def
      file_api_def call_def io_app split: option.splits)

lemma createFileStorageExistsResponse_run:
  assumes "validateCapacityRange (CreateVolume_CapacityRange req) minFileStorageSize maxFileStorageSize = Ok n"
  shows "createFileStorageExistsResponse req fs w =
    (if i64 (FileStorage_SizeGiB fs * giB) \<noteq> n then Err (Status AlreadyExists)
     else Ok \<lparr>Volume_VolumeId = FileStorage_UUID fs, Volume_CapacityBytes = n,
       Volume_AccessibleTopology = [[topologyRegionKey \<mapsto> FileStorage_Zone fs]], Volume_ContentSource = None,
       Volume_VolumeContext = nfsVolumeContext (fileStorageServerFromFS fs)\<rparr>, w)"
  using assms by (auto simp: createFileStorageExistsResponse_def io_app)

text \<open>The share: after a successful call the storage exports the path.\<close>

lemma ShareACL_path:
  assumes "file_api cl fv sh" and "UpCloudService_CreateFileStorageShareACL cl u p w = (Ok (), w')"
  shows "p \<in> Share_Path ` set (sh w' u)"
proof -
  have api: "shares_file cl sh" using assms(1) by (simp add: file_api_def)
  obtain l w1 where l: "api_GetFileStorageShares cl u w = (Ok l, w1)"
    and rest: "(if share_name_for l p = []
       then call (api_CreateFileStorageShare cl \<lparr>CreateShare_ServiceUUID = u, CreateShare_Name = ''default'',
                    CreateShare_Path = p, CreateShare_ACL = [allow_all]\<rparr>)
              (\<lambda>e. throw (Wrapped ''create file storage share'' e)) (\<lambda>_. ret ())
       else call (api_CreateFileStorageShareACL cl \<lparr>CreateACL_ServiceUUID = u,
                    CreateACL_ShareName = share_name_for l p, CreateACL_ACL = allow_all\<rparr>) throw (\<lambda>_. ret ())) w1 = (Ok (), w')"
    using assms(2) by (auto simp: UpCloudService_CreateFileStorageShareACL_def Let_def io_app elim!: call_OkE)
  have sh: "l = sh w u" "sh w1 = sh w" using api l by (auto simp: shares_file_def)
  show ?thesis
  proof (cases "share_name_for l p = []")
    case True
    with rest api show ?thesis
      by (auto simp: shares_file_def io_app elim!: call_OkE) (metis CreateFileStorageShareRequest.select_convs(1,3))
  next
    case False
    then obtain s where "find (\<lambda>s. Share_Path s = p) l = Some s"
      by (auto simp: share_name_for_def split: option.splits)
    then have "p \<in> Share_Path ` set (sh w u)" using sh find_SomeD by fastforce
    moreover have "sh w' = sh w1"
      using False rest api by (auto simp: shares_file_def io_app elim!: call_OkE)
    ultimately show ?thesis using sh by simp
  qed
qed

text \<open>What a successful creation of a file storage leaves.\<close>

lemma CreateFileStorage_created:
  assumes api: "file_api cl fv sh" and ok: "UpCloudService_CreateFileStorage cl n net sz enc w = (Ok fs, w')"
  shows "file_key fs \<in> set (map file_key (fv w'))" and "FileStorage_UUID fs \<notin> FileStorage_UUID ` set (fv w)"
    and "FileStorage_Name fs = n" "FileStorage_Zone fs = NetworkRef_Zone net" "FileStorage_SizeGiB fs = sz"
    and "''/share-1'' \<in> Share_Path ` set (sh w' (FileStorage_UUID fs))"
proof -
  obtain r fs0 w1 w2 where cr: "api_CreateFileStorage cl r w = (Ok fs0, w1)"
    and r: "CreateFS_Name r = n" "CreateFS_Zone r = NetworkRef_Zone net" "CreateFS_SizeGiB r = sz"
    and wt: "waitForFileStorageRunning cl (FileStorage_UUID fs0) w1 = (Ok fs, w2)"
    and acl: "UpCloudService_CreateFileStorageShareACL cl (FileStorage_UUID fs) ''/share-1'' w2 = (Ok (), w')"
    using ok by (auto simp: UpCloudService_CreateFileStorage_def io_app elim!: call_OkE)
  have c: "fv w1 = fv w @ [fs0]" "FileStorage_UUID fs0 \<notin> FileStorage_UUID ` set (fv w)"
      "FileStorage_Name fs0 = n" "FileStorage_Zone fs0 = NetworkRef_Zone net" "FileStorage_SizeGiB fs0 = sz"
    using api cr r unfolding file_api_def creates_file_def by fastforce+
  have w2: "FileStorage_UUID fs = FileStorage_UUID fs0" "fs \<in> set (fv w2)"
      "map file_key (fv w2) = map file_key (fv w @ [fs0])"
    using api wt c(1) io_relD [of "keeps_files fv" "waitForFileStorageRunning cl (FileStorage_UUID fs0)" w1 "Ok fs" w2]
    by (auto simp: file_api_def waitForFileStorageRunning_def keeps_files_def)
  have "map file_key (fv w') = map file_key (fv w2)"
    using io_relD [OF keeps_ShareACL [OF api] acl] by (simp add: keeps_files_def)
  with w2(2) show "file_key fs \<in> set (map file_key (fv w'))" by simp
  have "file_key fs \<in> set (map file_key (fv w @ [fs0]))" using w2(2,3) by (metis imageI set_map)
  then have "file_key fs = file_key fs0" using c(2) w2(1) by (auto simp: file_key_def)
  with c w2(1) show "FileStorage_UUID fs \<notin> FileStorage_UUID ` set (fv w)" "FileStorage_Name fs = n"
      "FileStorage_Zone fs = NetworkRef_Zone net" "FileStorage_SizeGiB fs = sz"
    by (simp_all add: file_key_def)
  show "''/share-1'' \<in> Share_Path ` set (sh w' (FileStorage_UUID fs))" by (rule ShareACL_path [OF api acl])
qed

text \<open>A storage that was not there before and is now is the one that was added.\<close>

lemma added_file_size:
  assumes "adds_file fv name sz w w'" and "file_named name z (fv w) = None" and "file_named name z (fv w') = Some fs"
  shows "FileStorage_SizeGiB fs = sz"
proof -
  let ?P = "\<lambda>(u, n, zn, s). n = name \<and> zn = z"
  have "fs \<in> set (fv w')" and P: "?P (file_key fs)"
    using find_SomeD [OF assms(3) [unfolded file_named_def]] by (simp_all add: file_key_def)
  then have fs: "file_key fs \<in> set (map file_key (fv w'))" by simp
  have old: "\<not> ?P k" if "k \<in> set (map file_key (fv w))" for k
    using that assms(2) by (auto simp: file_named_def file_key_def find_None_iff)
  have new: "file_key fs \<notin> set (map file_key (fv w))"
  proof
    assume "file_key fs \<in> set (map file_key (fv w))"
    from old [OF this] P show False by contradiction
  qed
  with assms(1) fs obtain u z' where "map file_key (fv w') = map file_key (fv w) @ [(u, name, z', sz)]"
    unfolding adds_file_def keeps_files_def by metis
  with fs new have "file_key fs = (u, name, z', sz)" by (metis Un_iff insert_iff list.set(1,2) set_append empty_iff)
  then show ?thesis by (simp add: file_key_def)
qed

section \<open>An in-memory client\<close>

text \<open>One server with a private network; listing the shares fails while \<open>fw_broken\<close>.\<close>

record file_world =
  fw_files :: "FileStorage list"
  fw_shares :: "string \<Rightarrow> FileStorageShare list"
  fw_broken :: bool

definition file_server :: ServerDetails where
  "file_server = \<lparr>Server_UUID = ''00a'', Server_Hostname = ''node-1'', Server_Zone = ''fi-hel1'', Server_State = ServerStateStarted,
     StorageDevices = [], Networking_Interfaces = [\<lparr>Interface_Network = ''03'', Interface_Type = NetworkTypePrivate\<rparr>]\<rparr>"

definition file_fresh :: "FileStorage list \<Rightarrow> string" where
  "file_fresh fss = ''02'' @ replicate (sum_list (map (length \<circ> FileStorage_UUID) fss)) (CHR ''0'')"

lemma file_fresh_fresh: "file_fresh fss \<notin> FileStorage_UUID ` set fss"
proof
  assume "file_fresh fss \<in> FileStorage_UUID ` set fss"
  then have "length (file_fresh fss) \<in> set (map (length \<circ> FileStorage_UUID) fss)" by auto
  then have "length (file_fresh fss) \<le> sum_list (map (length \<circ> FileStorage_UUID) fss)"
    by (rule member_le_sum_list) simp
  then show False by (simp add: file_fresh_def)
qed

definition file_create :: "CreateFileStorageRequest \<Rightarrow> (FileStorage, file_world) io" where
  "file_create r w =
     (let fs = \<lparr>FileStorage_UUID = file_fresh (fw_files w), FileStorage_Name = CreateFS_Name r, FileStorage_Zone = CreateFS_Zone r,
                FileStorage_SizeGiB = CreateFS_SizeGiB r, FileStorage_Encrypted = CreateFS_Encrypted r,
                FileStorage_Networks = map (\<lambda>n. n\<lparr>FSNetwork_IPAddress := ''10.0.0.2''\<rparr>) (CreateFS_Networks r),
                FileStorage_OperationalState = FileStorageOperationalStateRunning\<rparr>
      in (Ok fs, w\<lparr>fw_files := fw_files w @ [fs]\<rparr>))"

definition file_get :: "string \<Rightarrow> (FileStorage, file_world) io" where
  "file_get u w = (case find (\<lambda>f. FileStorage_UUID f = u) (fw_files w) of Some f \<Rightarrow> (Ok f, w) | None \<Rightarrow> (Err problem404, w))"

definition file_share :: "CreateFileStorageShareRequest \<Rightarrow> (FileStorageShare, file_world) io" where
  "file_share r w =
     (let u = CreateShare_ServiceUUID r; s = \<lparr>Share_Name = CreateShare_Name r, Share_Path = CreateShare_Path r\<rparr>
      in (Ok s, w\<lparr>fw_shares := (fw_shares w)(u := fw_shares w u @ [s])\<rparr>))"

definition file_unsupported :: "('a, file_world) io" where
  "file_unsupported = throw (Errorf ''not supported'')"

definition File_Client :: "file_world upCloudClient" where
  "File_Client =
     \<lparr>api_GetStorages = (\<lambda>_. ret []), api_GetStorageDetails = (\<lambda>_. throw problem404),
      api_CreateStorage = (\<lambda>_. file_unsupported), api_CloneStorage = (\<lambda>_. file_unsupported),
      api_ModifyStorage = (\<lambda>_. file_unsupported), api_DeleteStorage = (\<lambda>_. throw problem404),
      api_AttachStorage = (\<lambda>_ _ _. file_unsupported), api_DetachStorage = (\<lambda>_ _. file_unsupported),
      api_CreateBackup = (\<lambda>_ _. file_unsupported), api_ResizeStorageFilesystem = (\<lambda>_. file_unsupported),
      api_WaitForStorageState = (\<lambda>_ _. file_unsupported), api_WaitForServerState = (\<lambda>_ _. ret ()),
      api_GetServers = ret [Server.truncate file_server],
      api_GetServerDetails = (\<lambda>u. if u = Server_UUID file_server then ret file_server else throw problem404),
      api_GetFileStorages = (\<lambda>w. (Ok (fw_files w), w)), api_GetFileStorage = file_get,
      api_CreateFileStorage = file_create, api_DeleteFileStorage = (\<lambda>_. file_unsupported),
      api_ModifyFileStorage = (\<lambda>_ _. file_unsupported),
      api_WaitForFileStorageOperationalState = (\<lambda>u _. file_get u),
      api_GetFileStorageNetworks = (\<lambda>_. file_unsupported),
      api_GetFileStorageShares = (\<lambda>u w. if fw_broken w then (Err (Errorf ''timeout''), w) else (Ok (fw_shares w u), w)),
      api_CreateFileStorageShare = file_share, api_CreateFileStorageShareACL = (\<lambda>r. ret (CreateACL_ACL r)),
      api_GetNetworkDetails = (\<lambda>_. file_unsupported),
      api_GetNetworks = ret [\<lparr>Network_UUID = ''03'', Network_Name = ''private''\<rparr>]\<rparr>"

lemmas file_client_defs = File_Client_def file_server_def file_create_def file_get_def file_share_def file_unsupported_def problem404_def

lemma File_Client_api: "file_api File_Client fw_files fw_shares"
proof -
  have "creates_file File_Client fw_files"
    using file_fresh_fresh by (auto simp: creates_file_def file_client_defs Let_def)
  moreover have "shares_file File_Client fw_shares"
    by (auto simp: shares_file_def file_client_defs Let_def io_app split: if_splits)
  moreover have "\<forall>u st w fs w'. api_WaitForFileStorageOperationalState File_Client u st w = (Ok fs, w') \<longrightarrow>
      FileStorage_UUID fs = u \<and> fs \<in> set (fw_files w')"
    by (auto simp: File_Client_def file_get_def dest: find_SomeD split: option.splits)
  moreover have "io_rel (keeps_files fw_files) (file_get u)" "io_rel (keeps_files fw_files) (file_share r)" for u r
    by (auto simp: io_rel_def keeps_files_def file_get_def file_share_def Let_def split: option.splits)
  moreover have "io_rel (keeps_files fw_files) (api_GetFileStorageShares File_Client u)"
      "io_rel (keeps_files fw_files) (api_GetServerDetails File_Client u)" for u
    by (simp_all add: File_Client_def io_rel_def keeps_files_def io_app)
  moreover have "api_WaitForFileStorageOperationalState File_Client = (\<lambda>u _. file_get u)"
      "api_CreateFileStorageShare File_Client = file_share" "api_GetFileStorages File_Client = (\<lambda>w. (Ok (fw_files w), w))"
      "api_CreateFileStorageShareACL File_Client = (\<lambda>r. ret (CreateACL_ACL r))" "api_GetServers File_Client = ret [Server.truncate file_server]"
      "api_GetNetworks File_Client = ret [\<lparr>Network_UUID = ''03'', Network_Name = ''private''\<rparr>]"
    by (simp_all add: File_Client_def)
  ultimately show ?thesis
    by (simp add: file_api_def io_rel_basic [OF keeps_files_refl])
qed

definition file_controller :: "file_world Controller" where
  "file_controller = \<lparr>zone = ''fi-hel1'', nodeHost = ''node-1'', maxVolumesPerNode = 14,
     svc = NewUpCloudService File_Client, storageLabels = []\<rparr>"

definition file_request :: CreateVolumeRequest where
  "file_request = \<lparr>CreateVolume_Name = ''pvc'', CreateVolume_CapacityRange = Some \<lparr>RequiredBytes = 250 * giB, LimitBytes = 0\<rparr>,
     CreateVolume_VolumeCapabilities =
       [\<lparr>AccessMode = Some MULTI_NODE_MULTI_WRITER, AccessType = Some (Mount None)\<rparr>],
     CreateVolume_Parameters = [volumeContextTypeKey \<mapsto> volumeTypeFileStorage],
     CreateVolume_VolumeContentSource = None, CreateVolume_Requisite = None\<rparr>"

definition file_empty :: "bool \<Rightarrow> file_world" where
  "file_empty broken = \<lparr>fw_files = [], fw_shares = (\<lambda>_. []), fw_broken = broken\<rparr>"

lemma file_request_ok:
  "nfs_request file_request" "svc file_controller = NewUpCloudService File_Client"
  "validateFileStorageCreateVolumeRequest file_request (zone file_controller) = Ok ()"
  "validateCapacityRange (CreateVolume_CapacityRange file_request) minFileStorageSize maxFileStorageSize = Ok (250 * giB)"
  by (simp_all add: nfs_request_def file_request_def map_get_def file_controller_def validateFileStorageCreateVolumeRequest_def
      validateFileStorageCapabilities_def GetMode_def wrong_region_def validateCapacityRange_def size_defs)

section \<open>Properties\<close>

text \<open>C11. A successful creation of an NFS volume under a name that is free in the zone leaves a file storage with a new identifier, the
  volume's, with the name, in the zone of the node's server and with the capacity in whole GiB, which exports the path
  the volume context gives, at an address that is not empty.\<close>

theorem CreateVolume_files_provisions:
  assumes api: "file_api cl fv sh" and req: "nfs_request req" and s: "svc c = NewUpCloudService cl"
    and free: "file_named (CreateVolume_Name req) (zone c) (fv w) = None"
    and ok: "CreateVolume c req w = (Ok v, w')"
  shows "\<exists>fs srv ip. fs \<in> set (fv w') \<and> FileStorage_UUID fs = Volume_VolumeId v \<and>
    Volume_VolumeId v \<notin> FileStorage_UUID ` set (fv w) \<and> FileStorage_Name fs = CreateVolume_Name req \<and>
    FileStorage_SizeGiB fs = Volume_CapacityBytes v div giB \<and> FileStorage_Zone fs = Server_Zone srv \<and>
    fst (svc_GetServerByHostname (svc c) (nodeHost c) w) = Ok srv \<and> ip \<noteq> [] \<and>
    Volume_VolumeContext v = [volumeContextTypeKey \<mapsto> volumeTypeFileStorage, nfsServerKey \<mapsto> ip, nfsPathKey \<mapsto> ''/share-1''] \<and>
    ''/share-1'' \<in> Share_Path ` set (sh w' (Volume_VolumeId v))"
proof -
  have run: "createFileStorageVolume c req w = (Ok v, w')"
    using ok free by (simp add: CreateVolume_nfs [OF req api s] split: res.splits)
  then obtain n where n: "validateCapacityRange (CreateVolume_CapacityRange req) minFileStorageSize maxFileStorageSize = Ok n"
    by (cases "validateCapacityRange (CreateVolume_CapacityRange req) minFileStorageSize maxFileStorageSize")
      (auto simp: createFileStorageVolume_def io_app)
  obtain net w1 fs where net: "discoverClusterNetwork c w = (Ok net, w1)"
    and fs: "UpCloudService_CreateFileStorage cl (CreateVolume_Name req) net (n div giB) (createVolumeRequestEncryptionAtRest req) w1 =
      (Ok fs, w')" "fileStorageServerFromFS fs \<noteq> []"
    and v: "v = \<lparr>Volume_VolumeId = FileStorage_UUID fs, Volume_CapacityBytes = n,
       Volume_AccessibleTopology = [[topologyRegionKey \<mapsto> NetworkRef_Zone net]], Volume_ContentSource = None,
       Volume_VolumeContext = nfsVolumeContext (fileStorageServerFromFS fs)\<rparr>"
    using run by (auto simp: createFileStorageVolume_def n file_size_i64(3) [OF n] Let_def s NewUpCloudService_def io_app
        elim!: call_OkE split: if_splits)
  obtain srv where srv: "fst (svc_GetServerByHostname (svc c) (nodeHost c) w) = Ok srv" "NetworkRef_Zone net = Server_Zone srv"
    using net by (auto simp: discoverClusterNetwork_def Let_def io_app elim!: call_OkE split: if_splits option.splits)
  note cr = CreateFileStorage_created [OF api fs(1)]
  have "map file_key (fv w1) = map file_key (fv w)"
    using io_relD [OF keeps_discover [OF api s] net] by (simp add: keeps_files_def)
  then have "FileStorage_UUID ` set (fv w1) = FileStorage_UUID ` set (fv w)" by (rule file_keys_UUID)
  moreover obtain fs' where "fs' \<in> set (fv w')" "file_key fs' = file_key fs" using cr(1) by auto
  ultimately show ?thesis
    using cr srv fs(2) by (intro exI [of _ fs'] exI [of _ srv] exI [of _ "fileStorageServerFromFS fs"])
      (auto simp: v file_key_def nfsVolumeContext_def fileStorageSharePath_def)
qed

lemma file_sample_network:
  "discoverClusterNetwork file_controller w =
     (Ok \<lparr>NetworkRef_UUID = ''03'', NetworkRef_Name = ''private'', NetworkRef_Zone = ''fi-hel1''\<rparr>, w)"
  by (simp add: discoverClusterNetwork_def UpCloudService_GetServerByHostname_def UpCloudService_GetNetworks_def Let_def
      NewUpCloudService_def file_controller_def file_client_defs Server.truncate_def call_def io_app)

text \<open>The file storage of the sample.\<close>

definition file_sample :: FileStorage where
  "file_sample = \<lparr>FileStorage_UUID = ''02'', FileStorage_Name = ''pvc'', FileStorage_Zone = ''fi-hel1'', FileStorage_SizeGiB = 250,
     FileStorage_Encrypted = createVolumeRequestEncryptionAtRest file_request,
     FileStorage_Networks = [\<lparr>FSNetwork_UUID = ''03'', FSNetwork_Name = ''private'', FSNetwork_Family = ''IPv4'',
       FSNetwork_IPAddress = ''10.0.0.2''\<rparr>],
     FileStorage_OperationalState = FileStorageOperationalStateRunning\<rparr>"

lemma file_sample_create:
  "UpCloudService_CreateFileStorage File_Client ''pvc'' \<lparr>NetworkRef_UUID = ''03'', NetworkRef_Name = ''private'', NetworkRef_Zone = ''fi-hel1''\<rparr>
     250 (createVolumeRequestEncryptionAtRest file_request) (file_empty b) =
   (if b then Err (Wrapped ''create FileStorage share ACL'' (Wrapped ''list file storage shares'' (Errorf ''timeout''))) else Ok file_sample,
    \<lparr>fw_files = [file_sample],
     fw_shares = (\<lambda>_. [])(''02'' := if b then [] else [\<lparr>Share_Name = ''default'', Share_Path = ''/share-1''\<rparr>]), fw_broken = b\<rparr>)"
  by (simp add: UpCloudService_CreateFileStorage_def UpCloudService_CreateFileStorageShareACL_def waitForFileStorageRunning_def
      file_client_defs file_fresh_def file_sample_def file_empty_def share_name_for_def Let_def call_def io_app fun_eq_iff)

lemma file_sample_run:
  "CreateVolume file_controller file_request (file_empty b) =
   (if b then Err (Status Internal)
    else Ok \<lparr>Volume_VolumeId = ''02'', Volume_CapacityBytes = 250 * giB,
      Volume_AccessibleTopology = [[topologyRegionKey \<mapsto> ''fi-hel1'']], Volume_ContentSource = None,
      Volume_VolumeContext = nfsVolumeContext ''10.0.0.2''\<rparr>,
    snd (UpCloudService_CreateFileStorage File_Client ''pvc''
      \<lparr>NetworkRef_UUID = ''03'', NetworkRef_Name = ''private'', NetworkRef_Zone = ''fi-hel1''\<rparr>
      250 (createVolumeRequestEncryptionAtRest file_request) (file_empty b)))"
proof -
  have "250 * giB sdiv giB = 250" using file_size_i64(3) [OF file_request_ok(4)] by (simp add: giB_def)
  moreover have "CreateVolume_Name file_request = ''pvc''" by (simp add: file_request_def)
  moreover have "file_named n z (fw_files (file_empty b)) = None" for n z by (simp add: file_named_def file_empty_def)
  ultimately show ?thesis
    by (simp add: CreateVolume_nfs [OF file_request_ok(1) File_Client_api file_request_ok(2)] file_request_ok(3,4)
        createFileStorageVolume_def call_def file_sample_network Let_def file_request_ok(2) NewUpCloudService_def
        file_sample_create io_app)
      (simp add: file_sample_def fileStorageServerFromFS_def io_app)
qed

theorem CreateVolume_files_provisions_witness:
  "\<exists>v w'. CreateVolume file_controller file_request (file_empty False) = (Ok v, w') \<and>
     ''/share-1'' \<in> Share_Path ` set (fw_shares w' (Volume_VolumeId v))"
proof -
  obtain v w' where run: "CreateVolume file_controller file_request (file_empty False) = (Ok v, w')"
    by (simp add: file_sample_run)
  have "file_named (CreateVolume_Name file_request) (zone file_controller) (fw_files (file_empty False)) = None"
    by (simp add: file_named_def file_empty_def)
  from CreateVolume_files_provisions [OF File_Client_api file_request_ok(1,2) this run] run show ?thesis by blast
qed



end
