(* ===== verification/Mock_Client.thy ===== *)
theory Mock_Client
  imports UpCloud_Service
begin

text \<open>
  The contract of the server part of the API that \<open>AttachBlockStorage\<close> and \<open>DetachBlockStorage\<close>
  rely on, as the locale \<open>server_api\<close> with the lemmas of the two operations over it, and its
  provider in the repository: the in-memory client of \<open>internal/service/mock/upcloud_client.go\<close>.
  The mock's storage methods come from an embedded nil interface, so calling them panics. Its
  servers live in a \<open>sync.Map\<close> of pointers, updated in place: an association list from
  identifiers to server details.
\<close>

section \<open>The server contract\<close>

text \<open>\<open>srv\<close> views the servers of a world. Attaching adds one device for the storage, detaching removes the
  devices at the address; a started server needs no waiting.\<close>

locale server_api =
  fixes c :: "'w upCloudClient" and srv :: "'w \<Rightarrow> string \<Rightarrow> ServerDetails option"
  assumes details_ok: "srv w u = Some d \<Longrightarrow> api_GetServerDetails c u w = (Ok d, w)"
    and details_missing: "srv w u = None \<Longrightarrow> \<exists>e. api_GetServerDetails c u w = (Err e, w)"
    and wait_started: "srv w u = Some d \<Longrightarrow> Server_State d = ServerStateStarted \<Longrightarrow>
      api_WaitForServerState c u ServerStateStarted w = (Ok (), w)"
    and attach_started: "srv w u = Some d \<Longrightarrow> Server_State d = ServerStateStarted \<Longrightarrow>
      \<exists>dev w'. Device_UUID dev = v \<and>
        api_AttachStorage c u v a w = (Ok (d\<lparr>StorageDevices := StorageDevices d @ [dev]\<rparr>), w') \<and>
        srv w' = (srv w)(u \<mapsto> d\<lparr>StorageDevices := StorageDevices d @ [dev]\<rparr>)"
    and detach_started: "srv w u = Some d \<Longrightarrow> Server_State d = ServerStateStarted \<Longrightarrow>
      \<exists>w'. api_DetachStorage c u a w =
          (Ok (d\<lparr>StorageDevices := filter (\<lambda>x. Device_Address x \<noteq> a) (StorageDevices d)\<rparr>), w') \<and>
        srv w' = (srv w)(u \<mapsto> d\<lparr>StorageDevices := filter (\<lambda>x. Device_Address x \<noteq> a) (StorageDevices d)\<rparr>)"
begin

text \<open>Attaching to a started server succeeds and adds exactly one device, for that storage, to that server.\<close>

lemma attach_correct:
  assumes d: "srv w u = Some d" and st: "Server_State d = ServerStateStarted"
  shows "\<exists>dev w'. UpCloudService_AttachBlockStorage c v u w = (Ok (), w') \<and> Device_UUID dev = v \<and>
    srv w' = (srv w)(u \<mapsto> d\<lparr>StorageDevices := StorageDevices d @ [dev]\<rparr>)"
proof -
  obtain dev w' where dev: "Device_UUID dev = v"
    and at: "api_AttachStorage c u v ''virtio'' w = (Ok (d\<lparr>StorageDevices := StorageDevices d @ [dev]\<rparr>), w')"
    and s': "srv w' = (srv w)(u \<mapsto> d\<lparr>StorageDevices := StorageDevices d @ [dev]\<rparr>)"
    using attach_started [OF d st] by blast
  have "api_WaitForServerState c u ServerStateStarted w' = (Ok (), w')"
    by (rule wait_started [where d = "d\<lparr>StorageDevices := StorageDevices d @ [dev]\<rparr>"]) (simp_all add: s' st)
  then have "UpCloudService_AttachBlockStorage c v u w = (Ok (), w')"
    using at dev wait_started [OF d st]
    by (simp add: UpCloudService_AttachBlockStorage_def waitForServerOnline_def call_def list_ex_iff)
  with dev s' show ?thesis by blast
qed

text \<open>Detaching what is not attached is reported by the sentinel and changes nothing.\<close>

lemma detach_absent:
  assumes d: "srv w u = Some d" and st: "Server_State d = ServerStateStarted"
    and absent: "v \<notin> Device_UUID ` set (StorageDevices d)"
  shows "UpCloudService_DetachBlockStorage c v u w = (Err (Sentinel ErrServerStorageNotFound), w)"
proof -
  have "find (\<lambda>device. Device_UUID device = v) (StorageDevices d) = None"
    using absent by (auto simp: find_None_iff)
  then show ?thesis
    using details_ok [OF d] st by (simp add: UpCloudService_DetachBlockStorage_def call_Ok io_app)
qed

text \<open>Detaching an attached storage removes the devices at the address of its first device, from that
  server only; it succeeds unless the storage has another device left.\<close>

lemma detach_correct:
  assumes d: "srv w u = Some d" and st: "Server_State d = ServerStateStarted"
    and found: "find (\<lambda>x. Device_UUID x = v) (StorageDevices d) = Some dev"
  defines "rest \<equiv> filter (\<lambda>x. Device_Address x \<noteq> Device_Address dev) (StorageDevices d)"
  shows "\<exists>w'. srv w' = (srv w)(u \<mapsto> d\<lparr>StorageDevices := rest\<rparr>) \<and>
    UpCloudService_DetachBlockStorage c v u w =
      (if v \<in> Device_UUID ` set rest then Err (Errorf ''storage device still attached'') else Ok (), w')"
proof -
  let ?d' = "d\<lparr>StorageDevices := rest\<rparr>"
  obtain w' where dt: "api_DetachStorage c u (Device_Address dev) w = (Ok ?d', w')"
    and s': "srv w' = (srv w)(u \<mapsto> ?d')"
    using detach_started [OF d st, of "Device_Address dev"] unfolding rest_def by blast
  have wt: "api_WaitForServerState c u ServerStateStarted w' = (Ok (), w')"
    by (rule wait_started [where d = ?d']) (simp_all add: s' st)
  have "list_ex (\<lambda>s. v = Device_UUID s) rest \<longleftrightarrow> v \<in> Device_UUID ` set rest"
    by (auto simp: list_ex_iff)
  then have "UpCloudService_DetachBlockStorage c v u w =
      (if v \<in> Device_UUID ` set rest then Err (Errorf ''storage device still attached'') else Ok (), w')"
    using details_ok [OF d] st found dt wt
    by (simp add: UpCloudService_DetachBlockStorage_def waitForServerOnline_def call_def io_app)
  with s' show ?thesis by blast
qed

text \<open>Attach and then detach: the server has the devices it had, if the new device got an unused address.\<close>

lemma attach_detach_roundtrip:
  assumes d: "srv w u = Some d" and st: "Server_State d = ServerStateStarted"
    and absent: "v \<notin> Device_UUID ` set (StorageDevices d)"
    and at: "UpCloudService_AttachBlockStorage c v u w = (Ok (), w1)"
    and fresh: "\<And>d1. srv w1 u = Some d1 \<Longrightarrow>
      Device_Address (last (StorageDevices d1)) \<notin> Device_Address ` set (StorageDevices d)"
  shows "\<exists>w2. UpCloudService_DetachBlockStorage c v u w1 = (Ok (), w2) \<and> srv w2 = srv w"
proof -
  obtain dev where dev: "Device_UUID dev = v"
    and s1: "srv w1 = (srv w)(u \<mapsto> d\<lparr>StorageDevices := StorageDevices d @ [dev]\<rparr>)"
    using attach_correct [OF d st, of v] at by auto
  let ?d1 = "d\<lparr>StorageDevices := StorageDevices d @ [dev]\<rparr>"
  have d1: "srv w1 u = Some ?d1" and st1: "Server_State ?d1 = ServerStateStarted"
    using s1 st by simp_all
  have addr: "Device_Address dev \<notin> Device_Address ` set (StorageDevices d)"
    using fresh [OF d1] by simp
  have "find (\<lambda>x. Device_UUID x = v) (StorageDevices d) = None"
    using absent by (auto simp: find_None_iff)
  then have f: "find (\<lambda>x. Device_UUID x = v) (StorageDevices ?d1) = Some dev"
    using dev by (simp add: find_append)
  have rest: "filter (\<lambda>x. Device_Address x \<noteq> Device_Address dev) (StorageDevices ?d1) = StorageDevices d"
    using addr by (simp add: filter_id_conv) (metis imageI)
  show ?thesis
    using detach_correct [OF d1 st1 f] absent s1 d unfolding rest by (auto simp: fun_upd_idem)
qed

end

section \<open>The mock client\<close>

type_synonym mock_world = "(string \<times> ServerDetails) list"

definition mockZone :: string where
  "mockZone = ''fi-hel2''"

definition mockFileStorage :: "string \<Rightarrow> int \<Rightarrow> FileStorage" where
  "mockFileStorage uuid sizeGiB =
     \<lparr>FileStorage_UUID = uuid, FileStorage_Name = ''mock-file-storage'', FileStorage_Zone = mockZone,
      FileStorage_SizeGiB = sizeGiB, FileStorage_Encrypted = False, FileStorage_Networks = [],
      FileStorage_OperationalState = FileStorageOperationalStateRunning\<rparr>"

definition getServer :: "mock_world \<Rightarrow> string \<Rightarrow> ServerDetails option" where
  "getServer w u = map_of w u"

text \<open>\<open>StoreServer\<close> is \<open>LoadOrStore\<close>: a server that is already there is kept.\<close>

definition StoreServer :: "ServerDetails \<Rightarrow> mock_world \<Rightarrow> mock_world" where
  "StoreServer s w = (case getServer w (Server_UUID s) of
      None \<Rightarrow> w @ [(Server_UUID s, s)] | Some _ \<Rightarrow> w)"

text \<open>The in-place update of a server through its pointer.\<close>

definition putServer :: "string \<Rightarrow> ServerDetails \<Rightarrow> mock_world \<Rightarrow> mock_world" where
  "putServer u s w = map (\<lambda>(k, x). if k = u then (k, s) else (k, x)) w"

definition UpCloudClient_GetServerDetails :: "string \<Rightarrow> (ServerDetails, mock_world) io" where
  "UpCloudClient_GetServerDetails u w = (case getServer w u of
      Some s \<Rightarrow> (Ok s, w) | None \<Rightarrow> (Err (Errorf ''server not found''), w))"

definition UpCloudClient_WaitForServerState :: "string \<Rightarrow> server_state \<Rightarrow> (unit, mock_world) io" where
  "UpCloudClient_WaitForServerState u st =
     call (UpCloudClient_GetServerDetails u) (\<lambda>_. ret ()) (\<lambda>_. ret ())"

definition UpCloudClient_GetServers :: "(Server list, mock_world) io" where
  "UpCloudClient_GetServers w = (Ok (map (\<lambda>(_, d). Server.truncate d) w), w)"

definition UpCloudClient_AttachStorage :: "string \<Rightarrow> string \<Rightarrow> string \<Rightarrow> (ServerDetails, mock_world) io" where
  "UpCloudClient_AttachStorage serverUUID storageUUID address w =
     (case getServer w serverUUID of
        None \<Rightarrow> (Err (Errorf ''server not found''), w)
      | Some server \<Rightarrow>
          if Server_State server \<noteq> ServerStateStarted then (Err (Errorf ''server state''), w)
          else let dev = \<lparr>Device_Address = address @ '':'' @ Sprint_int (int (length (StorageDevices server)) + 1),
                     Device_UUID = storageUUID, Device_Size = 10\<rparr>;
                   server' = server\<lparr>Server_State := ServerStateStarted,
                     StorageDevices := StorageDevices server @ [dev]\<rparr>
               in (Ok server', putServer serverUUID server' w))"

definition UpCloudClient_DetachStorage :: "string \<Rightarrow> string \<Rightarrow> (ServerDetails, mock_world) io" where
  "UpCloudClient_DetachStorage serverUUID address w =
     (case getServer w serverUUID of
        None \<Rightarrow> (Err (Errorf ''server not found''), w)
      | Some server \<Rightarrow>
          if Server_State server \<noteq> ServerStateStarted then (Err (Errorf ''server state''), w)
          else let server' = server\<lparr>Server_State := ServerStateStarted,
                     StorageDevices := filter (\<lambda>x. Device_Address x \<noteq> address) (StorageDevices server)\<rparr>
               in (Ok server', putServer serverUUID server' w))"

definition not_implemented :: "('a, mock_world) io" where
  "not_implemented = throw (Errorf ''not implemented'')"

definition UpCloudClient_mock :: "mock_world upCloudClient" where
  "UpCloudClient_mock =
     \<lparr>api_GetStorages = (\<lambda>_. panic),
      api_GetStorageDetails = (\<lambda>_. panic),
      api_CreateStorage = (\<lambda>_. panic),
      api_CloneStorage = (\<lambda>_. panic),
      api_ModifyStorage = (\<lambda>_. panic),
      api_DeleteStorage = (\<lambda>_. panic),
      api_AttachStorage = UpCloudClient_AttachStorage,
      api_DetachStorage = UpCloudClient_DetachStorage,
      api_CreateBackup = (\<lambda>_ _. panic),
      api_ResizeStorageFilesystem = (\<lambda>_. panic),
      api_WaitForStorageState = (\<lambda>_ _. panic),
      api_WaitForServerState = UpCloudClient_WaitForServerState,
      api_GetServers = UpCloudClient_GetServers,
      api_GetServerDetails = UpCloudClient_GetServerDetails,
      api_GetFileStorages = ret [],
      api_GetFileStorage = (\<lambda>_. throw (Problem 404 (ErrCodeOther []))),
      api_CreateFileStorage = (\<lambda>_. not_implemented),
      api_DeleteFileStorage = (\<lambda>_. ret ()),
      api_ModifyFileStorage = (\<lambda>uuid newSize. ret (mockFileStorage uuid newSize)),
      api_WaitForFileStorageOperationalState = (\<lambda>uuid st.
        ret ((mockFileStorage uuid 250)\<lparr>FileStorage_OperationalState := st\<rparr>)),
      api_GetFileStorageNetworks = (\<lambda>_. not_implemented),
      api_GetFileStorageShares = (\<lambda>_. not_implemented),
      api_CreateFileStorageShare = (\<lambda>_. not_implemented),
      api_CreateFileStorageShareACL = (\<lambda>_. not_implemented),
      api_GetNetworkDetails = (\<lambda>_. not_implemented),
      api_GetNetworks = not_implemented\<rparr>"

lemma getServer_putServer_eq:
  "getServer (putServer u s w) k = (if k = u then map_option (\<lambda>_. s) (getServer w u) else getServer w k)"
  by (induction w) (auto simp: getServer_def putServer_def)

lemma getServer_putServer:
  "getServer w u = Some d \<Longrightarrow> getServer (putServer u s w) = (getServer w)(u \<mapsto> s)"
  by (auto simp: getServer_putServer_eq)

lemma restarted_same:
  "Server_State d = st \<Longrightarrow> d\<lparr>Server_State := st, StorageDevices := xs\<rparr> = d\<lparr>StorageDevices := xs\<rparr>"
  by (cases d) simp

interpretation mock: server_api UpCloudClient_mock getServer
proof (unfold_locales, goal_cases)
  case (1 w u d)
  then show ?case by (simp add: UpCloudClient_mock_def UpCloudClient_GetServerDetails_def)
next
  case (2 w u)
  then show ?case by (simp add: UpCloudClient_mock_def UpCloudClient_GetServerDetails_def)
next
  case (3 w u d)
  then show ?case
    by (simp add: UpCloudClient_mock_def UpCloudClient_WaitForServerState_def
        UpCloudClient_GetServerDetails_def call_def io_app)
next
  case (4 w u d v a)
  let ?dev = "\<lparr>Device_Address = a @ '':'' @ Sprint_int (int (length (StorageDevices d)) + 1),
    Device_UUID = v, Device_Size = 10\<rparr>"
  from 4 show ?case
    by (intro exI [of _ ?dev])
      (simp add: UpCloudClient_mock_def UpCloudClient_AttachStorage_def getServer_putServer Let_def restarted_same)
next
  case (5 w u d a)
  then show ?case
    by (simp add: UpCloudClient_mock_def UpCloudClient_DetachStorage_def getServer_putServer Let_def restarted_same)
qed

end
