(* ===== verification/Node_Sync.thy ===== *)
theory Node_Sync
  imports Mock_Client
begin

text \<open>
  The serialisation of \<open>AttachBlockStorage\<close> and \<open>DetachBlockStorage\<close> per server
  (\<open>upcloud_block_storage.go\<close>): goroutines that take the mutex registered for the server in the
  \<open>sync.Map\<close> \<open>nodeSync\<close>, run the body request by request, interleaved with each other, and release
  the mutex by the deferred unlock. The bodies are programs of single requests; run alone they are the
  sequential definitions of \<open>UpCloud_Service\<close>. The goroutines are a step relation; mutual exclusion per
  server is an invariant by rule induction, and no reachable state is stuck.
\<close>

section \<open>Bodies, one request at a time\<close>

text \<open>A body is finished with a result, or its next request acts on the world and the rest follows.\<close>

datatype 'w prog = Fin "unit res" | Act "'w \<Rightarrow> 'w prog \<times> 'w"

definition act :: "('a, 'w) io \<Rightarrow> ('a res \<Rightarrow> 'w prog) \<Rightarrow> 'w prog" where
  "act m k = Act (\<lambda>w. case m w of (r, w') \<Rightarrow> (k r, w'))"

primrec run :: "'w prog \<Rightarrow> (unit, 'w) io" where
  "run (Fin r) = (\<lambda>w. (r, w))"
| "run (Act f) = (\<lambda>w. (\<lambda>(p, w'). p w') (map_prod run id (f w)))"

lemma run_act: "run (act m k) w = (case m w of (r, w') \<Rightarrow> run (k r) w')"
  by (simp add: act_def split: prod.splits)

definition attach_prog :: "'w upCloudClient \<Rightarrow> string \<Rightarrow> string \<Rightarrow> 'w prog" where
  "attach_prog c storageUUID serverUUID =
     act (waitForServerOnline c serverUUID) (\<lambda>r. case r of
       Err e \<Rightarrow> Fin (Err (Wrapped ''failed to attach storage, pre-condition failed'' e))
     | Panic \<Rightarrow> Fin Panic
     | Ok _ \<Rightarrow> act (api_AttachStorage c serverUUID storageUUID ''virtio'') (\<lambda>r. case r of
         Err e \<Rightarrow> Fin (Err e)
       | Panic \<Rightarrow> Fin Panic
       | Ok details \<Rightarrow>
           if list_ex (\<lambda>s. storageUUID = Device_UUID s) (StorageDevices details)
           then act (waitForServerOnline c serverUUID) Fin
           else Fin (Err (Errorf ''storage device not found after attaching to server''))))"

definition detach_prog :: "'w upCloudClient \<Rightarrow> string \<Rightarrow> string \<Rightarrow> 'w prog" where
  "detach_prog c storageUUID serverUUID =
     act (api_GetServerDetails c serverUUID) (\<lambda>r. case r of
       Err e \<Rightarrow> Fin (Err e)
     | Panic \<Rightarrow> Fin Panic
     | Ok sd \<Rightarrow> act (if Server_State sd \<noteq> ServerStateStarted then waitForServerOnline c serverUUID else ret ()) (\<lambda>r. case r of
         Err e \<Rightarrow> Fin (Err (Wrapped ''failed to detach storage, pre-condition failed'' e))
       | Panic \<Rightarrow> Fin Panic
       | Ok _ \<Rightarrow> (case find (\<lambda>device. Device_UUID device = storageUUID) (StorageDevices sd) of
           None \<Rightarrow> Fin (Err (Sentinel ErrServerStorageNotFound))
         | Some device \<Rightarrow> act (api_DetachStorage c serverUUID (Device_Address device)) (\<lambda>r. case r of
             Err e \<Rightarrow> Fin (Err e)
           | Panic \<Rightarrow> Fin Panic
           | Ok details \<Rightarrow>
               if list_ex (\<lambda>s. storageUUID = Device_UUID s) (StorageDevices details)
               then Fin (Err (Errorf ''storage device still attached''))
               else act (waitForServerOnline c serverUUID) Fin))))"

lemma run_attach_prog: "run (attach_prog c st sv) w = UpCloudService_AttachBlockStorage c st sv w"
  by (auto simp: attach_prog_def UpCloudService_AttachBlockStorage_def run_act io_defs split: prod.splits res.splits)

lemma run_detach_prog: "run (detach_prog c st sv) w = UpCloudService_DetachBlockStorage c st sv w"
  by (auto simp: detach_prog_def UpCloudService_DetachBlockStorage_def run_act io_defs
      split: prod.splits res.splits option.splits)

section \<open>The lock registry\<close>

text \<open>What the callers rely on of \<open>sync.Map.LoadOrStore\<close>: it returns the value registered for the key, which is
  the new one only when there was none, and no other key changes.\<close>

locale registry =
  fixes load_or_store :: "'r \<Rightarrow> 'k \<Rightarrow> 'm \<Rightarrow> 'm \<times> 'r" and registered :: "'r \<Rightarrow> 'k \<Rightarrow> 'm option"
  assumes loaded: "registered r k = Some m \<Longrightarrow> load_or_store r k v = (m, r)"
    and stored: "registered r k = None \<Longrightarrow> load_or_store r k v = (m, r') \<Longrightarrow>
      m = v \<and> registered r' = (registered r)(k \<mapsto> v)"
begin

lemma los_registered: "load_or_store r k v = (m, r') \<Longrightarrow> registered r' k = Some m"
  by (cases "registered r k") (auto simp: loaded dest: stored)

lemma los_stable: "registered r j = Some x \<Longrightarrow> load_or_store r k v = (m, r') \<Longrightarrow> registered r' j = Some x"
  by (cases "registered r k") (auto simp: loaded dest!: stored)

lemma los_values:
  "registered r' j = Some x \<Longrightarrow> load_or_store r k v = (m, r') \<Longrightarrow> registered r j = Some x \<or> j = k \<and> x = v"
  by (cases "registered r k") (auto simp: loaded dest!: stored split: if_splits)

text \<open>A fresh value keeps the registered values distinct.\<close>

lemma los_inj:
  assumes inj: "\<And>i j x. registered r i = Some x \<Longrightarrow> registered r j = Some x \<Longrightarrow> i = j"
    and fresh: "\<And>i. registered r i \<noteq> Some v" and los: "load_or_store r k v = (m, r')"
    and "registered r' i = Some x" and "registered r' j = Some x"
  shows "i = j"
  using los_values [OF assms(4) los] los_values [OF assms(5) los] inj fresh by metis

end

definition LoadOrStore :: "('k \<Rightarrow> 'm option) \<Rightarrow> 'k \<Rightarrow> 'm \<Rightarrow> 'm \<times> ('k \<Rightarrow> 'm option)" where
  "LoadOrStore r k v = (case r k of Some m \<Rightarrow> (m, r) | None \<Rightarrow> (v, r(k \<mapsto> v)))"

interpretation sync_map: registry "LoadOrStore :: ('k \<Rightarrow> 'm option) \<Rightarrow> _" "\<lambda>r. r"
  by unfold_locales (auto simp: LoadOrStore_def)

section \<open>Goroutines\<close>

datatype node_call = Attach string string | Detach string string

text \<open>The server of a call; the storage comes first, as in the methods.\<close>

fun call_server :: "node_call \<Rightarrow> string" where
  "call_server (Attach st sv) = sv"
| "call_server (Detach st sv) = sv"

fun call_body :: "'w upCloudClient \<Rightarrow> node_call \<Rightarrow> 'w prog" where
  "call_body c (Attach st sv) = attach_prog c st sv"
| "call_body c (Detach st sv) = detach_prog c st sv"

fun call_io :: "'w upCloudClient \<Rightarrow> node_call \<Rightarrow> (unit, 'w) io" where
  "call_io c (Attach st sv) = UpCloudService_AttachBlockStorage c st sv"
| "call_io c (Detach st sv) = UpCloudService_DetachBlockStorage c st sv"

lemma run_call_body: "run (call_body c k) = call_io c k"
  by (cases k) (auto simp: fun_eq_iff run_attach_prog run_detach_prog)

text \<open>Where a goroutine is: not started, about to load the mutex, blocked in \<open>Lock\<close> on mutex \<open>m\<close>, inside with the
  rest of its body, or returned.\<close>

datatype 'w pc =
    Idle
  | Entered node_call
  | Blocked node_call nat
  | Inside node_call nat "'w prog"
  | Returned node_call "unit res"

text \<open>Mutexes are named by allocation order; \<open>owner\<close> is the goroutine holding a mutex.\<close>

record 'w sync_state =
  nodeSync :: "string \<Rightarrow> nat option"
  allocated :: nat
  owner :: "nat \<Rightarrow> nat option"
  pcs :: "nat \<Rightarrow> 'w pc"
  cloud :: 'w

definition initial :: "'w \<Rightarrow> 'w sync_state" where
  "initial w = \<lparr>nodeSync = Map.empty, allocated = 0, owner = Map.empty, pcs = (\<lambda>_. Idle), cloud = w\<rparr>"

text \<open>\<open>go_step c t s s'\<close>: goroutine \<open>t\<close> takes the state \<open>s\<close> to \<open>s'\<close>.\<close>

inductive go_step :: "'w upCloudClient \<Rightarrow> nat \<Rightarrow> 'w sync_state \<Rightarrow> 'w sync_state \<Rightarrow> bool" for c where
  enter: "pcs s t = Idle \<Longrightarrow> go_step c t s (s\<lparr>pcs := (pcs s)(t := Entered k)\<rparr>)"
| load: "pcs s t = Entered k \<Longrightarrow> LoadOrStore (nodeSync s) (call_server k) (allocated s) = (m, reg) \<Longrightarrow>
    go_step c t s (s\<lparr>nodeSync := reg, allocated := Suc (allocated s), pcs := (pcs s)(t := Blocked k m)\<rparr>)"
| lock: "pcs s t = Blocked k m \<Longrightarrow> owner s m = None \<Longrightarrow>
    go_step c t s (s\<lparr>owner := (owner s)(m \<mapsto> t), pcs := (pcs s)(t := Inside k m (call_body c k))\<rparr>)"
| request: "pcs s t = Inside k m (Act f) \<Longrightarrow> f (cloud s) = (p, w') \<Longrightarrow>
    go_step c t s (s\<lparr>cloud := w', pcs := (pcs s)(t := Inside k m p)\<rparr>)"
| unlock: "pcs s t = Inside k m (Fin r) \<Longrightarrow>
    go_step c t s (s\<lparr>owner := (owner s)(m := None), pcs := (pcs s)(t := Returned k r)\<rparr>)"

inductive go_reach :: "'w upCloudClient \<Rightarrow> 'w sync_state \<Rightarrow> 'w sync_state \<Rightarrow> bool" for c where
  refl: "go_reach c s s"
| more: "go_reach c s s' \<Longrightarrow> go_step c t s' s'' \<Longrightarrow> go_reach c s s''"

section \<open>The invariant\<close>

text \<open>The mutex a goroutine has loaded but not released.\<close>

fun pc_mutex :: "'w pc \<Rightarrow> (node_call \<times> nat) option" where
  "pc_mutex (Blocked k m) = Some (k, m)"
| "pc_mutex (Inside k m p) = Some (k, m)"
| "pc_mutex _ = None"

fun pc_inside :: "'w pc \<Rightarrow> nat option" where
  "pc_inside (Inside k m p) = Some m"
| "pc_inside _ = None"

definition sync_inv :: "'w sync_state \<Rightarrow> bool" where
  "sync_inv s \<longleftrightarrow>
     (\<forall>i m. nodeSync s i = Some m \<longrightarrow> m < allocated s) \<and>
     (\<forall>i j m. nodeSync s i = Some m \<longrightarrow> nodeSync s j = Some m \<longrightarrow> i = j) \<and>
     (\<forall>t k m. pc_mutex (pcs s t) = Some (k, m) \<longrightarrow> nodeSync s (call_server k) = Some m) \<and>
     (\<forall>t m. owner s m = Some t \<longleftrightarrow> pc_inside (pcs s t) = Some m)"

lemma sync_inv_initial: "sync_inv (initial w)"
  by (simp add: sync_inv_def initial_def)

lemma sync_inv_load:
  assumes inv: "sync_inv s" and pc: "pcs s t = Entered k"
    and los: "LoadOrStore (nodeSync s) (call_server k) (allocated s) = (m, reg)"
  shows "sync_inv (s\<lparr>nodeSync := reg, allocated := Suc (allocated s), pcs := (pcs s)(t := Blocked k m)\<rparr>)"
proof -
  note I = inv [unfolded sync_inv_def]
  have fresh: "\<And>i. nodeSync s i \<noteq> Some (allocated s)" using I by fastforce
  have "m' < Suc (allocated s)" if "reg i = Some m'" for i m'
    using sync_map.los_values [OF that los] I by (auto dest: less_SucI)
  moreover have "i = j" if "reg i = Some m'" "reg j = Some m'" for i j m'
    by (rule sync_map.los_inj [OF _ fresh los that]) (use I in blast)
  moreover have "reg (call_server k) = Some m" by (rule sync_map.los_registered [OF los])
  moreover have "reg (call_server k') = Some m'" if "pc_mutex (pcs s t') = Some (k', m')" for t' k' m'
    using that I by (blast intro: sync_map.los_stable [OF _ los])
  moreover have "owner s m' \<noteq> Some t" for m' using I pc by auto
  ultimately show ?thesis using I by (auto simp: sync_inv_def)
qed

lemma sync_inv_step:
  assumes "go_step c t s s'" and "sync_inv s"
  shows "sync_inv s'"
  using assms
proof (induction rule: go_step.induct)
  case (load s t k m reg)
  from load(3,1,2) show ?case by (rule sync_inv_load)
next
  case (enter s t k)
  then show ?case by (auto simp: sync_inv_def)
next
  case (lock s t k m)
  have "nodeSync s (call_server k) = Some m"
    using lock unfolding sync_inv_def by (metis pc_mutex.simps(1))
  moreover have "pc_inside (pcs s u) \<noteq> Some m" for u
    using lock unfolding sync_inv_def by (metis option.distinct(1))
  ultimately show ?case using lock by (auto simp: sync_inv_def)
next
  case (request s t k m f p w')
  have "nodeSync s (call_server k) = Some m"
    using request unfolding sync_inv_def by (metis pc_mutex.simps(2))
  with request show ?case by (auto simp: sync_inv_def)
next
  case (unlock s t k m r)
  have "u = t" if "pc_inside (pcs s u) = Some m" for u
    using unlock that unfolding sync_inv_def by (metis option.inject pc_inside.simps(1))
  with unlock show ?case by (auto simp: sync_inv_def)
qed

lemma sync_inv_reach: "go_reach c s s' \<Longrightarrow> sync_inv s \<Longrightarrow> sync_inv s'"
  by (induction rule: go_reach.induct) (auto intro: sync_inv_step)

section \<open>Properties\<close>

text \<open>The registered mutex of a server never changes, and it is not shared between servers.\<close>

lemma registry_stable_step: "go_step c t s s' \<Longrightarrow> nodeSync s i = Some m \<Longrightarrow> nodeSync s' i = Some m"
  by (induction rule: go_step.induct) (auto intro: sync_map.los_stable)

lemma inside_unique:
  assumes inv: "sync_inv s" and a: "pcs s t = Inside k m p" and b: "pcs s t' = Inside k' m' p'"
    and sv: "call_server k = call_server k'"
  shows "t = t'"
proof -
  have "nodeSync s (call_server k) = Some m" "nodeSync s (call_server k') = Some m'"
    using inv a b unfolding sync_inv_def by (metis pc_mutex.simps(2))+
  then have "m = m'" using sv by simp
  moreover have "owner s m = Some t" "owner s m' = Some t'"
    using inv a b unfolding sync_inv_def by simp_all
  ultimately show ?thesis by simp
qed

text \<open>C3. Mutual exclusion per server: in every state the goroutines can reach, two goroutines that are inside
  \<open>AttachBlockStorage\<close> or \<open>DetachBlockStorage\<close> for the same server are the same goroutine, so at most one attach
  or detach request is in flight for a server.\<close>

theorem node_mutual_exclusion:
  assumes "go_reach c (initial w) s" and "pcs s t = Inside k m p" and "pcs s t' = Inside k' m' p'"
    and "call_server k = call_server k'"
  shows "t = t' \<and> k = k' \<and> m = m'"
proof -
  have "sync_inv s" using sync_inv_reach [OF assms(1) sync_inv_initial] .
  from inside_unique [OF this assms(2-4)] assms(2,3) show ?thesis by simp
qed

text \<open>Two goroutines on one server: the first is inside, the second is blocked.\<close>

definition sample_sync :: "mock_world sync_state" where
  "sample_sync = \<lparr>nodeSync = [''sv'' \<mapsto> 0], allocated = 2, owner = [0 \<mapsto> 0],
     pcs = (\<lambda>_. Idle)(0 := Inside (Attach ''a'' ''sv'') 0 (attach_prog UpCloudClient_mock ''a'' ''sv''),
                    1 := Blocked (Detach ''b'' ''sv'') 0),
     cloud = []\<rparr>"

lemma sample_sync_reachable: "go_reach UpCloudClient_mock (initial []) sample_sync"
proof -
  let ?c = UpCloudClient_mock and ?a = "Attach ''a'' ''sv''" and ?d = "Detach ''b'' ''sv''"
  let ?s0 = "initial [] :: mock_world sync_state"
  let ?s1 = "?s0\<lparr>pcs := (pcs ?s0)(0 := Entered ?a)\<rparr>"
  let ?s2 = "?s1\<lparr>nodeSync := [''sv'' \<mapsto> 0], allocated := Suc (allocated ?s1), pcs := (pcs ?s1)(0 := Blocked ?a 0)\<rparr>"
  let ?s3 = "?s2\<lparr>owner := (owner ?s2)(0 \<mapsto> 0), pcs := (pcs ?s2)(0 := Inside ?a 0 (call_body ?c ?a))\<rparr>"
  let ?s4 = "?s3\<lparr>pcs := (pcs ?s3)(1 := Entered ?d)\<rparr>"
  let ?s5 = "?s4\<lparr>nodeSync := [''sv'' \<mapsto> 0], allocated := Suc (allocated ?s4), pcs := (pcs ?s4)(1 := Blocked ?d 0)\<rparr>"
  have 1: "go_step ?c 0 ?s0 ?s1" by (rule go_step.enter) (simp add: initial_def)
  have 2: "go_step ?c 0 ?s1 ?s2" by (rule go_step.load) (simp_all add: initial_def LoadOrStore_def)
  have 3: "go_step ?c 0 ?s2 ?s3" by (rule go_step.lock) (simp_all add: initial_def)
  have 4: "go_step ?c 1 ?s3 ?s4" by (rule go_step.enter) (simp add: initial_def)
  have 5: "go_step ?c 1 ?s4 ?s5" by (rule go_step.load) (simp_all add: initial_def LoadOrStore_def)
  have "go_reach ?c ?s0 ?s5"
    by (rule go_reach.more [OF _ 5], rule go_reach.more [OF _ 4], rule go_reach.more [OF _ 3],
        rule go_reach.more [OF _ 2], rule go_reach.more [OF _ 1], rule go_reach.refl)
  moreover have "?s5 = sample_sync"
    by (simp add: sample_sync_def initial_def fun_upd_twist)
  ultimately show ?thesis by simp
qed

theorem node_mutual_exclusion_witness:
  "{t'. \<exists>k' m' p'. pcs sample_sync t' = Inside k' m' p' \<and> call_server k' = ''sv''} = {0}"
proof -
  have 0: "pcs sample_sync 0 = Inside (Attach ''a'' ''sv'') 0 (attach_prog UpCloudClient_mock ''a'' ''sv'')"
    by (simp add: sample_sync_def)
  have "0 = t'" if "pcs sample_sync t' = Inside k' m' p'" and "call_server k' = ''sv''" for t' k' m' p'
    using node_mutual_exclusion [OF sample_sync_reachable 0 that(1)] that(2) by simp
  with 0 show ?thesis by fastforce
qed

text \<open>A goroutine has started and not returned.\<close>

fun unfinished :: "'w pc \<Rightarrow> node_call option" where
  "unfinished (Entered k) = Some k"
| "unfinished (Blocked k m) = Some k"
| "unfinished (Inside k m p) = Some k"
| "unfinished _ = None"

lemma inside_can_step: "pcs s t = Inside k m p \<Longrightarrow> \<exists>s'. go_step c t s s'"
  by (cases p) (auto intro: go_step.unlock go_step.request [OF _ prod.collapse [symmetric]])

text \<open>C9. No deadlock, and no waiting across servers: a goroutine of a reachable state that has not returned can take a
  step itself, or it is blocked and the goroutine that can take a step is inside for the very same server.\<close>

theorem node_no_deadlock:
  assumes r: "go_reach c (initial w) s" and busy: "unfinished (pcs s t) = Some k"
  shows "(\<exists>s'. go_step c t s s') \<or>
    (\<exists>t' k' m p s'. pcs s t' = Inside k' m p \<and> call_server k' = call_server k \<and> go_step c t' s s')"
proof (cases "pcs s t")
  case (Entered k1)
  then show ?thesis by (auto intro: go_step.load [OF _ prod.collapse [symmetric]])
next
  case (Blocked k1 m)
  have inv: "sync_inv s" using sync_inv_reach [OF r sync_inv_initial] .
  show ?thesis
  proof (cases "owner s m")
    case None
    with Blocked show ?thesis by (auto intro: go_step.lock)
  next
    case (Some t')
    then have "pc_inside (pcs s t') = Some m" using inv by (simp add: sync_inv_def)
    then obtain k' p where t': "pcs s t' = Inside k' m p" by (cases "pcs s t'") auto
    have "nodeSync s (call_server k') = Some m" "nodeSync s (call_server k1) = Some m"
      using inv t' Blocked unfolding sync_inv_def by (metis pc_mutex.simps)+
    then have "call_server k' = call_server k1" using inv unfolding sync_inv_def by metis
    moreover have "k1 = k" using Blocked busy by simp
    moreover obtain s' where "go_step c t' s s'" using inside_can_step [OF t'] by blast
    ultimately show ?thesis using t' by blast
  qed
next
  case (Inside k1 m p)
  then show ?thesis using inside_can_step by blast
qed (use busy in simp_all)

theorem node_no_deadlock_witness:
  "(\<exists>s'. go_step UpCloudClient_mock 1 sample_sync s') \<or>
   (\<exists>t' k' m p s'. pcs sample_sync t' = Inside k' m p \<and> call_server k' = ''sv'' \<and> go_step UpCloudClient_mock t' sample_sync s')"
proof -
  have "unfinished (pcs sample_sync 1) = Some (Detach ''b'' ''sv'')" by (simp add: sample_sync_def)
  from node_no_deadlock [OF sample_sync_reachable this] show ?thesis by simp
qed

text \<open>The number of requests a body can still make.\<close>

inductive within :: "nat \<Rightarrow> 'w prog \<Rightarrow> bool" where
  fin: "within n (Fin r)"
| req: "(\<And>w. within n (fst (f w))) \<Longrightarrow> within (Suc n) (Act f)"

lemma within_act: "(\<And>r. within n (k r)) \<Longrightarrow> within (Suc n) (act m k)"
  unfolding act_def by (rule within.req) (simp split: prod.splits)


end
