(* ===== verification/Go_Path.thy ===== *)
theory Go_Path
  imports Go_Lib
begin

text \<open>
  The functions of Go's \<open>path/filepath\<close> the driver uses, on Unix paths: \<open>IsAbs\<close>, \<open>Clean\<close>, \<open>Join\<close>,
  \<open>Dir\<close>, and \<open>Abs\<close> of an absolute path.
\<close>

definition IsAbs :: "string \<Rightarrow> bool" where
  "IsAbs p = HasPrefix p ''/''"

text \<open>The elements of a clean path, last first: empty elements and dots go, a double dot takes its parent away.\<close>

fun clean_elems :: "bool \<Rightarrow> string list \<Rightarrow> string list \<Rightarrow> string list" where
  "clean_elems rooted acc [] = acc"
| "clean_elems rooted acc (e # es) =
     (if e = [] \<or> e = ''.'' then clean_elems rooted acc es
      else if e = ''..'' then
        (case acc of
           [] \<Rightarrow> if rooted then clean_elems rooted [] es else clean_elems rooted [''..''] es
         | a # rest \<Rightarrow> if a = ''..'' then clean_elems rooted (''..'' # acc) es else clean_elems rooted rest es)
      else clean_elems rooted (e # acc) es)"

definition Clean :: "string \<Rightarrow> string" where
  "Clean p =
     (let elems = rev (clean_elems (IsAbs p) [] (Split p (CHR ''/'')));
          out = (if IsAbs p then ''/'' else []) @ Join elems ''/''
      in if out = [] then ''.'' else out)"

definition path_Join :: "string \<Rightarrow> string \<Rightarrow> string" where
  "path_Join a b = (if a = [] then (if b = [] then [] else Clean b) else Clean (a @ ''/'' @ b))"

text \<open>\<open>Dir\<close> cleans what comes before the last element, the separator included.\<close>

definition path_Dir :: "string \<Rightarrow> string" where
  "path_Dir p = Clean (rev (dropWhile (\<lambda>c. c \<noteq> CHR ''/'') (rev p)))"

lemma Clean_abs: "IsAbs p \<Longrightarrow> IsAbs (Clean p)"
  by (simp add: Clean_def IsAbs_def HasPrefix_def Let_def)

lemma path_Join_abs: "IsAbs a \<Longrightarrow> IsAbs (path_Join a b)"
proof -
  assume a: "IsAbs a"
  then have "a \<noteq> []" "IsAbs (a @ ''/'' @ b)" by (cases a; simp add: IsAbs_def HasPrefix_def)+
  then show ?thesis by (simp add: path_Join_def Clean_abs)
qed

lemma path_Dir_abs: "IsAbs p \<Longrightarrow> IsAbs (path_Dir p)"
proof -
  assume "IsAbs p"
  then obtain r where p: "p = CHR ''/'' # r" by (cases p) (auto simp: IsAbs_def HasPrefix_def)
  have "rev (dropWhile (\<lambda>c. c \<noteq> CHR ''/'') (rev p)) = CHR ''/'' # rev (dropWhile (\<lambda>c. c \<noteq> CHR ''/'') (rev r)) \<or>
      rev (dropWhile (\<lambda>c. c \<noteq> CHR ''/'') (rev p)) = ''/''"
    unfolding p by (simp add: dropWhile_append)
  then have "IsAbs (rev (dropWhile (\<lambda>c. c \<noteq> CHR ''/'') (rev p)))" by (auto simp: IsAbs_def HasPrefix_def)
  then show ?thesis unfolding path_Dir_def by (rule Clean_abs)
qed

end
