(* ===== verification/Filesystem_Iface.thy ===== *)
theory Filesystem_Iface
  imports Go_Path
begin

text \<open>
  The interface \<open>Filesystem\<close> of \<open>internal/filesystem/filesystem.go\<close> as a record of operations over a world
  \<open>'w\<close>, and the operating system its Linux provider runs on, as a record of the calls of \<open>os\<close>,
  \<open>os/exec\<close> and \<open>unix\<close> it makes. The operating system is not part of the repository: it is an argument.
\<close>

record VolumeStatistics =
  AvailableBytes :: int
  TotalBytes :: int
  UsedBytes :: int
  AvailableInodes :: int
  TotalInodes :: int
  UsedInodes :: int

record MountInfo =
  MountInfo_Source :: string
  MountInfo_FsType :: string
  MountInfo_Options :: string

record 'w Filesystem =
  fs_Format :: "string \<Rightarrow> string \<Rightarrow> string list \<Rightarrow> (unit, 'w) io"
  fs_IsMounted :: "string \<Rightarrow> (bool, 'w) io"
  fs_GetMountInfo :: "string \<Rightarrow> (MountInfo, 'w) io"
  fs_GetBlockDeviceSize :: "string \<Rightarrow> (int, 'w) io"
  fs_Mount :: "string \<Rightarrow> string \<Rightarrow> string \<Rightarrow> string list \<Rightarrow> (unit, 'w) io"
  fs_Unmount :: "string \<Rightarrow> (unit, 'w) io"
  fs_Statistics :: "string \<Rightarrow> (VolumeStatistics, 'w) io"
  fs_GetDeviceByID :: "string \<Rightarrow> (string, 'w) io"
  fs_GetDeviceLastPartition :: "string \<Rightarrow> (string, 'w) io"
  fs_ResizeVolume :: "string \<Rightarrow> string \<Rightarrow> (unit, 'w) io"

text \<open>The answers of \<open>os.Stat\<close>, \<open>os.Readlink\<close> and \<open>exec.LookPath\<close>, with the case the driver asks for by
  \<open>os.IsNotExist\<close> and \<open>exec.ErrNotFound\<close> apart.\<close>

datatype stat_result = StatOk | StatNotExist | StatError err

datatype readlink_result = ReadlinkOk string | ReadlinkNotExist | ReadlinkError err

datatype lookpath_result = LookPathOk string | LookPathNotFound | LookPathError err

text \<open>The fields of \<open>statfs\<close> the driver reads: unsigned 64-bit counts and the signed block size.\<close>

record Statfs =
  Statfs_Bavail :: nat
  Statfs_Blocks :: nat
  Statfs_Bfree :: nat
  Statfs_Bsize :: int
  Statfs_Files :: nat
  Statfs_Ffree :: nat

text \<open>Running a command returns its combined output and, separately, an error; an exit status that is not
  zero is an \<open>ExitError\<close>.\<close>

record 'w os =
  os_Run :: "string \<Rightarrow> string list \<Rightarrow> 'w \<Rightarrow> (string \<times> err option) \<times> 'w"
  os_LookPath :: "string \<Rightarrow> 'w \<Rightarrow> lookpath_result \<times> 'w"
  os_Stat :: "string \<Rightarrow> 'w \<Rightarrow> stat_result \<times> 'w"
  os_Readlink :: "string \<Rightarrow> 'w \<Rightarrow> readlink_result \<times> 'w"
  os_MkdirAll :: "string \<Rightarrow> (unit, 'w) io"
  os_OpenFile :: "string \<Rightarrow> (unit, 'w) io"
  os_CloseFile :: "string \<Rightarrow> (unit, 'w) io"
  os_Remove :: "string \<Rightarrow> (unit, 'w) io"
  unix_Statfs :: "string \<Rightarrow> (Statfs, 'w) io"
  unix_Open :: "string \<Rightarrow> (int, 'w) io"
  unix_BLKGETSIZE64 :: "int \<Rightarrow> (nat, 'w) io"
  unix_Close :: "int \<Rightarrow> (unit, 'w) io"

text \<open>\<open>run_cmd os cmd args h k\<close> is \<open>output, err := runCommand(cmd, args...)\<close> followed by the error branch \<open>h\<close>, which sees
  the output too, or by \<open>k\<close>.\<close>

definition run_cmd :: "'w os \<Rightarrow> string \<Rightarrow> string list \<Rightarrow> (string \<Rightarrow> err \<Rightarrow> ('a, 'w) io) \<Rightarrow> (string \<Rightarrow> ('a, 'w) io) \<Rightarrow> ('a, 'w) io" where
  "run_cmd os cmd args h k = (\<lambda>w. case os_Run os cmd args w of
      ((out, None), w') \<Rightarrow> k out w'
    | ((out, Some e), w') \<Rightarrow> h out e w')"

definition stat :: "'w os \<Rightarrow> string \<Rightarrow> (stat_result \<Rightarrow> ('a, 'w) io) \<Rightarrow> ('a, 'w) io" where
  "stat os p k = (\<lambda>w. case os_Stat os p w of (r, w') \<Rightarrow> k r w')"

definition look_path :: "'w os \<Rightarrow> string \<Rightarrow> (lookpath_result \<Rightarrow> ('a, 'w) io) \<Rightarrow> ('a, 'w) io" where
  "look_path os p k = (\<lambda>w. case os_LookPath os p w of (r, w') \<Rightarrow> k r w')"

definition read_link :: "'w os \<Rightarrow> string \<Rightarrow> (readlink_result \<Rightarrow> ('a, 'w) io) \<Rightarrow> ('a, 'w) io" where
  "read_link os p k = (\<lambda>w. case os_Readlink os p w of (r, w') \<Rightarrow> k r w')"

lemmas os_call_defs = run_cmd_def stat_def look_path_def read_link_def

end
