(* ===== verification/Go_Json.thy ===== *)
theory Go_Json
  imports Go_Lib
begin

text \<open>
  The part of \<open>encoding/json\<close> the driver uses: \<open>json.Unmarshal\<close> of text into values. The reader takes bytes: white space,
  literals, numbers, strings with their escapes (surrogate pairs included; invalid UTF-8 becomes the replacement character), arrays
  and objects, and refuses trailing text and more than 10000 nested levels. It is fuelled by twice the length of the text; more
  fuel never changes the answer. A compact printer is read back exactly.
\<close>

datatype json =
    JNull
  | JBool bool
  | JNum string
  | JStr string
  | JArr "json list"
  | JObj "(string \<times> json) list"

section \<open>Lexing\<close>

abbreviation byte :: "char \<Rightarrow> nat" where
  "byte c \<equiv> of_char c"

definition is_ws :: "char \<Rightarrow> bool" where
  "is_ws c \<longleftrightarrow> byte c \<in> {32, 9, 13, 10}"

definition skip_ws :: "string \<Rightarrow> string" where
  "skip_ws = dropWhile is_ws"

definition byte_in :: "nat \<Rightarrow> nat \<Rightarrow> nat \<Rightarrow> string \<Rightarrow> bool" where
  "byte_in i lo hi s \<longleftrightarrow> i < length s \<and> lo \<le> byte (s ! i) \<and> byte (s ! i) \<le> hi"

text \<open>Whether a text starts with a UTF-8 sequence of \<open>n\<close> bytes.\<close>

definition utf8_seq :: "nat \<Rightarrow> string \<Rightarrow> bool" where
  "utf8_seq n s =
     (if n = 1 then byte_in 0 0 0x7F s
      else if n = 2 then byte_in 0 0xC2 0xDF s \<and> byte_in 1 0x80 0xBF s
      else if n = 3 then
        (byte_in 0 0xE0 0xE0 s \<and> byte_in 1 0xA0 0xBF s \<or> byte_in 0 0xE1 0xEC s \<and> byte_in 1 0x80 0xBF s \<or>
         byte_in 0 0xED 0xED s \<and> byte_in 1 0x80 0x9F s \<or> byte_in 0 0xEE 0xEF s \<and> byte_in 1 0x80 0xBF s) \<and>
        byte_in 2 0x80 0xBF s
      else if n = 4 then
        (byte_in 0 0xF0 0xF0 s \<and> byte_in 1 0x90 0xBF s \<or> byte_in 0 0xF1 0xF3 s \<and> byte_in 1 0x80 0xBF s \<or>
         byte_in 0 0xF4 0xF4 s \<and> byte_in 1 0x80 0x8F s) \<and>
        byte_in 2 0x80 0xBF s \<and> byte_in 3 0x80 0xBF s
      else False)"

text \<open>The length of the UTF-8 sequence a text starts with, zero for none (\<open>utf8.DecodeRune\<close>).\<close>

definition utf8_len :: "string \<Rightarrow> nat" where
  "utf8_len s = (case find (\<lambda>n. utf8_seq n s) [1, 2, 3, 4] of Some n \<Rightarrow> n | None \<Rightarrow> 0)"

text \<open>\<open>utf8.EncodeRune\<close> of a code point.\<close>

definition utf8_encode :: "nat \<Rightarrow> string" where
  "utf8_encode r =
     (if r < 0x80 then [char_of r]
      else if r < 0x800 then [char_of (0xC0 + r div 0x40), char_of (0x80 + r mod 0x40)]
      else if r < 0x10000 then
        [char_of (0xE0 + r div 0x1000), char_of (0x80 + r div 0x40 mod 0x40), char_of (0x80 + r mod 0x40)]
      else
        [char_of (0xF0 + r div 0x40000), char_of (0x80 + r div 0x1000 mod 0x40),
         char_of (0x80 + r div 0x40 mod 0x40), char_of (0x80 + r mod 0x40)])"

definition replacement :: string where
  "replacement = utf8_encode 0xFFFD"

definition hex_value :: "char \<Rightarrow> nat option" where
  "hex_value c =
     (if 48 \<le> byte c \<and> byte c \<le> 57 then Some (byte c - 48)
      else if 97 \<le> byte c \<and> byte c \<le> 102 then Some (byte c - 87)
      else if 65 \<le> byte c \<and> byte c \<le> 70 then Some (byte c - 55)
      else None)"

text \<open>\<open>getu4\<close>: the value of four hexadecimal digits.\<close>

definition hex4 :: "char \<Rightarrow> char \<Rightarrow> char \<Rightarrow> char \<Rightarrow> nat option" where
  "hex4 a b c d = (case (hex_value a, hex_value b, hex_value c, hex_value d) of
     (Some p, Some q, Some r, Some s) \<Rightarrow> Some (((p * 16 + q) * 16 + r) * 16 + s)
   | _ \<Rightarrow> None)"

text \<open>A low surrogate escape at the front of a text, with the text after it.\<close>

fun low_surrogate :: "string \<Rightarrow> (nat \<times> string) option" where
  "low_surrogate (x # u # a # b # c # d # rest) =
     (if x = CHR 0x5C \<and> u = CHR ''u'' then
        (case hex4 a b c d of Some v \<Rightarrow> if 0xDC00 \<le> v \<and> v \<le> 0xDFFF then Some (v, rest) else None | None \<Rightarrow> None)
      else None)"
| "low_surrogate _ = None"

definition simple_escape :: "char \<Rightarrow> char option" where
  "simple_escape e =
     (if e = CHR 0x22 \<or> e = CHR 0x5C \<or> e = CHR ''/'' then Some e
      else if e = CHR ''b'' then Some (CHR 0x08)
      else if e = CHR ''f'' then Some (CHR 0x0C)
      else if e = CHR ''n'' then Some (CHR 0x0A)
      else if e = CHR ''r'' then Some (CHR 0x0D)
      else if e = CHR ''t'' then Some (CHR 0x09)
      else None)"

definition prepend :: "string \<Rightarrow> (string \<times> 'a) option \<Rightarrow> (string \<times> 'a) option" where
  "prepend p r = map_option (\<lambda>(s, rest). (p @ s, rest)) r"

text \<open>The text of a four-digit escape of value \<open>v\<close>, and what is left: a surrogate pair is one code point, a lone surrogate the replacement.\<close>

definition u_escape :: "nat \<Rightarrow> string \<Rightarrow> string \<times> string" where
  "u_escape v rest =
     (if 0xD800 \<le> v \<and> v \<le> 0xDFFF then
        (case low_surrogate rest of
           Some (lo, rest') \<Rightarrow>
             if v \<le> 0xDBFF then (utf8_encode ((v - 0xD800) * 0x400 + (lo - 0xDC00) + 0x10000), rest') else (replacement, rest)
         | None \<Rightarrow> (replacement, rest))
      else (utf8_encode v, rest))"

lemma low_surrogate_shorter: "low_surrogate s = Some (v, r) \<Longrightarrow> length r < length s"
  by (induction s rule: low_surrogate.induct) (auto split: if_splits option.splits)

lemma u_escape_shorter: "u_escape v s = (t, r) \<Longrightarrow> length r \<le> length s"
  by (auto simp: u_escape_def dest: low_surrogate_shorter split: if_splits option.splits)

text \<open>Reading a string after its opening quote.\<close>

function unquote :: "string \<Rightarrow> (string \<times> string) option" where
  "unquote [] = None"
| "unquote (c # cs) =
     (if c = CHR 0x22 then Some ([], cs)
      else if c = CHR 0x5C then
        (case cs of
           [] \<Rightarrow> None
         | e # es \<Rightarrow>
             (case simple_escape e of
                Some x \<Rightarrow> prepend [x] (unquote es)
              | None \<Rightarrow>
                  if e = CHR ''u'' \<and> 4 \<le> length es then
                    (case hex4 (es ! 0) (es ! 1) (es ! 2) (es ! 3) of
                       Some v \<Rightarrow> (case u_escape v (drop 4 es) of (t, rest) \<Rightarrow> prepend t (unquote rest))
                     | None \<Rightarrow> None)
                  else None))
      else if byte c < 0x20 then None
      else if utf8_len (c # cs) = 0 then prepend replacement (unquote cs)
      else prepend (take (utf8_len (c # cs)) (c # cs)) (unquote (drop (utf8_len (c # cs) - 1) cs)))"
  by pat_completeness auto
termination
  by (relation "measure length") (auto dest!: u_escape_shorter [OF sym])

lemma prepend_Some: "prepend p r = Some (t, rest) \<longleftrightarrow> (\<exists>s. r = Some (s, rest) \<and> t = p @ s)"
  by (auto simp: prepend_def)

lemma unquote_shorter: "unquote s = Some (t, r) \<Longrightarrow> length r < length s"
proof (induction s arbitrary: t rule: unquote.induct)
  case (2 c cs)
  note ok = 2(5) and quote = unquote.simps(2) [of c cs]
  consider (close) "c = CHR 0x22" | (escape) "c \<noteq> CHR 0x22" "c = CHR 0x5C"
    | (plain) "c \<noteq> CHR 0x22" "c \<noteq> CHR 0x5C" "\<not> byte c < 0x20"
    using ok by (cases "byte c < 0x20") (auto simp: quote split: if_splits)
  then show ?case
  proof cases
    case close
    then show ?thesis using ok by simp
  next
    case escape
    then obtain e es where cs: "cs = e # es" using ok by (cases cs) auto
    show ?thesis
    proof (cases "simple_escape e")
      case (Some x)
      then obtain u where "unquote es = Some (u, r)" using ok escape cs by (auto simp: prepend_Some)
      from 2(2) [OF escape cs Some this] cs show ?thesis by simp
    next
      case None
      then obtain v where v: "e = CHR ''u'' \<and> 4 \<le> length es" "hex4 (es ! 0) (es ! 1) (es ! 2) (es ! 3) = Some v"
        using ok escape cs by (auto split: if_splits option.splits)
      obtain w rest where e: "u_escape v (drop 4 es) = (w, rest)" by fastforce
      then obtain u where "unquote rest = Some (u, r)"
        using ok escape cs None v by (auto simp: prepend_Some)
      from 2(1) [OF escape cs None v(1) v(2) e [symmetric] this] u_escape_shorter [OF e] cs show ?thesis by simp
    qed
  next
    case plain
    let ?n = "utf8_len (c # cs)"
    show ?thesis
    proof (cases "?n = 0")
      case True
      then obtain u where "unquote cs = Some (u, r)" using ok plain by (auto simp: prepend_Some)
      from 2(3) [OF plain True this] show ?thesis by simp
    next
      case False
      then obtain u where "unquote (drop (?n - 1) cs) = Some (u, r)" using ok plain by (auto simp: prepend_Some)
      from 2(4) [OF plain False this] show ?thesis by simp
    qed
  qed
qed simp

text \<open>Numbers: sign, integer part without leading zeros, optional fraction and exponent; the digits are kept as text.\<close>

definition digits :: "string \<Rightarrow> (string \<times> string) option" where
  "digits s = (if takeWhile is_digit s = [] then None else Some (takeWhile is_digit s, dropWhile is_digit s))"

definition int_part :: "string \<Rightarrow> (string \<times> string) option" where
  "int_part s = (case s of
     [] \<Rightarrow> None
   | c # cs \<Rightarrow> if c = CHR ''0'' then Some ([c], cs) else digits s)"

definition fraction :: "string \<Rightarrow> (string \<times> string) option" where
  "fraction s = (case s of
     c # cs \<Rightarrow> if c = CHR ''.'' then prepend [c] (digits cs) else Some ([], s)
   | [] \<Rightarrow> Some ([], s))"

definition exponent :: "string \<Rightarrow> (string \<times> string) option" where
  "exponent s = (case s of
     c # cs \<Rightarrow>
       if c = CHR ''e'' \<or> c = CHR ''E'' then
         (case cs of
            d # ds \<Rightarrow> if d = CHR ''+'' \<or> d = CHR ''-'' then prepend [c, d] (digits ds) else prepend [c] (digits cs)
          | [] \<Rightarrow> None)
       else Some ([], s)
   | [] \<Rightarrow> Some ([], s))"

definition lex_number :: "string \<Rightarrow> (string \<times> string) option" where
  "lex_number s =
     (let (sign, s0) = (if s \<noteq> [] \<and> hd s = CHR ''-'' then ([hd s], tl s) else ([], s)) in
      case int_part s0 of
        None \<Rightarrow> None
      | Some (i, s1) \<Rightarrow>
          (case fraction s1 of
             None \<Rightarrow> None
           | Some (f, s2) \<Rightarrow> prepend (sign @ i @ f) (exponent s2)))"

lemma digits_shorter: "digits s = Some (t, r) \<Longrightarrow> length r < length s"
proof -
  assume "digits s = Some (t, r)"
  then have "takeWhile is_digit s \<noteq> []" "r = dropWhile is_digit s" by (auto simp: digits_def split: if_splits)
  moreover have "length s = length (takeWhile is_digit s) + length (dropWhile is_digit s)"
    by (metis length_append takeWhile_dropWhile_id)
  ultimately show ?thesis by auto
qed

lemma lex_number_shorter:
  assumes "lex_number s = Some (t, r)"
  shows "length r < length s"
proof -
  have 1: "int_part s0 = Some (i, s1) \<Longrightarrow> length s1 < length s0" for s0 i s1
    by (auto simp: int_part_def dest: digits_shorter split: list.splits if_splits)
  have 2: "fraction s1 = Some (f, s2) \<Longrightarrow> length s2 \<le> length s1" for s1 f s2
    by (auto simp: fraction_def prepend_Some dest: digits_shorter split: list.splits if_splits)
  have 3: "exponent s2 = Some (x, s3) \<Longrightarrow> length s3 \<le> length s2" for s2 x s3
    by (auto simp: exponent_def prepend_Some dest: digits_shorter split: list.splits if_splits)
  show ?thesis
    using assms by (auto simp: lex_number_def prepend_Some dest!: 1 2 3 split: if_splits option.splits prod.splits)
qed

section \<open>Reading values\<close>

text \<open>A literal name at the front of a text.\<close>

definition literal :: "string \<Rightarrow> json \<Rightarrow> string \<Rightarrow> (json \<times> string) option" where
  "literal name v s = (if HasPrefix s name then Some (v, drop (length name) s) else None)"

fun parse_value :: "nat \<Rightarrow> string \<Rightarrow> (json \<times> string) option"
and parse_elems :: "nat \<Rightarrow> string \<Rightarrow> (json list \<times> string) option"
and parse_members :: "nat \<Rightarrow> string \<Rightarrow> ((string \<times> json) list \<times> string) option" where
  "parse_value 0 s = None"
| "parse_value (Suc n) s =
     (case skip_ws s of
        [] \<Rightarrow> None
      | c # cs \<Rightarrow>
          if c = CHR 0x22 then map_option (\<lambda>(t, r). (JStr t, r)) (unquote cs)
          else if c = CHR ''['' then
            (case skip_ws cs of
               d # ds \<Rightarrow> if d = CHR '']'' then Some (JArr [], ds) else map_option (\<lambda>(vs, r). (JArr vs, r)) (parse_elems n cs)
             | [] \<Rightarrow> None)
          else if c = CHR 0x7B then
            (case skip_ws cs of
               d # ds \<Rightarrow> if d = CHR 0x7D then Some (JObj [], ds) else map_option (\<lambda>(ms, r). (JObj ms, r)) (parse_members n cs)
             | [] \<Rightarrow> None)
          else if c = CHR ''n'' then literal ''null'' JNull (c # cs)
          else if c = CHR ''t'' then literal ''true'' (JBool True) (c # cs)
          else if c = CHR ''f'' then literal ''false'' (JBool False) (c # cs)
          else map_option (\<lambda>(t, r). (JNum t, r)) (lex_number (c # cs)))"
| "parse_elems 0 s = None"
| "parse_elems (Suc n) s =
     (case parse_value n s of
        None \<Rightarrow> None
      | Some (v, r) \<Rightarrow>
          (case skip_ws r of
             [] \<Rightarrow> None
           | d # ds \<Rightarrow>
               if d = CHR '']'' then Some ([v], ds)
               else if d = CHR '','' then map_option (\<lambda>(vs, r'). (v # vs, r')) (parse_elems n ds)
               else None))"
| "parse_members 0 s = None"
| "parse_members (Suc n) s =
     (case skip_ws s of
        [] \<Rightarrow> None
      | q # cs \<Rightarrow>
          if q \<noteq> CHR 0x22 then None
          else (case unquote cs of
             None \<Rightarrow> None
           | Some (k, r) \<Rightarrow>
               (case skip_ws r of
                  [] \<Rightarrow> None
                | e # es \<Rightarrow>
                    if e \<noteq> CHR '':'' then None
                    else (case parse_value n es of
                       None \<Rightarrow> None
                     | Some (v, r') \<Rightarrow>
                         (case skip_ws r' of
                            [] \<Rightarrow> None
                          | d # ds \<Rightarrow>
                              if d = CHR 0x7D then Some ([(k, v)], ds)
                              else if d = CHR '','' then map_option (\<lambda>(ms, r''). ((k, v) # ms, r'')) (parse_members n ds)
                              else None)))))"

fun depth :: "json \<Rightarrow> nat" where
  "depth (JArr vs) = Suc (foldr max (map depth vs) 0)"
| "depth (JObj ms) = Suc (foldr max (map (\<lambda>m. depth (snd m)) ms) 0)"
| "depth _ = 0"

definition maxNestingDepth :: nat where
  "maxNestingDepth = 10000"

text \<open>A whole text: one value with nothing after it.\<close>

definition parse_json :: "string \<Rightarrow> json option" where
  "parse_json s = (case parse_value (2 * length s + 2) s of
     Some (v, r) \<Rightarrow> if skip_ws r = [] \<and> depth v \<le> maxNestingDepth then Some v else None
   | None \<Rightarrow> None)"

section \<open>The reader consumes, and its fuel is enough\<close>

lemma skip_ws_le: "length (skip_ws s) \<le> length s"
  by (simp add: skip_ws_def length_dropWhile_le)

lemma skip_ws_Cons: "skip_ws s = c # cs \<Longrightarrow> length cs < length s"
  using skip_ws_le [of s] by simp

lemma literal_shorter: "literal nm v s = Some (w, r) \<Longrightarrow> nm \<noteq> [] \<Longrightarrow> length r < length s"
  by (cases s) (auto simp: literal_def HasPrefix_def split: if_splits)

lemmas shorter = skip_ws_Cons unquote_shorter lex_number_shorter literal_shorter

lemma parse_shorter:
  "parse_value n s = Some (v, r) \<Longrightarrow> length r < length s"
  "parse_elems n s = Some (vs, r) \<Longrightarrow> length r < length s"
  "parse_members n s = Some (ms, r) \<Longrightarrow> length r < length s"
proof (induction n s and n s and n s arbitrary: v r and vs r and ms r rule: parse_value_parse_elems_parse_members.induct)
  case (2 n s)
  from 2(3) obtain c cs where s: "skip_ws s = c # cs" by (auto split: list.splits)
  have l: "length cs < length s" using skip_ws_Cons [OF s] .
  note full = skip_ws_le [of s]
  show ?case
    using 2 s l full
    by (auto dest!: shorter split: if_splits list.splits option.splits) (metis less_trans)+
next
  case (4 n s)
  then show ?case
    by (auto dest!: skip_ws_Cons split: if_splits list.splits option.splits) (meson less_trans)+
next
  case (6 n s)
  then show ?case
    by (auto dest!: skip_ws_Cons unquote_shorter split: if_splits list.splits option.splits) (meson less_trans)+
qed simp_all

text \<open>More fuel than twice the length of the text changes nothing.\<close>

lemma parse_fuel_step:
  "2 * length s + 1 \<le> n \<Longrightarrow> parse_value (Suc n) s = parse_value n s"
  "2 * length s + 2 \<le> n \<Longrightarrow> parse_elems (Suc n) s = parse_elems n s"
  "2 * length s + 2 \<le> n \<Longrightarrow> parse_members (Suc n) s = parse_members n s"
proof (induction n s and n s and n s rule: parse_value_parse_elems_parse_members.induct)
  case (2 n s)
  show ?case
  proof (cases "skip_ws s")
    case (Cons c cs)
    with 2(3) have "2 * length cs + 2 \<le> n" using skip_ws_Cons [OF Cons] by simp
    with 2(1,2) [OF Cons] show ?thesis
      by (auto simp: parse_value.simps(2) [of "Suc n"] parse_value.simps(2) [of n] Cons
          simp del: parse_value.simps parse_elems.simps parse_members.simps split: list.splits)
  qed simp
next
  case (4 n s)
  have v: "parse_value (Suc n) s = parse_value n s" using 4(1,3) by simp
  show ?case
  proof (cases "parse_value n s")
    case (Some a)
    then obtain x r where ok: "parse_value n s = Some (x, r)" by (cases a) auto
    show ?thesis
    proof (cases "skip_ws r")
      case (Cons d ds)
      have "2 * length ds + 2 \<le> n" using 4(3) skip_ws_Cons [OF Cons] parse_shorter(1) [OF ok] by simp
      with 4(2) [OF ok refl Cons] show ?thesis
        by (auto simp: parse_elems.simps(2) [of "Suc n"] parse_elems.simps(2) [of n] v ok Cons
          simp del: parse_value.simps parse_elems.simps parse_members.simps)
    qed (use v ok in \<open>simp add: parse_elems.simps(2) [of "Suc n"] parse_elems.simps(2) [of n]
          del: parse_value.simps parse_elems.simps parse_members.simps\<close>)
  qed (use v in \<open>simp add: parse_elems.simps(2) [of "Suc n"] parse_elems.simps(2) [of n]
          del: parse_value.simps parse_elems.simps parse_members.simps\<close>)
next
  case (6 n s)
  have v: "parse_value (Suc n) es = parse_value n es"
    if "skip_ws s = q # cs" "\<not> q \<noteq> CHR 0x22" "unquote cs = Some (k, r)" "skip_ws r = e # es" "\<not> e \<noteq> CHR '':''" for q cs k r e es
    using 6(1) [OF that(1,2,3) refl that(4,5)] 6(3) skip_ws_Cons [OF that(1)] unquote_shorter [OF that(3)] skip_ws_Cons [OF that(4)]
    by simp
  have m: "parse_members (Suc n) ds = parse_members n ds"
    if "skip_ws s = q # cs" "\<not> q \<noteq> CHR 0x22" "unquote cs = Some (k, r)" "skip_ws r = e # es" "\<not> e \<noteq> CHR '':''"
      "parse_value n es = Some (x, r')" "skip_ws r' = d # ds" "d \<noteq> CHR 0x7D" "d = CHR '',''" for q cs k r e es x r' d ds
    using 6(2) [OF that(1,2,3) refl that(4,5,6) refl that(7,8,9)] 6(3) skip_ws_Cons [OF that(1)] unquote_shorter [OF that(3)]
      skip_ws_Cons [OF that(4)] parse_shorter(1) [OF that(6)] skip_ws_Cons [OF that(7)]
    by simp
  show ?case
    by (auto simp: parse_members.simps(2) [of "Suc n" s] parse_members.simps(2) [of n s] v m
        simp del: parse_value.simps parse_elems.simps parse_members.simps split: list.splits option.splits)
qed simp_all

lemma parse_value_fuel: "2 * length s + 1 \<le> n \<Longrightarrow> parse_value n s = parse_value (2 * length s + 1) s"
proof (induction n)
  case (Suc n)
  then show ?case
  proof (cases "2 * length s + 1 \<le> n")
    case True
    with Suc parse_fuel_step(1) [OF True] show ?thesis by (simp del: parse_value.simps)
  next
    case False
    with Suc.prems have "Suc n = 2 * length s + 1" by simp
    then show ?thesis by (simp only:)
  qed
qed simp

section \<open>Printing\<close>

text \<open>A compact printer: quotes, backslashes and control characters are escaped.\<close>

definition hex_char :: "nat \<Rightarrow> char" where
  "hex_char d = ''0123456789abcdef'' ! d"

definition quote_char :: "char \<Rightarrow> string" where
  "quote_char c =
     (if c = CHR 0x22 \<or> c = CHR 0x5C then [CHR 0x5C, c]
      else if byte c < 0x20 then [CHR 0x5C, CHR ''u'', CHR ''0'', CHR ''0'', hex_char (byte c div 16), hex_char (byte c mod 16)]
      else [c])"

definition quote :: "string \<Rightarrow> string" where
  "quote s = CHR 0x22 # concat (map quote_char s) @ [CHR 0x22]"

fun print_json :: "json \<Rightarrow> string" where
  "print_json JNull = ''null''"
| "print_json (JBool b) = (if b then ''true'' else ''false'')"
| "print_json (JNum t) = t"
| "print_json (JStr s) = quote s"
| "print_json (JArr vs) = CHR ''['' # Join (map print_json vs) '','' @ [CHR '']'']"
| "print_json (JObj ms) = CHR 0x7B # Join (map (\<lambda>m. quote (fst m) @ CHR '':'' # print_json (snd m)) ms) '','' @ [CHR 0x7D]"

function utf8_valid :: "string \<Rightarrow> bool" where
  "utf8_valid [] = True"
| "utf8_valid (c # cs) = (utf8_len (c # cs) \<noteq> 0 \<and> utf8_valid (drop (utf8_len (c # cs) - 1) cs))"
  by pat_completeness auto
termination
  by (relation "measure length") auto

text \<open>Text and values without numbers, with strings of valid UTF-8.\<close>

fun json_text :: "json \<Rightarrow> bool" where
  "json_text (JNum _) = False"
| "json_text (JStr s) = utf8_valid s"
| "json_text (JArr vs) = list_all json_text vs"
| "json_text (JObj ms) = list_all (\<lambda>m. utf8_valid (fst m) \<and> json_text (snd m)) ms"
| "json_text _ = True"

lemma byte_in_take: "byte_in i lo hi s \<Longrightarrow> i < n \<Longrightarrow> byte_in i lo hi (take n s @ r)"
  by (auto simp: byte_in_def nth_append)

lemma utf8_seq_take: "utf8_seq n s \<Longrightarrow> utf8_seq n (take n s @ r)"
  by (auto simp: utf8_seq_def intro: byte_in_take split: if_splits)

lemma utf8_seq_lead:
  "utf8_seq n s \<Longrightarrow> n \<in> {1, 2, 3, 4} \<and> n \<le> length s \<and>
     n = (if byte (s ! 0) \<le> 0x7F then 1 else if byte (s ! 0) \<le> 0xDF then 2 else if byte (s ! 0) \<le> 0xEF then 3 else 4)"
  by (auto simp: utf8_seq_def byte_in_def Suc_le_eq split: if_splits)

lemma utf8_seq_high: "utf8_seq n s \<Longrightarrow> n \<noteq> 1 \<Longrightarrow> i < n \<Longrightarrow> 0x80 \<le> byte (s ! i)"
  by (auto simp: utf8_seq_def byte_in_def less_Suc_eq numeral_eq_Suc split: if_splits)

lemma utf8_seq_unique: "utf8_seq n s \<Longrightarrow> utf8_seq m s \<Longrightarrow> n = m"
  by (auto dest!: utf8_seq_lead)

lemma utf8_len_seq:
  assumes "utf8_seq n s"
  shows "utf8_len s = n"
proof (cases "find (\<lambda>n. utf8_seq n s) [1, 2, 3, 4]")
  case None
  then have "\<not> utf8_seq n s" using utf8_seq_lead [OF assms] unfolding find_None_iff by auto
  with assms show ?thesis by simp
next
  case (Some m)
  then have "utf8_seq m s" using find_SomeD by fast
  with Some show ?thesis using utf8_seq_unique [OF assms] by (simp add: utf8_len_def)
qed

lemma utf8_len_Some: "utf8_len s \<noteq> 0 \<Longrightarrow> utf8_seq (utf8_len s) s"
  by (auto simp: utf8_len_def dest: find_SomeD split: option.splits)

lemma utf8_len_take: "utf8_len s \<noteq> 0 \<Longrightarrow> utf8_len (take (utf8_len s) s @ r) = utf8_len s"
  by (intro utf8_len_seq utf8_seq_take utf8_len_Some)

lemma utf8_valid_ascii: "list_all (\<lambda>c. byte c < 0x80) s \<Longrightarrow> utf8_valid s"
proof (induction s)
  case (Cons c s)
  then have "utf8_len (c # s) = 1" by (intro utf8_len_seq) (simp add: utf8_seq_def byte_in_def)
  with Cons show ?case by simp
qed simp

section \<open>Strings are read back\<close>

lemma hex_value_char:
  assumes "d < 16"
  shows "hex_value (hex_char d) = Some d"
proof -
  have "list_all (\<lambda>d. hex_value (hex_char d) = Some d) [0..<16]" by code_simp
  with assms show ?thesis by (simp only: list_all_iff set_upt atLeastLessThan_iff) simp
qed

lemma quote_char_high: "0x80 \<le> byte c \<Longrightarrow> quote_char c = [c]"
  by (auto simp: quote_char_def)

lemma quote_high: "(\<And>c. c \<in> set s \<Longrightarrow> 0x80 \<le> byte c) \<Longrightarrow> concat (map quote_char s) = s"
  by (induction s) (auto simp: quote_char_high)

lemma unquote_control:
  assumes "byte c < 0x20"
  shows "unquote (quote_char c @ r) = prepend [c] (unquote r)"
proof -
  let ?b = "byte c"
  have h: "hex_value (hex_char (?b div 16)) = Some (?b div 16)" "hex_value (hex_char (?b mod 16)) = Some (?b mod 16)"
    using assms by (intro hex_value_char; simp)+
  have z: "hex_value (CHR ''0'') = Some 0" by (simp add: hex_value_def)
  have v: "hex4 (CHR ''0'') (CHR ''0'') (hex_char (?b div 16)) (hex_char (?b mod 16)) = Some ?b"
    using h z by (simp add: hex4_def)
  have u: "u_escape ?b r = ([c], r)" using assms by (simp add: u_escape_def utf8_encode_def)
  have e: "simple_escape (CHR ''u'') = None" by (simp add: simple_escape_def)
  have n: "c \<noteq> CHR 0x22 \<and> c \<noteq> CHR 0x5C" using assms by auto
  show ?thesis
    using assms n v u e by (simp add: quote_char_def)
qed

lemma unquote_ascii:
  assumes "byte c < 0x80"
  shows "unquote (quote_char c @ r) = prepend [c] (unquote r)"
proof -
  consider (esc) "c = CHR 0x22 \<or> c = CHR 0x5C" | (ctl) "byte c < 0x20" | (plain) "c \<noteq> CHR 0x22" "c \<noteq> CHR 0x5C" "0x20 \<le> byte c"
    by linarith
  then show ?thesis
  proof cases
    case esc
    then show ?thesis by (auto simp: quote_char_def simple_escape_def)
  next
    case ctl
    then show ?thesis by (rule unquote_control)
  next
    case plain
    have "utf8_len (c # r) = 1" using assms by (intro utf8_len_seq) (simp add: utf8_seq_def byte_in_def)
    with plain show ?thesis by (simp add: quote_char_def)
  qed
qed

lemma unquote_sequence:
  assumes "utf8_len (c # t @ r) = Suc (length t)" and "0x80 \<le> byte c"
  shows "unquote (c # t @ r) = prepend (c # t) (unquote r)"
proof -
  have "c \<noteq> CHR 0x22" "c \<noteq> CHR 0x5C" "\<not> byte c < 0x20" using assms(2) by auto
  then show ?thesis using assms(1) by simp
qed

lemma unquote_quote: "utf8_valid s \<Longrightarrow> unquote (concat (map quote_char s) @ CHR 0x22 # r) = Some (s, r)"
proof (induction s rule: utf8_valid.induct)
  case (2 c cs)
  let ?n = "utf8_len (c # cs)" and ?rest = "concat (map quote_char (drop (utf8_len (c # cs) - 1) cs)) @ CHR 0x22 # r"
  have n: "?n \<noteq> 0" using 2(2) by simp
  note seq = utf8_len_Some [OF n]
  have ih: "unquote ?rest = Some (drop (?n - 1) cs, r)" using 2 by simp
  show ?case
  proof (cases "?n = 1")
    case True
    with seq have "byte c < 0x80" by (simp add: utf8_seq_def byte_in_def)
    from unquote_ascii [OF this] ih True show ?thesis by (simp add: prepend_def)
  next
    case False
    have len: "?n \<le> length (c # cs)" using utf8_seq_lead [OF seq] by blast
    let ?t = "take ?n (c # cs)"
    have high: "0x80 \<le> byte x" if "x \<in> set ?t" for x
      using that utf8_seq_high [OF seq False] len by (auto simp: in_set_conv_nth)
    have split: "concat (map quote_char (c # cs)) = ?t @ concat (map quote_char (drop (?n - 1) cs))"
    proof -
      have "c # cs = ?t @ drop ?n (c # cs)" by simp
      then have "concat (map quote_char (c # cs)) = concat (map quote_char ?t) @ concat (map quote_char (drop ?n (c # cs)))"
        by (metis concat_append map_append)
      with quote_high [of ?t] high n show ?thesis by (simp add: drop_Cons')
    qed
    have t: "?t = c # take (?n - 1) cs" using n by (cases ?n) auto
    have l: "utf8_len (?t @ ?rest) = ?n" by (rule utf8_len_take [OF n])
    have c: "0x80 \<le> byte c" using high t by simp
    have "?n = Suc (length (take (?n - 1) cs))" using len n by (cases ?n) auto
    then have "unquote (?t @ ?rest) = prepend ?t (unquote ?rest)"
      using l c unquote_sequence [of c "take (?n - 1) cs" ?rest] unfolding t by (simp del: unquote.simps)
    with split ih have "unquote (concat (map quote_char (c # cs)) @ CHR 0x22 # r) = Some (?t @ drop (?n - 1) cs, r)"
      by (simp add: prepend_def)
    then show ?thesis using t by simp
  qed
qed simp

section \<open>Values are read back\<close>

lemma skip_ws_not: "\<not> is_ws c \<Longrightarrow> skip_ws (c # cs) = c # cs"
  by (simp add: skip_ws_def)

text \<open>A printed value starts with a byte that is neither white space nor the end of an array.\<close>

lemma print_json_head:
  assumes "json_text v"
  shows "\<exists>c cs. print_json v = c # cs \<and> \<not> is_ws c \<and> c \<noteq> CHR '']''"
  using assms by (cases v) (auto simp: quote_def is_ws_def)

lemma parse_elems_print:
  assumes "vs \<noteq> []" and "2 * length (Join (map print_json vs) '','') + 2 \<le> n"
    and "\<And>v n rest. v \<in> set vs \<Longrightarrow> 2 * length (print_json v) + 1 \<le> n \<Longrightarrow> parse_value n (print_json v @ rest) = Some (v, rest)"
  shows "parse_elems n (Join (map print_json vs) '','' @ CHR '']'' # rest) = Some (vs, rest)"
  using assms
proof (induction vs arbitrary: n)
  case (Cons v vs)
  obtain k where n: "n = Suc k" using Cons(3) by (cases n) auto
  show ?case
  proof (cases "vs = []")
    case True
    then show ?thesis using Cons(3,4) n by (simp add: skip_ws_not is_ws_def)
  next
    case False
    let ?more = "Join (map print_json vs) '','' @ CHR '']'' # rest"
    have j: "Join (map print_json (v # vs)) '','' = print_json v @ '','' @ Join (map print_json vs) '',''"
      using False by (simp add: Join_Cons_not_Nil)
    have len: "2 * length (print_json v) + 1 \<le> k" "2 * length (Join (map print_json vs) '','') + 2 \<le> k"
      using Cons(3) unfolding n j by simp_all
    have "parse_value k (print_json v @ '','' @ ?more) = Some (v, '','' @ ?more)" using Cons(4) len by simp
    moreover have "parse_elems k ?more = Some (vs, rest)" using False len Cons(1,4) by simp
    ultimately show ?thesis unfolding n j by (simp add: skip_ws_not is_ws_def)
  qed
qed simp

lemma parse_members_print:
  assumes "ms \<noteq> []" and "2 * length (Join (map (\<lambda>m. quote (fst m) @ CHR '':'' # print_json (snd m)) ms) '','') + 2 \<le> n"
    and "\<And>m. m \<in> set ms \<Longrightarrow> utf8_valid (fst m)"
    and "\<And>m n rest. m \<in> set ms \<Longrightarrow> 2 * length (print_json (snd m)) + 1 \<le> n \<Longrightarrow>
      parse_value n (print_json (snd m) @ rest) = Some (snd m, rest)"
  shows "parse_members n (Join (map (\<lambda>m. quote (fst m) @ CHR '':'' # print_json (snd m)) ms) '','' @ CHR 0x7D # rest) = Some (ms, rest)"
  using assms
proof (induction ms arbitrary: n)
  case (Cons m ms)
  let ?p = "\<lambda>m. quote (fst m) @ CHR '':'' # print_json (snd m)"
  obtain k where n: "n = Suc k" using Cons(3) by (cases n) auto
  have key: "unquote (concat (map quote_char (fst m)) @ CHR 0x22 # r) = Some (fst m, r)" for r
    using Cons(4) by (intro unquote_quote) simp
  show ?case
  proof (cases "ms = []")
    case True
    then show ?thesis using Cons(3,5) n key by (simp add: skip_ws_not is_ws_def quote_def)
  next
    case False
    let ?more = "Join (map ?p ms) '','' @ CHR 0x7D # rest"
    have j: "Join (map ?p (m # ms)) '','' = ?p m @ '','' @ Join (map ?p ms) '',''"
      using False by (simp add: Join_Cons_not_Nil)
    have len: "2 * length (print_json (snd m)) + 1 \<le> k" "2 * length (Join (map ?p ms) '','') + 2 \<le> k"
      using Cons(3) unfolding n j by simp_all
    have "parse_value k (print_json (snd m) @ '','' @ ?more) = Some (snd m, '','' @ ?more)" using Cons(5) len by simp
    moreover have "parse_members k ?more = Some (ms, rest)" using False len Cons(1,4,5) by simp
    ultimately show ?thesis using key unfolding n j by (simp add: skip_ws_not is_ws_def quote_def)
  qed
qed simp

lemma parse_value_print:
  "json_text v \<Longrightarrow> 2 * length (print_json v) + 1 \<le> n \<Longrightarrow> parse_value n (print_json v @ rest) = Some (v, rest)"
proof (induction v arbitrary: n rest)
  case (JStr s)
  obtain k where "n = Suc k" using JStr by (cases n) auto
  with JStr unquote_quote [of s rest] show ?case by (simp add: quote_def skip_ws_not is_ws_def)
next
  case (JArr vs)
  obtain k where n: "n = Suc k" using JArr by (cases n) auto
  show ?case
  proof (cases vs)
    case (Cons u us)
    obtain c cs where h: "print_json u = c # cs" "\<not> is_ws c" "c \<noteq> CHR '']''"
      using JArr(2) Cons print_json_head [of u] by auto
    have "parse_elems k (Join (map print_json vs) '','' @ CHR '']'' # rest) = Some (vs, rest)"
      using JArr Cons n by (intro parse_elems_print) (auto simp: list_all_iff)
    moreover obtain ds where "Join (map print_json vs) '','' @ CHR '']'' # rest = c # ds"
      using h Cons by (cases us) auto
    ultimately show ?thesis using h n by (simp add: skip_ws_not is_ws_def)
  qed (use n in \<open>simp add: skip_ws_not is_ws_def\<close>)
next
  case (JObj ms)
  let ?p = "\<lambda>m. quote (fst m) @ CHR '':'' # print_json (snd m)"
  obtain k where n: "n = Suc k" using JObj by (cases n) auto
  show ?case
  proof (cases ms)
    case (Cons u us)
    have "parse_members k (Join (map ?p ms) '','' @ CHR 0x7D # rest) = Some (ms, rest)"
    proof (rule parse_members_print)
      fix m n rest
      assume m: "m \<in> set ms" and len: "2 * length (print_json (snd m)) + 1 \<le> n"
      have "snd m \<in> Basic_BNFs.snds m" by (cases m) simp
      from JObj(1) [OF m this _ len] show "parse_value n (print_json (snd m) @ rest) = Some (snd m, rest)"
        using JObj(2) m by (auto simp: list_all_iff)
    qed (use JObj(2,3) Cons n in \<open>auto simp: list_all_iff\<close>)
    moreover obtain ds where "Join (map ?p ms) '','' @ CHR 0x7D # rest = CHR 0x22 # ds"
      using Cons by (cases us) (auto simp: quote_def)
    ultimately show ?thesis using n by (simp add: skip_ws_not is_ws_def)
  qed (use n in \<open>simp add: skip_ws_not is_ws_def\<close>)
next
  case JNull
  then show ?case by (cases n) (auto simp: skip_ws_not is_ws_def literal_def HasPrefix_def)
next
  case (JBool b)
  then show ?case by (cases n) (auto simp: skip_ws_not is_ws_def literal_def HasPrefix_def)
qed simp

lemma parse_print_json:
  assumes "json_text v" and "depth v \<le> maxNestingDepth"
  shows "parse_json (print_json v) = Some v"
  using parse_value_print [OF assms(1), of "2 * length (print_json v) + 2" "[]"] assms(2)
  by (simp add: parse_json_def skip_ws_def)

end
