(* ===== verification/Linux_Filesystem.thy ===== *)
theory Linux_Filesystem
  imports Filesystem_Iface Go_Json
begin

text \<open>
  \<open>LinuxFilesystem\<close>, the provider of \<open>Filesystem\<close> on a node: \<open>linux_utils.go\<close> and \<open>linux_filesystem.go\<close>, command by
  command, over the operating system \<open>os\<close>. findmnt's JSON answer is read by \<open>Go_Json\<close> and decoded into the structs of the
  code as \<open>json.Unmarshal\<close> does. The polling loop of
  \<open>getBlockDeviceByDiskID\<close> is bounded by the clock: \<open>polls\<close> is the number of rounds it grants (at
  most thirty: sixty seconds, with two seconds of sleep in each round).
\<close>

section \<open>Constants\<close>

definition udevDiskByIDPath :: string where "udevDiskByIDPath = ''/dev/disk/by-id''"

definition diskPrefix :: string where "diskPrefix = ''virtio-''"

definition partitionTableType :: string where "partitionTableType = ''gpt''"

definition blkidCmd :: string where "blkidCmd = ''blkid''"

definition blkidCmdErrCodeNotFound :: int where "blkidCmdErrCodeNotFound = 2"

definition partedCmd :: string where "partedCmd = ''parted''"

definition sfdiskCmd :: string where "sfdiskCmd = ''sfdisk''"

definition udevSettleTimeout :: int where "udevSettleTimeout = 20"

lemmas linux_constants = udevDiskByIDPath_def diskPrefix_def partitionTableType_def blkidCmd_def
  blkidCmdErrCodeNotFound_def partedCmd_def sfdiskCmd_def udevSettleTimeout_def

section \<open>Utilities\<close>

definition volumeIDToDiskID :: "string \<Rightarrow> string res" where
  "volumeIDToDiskID volumeID =
     (let fullID = Join (Split volumeID (CHR ''-'')) [] in
      if length fullID \<le> 20 then Err (Errorf ''volume ID too short'')
      else Ok (diskPrefix @ take 20 fullID))"

text \<open>The loop from the last line up stops at the first line that starts with the source.\<close>

definition sfdiskOutputGetLastPartition :: "string \<Rightarrow> string \<Rightarrow> string res" where
  "sfdiskOutputGetLastPartition source sfdiskOutput =
     (let outLines = Split sfdiskOutput (CHR ''\<newline>'');
          lastPartition = (case find (\<lambda>l. HasPrefix (TrimSpace l) source) (rev outLines) of
              Some l \<Rightarrow> TrimSpace l | None \<Rightarrow> [])
      in if lastPartition = [] then Err (Wrapped ''unable to read last partition'' (Sentinel ErrPartitionNotFound))
         else Ok lastPartition)"

definition createBlockDevice :: "'w os \<Rightarrow> string \<Rightarrow> (unit, 'w) io" where
  "createBlockDevice os target =
     call (os_MkdirAll os (path_Dir target)) throw (\<lambda>_.
     call (os_OpenFile os target) throw (\<lambda>_.
     call (os_CloseFile os target) throw ret))"

fun checkToolsExists :: "'w os \<Rightarrow> string list \<Rightarrow> (unit, 'w) io" where
  "checkToolsExists os [] = ret ()"
| "checkToolsExists os (tool # tools) =
     look_path os tool (\<lambda>r. case r of
       LookPathNotFound \<Rightarrow> throw (Wrapped ''executable not found'' (Sentinel ErrToolNotFound))
     | _ \<Rightarrow> checkToolsExists os tools)"

definition cmdExitCode :: "err \<Rightarrow> int" where
  "cmdExitCode e = (case errors_As_ExitError e of Some n \<Rightarrow> n | None \<Rightarrow> 0)"

definition udevWaitDiskToSettle :: "'w os \<Rightarrow> string \<Rightarrow> (unit, 'w) io" where
  "udevWaitDiskToSettle os path =
     look_path os ''udevadm'' (\<lambda>r. case r of
       LookPathOk udevadm \<Rightarrow>
         run_cmd os udevadm [''settle'', ''--timeout='' @ Sprint_int udevSettleTimeout, ''--exit-if-exists='' @ path]
           (\<lambda>_. throw) (\<lambda>_. ret ())
     | _ \<Rightarrow> ret ())"

text \<open>The polling loop: it ends when the link can be read, with an error other than absence, or after the
  rounds granted, with an empty device.\<close>

fun poll_link :: "nat \<Rightarrow> 'w os \<Rightarrow> string \<Rightarrow> (string, 'w) io" where
  "poll_link 0 os ln = ret []"
| "poll_link (Suc n) os ln =
     read_link os ln (\<lambda>r. case r of
       ReadlinkError e \<Rightarrow> throw e
     | ReadlinkNotExist \<Rightarrow> poll_link n os ln
     | ReadlinkOk dev \<Rightarrow> if dev \<noteq> [] then ret dev else poll_link n os ln)"

definition getBlockDeviceByDiskID :: "nat \<Rightarrow> 'w os \<Rightarrow> string \<Rightarrow> (string, 'w) io" where
  "getBlockDeviceByDiskID polls os diskID =
     (let ln = (if \<not> IsAbs diskID then path_Join udevDiskByIDPath diskID else diskID) in
      call (udevWaitDiskToSettle os ln) throw (\<lambda>_.
      call (poll_link polls os ln) throw (\<lambda>dev.
        if dev = [] then throw (Sentinel ErrNodeDiskNotFound)
        else let dev = (if \<not> IsAbs dev then Clean (path_Join (path_Dir ln) dev) else dev) in
          stat os dev (\<lambda>r. case r of
            StatOk \<Rightarrow> ret dev
          | StatNotExist \<Rightarrow> throw (Errorf ''no such file or directory'')
          | StatError e \<Rightarrow> throw e))))"

section \<open>Partitions and filesystems\<close>

record LinuxFilesystem =
  filesystemTypes :: "string list"

definition required_tools :: "string list \<Rightarrow> string list" where
  "required_tools types = [blkidCmd, partedCmd, sfdiskCmd, ''resize2fs'', ''xfs_growfs'', ''growpart''] @
     map (\<lambda>t. ''mkfs.'' @ t) types"

definition isSupportedFilesystem :: "LinuxFilesystem \<Rightarrow> string \<Rightarrow> unit res" where
  "isSupportedFilesystem m fsType =
     (if list_ex (\<lambda>t. t = fsType) (filesystemTypes m) then Ok () else Err (Errorf ''filesystem type is not supported''))"

definition blkid_match :: "string \<Rightarrow> string \<Rightarrow> string \<Rightarrow> string list" where
  "blkid_match tag v device =
     [''--probe'', ''--output'', ''value'', ''--match-tag'', tag, ''--match-token'', tag @ ''='' @ v, device]"

text \<open>The two blkid probes share their shape: the tag's value printed must be the one asked for.\<close>

definition filesystemExists :: "'w os \<Rightarrow> string \<Rightarrow> string \<Rightarrow> (bool, 'w) io" where
  "filesystemExists os part fsType =
     (if part = [] then throw (Errorf ''partition is not specified'')
      else run_cmd os blkidCmd (blkid_match ''TYPE'' fsType part)
        (\<lambda>out e. if cmdExitCode e = blkidCmdErrCodeNotFound then ret False
                 else throw (Wrapped ''checking partition filesystem failed'' e))
        (\<lambda>out. ret (TrimSpace (ToLower out) = fsType)))"

definition hasPartitionTable :: "'w os \<Rightarrow> string \<Rightarrow> (bool, 'w) io" where
  "hasPartitionTable os device =
     (if device = [] then throw (Errorf ''source is not specified'')
      else run_cmd os blkidCmd (blkid_match ''PTTYPE'' partitionTableType device)
        (\<lambda>out e. if cmdExitCode e = blkidCmdErrCodeNotFound then ret False
                 else throw (Wrapped ''checking partition table failed'' e))
        (\<lambda>out. ret (TrimSpace (ToLower out) = partitionTableType)))"

definition createFilesystemIfNotExists :: "'w os \<Rightarrow> string \<Rightarrow> string \<Rightarrow> string list \<Rightarrow> (unit, 'w) io" where
  "createFilesystemIfNotExists os part fsType mkfsArgs =
     call (filesystemExists os part fsType) throw (\<lambda>ok.
       if ok then ret ()
       else run_cmd os (''mkfs.'' @ fsType) (mkfsArgs @ [part])
         (\<lambda>out e. throw (Wrapped ''failed to create filesystem'' e)) (\<lambda>_. ret ()))"

definition createPartitionTableIfNotExists :: "'w os \<Rightarrow> string \<Rightarrow> (unit, 'w) io" where
  "createPartitionTableIfNotExists os device =
     call (hasPartitionTable os device) throw (\<lambda>ok.
       if ok then ret ()
       else run_cmd os partedCmd [device, ''mklabel'', ''gpt'']
         (\<lambda>out e. throw (Wrapped ''failed to create partition table'' e)) (\<lambda>_. ret ()))"

definition LinuxFilesystem_GetDeviceLastPartition :: "'w os \<Rightarrow> string \<Rightarrow> (string, 'w) io" where
  "LinuxFilesystem_GetDeviceLastPartition os device =
     run_cmd os sfdiskCmd [''-q'', ''--list'', ''-o'', ''device'', device]
       (\<lambda>out e. throw (Wrapped ''failed to get last partition'' e))
       (\<lambda>out w. (sfdiskOutputGetLastPartition device out, w))"

definition createPartitionIfNotExists :: "'w os \<Rightarrow> string \<Rightarrow> (string, 'w) io" where
  "createPartitionIfNotExists os device =
     call (LinuxFilesystem_GetDeviceLastPartition os device)
       (\<lambda>_. run_cmd os partedCmd [''-a'', ''opt'', device, ''mkpart'', ''primary'', ''2048s'', ''100%'']
         (\<lambda>out e. throw (Wrapped ''failed to create new partition'' e))
         (\<lambda>_. LinuxFilesystem_GetDeviceLastPartition os device))
       ret"

definition LinuxFilesystem_Format :: "LinuxFilesystem \<Rightarrow> 'w os \<Rightarrow> string \<Rightarrow> string \<Rightarrow> string list \<Rightarrow> (unit, 'w) io" where
  "LinuxFilesystem_Format m os source fsType mkfsArgs =
     (if fsType = [] then throw (Errorf ''fs type is not specified for formatting the volume'')
      else if source = [] then throw (Errorf ''source is not specified for formatting the volume'')
      else let fsType = ToLower fsType in
        case isSupportedFilesystem m fsType of
          Err e \<Rightarrow> throw e
        | Panic \<Rightarrow> panic
        | Ok _ \<Rightarrow>
            call (createPartitionTableIfNotExists os source) throw (\<lambda>_.
            call (createPartitionIfNotExists os source) throw (\<lambda>part.
              createFilesystemIfNotExists os part fsType mkfsArgs)))"

section \<open>Mounts\<close>

definition LinuxFilesystem_Mount :: "'w os \<Rightarrow> string \<Rightarrow> string \<Rightarrow> string \<Rightarrow> string list \<Rightarrow> (unit, 'w) io" where
  "LinuxFilesystem_Mount os source target fsType opts =
     (if source = [] then throw (Errorf ''source is not specified for mounting the volume'')
      else if target = [] then throw (Errorf ''target is not specified for mounting the volume'')
      else call (if fsType = [] then createBlockDevice os target else os_MkdirAll os target) throw (\<lambda>_.
        run_cmd os ''mount''
          ((if fsType = [] then [] else [''-t'', fsType]) @
           (if length opts > 0 then [''-o'', Join opts '',''] else []) @ [source, target])
          (\<lambda>out e. throw (Wrapped ''mount failed'' e)) (\<lambda>_. ret ())))"

definition LinuxFilesystem_Unmount :: "'w os \<Rightarrow> string \<Rightarrow> (unit, 'w) io" where
  "LinuxFilesystem_Unmount os target =
     (if target = [] then throw (Errorf ''target is not specified for unmounting the volume'')
      else stat os target (\<lambda>r. case r of
          StatNotExist \<Rightarrow> ret ()
        | _ \<Rightarrow> run_cmd os ''umount'' [target] (\<lambda>_. throw) (\<lambda>_. ret ())))"

text \<open>An entry of findmnt's answer.\<close>

record fileSystem =
  fsys_Source :: string
  fsys_Target :: string
  fsys_Propagation :: string
  fsys_FsType :: string
  fsys_Options :: string

definition zero_fileSystem :: fileSystem where
  "zero_fileSystem = \<lparr>fsys_Source = [], fsys_Target = [], fsys_Propagation = [], fsys_FsType = [], fsys_Options = []\<rparr>"

text \<open>Decoding into a string variable: \<open>null\<close> leaves it, a value of another kind is a type error.\<close>

fun decode_string :: "json \<Rightarrow> string \<Rightarrow> string option" where
  "decode_string (JStr s) old = Some s"
| "decode_string JNull old = Some old"
| "decode_string _ old = None"

text \<open>One member of an object into the struct: names match up to case, other members are ignored. The struct of
  \<open>IsMounted\<close> has no source field.\<close>

definition decode_field :: "bool \<Rightarrow> string \<Rightarrow> json \<Rightarrow> fileSystem \<Rightarrow> fileSystem option" where
  "decode_field withSource k v fs =
     (if withSource \<and> ToLower k = ''source'' then map_option (\<lambda>x. fs\<lparr>fsys_Source := x\<rparr>) (decode_string v (fsys_Source fs))
      else if ToLower k = ''target'' then map_option (\<lambda>x. fs\<lparr>fsys_Target := x\<rparr>) (decode_string v (fsys_Target fs))
      else if ToLower k = ''propagation'' then map_option (\<lambda>x. fs\<lparr>fsys_Propagation := x\<rparr>) (decode_string v (fsys_Propagation fs))
      else if ToLower k = ''fstype'' then map_option (\<lambda>x. fs\<lparr>fsys_FsType := x\<rparr>) (decode_string v (fsys_FsType fs))
      else if ToLower k = ''options'' then map_option (\<lambda>x. fs\<lparr>fsys_Options := x\<rparr>) (decode_string v (fsys_Options fs))
      else Some fs)"

fun decode_members :: "(string \<Rightarrow> json \<Rightarrow> 'a \<Rightarrow> 'a option) \<Rightarrow> (string \<times> json) list \<Rightarrow> 'a \<Rightarrow> 'a option" where
  "decode_members f [] x = Some x"
| "decode_members f ((k, v) # ms) x = (case f k v x of None \<Rightarrow> None | Some y \<Rightarrow> decode_members f ms y)"

fun decode_fileSystem :: "bool \<Rightarrow> json \<Rightarrow> fileSystem \<Rightarrow> fileSystem option" where
  "decode_fileSystem src (JObj ms) fs = decode_members (decode_field src) ms fs"
| "decode_fileSystem src JNull fs = Some fs"
| "decode_fileSystem src _ fs = None"

text \<open>An array into a slice: element \<open>i\<close> is decoded into the one that was there, or into a zero struct.\<close>

fun decode_elems :: "bool \<Rightarrow> json list \<Rightarrow> fileSystem list \<Rightarrow> fileSystem list option" where
  "decode_elems src [] old = Some []"
| "decode_elems src (v # vs) old =
     (case decode_fileSystem src v (case old of x # _ \<Rightarrow> x | [] \<Rightarrow> zero_fileSystem) of
        None \<Rightarrow> None
      | Some fs \<Rightarrow> map_option (\<lambda>fss. fs # fss) (decode_elems src vs (tl old)))"

definition decode_response_field :: "bool \<Rightarrow> string \<Rightarrow> json \<Rightarrow> fileSystem list \<Rightarrow> fileSystem list option" where
  "decode_response_field src k v old =
     (if ToLower k = ''filesystems'' then
        (case v of JArr vs \<Rightarrow> decode_elems src vs old | JNull \<Rightarrow> Some [] | _ \<Rightarrow> None)
      else Some old)"

text \<open>\<open>json.Unmarshal(out, &resp)\<close>: \<open>None\<close> is an error, \<open>Some None\<close> the nil pointer of the answer \<open>null\<close>.\<close>

definition unmarshal_findmnt :: "bool \<Rightarrow> string \<Rightarrow> fileSystem list option option" where
  "unmarshal_findmnt src out =
     (case parse_json out of
        Some (JObj ms) \<Rightarrow> map_option Some (decode_members (decode_response_field src) ms [])
      | Some JNull \<Rightarrow> Some None
      | _ \<Rightarrow> None)"

text \<open>The loop of \<open>IsMounted\<close>: an entry that is not shared is an error, whatever its target.\<close>

definition LinuxFilesystem_IsMounted :: "'w os \<Rightarrow> string \<Rightarrow> (bool, 'w) io" where
  "LinuxFilesystem_IsMounted os target =
     (if target = [] then throw (Errorf ''target is not specified for checking the mount'')
      else run_cmd os ''findmnt'' [''-o'', ''TARGET,PROPAGATION,FSTYPE,OPTIONS'', ''-M'', target, ''-J'']
        (\<lambda>out e. if TrimSpace out = [] then ret False else throw (Wrapped ''checking mounted failed'' e))
        (\<lambda>out. if length out = 0 then ret False
          else case unmarshal_findmnt False out of
            None \<Rightarrow> throw (Errorf ''couldn't unmarshal data'')
          | Some None \<Rightarrow> panic
          | Some (Some fileSystems) \<Rightarrow>
              if list_ex (\<lambda>fs. fsys_Propagation fs \<noteq> ''shared'') fileSystems
              then throw (Errorf ''mount propagation is not enabled'')
              else ret (list_ex (\<lambda>fs. fsys_Target fs = target) fileSystems)))"

definition LinuxFilesystem_GetMountInfo :: "'w os \<Rightarrow> string \<Rightarrow> (MountInfo, 'w) io" where
  "LinuxFilesystem_GetMountInfo os target =
     (if target = [] then throw (Errorf ''target is not specified for checking the mount'')
      else run_cmd os ''findmnt'' [''-o'', ''SOURCE,TARGET,PROPAGATION,FSTYPE,OPTIONS'', ''-M'', target, ''-J'']
        (\<lambda>out e. if TrimSpace out = [] then throw (Sentinel ErrNotMounted) else throw (Wrapped ''checking mounted failed'' e))
        (\<lambda>out. if length out = 0 then throw (Sentinel ErrNotMounted)
          else case unmarshal_findmnt True out of
            None \<Rightarrow> throw (Errorf ''couldn't unmarshal data'')
          | Some None \<Rightarrow> panic
          | Some (Some fileSystems) \<Rightarrow>
              (case find (\<lambda>fs. fsys_Target fs = target) fileSystems of
                 None \<Rightarrow> throw (Sentinel ErrNotMounted)
               | Some fs \<Rightarrow>
                   if fsys_Propagation fs \<noteq> ''shared'' then throw (Errorf ''mount propagation is not enabled'')
                   else ret \<lparr>MountInfo_Source = fsys_Source fs, MountInfo_FsType = fsys_FsType fs,
                             MountInfo_Options = fsys_Options fs\<rparr>)))"

section \<open>Sizes and statistics\<close>

definition LinuxFilesystem_GetBlockDeviceSize :: "'w os \<Rightarrow> string \<Rightarrow> (int, 'w) io" where
  "LinuxFilesystem_GetBlockDeviceSize os devicePath =
     call (unix_Open os devicePath) (\<lambda>e. throw (Wrapped ''open block device'' e)) (\<lambda>fd.
     call (unix_BLKGETSIZE64 os fd)
       (\<lambda>e. call (unix_Close os fd) (\<lambda>_. throw (Wrapped ''ioctl BLKGETSIZE64'' e)) (\<lambda>_. throw (Wrapped ''ioctl BLKGETSIZE64'' e)))
       (\<lambda>size. call (unix_Close os fd) (\<lambda>e. throw (Wrapped ''close block device'' e)) (\<lambda>_. ret (i64 (int size)))))"

text \<open>The counts are unsigned 64-bit numbers converted to signed ones; products wrap around.\<close>

definition statistics_of :: "Statfs \<Rightarrow> VolumeStatistics" where
  "statistics_of st =
     \<lparr>AvailableBytes = i64 (i64 (int (Statfs_Bavail st)) * Statfs_Bsize st),
      TotalBytes = i64 (i64 (int (Statfs_Blocks st)) * Statfs_Bsize st),
      UsedBytes = i64 (i64 (i64 (int (Statfs_Blocks st)) - i64 (int (Statfs_Bfree st))) * Statfs_Bsize st),
      AvailableInodes = i64 (int (Statfs_Ffree st)),
      TotalInodes = i64 (int (Statfs_Files st)),
      UsedInodes = i64 (i64 (int (Statfs_Files st)) - i64 (int (Statfs_Ffree st)))\<rparr>"

definition LinuxFilesystem_Statistics :: "'w os \<Rightarrow> string \<Rightarrow> (VolumeStatistics, 'w) io" where
  "LinuxFilesystem_Statistics os volumePath = call (unix_Statfs os volumePath) throw (\<lambda>st. ret (statistics_of st))"

section \<open>Devices and resizing\<close>

definition LinuxFilesystem_GetDeviceByID :: "nat \<Rightarrow> 'w os \<Rightarrow> string \<Rightarrow> (string, 'w) io" where
  "LinuxFilesystem_GetDeviceByID polls os uid =
     (case volumeIDToDiskID uid of
        Err e \<Rightarrow> throw e | Panic \<Rightarrow> panic | Ok diskID \<Rightarrow> getBlockDeviceByDiskID polls os diskID)"

definition resizePartition :: "'w os \<Rightarrow> string \<Rightarrow> string \<Rightarrow> (unit, 'w) io" where
  "resizePartition os device partNum =
     run_cmd os ''growpart'' [device, partNum]
       (\<lambda>out e. if Contains out ''NOCHANGE'' then ret () else throw (Wrapped ''failed to resize partition'' e))
       (\<lambda>_. ret ())"

text \<open>The loop from index \<open>i\<close> down to the first byte that is not a digit.\<close>

fun partition_number_from :: "string \<Rightarrow> nat \<Rightarrow> string" where
  "partition_number_from p 0 = p"
| "partition_number_from p (Suc i) =
     (if \<not> is_digit (p ! i) then (if Suc i < length p then drop (Suc i) p else [])
      else partition_number_from p i)"

definition extractPartitionNumber :: "string \<Rightarrow> string" where
  "extractPartitionNumber p = partition_number_from p (length p)"

definition detectFilesystemType :: "'w os \<Rightarrow> string \<Rightarrow> (string, 'w) io" where
  "detectFilesystemType os part =
     run_cmd os blkidCmd [''--probe'', ''--output'', ''value'', ''--match-tag'', ''TYPE'', part]
       (\<lambda>out e. throw (Wrapped ''failed to detect filesystem type'' e))
       (\<lambda>out. if TrimSpace out = [] then throw (Errorf ''no filesystem detected'') else ret (ToLower (TrimSpace out)))"

definition resizeExtFilesystem :: "'w os \<Rightarrow> string \<Rightarrow> (unit, 'w) io" where
  "resizeExtFilesystem os part =
     run_cmd os ''resize2fs'' [part] (\<lambda>out e. throw (Wrapped ''resize2fs failed'' e)) (\<lambda>_. ret ())"

definition resizeXfsFilesystem :: "'w os \<Rightarrow> string \<Rightarrow> (unit, 'w) io" where
  "resizeXfsFilesystem os mountPoint =
     run_cmd os ''xfs_growfs'' [mountPoint] (\<lambda>out e. throw (Wrapped ''xfs_growfs failed'' e)) (\<lambda>_. ret ())"

definition LinuxFilesystem_ResizeVolume :: "'w os \<Rightarrow> string \<Rightarrow> string \<Rightarrow> (unit, 'w) io" where
  "LinuxFilesystem_ResizeVolume os source volumePath =
     call (LinuxFilesystem_GetDeviceLastPartition os source) (\<lambda>e. throw (Wrapped ''failed to get partition'' e)) (\<lambda>part.
     let partNum = extractPartitionNumber part in
     if partNum = [] then throw (Errorf ''failed to extract partition number'')
     else call (resizePartition os source partNum) (\<lambda>e. throw (Wrapped ''failed to resize partition'' e)) (\<lambda>_.
     call (detectFilesystemType os part) (\<lambda>e. throw (Wrapped ''failed to detect filesystem type'' e)) (\<lambda>fsType.
       if fsType = ''ext2'' \<or> fsType = ''ext3'' \<or> fsType = ''ext4''
       then call (resizeExtFilesystem os part) (\<lambda>e. throw (Wrapped ''failed to resize ext filesystem'' e)) ret
       else if fsType = ''xfs''
       then call (resizeXfsFilesystem os volumePath) (\<lambda>e. throw (Wrapped ''failed to resize xfs filesystem'' e)) ret
       else throw (Errorf ''unsupported filesystem type for resize''))))"

section \<open>The provider\<close>

text \<open>\<open>NewLinuxFilesystem\<close> returns the filesystem together with the result of the tool check.\<close>

definition NewLinuxFilesystem :: "'w os \<Rightarrow> string list \<Rightarrow> 'w \<Rightarrow> (LinuxFilesystem \<times> unit res) \<times> 'w" where
  "NewLinuxFilesystem os types w = (case checkToolsExists os (required_tools types) w of
     (r, w') \<Rightarrow> ((\<lparr>filesystemTypes = types\<rparr>, r), w'))"

definition linux_filesystem :: "nat \<Rightarrow> 'w os \<Rightarrow> LinuxFilesystem \<Rightarrow> 'w Filesystem" where
  "linux_filesystem polls os m =
     \<lparr>fs_Format = LinuxFilesystem_Format m os,
      fs_IsMounted = LinuxFilesystem_IsMounted os,
      fs_GetMountInfo = LinuxFilesystem_GetMountInfo os,
      fs_GetBlockDeviceSize = LinuxFilesystem_GetBlockDeviceSize os,
      fs_Mount = LinuxFilesystem_Mount os,
      fs_Unmount = LinuxFilesystem_Unmount os,
      fs_Statistics = LinuxFilesystem_Statistics os,
      fs_GetDeviceByID = LinuxFilesystem_GetDeviceByID polls os,
      fs_GetDeviceLastPartition = LinuxFilesystem_GetDeviceLastPartition os,
      fs_ResizeVolume = LinuxFilesystem_ResizeVolume os\<rparr>"

end
