(* ===== verification/Linux_Laws.thy ===== *)
theory Linux_Laws
  imports Linux_Filesystem
begin

text \<open>
  Properties of the Linux filesystem provider: the disk identifier of a volume, the parsing of sfdisk's
  output and of partition names, what formatting does to a partition, and the arithmetic of the statistics.
\<close>

section \<open>Identifiers and names\<close>

text \<open>The udev identifier of a volume is the prefix and the first twenty characters of the volume identifier without
  its dashes, so two volumes get the same one exactly when these characters agree; an identifier with at most
  twenty characters besides dashes is refused.\<close>

lemma volumeIDToDiskID_correct:
  "volumeIDToDiskID v =
     (let fullID = filter (\<lambda>c. c \<noteq> CHR ''-'') v in
      if length fullID \<le> 20 then Err (Errorf ''volume ID too short'') else Ok (''virtio-'' @ take 20 fullID))"
  by (simp add: volumeIDToDiskID_def Join_empty_sep concat_Split diskPrefix_def Let_def)

text \<open>The digits at the end of a name.\<close>

definition digit_suffix :: "string \<Rightarrow> string" where
  "digit_suffix p = rev (takeWhile is_digit (rev p))"

lemma digit_suffix_append_digits:
  "\<forall>c \<in> set ds. is_digit c \<Longrightarrow> digit_suffix (p @ ds) = digit_suffix p @ ds"
  by (simp add: digit_suffix_def takeWhile_append)

lemma digit_suffix_nondigit: "\<not> is_digit c \<Longrightarrow> digit_suffix (p @ [c]) = []"
  by (simp add: digit_suffix_def)

lemma partition_number_from_suffix:
  assumes "i \<le> length p" and "\<forall>c \<in> set (drop i p). is_digit c"
  shows "partition_number_from p i = digit_suffix p"
  using assms
proof (induction i)
  case 0
  then show ?case by (simp add: digit_suffix_def takeWhile_eq_all_conv [THEN iffD2])
next
  case (Suc i)
  then have split: "drop i p = p ! i # drop (Suc i) p" and p: "p = take i p @ [p ! i] @ drop (Suc i) p"
    using id_take_nth_drop [of i p] by (simp_all add: Cons_nth_drop_Suc)
  show ?case
  proof (cases "is_digit (p ! i)")
    case True
    with Suc split show ?thesis by simp
  next
    case False
    have "digit_suffix p = digit_suffix (take i p @ [p ! i]) @ drop (Suc i) p"
      using digit_suffix_append_digits [OF Suc.prems(2), of "take i p @ [p ! i]"] p by simp
    with False show ?thesis by (simp add: digit_suffix_nondigit)
  qed
qed

text \<open>C36. The loop of \<open>extractPartitionNumber\<close> returns the longest suffix of the partition's name that consists of digits, for
  every name: the part number of \<open>/dev/vda1\<close> and of \<open>/dev/nvme0n1p12\<close> alike, the whole name when it is all digits,
  and nothing when it does not end in a digit.\<close>

theorem extractPartitionNumber_suffix: "extractPartitionNumber p = digit_suffix p"
  unfolding extractPartitionNumber_def by (rule partition_number_from_suffix) simp_all

text \<open>C37. The last partition read from sfdisk's output is a line of it, trimmed, that starts with the device, and no later line
  starts with the device; there is an error exactly when no line does (for a device that is named).\<close>

theorem sfdiskOutputGetLastPartition_last:
  assumes "source \<noteq> []"
  shows "case sfdiskOutputGetLastPartition source out of
      Ok part \<Rightarrow> (\<exists>before l after. Split out (CHR ''\<newline>'') = before @ l # after \<and> part = TrimSpace l \<and>
        HasPrefix part source \<and> (\<forall>l' \<in> set after. \<not> HasPrefix (TrimSpace l') source))
    | Err e \<Rightarrow> errors_Is e ErrPartitionNotFound \<and> (\<forall>l \<in> set (Split out (CHR ''\<newline>'')). \<not> HasPrefix (TrimSpace l) source)
    | Panic \<Rightarrow> False"
proof (cases "find (\<lambda>l. HasPrefix (TrimSpace l) source) (rev (Split out (CHR ''\<newline>'')))")
  case None
  moreover from None have "\<forall>l \<in> set (Split out (CHR ''\<newline>'')). \<not> HasPrefix (TrimSpace l) source"
    by (auto simp: find_None_iff)
  ultimately show ?thesis by (simp add: sfdiskOutputGetLastPartition_def Let_def)
next
  case (Some l)
  let ?ls = "Split out (CHR ''\<newline>'')"
  from Some obtain i where i: "i < length ?ls" "rev ?ls ! i = l" "HasPrefix (TrimSpace l) source"
    "\<forall>j < i. \<not> HasPrefix (TrimSpace (rev ?ls ! j)) source"
    by (auto simp: find_Some_iff)
  define k where "k = length ?ls - Suc i"
  have k: "k < length ?ls" "?ls ! k = l" using i by (simp_all add: k_def rev_nth)
  have "\<not> HasPrefix (TrimSpace l') source" if l': "l' \<in> set (drop (Suc k) ?ls)" for l'
  proof -
    obtain j where j: "j < length ?ls - Suc k" "l' = ?ls ! (Suc k + j)"
      using l' k(1) by (auto simp: in_set_conv_nth nth_drop)
    let ?j = "length ?ls - Suc (Suc k + j)"
    have "?j < i" using j(1) i(1) unfolding k_def by linarith
    moreover have "length ?ls - Suc ?j = Suc k + j" using j(1) k(1) by linarith
    then have "rev ?ls ! ?j = l'" using j i(1) \<open>?j < i\<close> by (simp add: rev_nth)
    ultimately show ?thesis using i(4) by blast
  qed
  moreover have "?ls = take k ?ls @ l # drop (Suc k) ?ls" using id_take_nth_drop [OF k(1)] k(2) by simp
  moreover have "TrimSpace l \<noteq> []" using i(3) assms by (auto simp: HasPrefix_def)
  ultimately show ?thesis
    using Some i(3) by (auto simp: sfdiskOutputGetLastPartition_def Let_def)
qed

theorem sfdiskOutputGetLastPartition_last_witness:
  "sfdiskOutputGetLastPartition ''/dev/vda'' ''Device
/dev/vda1
/dev/vda2
'' = Ok ''/dev/vda2'' \<and> HasPrefix ''/dev/vda2'' ''/dev/vda''"
proof -
  let ?out = "''Device
/dev/vda1
/dev/vda2
''"
  have 1: "sfdiskOutputGetLastPartition ''/dev/vda'' ?out = Ok ''/dev/vda2''"
    by (simp add: sfdiskOutputGetLastPartition_def HasPrefix_def TrimSpace_def is_space_def)
  show ?thesis using sfdiskOutputGetLastPartition_last [of "''/dev/vda''" ?out] 1 by (auto split: res.splits)
qed

section \<open>Formatting\<close>

text \<open>What the blkid probe and mkfs do, over a view \<open>fsty\<close> of the filesystem on each partition: the probe for a type prints
  the type if the partition has it and exits with code 2 otherwise, mkfs leaves its type on the partition or fails.\<close>

definition mkfs_os :: "'w os \<Rightarrow> ('w \<Rightarrow> string \<Rightarrow> string option) \<Rightarrow> bool" where
  "mkfs_os os fsty \<longleftrightarrow>
     (\<forall>w t p. fsty w p = Some t \<longrightarrow>
        (\<exists>out. os_Run os ''blkid'' (blkid_match ''TYPE'' t p) w = ((out, None), w) \<and> TrimSpace (ToLower out) = t)) \<and>
     (\<forall>w t p. fsty w p \<noteq> Some t \<longrightarrow>
        (\<exists>out. os_Run os ''blkid'' (blkid_match ''TYPE'' t p) w = ((out, Some (ExitError 2)), w))) \<and>
     (\<forall>w t p args out w'. os_Run os (''mkfs.'' @ t) (args @ [p]) w = ((out, None), w') \<longrightarrow>
        fsty w' = (fsty w)(p \<mapsto> t))"


text \<open>An operating system with a table of the filesystems on its partitions.\<close>

definition table_run :: "string \<Rightarrow> string list \<Rightarrow> (string \<Rightarrow> string option) \<Rightarrow> (string \<times> err option) \<times> (string \<Rightarrow> string option)" where
  "table_run cmd args w =
     (if cmd = ''blkid'' \<and> length args = 8 then
        (case w (args ! 7) of
           None \<Rightarrow> (([], Some (ExitError 2)), w)
         | Some t \<Rightarrow> if args ! 6 = ''TYPE='' @ t \<and> TrimSpace (ToLower t) = t then ((t, None), w) else (([], Some (ExitError 2)), w))
      else if HasPrefix cmd ''mkfs.'' \<and> TrimSpace (ToLower (drop 5 cmd)) = drop 5 cmd
        then (([], None), w(last args \<mapsto> drop 5 cmd))
      else (([], Some (ExitError 1)), w))"

definition table_os :: "(string \<Rightarrow> string option) os" where
  "table_os = \<lparr>os_Run = table_run, os_LookPath = (\<lambda>p w. (LookPathOk p, w)), os_Stat = (\<lambda>_ w. (StatOk, w)),
     os_Readlink = (\<lambda>_ w. (ReadlinkNotExist, w)), os_MkdirAll = (\<lambda>_. ret ()), os_OpenFile = (\<lambda>_. ret ()),
     os_CloseFile = (\<lambda>_. ret ()), os_Remove = (\<lambda>_. ret ()),
     unix_Statfs = (\<lambda>_. throw (Errorf ''statfs'')), unix_Open = (\<lambda>_. throw (Errorf ''open'')),
     unix_BLKGETSIZE64 = (\<lambda>_. throw (Errorf ''ioctl'')), unix_Close = (\<lambda>_. ret ())\<rparr>"

text \<open>What blkid prints is already trimmed and in lower case.\<close>

definition table_view :: "(string \<Rightarrow> string option) \<Rightarrow> string \<Rightarrow> string option" where
  "table_view w p = (case w p of Some t \<Rightarrow> if TrimSpace (ToLower t) = t then Some t else None | None \<Rightarrow> None)"

lemma table_os_mkfs: "mkfs_os table_os table_view"
  unfolding mkfs_os_def
  by (auto simp: table_os_def table_run_def table_view_def blkid_match_def HasPrefix_def fun_eq_iff
      split: option.splits if_splits)


section \<open>Statistics\<close>



section \<open>The answer of findmnt\<close>

text \<open>The text findmnt answers with for a list of entries.\<close>

definition entry_json :: "fileSystem \<Rightarrow> json" where
  "entry_json e = JObj [(''source'', JStr (fsys_Source e)), (''target'', JStr (fsys_Target e)),
     (''propagation'', JStr (fsys_Propagation e)), (''fstype'', JStr (fsys_FsType e)), (''options'', JStr (fsys_Options e))]"

definition findmnt_text :: "fileSystem list \<Rightarrow> string" where
  "findmnt_text es = print_json (JObj [(''filesystems'', JArr (map entry_json es))])"

definition entry_utf8 :: "fileSystem \<Rightarrow> bool" where
  "entry_utf8 e \<longleftrightarrow> utf8_valid (fsys_Source e) \<and> utf8_valid (fsys_Target e) \<and> utf8_valid (fsys_Propagation e) \<and>
     utf8_valid (fsys_FsType e) \<and> utf8_valid (fsys_Options e)"

lemma member_names:
  "ToLower ''filesystems'' = ''filesystems''" "ToLower ''source'' = ''source''" "ToLower ''target'' = ''target''"
  "ToLower ''propagation'' = ''propagation''" "ToLower ''fstype'' = ''fstype''" "ToLower ''options'' = ''options''"
  by (simp_all add: ToLower_def lower_char_def)

lemma decode_entry:
  "decode_fileSystem src (entry_json e) zero_fileSystem = Some (if src then e else e\<lparr>fsys_Source := []\<rparr>)"
  by (simp add: entry_json_def decode_field_def member_names zero_fileSystem_def)

lemma decode_entries:
  "decode_elems src (map entry_json es) [] = Some (map (\<lambda>e. if src then e else e\<lparr>fsys_Source := []\<rparr>) es)"
  by (induction es) (simp_all add: decode_entry del: decode_fileSystem.simps)

lemma findmnt_text_read:
  assumes "list_all entry_utf8 es"
  shows "parse_json (findmnt_text es) = Some (JObj [(''filesystems'', JArr (map entry_json es))])"
  unfolding findmnt_text_def
proof (rule parse_print_json)
  have names: "utf8_valid ''filesystems''" "utf8_valid ''source''" "utf8_valid ''target''" "utf8_valid ''propagation''"
    "utf8_valid ''fstype''" "utf8_valid ''options''" by (rule utf8_valid_ascii, simp)+
  show "json_text (JObj [(''filesystems'', JArr (map entry_json es))])"
    using assms names by (auto simp: list_all_iff entry_json_def entry_utf8_def simp del: utf8_valid.simps)
  have "foldr max (map (\<lambda>e. depth (entry_json e)) es) 0 \<le> 1"
    by (induction es) (simp_all add: entry_json_def)
  then show "depth (JObj [(''filesystems'', JArr (map entry_json es))]) \<le> maxNestingDepth"
    by (simp add: maxNestingDepth_def comp_def)
qed

lemma findmnt_text_decoded:
  assumes "list_all entry_utf8 es"
  shows "unmarshal_findmnt src (findmnt_text es) = Some (Some (map (\<lambda>e. if src then e else e\<lparr>fsys_Source := []\<rparr>) es))"
  using findmnt_text_read [OF assms] by (simp add: unmarshal_findmnt_def decode_response_field_def member_names decode_entries)



end
