(* ===== verification/Node_Server.thy ===== *)
theory Node_Server
  imports Filesystem_Iface CSI_Types UpCloud_Service
begin

text \<open>
  The CSI node service (\<open>internal/node/node.go\<close>): one definition per handler, over any provider of
  \<open>Filesystem\<close> and over the operating system for the \<open>os.Stat\<close> and \<open>os.Remove\<close> the handlers call
  themselves. Logging is left out.
\<close>

record 'w Node =
  node_name :: string
  node_zone :: string
  node_maxVolumesPerNode :: int
  node_fs :: "'w Filesystem"

definition fileSystemExt4 :: string where
  "fileSystemExt4 = ''ext4''"

definition NewNode :: "string \<Rightarrow> string \<Rightarrow> int \<Rightarrow> 'w Filesystem \<Rightarrow> 'w Node res" where
  "NewNode name z maxVols fs =
     (if name = [] then Err (Errorf ''node name is required field'')
      else if z = [] then Err (Errorf ''node zone is required field'')
      else Ok \<lparr>node_name = name, node_zone = z, node_maxVolumesPerNode = maxVols, node_fs = fs\<rparr>)"

record NodeStageVolumeRequest =
  Stage_VolumeId :: string
  Stage_StagingTargetPath :: string
  Stage_VolumeCapability :: "VolumeCapability option"
  Stage_VolumeContext :: "string \<Rightarrow> string option"

record NodePublishVolumeRequest =
  NPublish_VolumeId :: string
  NPublish_StagingTargetPath :: string
  NPublish_TargetPath :: string
  NPublish_VolumeCapability :: "VolumeCapability option"
  NPublish_Readonly :: bool

record NodeExpandVolumeRequest =
  NExpand_VolumeId :: string
  NExpand_VolumePath :: string
  NExpand_VolumeCapability :: "VolumeCapability option"

record VolumeUsage =
  Usage_Available :: int
  Usage_Total :: int
  Usage_Used :: int
  Usage_Bytes :: bool

text \<open>\<open>Usage_Bytes\<close> tells the unit: bytes or inodes.\<close>

section \<open>Staging\<close>

definition nfsMountOptions :: "string list" where
  "nfsMountOptions = [''vers=4.1'', ''nconnect=8'', ''rsize=1048576'', ''wsize=1048576'', ''noatime'', ''hard'']"

text \<open>Mount unless something is mounted at the target: the end of NFS staging and of publishing.\<close>

definition mount_unless_mounted :: "'w Node \<Rightarrow> string \<Rightarrow> string \<Rightarrow> string \<Rightarrow> string list \<Rightarrow> (unit, 'w) io" where
  "mount_unless_mounted n source target fsType options =
     call (fs_IsMounted (node_fs n) target) throw (\<lambda>mounted.
       if \<not> mounted
       then call (fs_Mount (node_fs n) source target fsType options) (\<lambda>_. throw (Status Internal)) ret
       else ret ())"

definition stageFileStorageVolume :: "'w Node \<Rightarrow> NodeStageVolumeRequest \<Rightarrow> (unit, 'w) io" where
  "stageFileStorageVolume n req =
     (let server = map_get (Stage_VolumeContext req) ''nfsServer'';
          path = map_get (Stage_VolumeContext req) ''nfsPath'' in
      if server = [] \<or> path = [] then throw (Status InvalidArgument)
      else let target = Stage_StagingTargetPath req; source = server @ '':'' @ path in
        mount_unless_mounted n source target ''nfs'' nfsMountOptions)"

text \<open>\<open>GetMount()\<close> is nil unless the access type is a mount; reading \<open>mnt.FsType\<close> of a nil message panics, while
  the getter of the mount flags does not.\<close>

definition GetMount :: "VolumeCapability \<Rightarrow> MountVolume option" where
  "GetMount cap = (case AccessType cap of Some (Mount m) \<Rightarrow> m | _ \<Rightarrow> None)"

definition NodeStageVolume :: "'w Node \<Rightarrow> NodeStageVolumeRequest \<Rightarrow> (unit, 'w) io" where
  "NodeStageVolume n req =
     (if Stage_VolumeId req = [] then throw (Status InvalidArgument)
      else if Stage_StagingTargetPath req = [] then throw (Status InvalidArgument)
      else case Stage_VolumeCapability req of
        None \<Rightarrow> throw (Status InvalidArgument)
      | Some cap \<Rightarrow>
          if map_get (Stage_VolumeContext req) ''type'' = ''nfs'' then stageFileStorageVolume n req
          else let target = Stage_StagingTargetPath req in
          if AccessType cap = Some Block then ret ()
          else case GetMount cap of
            None \<Rightarrow> panic
          | Some mnt \<Rightarrow>
              let options = MountFlags mnt;
                  fsType = (if FsType mnt \<noteq> [] then FsType mnt else fileSystemExt4) in
              call (fs_GetDeviceByID (node_fs n) (Stage_VolumeId req)) (\<lambda>_. throw (Status InvalidArgument)) (\<lambda>source.
              call (call (fs_GetMountInfo (node_fs n) target)
                     (\<lambda>e. if errors_Is e ErrNotMounted then ret None else throw (Status Internal))
                     (\<lambda>info. ret (Some info))) throw (\<lambda>mountInfo.
                case mountInfo of
                  Some info \<Rightarrow>
                    if ToLower (MountInfo_FsType info) = ToLower fsType then ret ()
                    else throw (Status AlreadyExists)
                | None \<Rightarrow>
                    call (fs_Format (node_fs n) source fsType []) (\<lambda>_. throw (Status Internal)) (\<lambda>_.
                    call (fs_GetDeviceLastPartition (node_fs n) source) (\<lambda>_. throw (Status Internal)) (\<lambda>part.
                    call (fs_Mount (node_fs n) part target fsType options) (\<lambda>_. throw (Status Internal)) ret)))))"

text \<open>The end of unstaging and unpublishing: remove the path if \<open>os.Stat\<close> finds it.\<close>

definition remove_path :: "'w os \<Rightarrow> string \<Rightarrow> (unit, 'w) io" where
  "remove_path os path =
     stat os path (\<lambda>r. case r of
       StatOk \<Rightarrow> call (os_Remove os path) (\<lambda>_. throw (Status Internal)) ret
     | _ \<Rightarrow> ret ())"

definition NodeUnstageVolume :: "'w os \<Rightarrow> 'w Node \<Rightarrow> string \<Rightarrow> string \<Rightarrow> (unit, 'w) io" where
  "NodeUnstageVolume os n volumeId stagingTargetPath =
     (if volumeId = [] then throw (Status InvalidArgument)
      else if stagingTargetPath = [] then throw (Status InvalidArgument)
      else call (fs_IsMounted (node_fs n) stagingTargetPath) throw (\<lambda>mounted.
        call (if mounted then fs_Unmount (node_fs n) stagingTargetPath else ret ()) throw (\<lambda>_.
          remove_path os stagingTargetPath)))"

section \<open>Publishing\<close>

definition validateNodePublishVolumeRequest :: "NodePublishVolumeRequest \<Rightarrow> unit res" where
  "validateNodePublishVolumeRequest r =
     (if NPublish_VolumeId r = [] then Err (Status InvalidArgument)
      else if NPublish_StagingTargetPath r = [] then Err (Status InvalidArgument)
      else if NPublish_TargetPath r = [] then Err (Status InvalidArgument)
      else if NPublish_VolumeCapability r = None then Err (Status InvalidArgument)
      else Ok ())"

text \<open>What is mounted where, by the access type: source, filesystem type and options.\<close>

definition publish_source :: "'w Node \<Rightarrow> NodePublishVolumeRequest \<Rightarrow> (string \<times> string \<times> string list, 'w) io" where
  "publish_source n req =
     (let options = [''bind''] @ (if NPublish_Readonly req then [''ro''] else []) in
      case (case NPublish_VolumeCapability req of None \<Rightarrow> None | Some cap \<Rightarrow> AccessType cap) of
        Some Block \<Rightarrow>
          call (fs_GetDeviceByID (node_fs n) (NPublish_VolumeId req)) (\<lambda>_. throw (Status Internal))
            (\<lambda>source. ret (source, [], options))
      | Some (Mount mnt) \<Rightarrow>
          (let flags = (case mnt of None \<Rightarrow> [] | Some m \<Rightarrow> MountFlags m);
               ft = (case mnt of None \<Rightarrow> [] | Some m \<Rightarrow> FsType m) in
           ret (NPublish_StagingTargetPath req, (if ft = [] then fileSystemExt4 else ft), options @ flags))
      | None \<Rightarrow> throw (Status InvalidArgument))"

definition NodePublishVolume :: "'w Node \<Rightarrow> NodePublishVolumeRequest \<Rightarrow> (unit, 'w) io" where
  "NodePublishVolume n req =
     (case validateNodePublishVolumeRequest req of
        Err e \<Rightarrow> throw e
      | Panic \<Rightarrow> panic
      | Ok _ \<Rightarrow>
          call (publish_source n req) throw (\<lambda>(source, fsType, options).
            mount_unless_mounted n source (NPublish_TargetPath req) fsType options))"

definition NodeUnpublishVolume :: "'w os \<Rightarrow> 'w Node \<Rightarrow> string \<Rightarrow> string \<Rightarrow> (unit, 'w) io" where
  "NodeUnpublishVolume os n volumeId targetPath =
     (if volumeId = [] then throw (Status InvalidArgument)
      else if targetPath = [] then throw (Status InvalidArgument)
      else call (fs_IsMounted (node_fs n) targetPath) throw (\<lambda>mounted.
        call (if mounted then fs_Unmount (node_fs n) targetPath else ret ()) throw (\<lambda>_.
          remove_path os targetPath)))"

section \<open>Information, statistics, expansion\<close>

datatype node_rpc_type = STAGE_UNSTAGE_VOLUME | GET_VOLUME_STATS | NODE_EXPAND_VOLUME

definition NodeGetCapabilities :: "(node_rpc_type list, 'w) io" where
  "NodeGetCapabilities = ret [STAGE_UNSTAGE_VOLUME, GET_VOLUME_STATS, NODE_EXPAND_VOLUME]"

definition NodeGetInfo :: "'w Node \<Rightarrow> (string \<times> int \<times> segments, 'w) io" where
  "NodeGetInfo n = ret (node_name n, node_maxVolumesPerNode n, [''region'' \<mapsto> node_zone n])"

definition NodeGetVolumeStats :: "'w Node \<Rightarrow> string \<Rightarrow> string \<Rightarrow> (VolumeUsage list, 'w) io" where
  "NodeGetVolumeStats n volumeId volumePath =
     (if volumeId = [] then throw (Status InvalidArgument)
      else if volumePath = [] then throw (Status InvalidArgument)
      else call (fs_GetBlockDeviceSize (node_fs n) volumePath)
        (\<lambda>_. call (fs_IsMounted (node_fs n) volumePath) (\<lambda>_. throw (Status Internal)) (\<lambda>mounted.
          if \<not> mounted then throw (Status NotFound)
          else call (fs_Statistics (node_fs n) volumePath) (\<lambda>_. throw (Status Internal)) (\<lambda>stats.
            ret [\<lparr>Usage_Available = AvailableBytes stats, Usage_Total = TotalBytes stats,
                  Usage_Used = UsedBytes stats, Usage_Bytes = True\<rparr>,
                 \<lparr>Usage_Available = AvailableInodes stats, Usage_Total = TotalInodes stats,
                  Usage_Used = UsedInodes stats, Usage_Bytes = False\<rparr>])))
        (\<lambda>size. ret [\<lparr>Usage_Available = 0, Usage_Total = size, Usage_Used = 0, Usage_Bytes = True\<rparr>]))"

definition NodeExpandVolume :: "(string \<Rightarrow> bool) \<Rightarrow> 'w os \<Rightarrow> 'w Node \<Rightarrow> NodeExpandVolumeRequest \<Rightarrow> (unit, 'w) io" where
  "NodeExpandVolume up os n req =
     (if NExpand_VolumeId req = [] then throw (Status InvalidArgument)
      else if NExpand_VolumePath req = [] then throw (Status InvalidArgument)
      else if IsValidFileStorageUUID up (NExpand_VolumeId req) then ret ()
      else call (fs_GetDeviceByID (node_fs n) (NExpand_VolumeId req)) (\<lambda>_. throw (Status Internal)) (\<lambda>source.
        stat os (NExpand_VolumePath req) (\<lambda>r. case r of
          StatNotExist \<Rightarrow> throw (Status NotFound)
        | StatError _ \<Rightarrow> throw (Status Internal)
        | StatOk \<Rightarrow>
            if isBlockDevice (NExpand_VolumeCapability req) then ret ()
            else call (fs_ResizeVolume (node_fs n) source (NExpand_VolumePath req)) (\<lambda>_. throw (Status Internal)) ret)))"

end
