(* ===== verification/Mock_Filesystem.thy ===== *)
theory Mock_Filesystem
  imports Filesystem_Iface
begin

text \<open>
  \<open>MockFilesystem\<close> of \<open>internal/filesystem/mock/filesystem.go\<close>, the provider of \<open>Filesystem\<close> the tests run the node
  service with: a path is mounted when it exists, and mounting below the temporary directory creates the directory.
  The temporary directory and the random numbers of the statistics are arguments.
\<close>

record MockFilesystem =
  BlockDevicePaths :: "string \<Rightarrow> int option"

definition MockFilesystem_IsMounted :: "'w os \<Rightarrow> string \<Rightarrow> (bool, 'w) io" where
  "MockFilesystem_IsMounted os target = stat os target (\<lambda>r. ret (r \<noteq> StatNotExist))"

definition MockFilesystem_Mount :: "string \<Rightarrow> 'w os \<Rightarrow> string \<Rightarrow> string \<Rightarrow> string \<Rightarrow> string list \<Rightarrow> (unit, 'w) io" where
  "MockFilesystem_Mount tempDir os source target fsType opts =
     (if HasPrefix target tempDir then os_MkdirAll os target else ret ())"

definition MockFilesystem_GetMountInfo :: "'w os \<Rightarrow> string \<Rightarrow> (MountInfo, 'w) io" where
  "MockFilesystem_GetMountInfo os target =
     stat os target (\<lambda>r. if r = StatNotExist then throw (Sentinel ErrNotMounted)
       else ret \<lparr>MountInfo_Source = target, MountInfo_FsType = ''ext4'', MountInfo_Options = []\<rparr>)"

definition MockFilesystem_GetBlockDeviceSize :: "MockFilesystem \<Rightarrow> string \<Rightarrow> (int, 'w) io" where
  "MockFilesystem_GetBlockDeviceSize m devicePath =
     (case BlockDevicePaths m devicePath of Some sz \<Rightarrow> ret sz | None \<Rightarrow> throw (Errorf ''not a block device''))"

definition MockFilesystem_GetDeviceLastPartition :: "string \<Rightarrow> (string, 'w) io" where
  "MockFilesystem_GetDeviceLastPartition source =
     (if source \<noteq> [] \<and> last source = CHR ''1'' then ret source else ret (source @ ''1''))"

definition mock_filesystem :: "string \<Rightarrow> (string \<Rightarrow> VolumeStatistics) \<Rightarrow> 'w os \<Rightarrow> MockFilesystem \<Rightarrow> 'w Filesystem" where
  "mock_filesystem tempDir rnd os m =
     \<lparr>fs_Format = (\<lambda>_ _ _. ret ()),
      fs_IsMounted = MockFilesystem_IsMounted os,
      fs_GetMountInfo = MockFilesystem_GetMountInfo os,
      fs_GetBlockDeviceSize = MockFilesystem_GetBlockDeviceSize m,
      fs_Mount = MockFilesystem_Mount tempDir os,
      fs_Unmount = (\<lambda>_. ret ()),
      fs_Statistics = (\<lambda>p. ret (rnd p)),
      fs_GetDeviceByID = (\<lambda>_. ret ''/dev/vda''),
      fs_GetDeviceLastPartition = MockFilesystem_GetDeviceLastPartition,
      fs_ResizeVolume = (\<lambda>_ _. ret ())\<rparr>"

end
