(* ===== verification/Node_Laws.thy ===== *)
theory Node_Laws
  imports Node_Server Mock_Filesystem Linux_Laws
begin

text \<open>
  Properties of the node service. The locale \<open>mounted_fs\<close> is what the handlers rely on of a filesystem provider: \<open>mnt w t\<close>
  is the type of what is mounted at \<open>t\<close>, the two queries report it, and a successful mount changes it. The mock
  filesystem is a provider on an operating system that is a set of paths; the Linux filesystem is one on every operating
  system whose findmnt, mount and umount keep \<open>mount_os\<close>.
\<close>

section \<open>The interface\<close>

locale mounted_fs =
  fixes fs :: "'w Filesystem" and mnt :: "'w \<Rightarrow> string \<Rightarrow> string option"
    and usable :: "string \<Rightarrow> bool" and typed :: "string \<Rightarrow> string list \<Rightarrow> bool"
  assumes info_mounted: "t \<noteq> [] \<Longrightarrow> mnt w t = Some ty \<Longrightarrow>
      \<exists>i. fs_GetMountInfo fs t w = (Ok i, w) \<and> ToLower (MountInfo_FsType i) = ToLower ty"
    and info_absent: "t \<noteq> [] \<Longrightarrow> mnt w t = None \<Longrightarrow>
      \<exists>e. fs_GetMountInfo fs t w = (Err e, w) \<and> errors_Is e ErrNotMounted"
    and is_mounted: "t \<noteq> [] \<Longrightarrow> fs_IsMounted fs t w = (Ok (mnt w t \<noteq> None), w)"
    and mounts: "usable t \<Longrightarrow> fs_Mount fs s t ty opts w = (Ok (), w') \<Longrightarrow> mnt w' t \<noteq> None"
    and mounts_typed: "usable t \<Longrightarrow> typed ty opts \<Longrightarrow> fs_Mount fs s t ty opts w = (Ok (), w') \<Longrightarrow>
      \<exists>ty'. mnt w' t = Some ty' \<and> ToLower ty' = ToLower ty"
begin

text \<open>The end of \<open>NodeStageVolume\<close> once the device is known, in terms of what is mounted.\<close>

lemma stage_mounted:
  assumes n: "node_fs n = fs" and req: "Stage_VolumeId req \<noteq> []" "Stage_StagingTargetPath req \<noteq> []"
    and cap: "Stage_VolumeCapability req = Some cap" "AccessType cap = Some (Mount (Some m))"
    and block: "map_get (Stage_VolumeContext req) ''type'' \<noteq> ''nfs''"
    and dev: "fs_GetDeviceByID fs (Stage_VolumeId req) w = (Ok d, w1)"
    and ty: "mnt w1 (Stage_StagingTargetPath req) = Some ty"
  shows "NodeStageVolume n req w =
    (if ToLower ty = ToLower (if FsType m \<noteq> [] then FsType m else fileSystemExt4) then Ok () else Err (Status AlreadyExists), w1)"
proof -
  obtain i where "fs_GetMountInfo fs (Stage_StagingTargetPath req) w1 = (Ok i, w1)"
    "ToLower (MountInfo_FsType i) = ToLower ty"
    using info_mounted [OF req(2) ty] by blast
  with assms show ?thesis
    by (simp add: NodeStageVolume_def GetMount_def Let_def call_def io_app)
qed

text \<open>A successful stage of a mounted volume leaves the requested type mounted.\<close>

lemma stage_leaves_mounted:
  assumes n: "node_fs n = fs" and t: "usable (Stage_StagingTargetPath req)"
    and cap: "Stage_VolumeCapability req = Some cap" "AccessType cap = Some (Mount (Some m))"
    and block: "map_get (Stage_VolumeContext req) ''type'' \<noteq> ''nfs''"
    and opts: "typed (if FsType m \<noteq> [] then FsType m else fileSystemExt4) (MountFlags m)"
    and ok: "NodeStageVolume n req w = (Ok (), w')"
  shows "\<exists>ty. mnt w' (Stage_StagingTargetPath req) = Some ty \<and>
    ToLower ty = ToLower (if FsType m \<noteq> [] then FsType m else fileSystemExt4)"
proof -
  let ?t = "Stage_StagingTargetPath req" and ?ty = "if FsType m \<noteq> [] then FsType m else fileSystemExt4"
  have req: "Stage_VolumeId req \<noteq> []" "?t \<noteq> []"
    using ok by (auto simp: NodeStageVolume_def io_app split: if_splits)
  obtain d w1 where dev: "fs_GetDeviceByID fs (Stage_VolumeId req) w = (Ok d, w1)"
    using ok req n cap block
    by (auto simp: NodeStageVolume_def GetMount_def Let_def io_defs split: prod.splits res.splits)
  show ?thesis
  proof (cases "mnt w1 ?t")
    case (Some ty)
    with ok stage_mounted [OF n req cap block dev Some] show ?thesis by (auto split: if_splits)
  next
    case None
    then obtain e where e: "fs_GetMountInfo fs ?t w1 = (Err e, w1)" "errors_Is e ErrNotMounted"
      using info_absent [OF req(2)] by blast
    obtain p w2 where "fs_Mount fs p ?t ?ty (MountFlags m) w2 = (Ok (), w')"
      using ok req n cap block dev e
      by (auto simp: NodeStageVolume_def GetMount_def Let_def io_defs split: prod.splits res.splits)
    then show ?thesis using mounts_typed [OF t opts] by blast
  qed
qed

lemma stage_twice:
  assumes n: "node_fs n = fs" and t: "usable (Stage_StagingTargetPath req)"
    and cap: "Stage_VolumeCapability req = Some cap" "AccessType cap = Some (Mount (Some m))"
    and block: "map_get (Stage_VolumeContext req) ''type'' \<noteq> ''nfs''"
    and opts: "typed (if FsType m \<noteq> [] then FsType m else fileSystemExt4) (MountFlags m)"
    and ok: "NodeStageVolume n req w = (Ok (), w')"
    and dev: "fs_GetDeviceByID fs (Stage_VolumeId req) w' = (Ok d, w')"
  shows "NodeStageVolume n req w' = (Ok (), w')"
proof -
  have req: "Stage_VolumeId req \<noteq> []" "Stage_StagingTargetPath req \<noteq> []"
    using ok by (auto simp: NodeStageVolume_def io_app split: if_splits)
  obtain ty where "mnt w' (Stage_StagingTargetPath req) = Some ty"
    "ToLower ty = ToLower (if FsType m \<noteq> [] then FsType m else fileSystemExt4)"
    using stage_leaves_mounted [OF n t cap block opts ok] by blast
  with stage_mounted [OF n req cap block dev] show ?thesis by simp
qed

lemma mount_unless_mounted_eq:
  assumes "node_fs n = fs" and "t \<noteq> []"
  shows "mount_unless_mounted n s t ty opts w =
    (if mnt w t \<noteq> None then (Ok (), w)
     else call (fs_Mount fs s t ty opts) (\<lambda>_. throw (Status Internal)) ret w)"
  using assms by (simp add: mount_unless_mounted_def call_Ok [OF is_mounted] io_app)

lemma mount_unless_mounted_mounts:
  assumes n: "node_fs n = fs" and "t \<noteq> []" and "usable t"
    and ok: "mount_unless_mounted n s t ty opts w = (Ok (), w')"
  shows "mnt w' t \<noteq> None"
  using ok mounts [OF \<open>usable t\<close>] unfolding mount_unless_mounted_eq [OF assms(1,2)]
  by (auto simp: io_defs split: if_splits prod.splits res.splits)

text \<open>Publishing leaves something mounted at the target; once something is mounted there, publishing does nothing more
  than look for the device of a raw block volume.\<close>

lemma publish_leaves_mounted:
  assumes n: "node_fs n = fs" and t: "usable (NPublish_TargetPath req)"
    and ok: "NodePublishVolume n req w = (Ok (), w')"
  shows "mnt w' (NPublish_TargetPath req) \<noteq> None"
proof -
  have val: "validateNodePublishVolumeRequest req = Ok ()" and ne: "NPublish_TargetPath req \<noteq> []"
    using ok by (auto simp: NodePublishVolume_def validateNodePublishVolumeRequest_def io_app split: res.splits if_splits)
  from ok val obtain src ty opts w1 where
    "mount_unless_mounted n src (NPublish_TargetPath req) ty opts w1 = (Ok (), w')"
    by (auto simp: NodePublishVolume_def elim!: call_throw_OkE)
  then show ?thesis by (rule mount_unless_mounted_mounts [OF n ne t])
qed

lemma publish_mounted:
  assumes n: "node_fs n = fs" and "mnt w' (NPublish_TargetPath req) \<noteq> None"
    and "NodePublishVolume n req w = (Ok (), w1)" and "publish_source n req w' = (Ok x, w')"
  shows "NodePublishVolume n req w' = (Ok (), w')"
proof -
  have val: "validateNodePublishVolumeRequest req = Ok ()" and ne: "NPublish_TargetPath req \<noteq> []"
    using assms(3) by (auto simp: NodePublishVolume_def validateNodePublishVolumeRequest_def io_app split: res.splits if_splits)
  obtain src ty opts where x: "x = (src, ty, opts)" by (cases x) auto
  show ?thesis
    using val assms(2,4) mount_unless_mounted_eq [OF n ne] by (simp add: NodePublishVolume_def x call_Ok)
qed

end

section \<open>The mock filesystem as a provider\<close>

text \<open>An operating system whose world is the set of the paths that exist.\<close>

definition path_os :: "string set os" where
  "path_os = \<lparr>os_Run = (\<lambda>_ _ w. (([], Some (ExitError 127)), w)), os_LookPath = (\<lambda>_ w. (LookPathNotFound, w)),
     os_Stat = (\<lambda>p w. (if p \<in> w then StatOk else StatNotExist, w)),
     os_Readlink = (\<lambda>_ w. (ReadlinkNotExist, w)), os_MkdirAll = (\<lambda>p w. (Ok (), insert p w)),
     os_OpenFile = (\<lambda>p w. (Ok (), insert p w)), os_CloseFile = (\<lambda>_. ret ()),
     os_Remove = (\<lambda>p w. if p \<in> w then (Ok (), w - {p}) else (Err (Errorf ''no such file''), w)),
     unix_Statfs = (\<lambda>_. throw (Errorf ''statfs'')), unix_Open = (\<lambda>_. throw (Errorf ''open'')),
     unix_BLKGETSIZE64 = (\<lambda>_. throw (Errorf ''ioctl'')), unix_Close = (\<lambda>_. ret ())\<rparr>"

definition path_mnt :: "string set \<Rightarrow> string \<Rightarrow> string option" where
  "path_mnt w t = (if t \<in> w then Some ''ext4'' else None)"

interpretation mock_fs: mounted_fs "mock_filesystem tempDir rnd path_os mk" path_mnt "\<lambda>t. HasPrefix t tempDir"
    "\<lambda>ty opts. ToLower ty = ToLower ''ext4''"
  for tempDir rnd mk
  by unfold_locales
    (auto simp: mock_filesystem_def MockFilesystem_GetMountInfo_def MockFilesystem_IsMounted_def
      MockFilesystem_Mount_def path_os_def path_mnt_def stat_def io_app split: if_splits)

section \<open>The Linux filesystem as a provider\<close>

text \<open>What the driver relies on of findmnt, mount and umount: findmnt answers with no output and an error for a path where
  nothing is mounted, and with one shared entry for the path otherwise; a successful mount leaves its target
  mounted, with the requested type unless it is a bind mount; after a successful umount nothing is mounted; a path that
  does not exist is not a mount point, and looking at or removing a path mounts nothing.\<close>

definition findmnt_entry :: "string \<Rightarrow> string \<Rightarrow> fileSystem \<Rightarrow> bool" where
  "findmnt_entry t ty e \<longleftrightarrow> fsys_Target e = t \<and> fsys_Propagation e = ''shared'' \<and> fsys_FsType e = ty"

definition mount_os :: "'w os \<Rightarrow> ('w \<Rightarrow> string \<Rightarrow> string option) \<Rightarrow> bool" where
  "mount_os os mnt \<longleftrightarrow>
     (\<forall>w t cols. mnt w t = None \<longrightarrow>
        (\<exists>out e. os_Run os ''findmnt'' [''-o'', cols, ''-M'', t, ''-J''] w = ((out, Some e), w) \<and> TrimSpace out = [])) \<and>
     (\<forall>w t cols ty. mnt w t = Some ty \<longrightarrow>
        (\<exists>out. os_Run os ''findmnt'' [''-o'', cols, ''-M'', t, ''-J''] w = ((out, None), w) \<and> out \<noteq> [] \<and>
           (\<forall>src. \<exists>e. unmarshal_findmnt src out = Some (Some [e]) \<and> findmnt_entry t ty e))) \<and>
     (\<forall>w args s t out w'. os_Run os ''mount'' (args @ [s, t]) w = ((out, None), w') \<longrightarrow> mnt w' t \<noteq> None) \<and>
     (\<forall>w args ty s t out w'. os_Run os ''mount'' ([''-t'', ty] @ args @ [s, t]) w = ((out, None), w') \<longrightarrow>
        (\<forall>opts. args = [''-o'', Join opts '',''] \<longrightarrow> ''bind'' \<notin> set opts) \<longrightarrow>
        (\<exists>ty'. mnt w' t = Some ty' \<and> ToLower ty' = ToLower ty)) \<and>
     (\<forall>w t out w'. os_Run os ''umount'' [t] w = ((out, None), w') \<longrightarrow> mnt w' t = None) \<and>
     (\<forall>w t r w'. os_Stat os t w = (r, w') \<longrightarrow> mnt w' t = mnt w t \<and> (r = StatNotExist \<longrightarrow> mnt w t = None)) \<and>
     (\<forall>w t r w'. os_Remove os t w = (r, w') \<longrightarrow> (mnt w t = None \<longrightarrow> mnt w' t = None))"

lemma mount_osD:
  assumes "mount_os os mnt"
  shows "mnt w t = None \<Longrightarrow>
      \<exists>out e. os_Run os ''findmnt'' [''-o'', cols, ''-M'', t, ''-J''] w = ((out, Some e), w) \<and> TrimSpace out = []"
    and "mnt w t = Some ty \<Longrightarrow>
      \<exists>out. os_Run os ''findmnt'' [''-o'', cols, ''-M'', t, ''-J''] w = ((out, None), w) \<and> out \<noteq> [] \<and>
        (\<forall>src. \<exists>e. unmarshal_findmnt src out = Some (Some [e]) \<and> findmnt_entry t ty e)"
    and "os_Run os ''mount'' (args @ [s, t]) w = ((out, None), w') \<Longrightarrow> mnt w' t \<noteq> None"
    and "os_Run os ''mount'' ([''-t'', ty] @ args @ [s, t]) w = ((out, None), w') \<Longrightarrow>
      \<forall>opts. args = [''-o'', Join opts '',''] \<longrightarrow> ''bind'' \<notin> set opts \<Longrightarrow>
      \<exists>ty'. mnt w' t = Some ty' \<and> ToLower ty' = ToLower ty"
    and "os_Run os ''umount'' [t] w = ((out, None), w') \<Longrightarrow> mnt w' t = None"
    and "os_Stat os t w = (r, w') \<Longrightarrow> mnt w' t = mnt w t \<and> (r = StatNotExist \<longrightarrow> mnt w t = None)"
    and "os_Remove os t w = (r2, w') \<Longrightarrow> mnt w t = None \<Longrightarrow> mnt w' t = None"
proof -
  note m = assms [unfolded mount_os_def]
  note m2 = m [THEN conjunct2] and m3 = m [THEN conjunct2, THEN conjunct2]
  note m5 = m3 [THEN conjunct2, THEN conjunct2] and m6 = m3 [THEN conjunct2, THEN conjunct2, THEN conjunct2]
  show "mnt w t = None \<Longrightarrow>
      \<exists>out e. os_Run os ''findmnt'' [''-o'', cols, ''-M'', t, ''-J''] w = ((out, Some e), w) \<and> TrimSpace out = []"
    by (rule m [THEN conjunct1, rule_format])
  show "mnt w t = Some ty \<Longrightarrow>
      \<exists>out. os_Run os ''findmnt'' [''-o'', cols, ''-M'', t, ''-J''] w = ((out, None), w) \<and> out \<noteq> [] \<and>
        (\<forall>src. \<exists>e. unmarshal_findmnt src out = Some (Some [e]) \<and> findmnt_entry t ty e)"
    by (rule m2 [THEN conjunct1, rule_format])
  show "os_Run os ''mount'' (args @ [s, t]) w = ((out, None), w') \<Longrightarrow> mnt w' t \<noteq> None"
    by (rule m3 [THEN conjunct1, rule_format])
  show "os_Run os ''mount'' ([''-t'', ty] @ args @ [s, t]) w = ((out, None), w') \<Longrightarrow>
      \<forall>opts. args = [''-o'', Join opts '',''] \<longrightarrow> ''bind'' \<notin> set opts \<Longrightarrow>
      \<exists>ty'. mnt w' t = Some ty' \<and> ToLower ty' = ToLower ty"
    using m3 [THEN conjunct2, THEN conjunct1] by blast
  show "os_Run os ''umount'' [t] w = ((out, None), w') \<Longrightarrow> mnt w' t = None"
    by (rule m5 [THEN conjunct1, rule_format])
  show "os_Stat os t w = (r, w') \<Longrightarrow> mnt w' t = mnt w t \<and> (r = StatNotExist \<longrightarrow> mnt w t = None)"
    using m6 [THEN conjunct1] by blast
  show "os_Remove os t w = (r2, w') \<Longrightarrow> mnt w t = None \<Longrightarrow> mnt w' t = None"
    using m6 [THEN conjunct2] by blast
qed

text \<open>The options with which a mount of the driver is not a bind mount.\<close>

definition no_bind :: "string \<Rightarrow> string list \<Rightarrow> bool" where
  "no_bind ty opts \<longleftrightarrow> ty \<noteq> [] \<and> (\<forall>opts'. Join opts' '','' = Join opts '','' \<longrightarrow> ''bind'' \<notin> set opts')"

lemma linux_mounted_fs:
  assumes os: "mount_os os mnt"
  shows "mounted_fs (linux_filesystem polls os m) mnt (\<lambda>t. t \<noteq> []) no_bind"
proof
  fix t w ty
  assume t: "t \<noteq> []" and mt: "mnt w t = Some ty"
  obtain out e where "os_Run os ''findmnt'' [''-o'', ''SOURCE,TARGET,PROPAGATION,FSTYPE,OPTIONS'', ''-M'', t, ''-J''] w = ((out, None), w)"
    "out \<noteq> []" "unmarshal_findmnt True out = Some (Some [e])" "findmnt_entry t ty e"
    using mount_osD(2) [OF os mt] by blast
  with t show "\<exists>i. fs_GetMountInfo (linux_filesystem polls os m) t w = (Ok i, w) \<and>
      ToLower (MountInfo_FsType i) = ToLower ty"
    by (simp add: linux_filesystem_def LinuxFilesystem_GetMountInfo_def run_cmd_def findmnt_entry_def io_app)
next
  fix t w
  assume t: "t \<noteq> []" and mt: "mnt w t = None"
  obtain out e where "os_Run os ''findmnt'' [''-o'', ''SOURCE,TARGET,PROPAGATION,FSTYPE,OPTIONS'', ''-M'', t, ''-J''] w = ((out, Some e), w)"
    "TrimSpace out = []"
    using mount_osD(1) [OF os mt] by blast
  with t show "\<exists>e. fs_GetMountInfo (linux_filesystem polls os m) t w = (Err e, w) \<and> errors_Is e ErrNotMounted"
    by (simp add: linux_filesystem_def LinuxFilesystem_GetMountInfo_def run_cmd_def io_app)
next
  fix t :: string and w
  assume t: "t \<noteq> []"
  show "fs_IsMounted (linux_filesystem polls os m) t w = (Ok (mnt w t \<noteq> None), w)"
  proof (cases "mnt w t")
    case None
    then obtain out e where "os_Run os ''findmnt'' [''-o'', ''TARGET,PROPAGATION,FSTYPE,OPTIONS'', ''-M'', t, ''-J''] w = ((out, Some e), w)"
      "TrimSpace out = []"
      using mount_osD(1) [OF os None] by blast
    with t None show ?thesis
      by (simp add: linux_filesystem_def LinuxFilesystem_IsMounted_def run_cmd_def io_app)
  next
    case (Some ty)
    then obtain out e where "os_Run os ''findmnt'' [''-o'', ''TARGET,PROPAGATION,FSTYPE,OPTIONS'', ''-M'', t, ''-J''] w = ((out, None), w)"
      "out \<noteq> []" "unmarshal_findmnt False out = Some (Some [e])" "findmnt_entry t ty e"
      using mount_osD(2) [OF os Some] by blast
    with t Some show ?thesis
      by (simp add: linux_filesystem_def LinuxFilesystem_IsMounted_def run_cmd_def findmnt_entry_def io_app)
  qed
next
  fix t s ty opts w w'
  assume t: "t \<noteq> []" and ok: "fs_Mount (linux_filesystem polls os m) s t ty opts w = (Ok (), w')"
  obtain out w1 where "os_Run os ''mount'' (((if ty = [] then [] else [''-t'', ty]) @
           (if length opts > 0 then [''-o'', Join opts '',''] else [])) @ [s, t]) w1 = ((out, None), w')"
    using ok t by (auto simp: linux_filesystem_def LinuxFilesystem_Mount_def run_cmd_def io_defs
        split: if_splits prod.splits res.splits option.splits)
  then show "mnt w' t \<noteq> None" by (rule mount_osD(3) [OF os])
next
  fix t ty opts s w w'
  assume t: "t \<noteq> []" and nb: "no_bind ty opts"
    and ok: "fs_Mount (linux_filesystem polls os m) s t ty opts w = (Ok (), w')"
  let ?args = "if length opts > 0 then [''-o'', Join opts '',''] else []"
  obtain out w1 where run: "os_Run os ''mount'' ([''-t'', ty] @ ?args @ [s, t]) w1 = ((out, None), w')"
    using ok t nb by (auto simp: linux_filesystem_def LinuxFilesystem_Mount_def run_cmd_def io_defs no_bind_def
        split: if_splits prod.splits res.splits option.splits)
  have "\<forall>opts'. ?args = [''-o'', Join opts' '',''] \<longrightarrow> ''bind'' \<notin> set opts'"
    using nb by (auto simp: no_bind_def)
  with run show "\<exists>ty'. mnt w' t = Some ty' \<and> ToLower ty' = ToLower ty" by (rule mount_osD(4) [OF os])
qed

text \<open>Unpublishing over the Linux filesystem.\<close>

lemma linux_unpublish:
  assumes os: "mount_os os mnt" and n: "node_fs n = linux_filesystem polls os m"
    and ok: "NodeUnpublishVolume os n v t w = (Ok (), w')"
  shows "mnt w' t = None"
proof -
  let ?fs = "linux_filesystem polls os m"
  have t: "v \<noteq> []" "t \<noteq> []" using ok by (auto simp: NodeUnpublishVolume_def io_app split: if_splits)
  have stat_keeps: "mnt w2 t = mnt w1 t" and stat_absent: "r = StatNotExist \<Longrightarrow> mnt w1 t = None"
    if "os_Stat os t w1 = (r, w2)" for w1 r w2
    using mount_osD(6) [OF os that] by blast+
  have umount: "mnt w2 t = None" if "os_Run os ''umount'' [t] w1 = ((out, None), w2)" for w1 out w2
    by (rule mount_osD(5) [OF os that])
  have remove: "mnt w1 t = None \<Longrightarrow> mnt w2 t = None" if "os_Remove os t w1 = (r, w2)" for w1 r w2
    by (rule mount_osD(7) [OF os that])
  have im: "fs_IsMounted ?fs t w = (Ok (mnt w t \<noteq> None), w)"
    by (rule mounted_fs.is_mounted [OF linux_mounted_fs [OF os] t(2)])
  obtain w1 where un: "(if mnt w t \<noteq> None then LinuxFilesystem_Unmount os t else ret ()) w = (Ok (), w1)"
    and rm: "remove_path os t w1 = (Ok (), w')"
    using ok t im
    by (auto simp: NodeUnpublishVolume_def n call_Ok linux_filesystem_def io_app elim!: call_throw_OkE split: if_splits)
  have "mnt w1 t = None"
  proof (cases "mnt w t = None")
    case True
    with un show ?thesis by (simp add: io_app)
  next
    case False
    with un have "LinuxFilesystem_Unmount os t w = (Ok (), w1)" by simp
    then show ?thesis
      using t(2) False
      by (auto simp: LinuxFilesystem_Unmount_def stat_def run_cmd_def io_app dest: stat_absent stat_keeps umount
          split: prod.splits stat_result.splits option.splits)
  qed
  moreover obtain r w2 where st: "os_Stat os t w1 = (r, w2)" by fastforce
  ultimately have "mnt w2 t = None" using stat_keeps [OF st] by simp
  with rm st show ?thesis
    by (auto simp: remove_path_def stat_def io_defs dest: remove split: prod.splits stat_result.splits res.splits)
qed

section \<open>A Linux system with a mount table\<close>

definition mtab_entry :: "string \<Rightarrow> string \<Rightarrow> fileSystem" where
  "mtab_entry t ty = \<lparr>fsys_Source = [], fsys_Target = t, fsys_Propagation = ''shared'', fsys_FsType = ty, fsys_Options = []\<rparr>"

lemma mtab_entry_read:
  assumes "utf8_valid t" and "utf8_valid ty"
  shows "\<exists>e. unmarshal_findmnt src (findmnt_text [mtab_entry t ty]) = Some (Some [e]) \<and> findmnt_entry t ty e"
proof -
  have "utf8_valid ''shared''" by (rule utf8_valid_ascii) simp
  with assms have "list_all entry_utf8 [mtab_entry t ty]"
    by (simp add: entry_utf8_def mtab_entry_def del: utf8_valid.simps(2))
  from findmnt_text_decoded [OF this] show ?thesis by (simp add: findmnt_entry_def mtab_entry_def)
qed

text \<open>The mount table holds the type of what is mounted at a path; paths and types that are not UTF-8 text are not mounted.\<close>

definition mtab_mnt :: "(string \<Rightarrow> string option) \<Rightarrow> string \<Rightarrow> string option" where
  "mtab_mnt w t = (case w t of Some ty \<Rightarrow> if utf8_valid t \<and> utf8_valid ty then Some ty else None | None \<Rightarrow> None)"

definition mtab_mount :: "string list \<Rightarrow> (string \<Rightarrow> string option) \<Rightarrow> (string \<times> err option) \<times> (string \<Rightarrow> string option)" where
  "mtab_mount args w =
     (let t = last args; ty = (if length args > 1 \<and> args ! 0 = ''-t'' then args ! 1 else []) in
      if utf8_valid t \<and> utf8_valid ty then (([], None), w(t \<mapsto> ty)) else (([], Some (ExitError 32)), w))"

definition mtab_run :: "string \<Rightarrow> string list \<Rightarrow> (string \<Rightarrow> string option) \<Rightarrow> (string \<times> err option) \<times> (string \<Rightarrow> string option)" where
  "mtab_run cmd args w =
     (if cmd = ''findmnt'' then
        (case mtab_mnt w (args ! 3) of None \<Rightarrow> (([], Some (ExitError 1)), w)
         | Some ty \<Rightarrow> ((findmnt_text [mtab_entry (args ! 3) ty], None), w))
      else if cmd = ''mount'' then mtab_mount args w
      else if cmd = ''umount'' then (([], None), w(last args := None))
      else if cmd = ''sfdisk'' then ((last args @ ''1'', None), w)
      else if cmd = ''blkid'' then (([], Some (ExitError 2)), w)
      else (([], None), w))"

definition mtab_os :: "(string \<Rightarrow> string option) os" where
  "mtab_os = \<lparr>os_Run = mtab_run, os_LookPath = (\<lambda>p w. (LookPathOk p, w)), os_Stat = (\<lambda>_ w. (StatOk, w)),
     os_Readlink = (\<lambda>_ w. (ReadlinkOk ''/dev/vdb'', w)), os_MkdirAll = (\<lambda>_. ret ()), os_OpenFile = (\<lambda>_. ret ()),
     os_CloseFile = (\<lambda>_. ret ()), os_Remove = (\<lambda>_. ret ()),
     unix_Statfs = (\<lambda>_. throw (Errorf ''statfs'')), unix_Open = (\<lambda>_. throw (Errorf ''open'')),
     unix_BLKGETSIZE64 = (\<lambda>_. throw (Errorf ''ioctl'')), unix_Close = (\<lambda>_. ret ())\<rparr>"

lemma mtab_ascii [simp]:
  assumes "list_all (\<lambda>c. byte c < 0x80) t" and "list_all (\<lambda>c. byte c < 0x80) ty"
  shows "mtab_mnt (w(t \<mapsto> ty)) t = Some ty"
    and "mtab_mount [''-t'', ty, ''-o'', opts, s, t] w = (([], None), w(t \<mapsto> ty))"
    and "mtab_mount [''-t'', ty, s, t] w = (([], None), w(t \<mapsto> ty))"
  using assms [THEN utf8_valid_ascii] by (simp_all add: mtab_mnt_def mtab_mount_def)

lemma mtab_mnt_empty [simp]: "mtab_mnt Map.empty t = None"
  by (simp add: mtab_mnt_def)

lemma mtab_os_mounts: "mount_os mtab_os mtab_mnt"
  unfolding mount_os_def
proof (intro conjI allI impI)
  fix w :: "string \<Rightarrow> string option" and t cols ty
  assume m: "mtab_mnt w t = Some ty"
  then have "utf8_valid t" "utf8_valid ty" by (auto simp: mtab_mnt_def split: option.splits if_splits)
  then show "\<exists>out. os_Run mtab_os ''findmnt'' [''-o'', cols, ''-M'', t, ''-J''] w = ((out, None), w) \<and> out \<noteq> [] \<and>
      (\<forall>src. \<exists>e. unmarshal_findmnt src out = Some (Some [e]) \<and> findmnt_entry t ty e)"
    using m mtab_entry_read [of t ty] by (simp add: mtab_os_def mtab_run_def) (simp add: findmnt_text_def)
qed (auto simp: mtab_os_def mtab_run_def mtab_mount_def mtab_mnt_def TrimSpace_def Let_def io_app split: if_splits option.splits)

section \<open>Properties\<close>

definition mtab_node :: "(string \<Rightarrow> string option) Node" where
  "mtab_node = \<lparr>node_name = ''node-1'', node_zone = ''fi-hel1'', node_maxVolumesPerNode = 15,
     node_fs = linux_filesystem 30 mtab_os \<lparr>filesystemTypes = [''ext4'']\<rparr>\<rparr>"

definition sample_volume_id :: string where
  "sample_volume_id = ''01234567-89ab-cdef-0123-456789abcdef''"

definition sample_mount :: MountVolume where
  "sample_mount = \<lparr>FsType = [], MountFlags = []\<rparr>"

definition sample_stage_request :: NodeStageVolumeRequest where
  "sample_stage_request = \<lparr>Stage_VolumeId = sample_volume_id, Stage_StagingTargetPath = ''/stage'',
     Stage_VolumeCapability = Some \<lparr>AccessMode = Some SINGLE_NODE_WRITER, AccessType = Some (Mount (Some sample_mount))\<rparr>,
     Stage_VolumeContext = Map.empty\<rparr>"


lemma Join_comma_Nil: "Join xs '','' = [] \<Longrightarrow> xs = [] \<or> xs = [[]]"
  by (induction xs "'',''" rule: Join.induct) auto

lemma sample_no_bind: "no_bind fileSystemExt4 []"
  by (auto simp: no_bind_def fileSystemExt4_def dest: Join_comma_Nil)

lemma sample_device: "LinuxFilesystem_GetDeviceByID 30 mtab_os sample_volume_id w = (Ok ''/dev/vdb'', w)"
  by (simp add: LinuxFilesystem_GetDeviceByID_def volumeIDToDiskID_def sample_volume_id_def getBlockDeviceByDiskID_def
      udevWaitDiskToSettle_def os_call_defs mtab_os_def mtab_run_def numeral_eq_Suc call_def io_app Let_def
      IsAbs_def HasPrefix_def diskPrefix_def)

lemma sample_stage:
  "NodeStageVolume mtab_node sample_stage_request Map.empty = (Ok (), [''/stage'' \<mapsto> ''ext4''])"
proof -
  have dev: "fs_GetDeviceByID (node_fs mtab_node) sample_volume_id Map.empty = (Ok ''/dev/vdb'', Map.empty)"
    using sample_device [of Map.empty] by (simp add: mtab_node_def linux_filesystem_def)
  have vid: "sample_volume_id \<noteq> []" by (simp add: sample_volume_id_def)
  have part: "sfdiskOutputGetLastPartition ''/dev/vdb'' ''/dev/vdb1'' = Ok ''/dev/vdb1''"
    by (simp add: sfdiskOutputGetLastPartition_def HasPrefix_def TrimSpace_def is_space_def)
  have lower: "ToLower ''ext4'' = ''ext4''" by (simp add: ToLower_def lower_char_def)
  show ?thesis
    using dev vid part lower
    by (simp add: NodeStageVolume_def sample_stage_request_def GetMount_def sample_mount_def fileSystemExt4_def
        map_get_def call_Ok)
      (simp add: mtab_node_def linux_filesystem_def LinuxFilesystem_GetMountInfo_def LinuxFilesystem_Format_def
        createPartitionTableIfNotExists_def hasPartitionTable_def createPartitionIfNotExists_def
        createFilesystemIfNotExists_def filesystemExists_def LinuxFilesystem_GetDeviceLastPartition_def
        LinuxFilesystem_Mount_def isSupportedFilesystem_def cmdExitCode_def linux_constants
        os_call_defs mtab_os_def mtab_run_def TrimSpace_def call_def io_app Let_def)
qed





definition zero_statistics :: VolumeStatistics where
  "zero_statistics = \<lparr>AvailableBytes = 0, TotalBytes = 0, UsedBytes = 0, AvailableInodes = 0, TotalInodes = 0, UsedInodes = 0\<rparr>"



definition sample_publish :: NodePublishVolumeRequest where
  "sample_publish = \<lparr>NPublish_VolumeId = sample_volume_id, NPublish_StagingTargetPath = ''/stage'',
     NPublish_TargetPath = ''/target'',
     NPublish_VolumeCapability = Some \<lparr>AccessMode = Some SINGLE_NODE_WRITER, AccessType = Some (Mount (Some sample_mount))\<rparr>,
     NPublish_Readonly = False\<rparr>"


end
