(* ===== verification/Logger.thy ===== *)
theory Logger
  imports Go_Lib
begin

text \<open>
  The logger package (\<open>internal/logger/logger.go\<close>): the values a request's context carries, the fields
  of a log entry, the correlation identifier and the gRPC middleware that wraps every handler. The log is a list of
  lines in the world of the middleware. The random bytes of an identifier, the fallback UUID, the elapsed
  time and the texts of requests and responses (\<open>fmt.Stringer\<close>) are arguments; the texts of messages are left out.
\<close>

section \<open>Contexts\<close>

text \<open>\<open>ctx.Value\<close> at the two keys of the package.\<close>

record go_context =
  ctx_correlation :: "string option"
  ctx_called_method :: "string option"

definition CtxCorrelationIDKey :: string where
  "CtxCorrelationIDKey = ''ctx_correlation_id''"

definition ContextCorrelationID :: "go_context \<Rightarrow> string" where
  "ContextCorrelationID ctx = (case ctx_correlation ctx of Some v \<Rightarrow> v | None \<Rightarrow> [])"

definition contextualPublisherCorrelationID :: "(string \<Rightarrow> string option) \<Rightarrow> string" where
  "contextualPublisherCorrelationID publishContext =
     (case publishContext CtxCorrelationIDKey of Some v \<Rightarrow> v | None \<Rightarrow> [])"

section \<open>Correlation identifiers\<close>

text \<open>\<open>hex.EncodeToString\<close>: two lower-case digits for each byte.\<close>

definition hex_digit :: "8 word \<Rightarrow> char" where
  "hex_digit d = ''0123456789abcdef'' ! unat d"

definition EncodeToString :: "8 word list \<Rightarrow> string" where
  "EncodeToString bs = concat (map (\<lambda>b. [hex_digit (b div 16), hex_digit (b mod 16)]) bs)"

text \<open>\<open>rand.Read\<close> fills six bytes (\<open>Some\<close>) or fails, and then a UUID is taken.\<close>

definition correlationID :: "8 word list option \<Rightarrow> string \<Rightarrow> string" where
  "correlationID random newUUID = (case random of None \<Rightarrow> newUUID | Some b \<Rightarrow> EncodeToString b)"

lemma length_EncodeToString: "length (EncodeToString bs) = 2 * length bs"
  by (induction bs) (simp_all add: EncodeToString_def)

lemma correlationID_not_empty:
  "newUUID \<noteq> [] \<Longrightarrow> random \<noteq> Some [] \<Longrightarrow> correlationID random newUUID \<noteq> []"
  by (auto simp: correlationID_def EncodeToString_def split: option.splits)

section \<open>Entries\<close>

text \<open>A log entry has fields and the level of its logger; higher levels log more.\<close>

datatype level = PanicLevel | FatalLevel | ErrorLevel | WarnLevel | InfoLevel | DebugLevel | TraceLevel

fun level_no :: "level \<Rightarrow> nat" where
  "level_no PanicLevel = 0" | "level_no FatalLevel = 1" | "level_no ErrorLevel = 2" | "level_no WarnLevel = 3"
| "level_no InfoLevel = 4" | "level_no DebugLevel = 5" | "level_no TraceLevel = 6"

record log_entry =
  Log_Data :: "string \<Rightarrow> string option"
  Log_Level :: level

record log_line =
  Line_Level :: level
  Line_Data :: "string \<Rightarrow> string option"

definition WithField :: "log_entry \<Rightarrow> string \<Rightarrow> string \<Rightarrow> log_entry" where
  "WithField e k v = e\<lparr>Log_Data := (Log_Data e)(k \<mapsto> v)\<rparr>"

definition emit :: "level \<Rightarrow> log_entry \<Rightarrow> log_line list \<Rightarrow> log_line list" where
  "emit lv e lines = (if level_no lv \<le> level_no (Log_Level e)
     then lines @ [\<lparr>Line_Level = lv, Line_Data = Log_Data e\<rparr>] else lines)"

definition WithServerContext :: "go_context \<Rightarrow> log_entry \<Rightarrow> log_entry" where
  "WithServerContext ctx e =
     (let e' = (if ContextCorrelationID ctx \<noteq> [] then WithField e ''correlation_id'' (ContextCorrelationID ctx) else e) in
      case ctx_called_method ctx of Some v \<Rightarrow> WithField e' ''method'' v | None \<Rightarrow> e')"

definition WithRequest :: "log_entry \<Rightarrow> string \<Rightarrow> log_entry" where
  "WithRequest e r = WithField e ''request'' r"

definition WithResponse :: "log_entry \<Rightarrow> string \<Rightarrow> log_entry" where
  "WithResponse e r = WithField e ''response'' r"

definition WithServiceRequest :: "log_entry \<Rightarrow> string \<Rightarrow> string \<Rightarrow> log_entry" where
  "WithServiceRequest e url payload = WithField (WithField e ''service_url'' url) ''service_payload'' payload"

text \<open>\<open>New\<close>: an unknown level ends the process (\<open>None\<close>); above the info level the new logger warns.\<close>

definition New :: "(string \<Rightarrow> level option) \<Rightarrow> (level \<Rightarrow> string) \<Rightarrow> string \<Rightarrow> log_line list \<Rightarrow> (log_entry \<times> log_line list) option" where
  "New parseLevel levelString logLevel lines =
     (case parseLevel logLevel of
        None \<Rightarrow> None
      | Some lv \<Rightarrow>
          let e = \<lparr>Log_Data = Map.empty, Log_Level = lv\<rparr> in
          Some (e, if level_no lv > level_no InfoLevel
                   then emit WarnLevel (WithField e ''level'' (levelString lv)) lines else lines))"

section \<open>The middleware\<close>

text \<open>What the middleware reads of a message: \<open>GetPublishContext\<close> and \<open>String\<close>, \<open>None\<close> where its type has no such
  method.\<close>

record ('req, 'resp) messages =
  msg_publishContext :: "'req \<Rightarrow> (string \<Rightarrow> string option) option"
  msg_reqString :: "'req \<Rightarrow> string option"
  msg_respString :: "'resp \<Rightarrow> string option"

text \<open>The identifier of a request: the one of its publish context, or a new one.\<close>

definition request_id :: "('req, 'resp) messages \<Rightarrow> string \<Rightarrow> 'req \<Rightarrow> string" where
  "request_id ms fresh req =
     (let txID = (case msg_publishContext ms req of
            Some publishContext \<Rightarrow> contextualPublisherCorrelationID publishContext | None \<Rightarrow> []) in
      if txID = [] then fresh else txID)"

text \<open>The context the handler gets.\<close>

definition request_context :: "('req, 'resp) messages \<Rightarrow> string \<Rightarrow> string \<Rightarrow> go_context \<Rightarrow> 'req \<Rightarrow> go_context" where
  "request_context ms fresh fullMethod ctx req =
     ctx\<lparr>ctx_correlation := Some (request_id ms fresh req), ctx_called_method := Some fullMethod\<rparr>"

text \<open>The text of a message is logged only when debugging.\<close>

definition debug_field :: "(log_entry \<Rightarrow> string \<Rightarrow> log_entry) \<Rightarrow> string option \<Rightarrow> log_entry \<Rightarrow> log_entry" where
  "debug_field addField s e =
     (case s of Some t \<Rightarrow> if level_no (Log_Level e) \<ge> level_no DebugLevel then addField e t else e | None \<Rightarrow> e)"

definition NewMiddleware ::
    "log_entry \<Rightarrow> ('req, 'resp) messages \<Rightarrow> string \<Rightarrow> string \<Rightarrow> string \<Rightarrow>
     (go_context \<Rightarrow> 'req \<Rightarrow> ('resp, 'w) io) \<Rightarrow> go_context \<Rightarrow> 'req \<Rightarrow> ('resp, 'w \<times> log_line list) io" where
  "NewMiddleware log ms fresh elapsed fullMethod handler ctx0 req = (\<lambda>(w, lines).
     let ctx = request_context ms fresh fullMethod ctx0 req;
         log1 = WithServerContext ctx log;
         lines1 = emit InfoLevel log1 lines;
         log2 = WithField log1 ''execution_time_ms'' elapsed
     in case handler ctx req w of
          (Err e, w') \<Rightarrow> (Err e, (w', emit ErrorLevel (debug_field WithRequest (msg_reqString ms req) log2) lines1))
        | (Ok resp, w') \<Rightarrow> (Ok resp, (w', emit InfoLevel (debug_field WithResponse (msg_respString ms resp) log2) lines1))
        | (Panic, w') \<Rightarrow> (Panic, (w', lines1)))"

text \<open>It returns what the handler returns in the request's context, and changes nothing but the log.\<close>

lemma middleware_sim:
  "io_sim fst (NewMiddleware log ms fresh elapsed m handler ctx req) (handler (request_context ms fresh m ctx req) req)"
  by (rule io_simI) (auto simp: NewMiddleware_def Let_def split: prod.splits res.splits)

text \<open>The identifier the handler sees.\<close>

lemma request_context_id [simp]: "ContextCorrelationID (request_context ms fresh m ctx req) = request_id ms fresh req"
  by (simp add: ContextCorrelationID_def request_context_def)

lemma request_id_fresh: "msg_publishContext ms req = None \<Longrightarrow> request_id ms fresh req = fresh"
  by (simp add: request_id_def)

lemma request_id_published:
  "msg_publishContext ms req = Some pc \<Longrightarrow> pc CtxCorrelationIDKey = Some v \<Longrightarrow> v \<noteq> [] \<Longrightarrow> request_id ms fresh req = v"
  by (simp add: request_id_def contextualPublisherCorrelationID_def)

lemma request_id_not_empty: "fresh \<noteq> [] \<Longrightarrow> request_id ms fresh req \<noteq> []"
  by (simp add: request_id_def Let_def)

section \<open>What is logged\<close>

text \<open>A line that names the request: its identifier and its method.\<close>

definition names_request :: "string \<Rightarrow> string \<Rightarrow> log_line \<Rightarrow> bool" where
  "names_request txID m line \<longleftrightarrow>
     Line_Data line ''correlation_id'' = Some txID \<and> Line_Data line ''method'' = Some m"

lemma WithField_simps [simp]:
  "Log_Data (WithField e k v) = (Log_Data e)(k \<mapsto> v)" "Log_Level (WithField e k v) = Log_Level e"
  by (simp_all add: WithField_def)

lemma WithServerContext_level [simp]: "Log_Level (WithServerContext ctx e) = Log_Level e"
  by (simp add: WithServerContext_def Let_def split: option.splits)

lemma WithServerContext_names:
  assumes "ContextCorrelationID ctx \<noteq> []" and "ctx_called_method ctx = Some m"
  shows "Log_Data (WithServerContext ctx e) ''correlation_id'' = Some (ContextCorrelationID ctx)"
    and "Log_Data (WithServerContext ctx e) ''method'' = Some m"
  using assms by (simp_all add: WithServerContext_def)

lemma debug_field_level [simp]:
  "Log_Level (debug_field WithRequest s e) = Log_Level e" "Log_Level (debug_field WithResponse s e) = Log_Level e"
  by (simp_all add: debug_field_def WithRequest_def WithResponse_def split: option.splits)

lemma debug_field_other:
  "k \<noteq> ''request'' \<Longrightarrow> Log_Data (debug_field WithRequest s e) k = Log_Data e k"
  "k \<noteq> ''response'' \<Longrightarrow> Log_Data (debug_field WithResponse s e) k = Log_Data e k"
  by (simp_all add: debug_field_def WithRequest_def WithResponse_def split: option.splits)

lemmas entry_names = WithServerContext_names debug_field_other names_request_def

text \<open>At the info level and above, a request that returns leaves two lines, the first at the info level and the second an error
  line exactly when the handler failed; both name the request.\<close>

lemma middleware_lines:
  assumes run: "NewMiddleware log ms fresh elapsed m handler ctx req (w, lines) = (r, (w', lines'))"
    and level: "level_no InfoLevel \<le> level_no (Log_Level log)" and fresh: "fresh \<noteq> []" and "r \<noteq> Panic"
  shows "\<exists>l1 l2. lines' = lines @ [l1, l2] \<and> names_request (request_id ms fresh req) m l1 \<and>
    names_request (request_id ms fresh req) m l2 \<and> Line_Level l1 = InfoLevel \<and>
    Line_Level l2 = (if \<exists>e. r = Err e then ErrorLevel else InfoLevel)"
proof -
  let ?ctx = "request_context ms fresh m ctx req"
  have id: "ContextCorrelationID ?ctx \<noteq> []" using request_id_not_empty [OF fresh] by simp
  have me: "ctx_called_method ?ctx = Some m" by (simp add: request_context_def)
  show ?thesis
    using run level \<open>r \<noteq> Panic\<close> WithServerContext_names [OF id me, of log]
    by (auto simp: NewMiddleware_def emit_def Let_def entry_names split: prod.splits res.splits)
qed

end
