(* ===== verification/Server_Metrics.thy ===== *)
theory Server_Metrics
  imports Go_Lib "HOL-Library.Multiset"
begin

text \<open>
  The metrics of the gRPC server (\<open>internal/server/metrics.go\<close>): the one-time registration of the
  collectors, the names the operations are counted under, the interceptor around a handler, and the
  interceptor run by concurrent requests as a step relation, one step per update of a Prometheus
  vector. The registry of the Prometheus library is an argument; durations are counted, not measured.
  A counter vector is a multiset of label tuples, a gauge vector a function to \<open>int\<close>.
\<close>

definition shortMethod :: "string \<Rightarrow> string" where
  "shortMethod full = after_last full (CHR ''/'')"

text \<open>The name after the last slash; a name without a slash stays.\<close>

lemma shortMethod_slash: "CHR ''/'' \<notin> set m \<Longrightarrow> shortMethod (p @ CHR ''/'' # m) = m"
  by (auto simp: shortMethod_def after_last_def takeWhile_append)

lemma shortMethod_plain: "CHR ''/'' \<notin> set m \<Longrightarrow> shortMethod m = m"
  by (auto simp: shortMethod_def after_last_def takeWhile_eq_all_conv rev_swap)

section \<open>Registration\<close>

text \<open>The package's variables: whether \<open>metricsOnce\<close> has run, and the registry.\<close>

record 'r metrics_vars =
  metricsOnce :: bool
  metricsRegistry :: 'r

definition collector_names :: "string list" where
  "collector_names =
     [''process'', ''go'', ''csi_plugin_operations_total'', ''csi_plugin_operation_duration_seconds'',
      ''csi_plugin_operations_in_flight'', ''upcloud_api_requests_total'', ''upcloud_api_request_duration_seconds'']"

text \<open>\<open>MustRegister\<close> of each collector in turn; it may panic.\<close>

fun register_all :: "(string \<Rightarrow> (unit, 'r) io) \<Rightarrow> string list \<Rightarrow> (unit, 'r) io" where
  "register_all mustRegister [] = ret ()"
| "register_all mustRegister (n # ns) = call (mustRegister n) throw (\<lambda>_. register_all mustRegister ns)"

text \<open>\<open>sync.Once\<close> marks itself done also when the function panics.\<close>

definition initMetrics :: "(string \<Rightarrow> (unit, 'r) io) \<Rightarrow> 'r \<Rightarrow> (unit, 'r metrics_vars) io" where
  "initMetrics mustRegister newRegistry = (\<lambda>g.
     if metricsOnce g then (Ok (), g)
     else case register_all mustRegister collector_names newRegistry of
       (res, reg) \<Rightarrow> (res, \<lparr>metricsOnce = True, metricsRegistry = reg\<rparr>))"

text \<open>Whoever asks first (the metrics server, the interceptor or \<open>UpCloudMetrics\<close>) registers; later calls change nothing.\<close>

lemma initMetrics_once:
  assumes "initMetrics mr nr g = (res, g')"
  shows "metricsOnce g' \<and> initMetrics mr nr g' = (Ok (), g')"
  using assms by (auto simp: initMetrics_def split: if_splits prod.splits)

text \<open>The two API vectors are handed out after the registration; the vectors themselves are the state of the instrumented
  service.\<close>

definition UpCloudMetrics :: "(string \<Rightarrow> (unit, 'r) io) \<Rightarrow> 'r \<Rightarrow> (string \<times> string, 'r metrics_vars) io" where
  "UpCloudMetrics mustRegister newRegistry =
     call (initMetrics mustRegister newRegistry) throw (\<lambda>_. ret (''upcloud_api_requests_total'', ''upcloud_api_request_duration_seconds''))"

section \<open>The interceptor\<close>

record csi_metrics =
  csiOpsTotal :: "(string \<times> string) multiset"
  csiOpsDuration :: "string multiset"
  csiOpsInFlight :: "string \<Rightarrow> int"

definition gauge_add :: "string \<Rightarrow> int \<Rightarrow> csi_metrics \<Rightarrow> csi_metrics" where
  "gauge_add m d mx = mx\<lparr>csiOpsInFlight := (csiOpsInFlight mx)(m := csiOpsInFlight mx m + d)\<rparr>"

definition count_op :: "string \<Rightarrow> string \<Rightarrow> csi_metrics \<Rightarrow> csi_metrics" where
  "count_op m code mx = mx\<lparr>csiOpsTotal := add_mset (m, code) (csiOpsTotal mx)\<rparr>"

definition observe_op :: "string \<Rightarrow> csi_metrics \<Rightarrow> csi_metrics" where
  "observe_op m mx = mx\<lparr>csiOpsDuration := add_mset m (csiOpsDuration mx)\<rparr>"

lemmas metric_defs = gauge_add_def count_op_def observe_op_def

text \<open>\<open>codeString\<close> is \<open>status.Code(err).String()\<close> of the gRPC library, \<open>None\<close> for no error. The gauge is lowered by a
  deferred call, so also when the handler panics; the other two updates are not deferred.\<close>

definition NewMetricsInterceptor ::
    "(err option \<Rightarrow> string) \<Rightarrow> string \<Rightarrow> ('resp, 'w) io \<Rightarrow> ('resp, 'w \<times> csi_metrics) io" where
  "NewMetricsInterceptor codeString fullMethod handler = (\<lambda>(w, mx).
     let m = shortMethod fullMethod; mx1 = gauge_add m 1 mx in
     case handler w of
       (Ok resp, w') \<Rightarrow> (Ok resp, (w', gauge_add m (-1) (observe_op m (count_op m (codeString None) mx1))))
     | (Err e, w') \<Rightarrow> (Err e, (w', gauge_add m (-1) (observe_op m (count_op m (codeString (Some e)) mx1))))
     | (Panic, w') \<Rightarrow> (Panic, (w', gauge_add m (-1) mx1)))"

lemma metrics_interceptor_sim: "io_sim fst (NewMetricsInterceptor cs fm handler) handler"
  by (rule io_simI) (auto simp: NewMetricsInterceptor_def Let_def split: prod.splits res.splits)

section \<open>Concurrent requests\<close>

text \<open>
  Where a request is: not there, inside its handler, returned from it with a status, counted, observed, unwinding a panic,
  or gone (with whether its handler returned). The method is the short name.
\<close>

datatype op_pc =
    Absent
  | Handling string
  | Answered string string
  | Counted string
  | Observed string
  | Panicked string
  | Gone string bool

record ops_state =
  ops :: "nat \<Rightarrow> op_pc"
  ops_metrics :: csi_metrics

text \<open>\<open>ops_step t s s'\<close>: the goroutine of request \<open>t\<close> makes its next update. Which status a handler returns, and whether it
  panics, is open.\<close>

inductive ops_step :: "nat \<Rightarrow> ops_state \<Rightarrow> ops_state \<Rightarrow> bool" where
  arrive: "ops s t = Absent \<Longrightarrow>
     ops_step t s (s\<lparr>ops := (ops s)(t := Handling (shortMethod full)), ops_metrics := gauge_add (shortMethod full) 1 (ops_metrics s)\<rparr>)"
| answer: "ops s t = Handling m \<Longrightarrow> ops_step t s (s\<lparr>ops := (ops s)(t := Answered m code)\<rparr>)"
| panics: "ops s t = Handling m \<Longrightarrow> ops_step t s (s\<lparr>ops := (ops s)(t := Panicked m)\<rparr>)"
| count: "ops s t = Answered m code \<Longrightarrow>
     ops_step t s (s\<lparr>ops := (ops s)(t := Counted m), ops_metrics := count_op m code (ops_metrics s)\<rparr>)"
| observe: "ops s t = Counted m \<Longrightarrow>
     ops_step t s (s\<lparr>ops := (ops s)(t := Observed m), ops_metrics := observe_op m (ops_metrics s)\<rparr>)"
| leave: "ops s t = Observed m \<Longrightarrow>
     ops_step t s (s\<lparr>ops := (ops s)(t := Gone m True), ops_metrics := gauge_add m (-1) (ops_metrics s)\<rparr>)"
| unwind: "ops s t = Panicked m \<Longrightarrow>
     ops_step t s (s\<lparr>ops := (ops s)(t := Gone m False), ops_metrics := gauge_add m (-1) (ops_metrics s)\<rparr>)"

inductive_cases ops_stepE: "ops_step t s s'"

definition ops_initial :: ops_state where
  "ops_initial = \<lparr>ops = (\<lambda>_. Absent),
     ops_metrics = \<lparr>csiOpsTotal = {#}, csiOpsDuration = {#}, csiOpsInFlight = (\<lambda>_. 0)\<rparr>\<rparr>"

inductive ops_reach :: "ops_state \<Rightarrow> bool" where
  init: "ops_reach ops_initial"
| step: "ops_reach s \<Longrightarrow> ops_step t s s' \<Longrightarrow> ops_reach s'"

text \<open>Whether a request has raised the gauge of a method and not yet lowered it, has been counted, has been observed.\<close>

fun in_flight :: "string \<Rightarrow> op_pc \<Rightarrow> bool" where
  "in_flight m (Handling n) = (n = m)"
| "in_flight m (Answered n _) = (n = m)"
| "in_flight m (Counted n) = (n = m)"
| "in_flight m (Observed n) = (n = m)"
| "in_flight m (Panicked n) = (n = m)"
| "in_flight m _ = False"

fun was_counted :: "string \<Rightarrow> op_pc \<Rightarrow> bool" where
  "was_counted m (Counted n) = (n = m)"
| "was_counted m (Observed n) = (n = m)"
| "was_counted m (Gone n ok) = (n = m \<and> ok)"
| "was_counted m _ = False"

fun was_observed :: "string \<Rightarrow> op_pc \<Rightarrow> bool" where
  "was_observed m (Observed n) = (n = m)"
| "was_observed m (Gone n ok) = (n = m \<and> ok)"
| "was_observed m _ = False"

text \<open>The number of requests at a place.\<close>

definition at_place :: "ops_state \<Rightarrow> (op_pc \<Rightarrow> bool) \<Rightarrow> nat" where
  "at_place s P = card {t. P (ops s t)}"

text \<open>The operations of a method the counter has counted, whatever their status.\<close>

definition ops_total :: "csi_metrics \<Rightarrow> string \<Rightarrow> nat" where
  "ops_total mx m = size (filter_mset (\<lambda>p. fst p = m) (csiOpsTotal mx))"

definition ops_inv :: "ops_state \<Rightarrow> bool" where
  "ops_inv s \<longleftrightarrow> finite {t. ops s t \<noteq> Absent} \<and>
     (\<forall>m. csiOpsInFlight (ops_metrics s) m = int (at_place s (in_flight m))) \<and>
     (\<forall>m. ops_total (ops_metrics s) m = at_place s (was_counted m)) \<and>
     (\<forall>m. count (csiOpsDuration (ops_metrics s)) m = at_place s (was_observed m))"

text \<open>Changing one entry of a function changes the number of entries with a property by at most one.\<close>

lemma card_fun_upd:
  assumes "finite {t. P (f t)}"
  shows "int (card {t. P ((f(u := x)) t)}) = int (card {t. P (f t)}) + (if P x then 1 else 0) - (if P (f u) then 1 else 0)"
proof -
  let ?A = "{t. P (f t)}"
  have "{t. P ((f(u := x)) t)} = (if P x then insert u ?A else ?A - {u})" by auto
  moreover have "u \<in> ?A \<longleftrightarrow> P (f u)" by simp
  moreover have "P (f u) \<Longrightarrow> card ?A \<ge> 1" using assms card_gt_0_iff [of ?A] by (fastforce simp: Suc_le_eq)
  ultimately show ?thesis using assms by (auto simp: card_insert_if card_Diff_singleton)
qed

lemma at_place_upd:
  assumes "finite {t. ops s t \<noteq> Absent}" and "\<not> P Absent"
  shows "int (at_place (s\<lparr>ops := (ops s)(t := pc), ops_metrics := mx\<rparr>) P) =
    int (at_place s P) + (if P pc then 1 else 0) - (if P (ops s t) then 1 else 0)"
proof -
  have "finite {t. P (ops s t)}" by (rule rev_finite_subset [OF assms(1)]) (use assms(2) in auto)
  from card_fun_upd [of P, OF this] show ?thesis by (simp add: at_place_def)
qed

text \<open>A step keeps the invariant when the metrics change by what the step of the request says.\<close>

lemma ops_inv_upd:
  assumes inv: "ops_inv s"
    and gauge: "\<And>m. csiOpsInFlight mx m = csiOpsInFlight (ops_metrics s) m +
      (if in_flight m pc then 1 else 0) - (if in_flight m (ops s t) then 1 else 0)"
    and total: "\<And>m. int (ops_total mx m) = int (ops_total (ops_metrics s) m) +
      (if was_counted m pc then 1 else 0) - (if was_counted m (ops s t) then 1 else 0)"
    and dur: "\<And>m. int (count (csiOpsDuration mx) m) = int (count (csiOpsDuration (ops_metrics s)) m) +
      (if was_observed m pc then 1 else 0) - (if was_observed m (ops s t) then 1 else 0)"
  shows "ops_inv (s\<lparr>ops := (ops s)(t := pc), ops_metrics := mx\<rparr>)" (is "ops_inv ?s")
proof -
  from inv have fin: "finite {t. ops s t \<noteq> Absent}"
    and old: "\<And>m. csiOpsInFlight (ops_metrics s) m = int (at_place s (in_flight m))"
      "\<And>m. ops_total (ops_metrics s) m = at_place s (was_counted m)"
      "\<And>m. count (csiOpsDuration (ops_metrics s)) m = at_place s (was_observed m)"
    by (auto simp: ops_inv_def)
  note upd = at_place_upd [OF fin, where t = t and pc = pc and mx = mx]
  have "finite {u. ops ?s u \<noteq> Absent}"
    using fin by (rule rev_finite_subset [OF finite.insertI [of _ t]]) auto
  moreover have "csiOpsInFlight (ops_metrics ?s) m = int (at_place ?s (in_flight m))" for m
    using upd [of "in_flight m"] gauge [of m] old by simp
  moreover have "int (ops_total (ops_metrics ?s) m) = int (at_place ?s (was_counted m))" for m
    using upd [of "was_counted m"] total [of m] old by simp
  moreover have "int (count (csiOpsDuration (ops_metrics ?s)) m) = int (at_place ?s (was_observed m))" for m
    using upd [of "was_observed m"] dur [of m] old by simp
  ultimately show ?thesis by (simp add: ops_inv_def)
qed

lemma ops_total_simps [simp]:
  "ops_total (gauge_add n d mx) m = ops_total mx m"
  "ops_total (observe_op n mx) m = ops_total mx m"
  "ops_total (count_op n code mx) m = ops_total mx m + (if n = m then 1 else 0)"
  by (simp_all add: ops_total_def metric_defs)

lemma ops_step_inv:
  assumes "ops_step t s s'" and "ops_inv s"
  shows "ops_inv s'"
  using assms(1)
proof (cases rule: ops_step.cases)
  case (answer m code)
  have "ops_inv (s\<lparr>ops := (ops s)(t := Answered m code), ops_metrics := ops_metrics s\<rparr>)"
    using answer by (intro ops_inv_upd [OF assms(2)]) auto
  with answer show ?thesis by simp
next
  case (panics m)
  have "ops_inv (s\<lparr>ops := (ops s)(t := Panicked m), ops_metrics := ops_metrics s\<rparr>)"
    using panics by (intro ops_inv_upd [OF assms(2)]) auto
  with panics show ?thesis by simp
qed (auto intro!: ops_inv_upd [OF assms(2)] simp: metric_defs [abs_def] simp del: ops_total_simps
    simp: ops_total_def)

lemma ops_reach_inv: "ops_reach s \<Longrightarrow> ops_inv s"
proof (induction rule: ops_reach.induct)
  case init
  show ?case
    by (simp add: ops_inv_def ops_initial_def ops_total_def at_place_def)
next
  case (step s t s')
  then show ?case by (blast intro: ops_step_inv)
qed

text \<open>C15. However the requests interleave, the in-flight gauge of a method is the number of its requests inside the
  interceptor, the counter has counted each request whose handler returned once, and the histogram has observed each of them
  once; a request whose handler panicked lowers the gauge and is not counted.\<close>

theorem metrics_of_concurrent_requests:
  assumes "ops_reach s"
  shows "csiOpsInFlight (ops_metrics s) m = int (card {t. in_flight m (ops s t)}) \<and>
    ops_total (ops_metrics s) m = card {t. was_counted m (ops s t)} \<and>
    count (csiOpsDuration (ops_metrics s)) m = card {t. was_observed m (ops s t)}"
  using ops_reach_inv [OF assms] by (simp add: ops_inv_def at_place_def)

text \<open>A request that has arrived.\<close>

definition one_arrived :: ops_state where
  "one_arrived = ops_initial\<lparr>ops := (ops ops_initial)(0 := Handling (shortMethod ''/csi.v1.Node/NodeStageVolume'')),
     ops_metrics := gauge_add (shortMethod ''/csi.v1.Node/NodeStageVolume'') 1 (ops_metrics ops_initial)\<rparr>"

theorem metrics_of_concurrent_requests_witness:
  "ops_reach one_arrived \<and> csiOpsInFlight (ops_metrics one_arrived) ''NodeStageVolume'' = 1 \<and>
   int (card {t. in_flight ''NodeStageVolume'' (ops one_arrived t)}) = 1"
proof -
  have "ops_step 0 ops_initial one_arrived"
    unfolding one_arrived_def by (rule ops_step.arrive) (simp add: ops_initial_def)
  then have r: "ops_reach one_arrived" by (rule ops_reach.step [OF ops_reach.init])
  have "csiOpsInFlight (ops_metrics one_arrived) ''NodeStageVolume'' = 1"
    by (simp add: one_arrived_def ops_initial_def gauge_add_def shortMethod_def after_last_def)
  with metrics_of_concurrent_requests [OF r, of "''NodeStageVolume''"] r show ?thesis by simp
qed

end
