(* ===== verification/Request_Path.thy ===== *)
theory Request_Path
  imports Logger Server_Metrics Metrics_Service Controller_Refinement Controller_Attach Node_Laws
begin

text \<open>
  The path of a request through the plugin (\<open>internal/server/plugin.go\<close>, \<open>NewPluginServer\<close>): the metrics interceptor
  around the logging middleware around the handler. An interceptor is a locale: a wrapper that gives the handler a context
  and has its result. Both interceptors are interpretations, and so is their chain. The messages of the
  node service are here as a datatype with their dispatch; those of the controller are in \<open>Controller\<close>.
\<close>

section \<open>Interceptors\<close>

text \<open>\<open>wrap h ctx req\<close> runs \<open>h\<close> once, in the context \<open>inner ctx req\<close>, and returns what it returns; the part \<open>proj\<close> of the world
  is the handler's.\<close>

locale interceptor =
  fixes wrap :: "(go_context \<Rightarrow> 'req \<Rightarrow> ('resp, 'w) io) \<Rightarrow> go_context \<Rightarrow> 'req \<Rightarrow> ('resp, 'v) io"
    and inner :: "go_context \<Rightarrow> 'req \<Rightarrow> go_context" and proj :: "'v \<Rightarrow> 'w"
  assumes wrap_sim: "io_sim proj (wrap h ctx req) (h (inner ctx req) req)"
begin

lemma wrap_result: "fst (wrap h ctx req v) = fst (h (inner ctx req) req (proj v))"
  using arg_cong [OF io_simD [OF wrap_sim, of h ctx req v], of fst] by simp

end

text \<open>\<open>grpc.ChainUnaryInterceptor\<close>: the first interceptor is the outer one.\<close>

locale interceptor_chain =
  first: interceptor wrap1 inner1 proj1 + second: interceptor wrap2 inner2 proj2
  for wrap1 :: "(go_context \<Rightarrow> 'req \<Rightarrow> ('resp, 'v) io) \<Rightarrow> go_context \<Rightarrow> 'req \<Rightarrow> ('resp, 'u) io"
    and inner1 :: "go_context \<Rightarrow> 'req \<Rightarrow> go_context" and proj1 :: "'u \<Rightarrow> 'v"
    and wrap2 :: "(go_context \<Rightarrow> 'req \<Rightarrow> ('resp, 'w) io) \<Rightarrow> go_context \<Rightarrow> 'req \<Rightarrow> ('resp, 'v) io"
    and inner2 :: "go_context \<Rightarrow> 'req \<Rightarrow> go_context" and proj2 :: "'v \<Rightarrow> 'w"

sublocale interceptor_chain \<subseteq>
  chain: interceptor "\<lambda>h. wrap1 (wrap2 h)" "\<lambda>ctx req. inner2 (inner1 ctx req) req" "\<lambda>u. proj2 (proj1 u)"
  by unfold_locales (rule io_sim_trans [OF first.wrap_sim second.wrap_sim])

interpretation metrics_interceptor:
  interceptor "\<lambda>h ctx req. NewMetricsInterceptor cs fm (h ctx req)" "\<lambda>ctx req. ctx" fst for cs fm
  by unfold_locales (rule metrics_interceptor_sim)

interpretation logging_interceptor:
  interceptor "NewMiddleware log ms fresh elapsed fm" "request_context ms fresh fm" fst for log ms fresh elapsed fm
  by unfold_locales (rule middleware_sim)

interpretation plugin_chain:
  interceptor_chain "\<lambda>h ctx req. NewMetricsInterceptor cs fm (h ctx req)" "\<lambda>ctx req. ctx" fst
    "NewMiddleware log ms fresh elapsed fm" "request_context ms fresh fm" fst for cs fm log ms fresh elapsed
  by unfold_locales

section \<open>Handling a request\<close>

text \<open>The two interceptors of \<open>NewPluginServer\<close> around a handler, on a new context.\<close>

definition plugin_handle ::
    "(err option \<Rightarrow> string) \<Rightarrow> log_entry \<Rightarrow> ('req, 'resp) messages \<Rightarrow> string \<Rightarrow> string \<Rightarrow> string \<Rightarrow>
     (go_context \<Rightarrow> 'req \<Rightarrow> ('resp, 'w) io) \<Rightarrow> 'req \<Rightarrow> ('resp, ('w \<times> log_line list) \<times> csi_metrics) io" where
  "plugin_handle cs log ms fresh elapsed fm h req =
     NewMetricsInterceptor cs fm
       (NewMiddleware log ms fresh elapsed fm h \<lparr>ctx_correlation = None, ctx_called_method = None\<rparr> req)"

lemma plugin_handle_sim:
  "io_sim (\<lambda>v. fst (fst v)) (plugin_handle cs log ms fresh elapsed fm h req)
     (h \<lparr>ctx_correlation = Some (request_id ms fresh req), ctx_called_method = Some fm\<rparr> req)"
  using plugin_chain.chain.wrap_sim [of cs fm log ms fresh elapsed h "\<lparr>ctx_correlation = None, ctx_called_method = None\<rparr>" req]
  by (simp add: plugin_handle_def request_context_def)

text \<open>The controller's handlers read one value of the context: \<open>ControllerPublishVolume\<close> the correlation identifier.\<close>

fun with_correlation :: "string \<Rightarrow> ctrl_request \<Rightarrow> ctrl_request" where
  "with_correlation cid (PublishReq _ r) = PublishReq cid r"
| "with_correlation cid r = r"

definition ctrl_handler ::
    "(string \<Rightarrow> bool) \<Rightarrow> 'w Controller \<Rightarrow> go_context \<Rightarrow> ctrl_request \<Rightarrow> (ctrl_response, 'w) io" where
  "ctrl_handler up c ctx r = serve up c (with_correlation (ContextCorrelationID ctx) r)"

text \<open>No message of the controller service has a publish context.\<close>

definition ctrl_messages ::
    "(ctrl_request \<Rightarrow> string option) \<Rightarrow> (ctrl_response \<Rightarrow> string option) \<Rightarrow> (ctrl_request, ctrl_response) messages" where
  "ctrl_messages rs ss = \<lparr>msg_publishContext = (\<lambda>_. None), msg_reqString = rs, msg_respString = ss\<rparr>"

section \<open>The node service\<close>

datatype node_request =
    StageReq "string \<Rightarrow> string option" NodeStageVolumeRequest
  | UnstageReq string string
  | NodePublishReq "string \<Rightarrow> string option" NodePublishVolumeRequest
  | NodeUnpublishReq string string
  | StatsReq string string
  | NodeExpandReq NodeExpandVolumeRequest
  | NodeInfoReq
  | NodeCapabilitiesReq

datatype node_response =
    NodeEmptyResp
  | StatsResp "VolumeUsage list"
  | NodeInfoResp string int segments
  | NodeCapabilitiesResp "node_rpc_type list"

text \<open>Staging and publishing requests carry the publish context the controller answered with.\<close>

fun node_publish_context :: "node_request \<Rightarrow> (string \<Rightarrow> string option) option" where
  "node_publish_context (StageReq pc _) = Some pc"
| "node_publish_context (NodePublishReq pc _) = Some pc"
| "node_publish_context _ = None"

definition node_messages ::
    "(node_request \<Rightarrow> string option) \<Rightarrow> (node_response \<Rightarrow> string option) \<Rightarrow> (node_request, node_response) messages" where
  "node_messages rs ss = \<lparr>msg_publishContext = node_publish_context, msg_reqString = rs, msg_respString = ss\<rparr>"

definition answer :: "('a, 'w) io \<Rightarrow> ('a \<Rightarrow> node_response) \<Rightarrow> (node_response, 'w) io" where
  "answer m f = call m throw (\<lambda>x. ret (f x))"

fun node_serve :: "(string \<Rightarrow> bool) \<Rightarrow> 'w os \<Rightarrow> 'w Node \<Rightarrow> node_request \<Rightarrow> (node_response, 'w) io" where
  "node_serve up os n (StageReq _ r) = answer (NodeStageVolume n r) (\<lambda>_. NodeEmptyResp)"
| "node_serve up os n (UnstageReq u p) = answer (NodeUnstageVolume os n u p) (\<lambda>_. NodeEmptyResp)"
| "node_serve up os n (NodePublishReq _ r) = answer (NodePublishVolume n r) (\<lambda>_. NodeEmptyResp)"
| "node_serve up os n (NodeUnpublishReq u p) = answer (NodeUnpublishVolume os n u p) (\<lambda>_. NodeEmptyResp)"
| "node_serve up os n (StatsReq u p) = answer (NodeGetVolumeStats n u p) StatsResp"
| "node_serve up os n (NodeExpandReq r) = answer (NodeExpandVolume up os n r) (\<lambda>_. NodeEmptyResp)"
| "node_serve up os n NodeInfoReq = answer (NodeGetInfo n) (\<lambda>(name, maxVols, top). NodeInfoResp name maxVols top)"
| "node_serve up os n NodeCapabilitiesReq = answer NodeGetCapabilities NodeCapabilitiesResp"

definition node_handler ::
    "(string \<Rightarrow> bool) \<Rightarrow> 'w os \<Rightarrow> 'w Node \<Rightarrow> go_context \<Rightarrow> node_request \<Rightarrow> (node_response, 'w) io" where
  "node_handler up os n ctx r = node_serve up os n r"

section \<open>Properties\<close>

text \<open>C7. A controller request on its whole way through the plugin (metrics interceptor, logging middleware, handler,
  instrumented service) has the answer of the bare handler on the wrapped service, and changes the cloud alike; of the
  wrappers only the correlation identifier reaches the handler.\<close>

theorem request_path_transparent:
  "map_prod id (\<lambda>v. fst (fst (fst v)))
     (plugin_handle cs log (ctrl_messages rs ss) fresh elapsed fm
        (ctrl_handler up (on_service (NewInstrumentedService sv) c)) r v) =
   serve up (on_service sv c) (with_correlation fresh r) (fst (fst (fst v)))"
proof -
  have id: "request_id (ctrl_messages rs ss) fresh r = fresh"
    by (rule request_id_fresh) (simp add: ctrl_messages_def)
  have "io_sim (\<lambda>v. fst (fst v))
      (plugin_handle cs log (ctrl_messages rs ss) fresh elapsed fm (ctrl_handler up (on_service (NewInstrumentedService sv) c)) r)
      (serve up (on_service (NewInstrumentedService sv) c) (with_correlation fresh r))"
    using plugin_handle_sim [of cs log "ctrl_messages rs ss" fresh elapsed fm
        "ctrl_handler up (on_service (NewInstrumentedService sv) c)" r] id
    by (simp add: ctrl_handler_def ContextCorrelationID_def)
  from io_sim_trans [OF this instrumented.sim_serve] show ?thesis by (rule io_simD)
qed

text \<open>The publish context of a block volume is the correlation identifier, that of a file storage is empty.\<close>

lemma publish_context_id:
  assumes "ControllerPublishVolume c cid req w = (Ok pc, w')"
  shows "pc = (if map_get (Publish_VolumeContext req) volumeContextTypeKey = volumeTypeFileStorage
    then Map.empty else [CtxCorrelationIDKey \<mapsto> cid])"
  using assms unfolding ControllerPublishVolume_def
  by (auto simp: CtxCorrelationIDKey_def io_app elim!: call_throw_OkE split: if_splits)

text \<open>C18. The correlation identifier of a publish request reaches the node: the controller answers a publish request with its own
  identifier, and the node handles the staging request that carries the answer under that identifier, not under a new one,
  and logs it with both lines of the request.\<close>

theorem correlation_propagates:
  assumes published: "plugin_handle cs log (ctrl_messages rs ss) fresh elapsed fm (ctrl_handler up c) (PublishReq x req) v =
      (Ok (PublishResp pc), v')"
    and block: "map_get (Publish_VolumeContext req) volumeContextTypeKey \<noteq> volumeTypeFileStorage"
    and fresh: "fresh \<noteq> []" "fresh' \<noteq> []"
    and level: "level_no InfoLevel \<le> level_no (Log_Level log')"
    and staged: "NewMiddleware log' (node_messages rs' ss') fresh' elapsed' fm' (node_handler up' os n) ctx (StageReq pc sreq)
      (w, lines) = (r, (w', lines'))" "r \<noteq> Panic"
  shows "\<exists>l1 l2. lines' = lines @ [l1, l2] \<and> names_request fresh fm' l1 \<and> names_request fresh fm' l2"
proof -
  have id: "request_id (ctrl_messages rs ss) fresh (PublishReq x req) = fresh"
    by (rule request_id_fresh) (simp add: ctrl_messages_def)
  from io_simD [OF plugin_handle_sim, of cs log "ctrl_messages rs ss" fresh elapsed fm "ctrl_handler up c" "PublishReq x req" v]
  have "respond (ControllerPublishVolume c fresh req) PublishResp (fst (fst v)) = (Ok (PublishResp pc), fst (fst v'))"
    using published id by (simp add: ctrl_handler_def ContextCorrelationID_def)
  then obtain w1 where "ControllerPublishVolume c fresh req (fst (fst v)) = (Ok pc, w1)"
    by (auto simp: respond_def io_app elim!: call_throw_OkE)
  with block have "pc CtxCorrelationIDKey = Some fresh"
    using publish_context_id by fastforce
  then have "request_id (node_messages rs' ss') fresh' (StageReq pc sreq) = fresh"
    using fresh(1) by (intro request_id_published [of _ _ pc]) (simp_all add: node_messages_def)
  with middleware_lines [OF staged(1) level fresh(2) staged(2)] show ?thesis by auto
qed

definition info_entry :: log_entry where
  "info_entry = \<lparr>Log_Data = Map.empty, Log_Level = InfoLevel\<rparr>"

lemma sample_publish_answer:
  "fst (serve (\<lambda>_. True) sample_controller (PublishReq ''abc'' sample_publish_request) (sample_with_volume 2)) =
     Ok (PublishResp [CtxCorrelationIDKey \<mapsto> ''abc''])"
  by (simp add: sample_publish_request_def sample_run_defs sample_defs respond_def CtxCorrelationIDKey_def
      ControllerPublishVolume_def validateControllerPublishVolumeRequest_def findPublishTarget_def
      attachVolumeToServer_def attachedID_def map_get_def volumeTypeFileStorage_def NewUpCloudService_def
      UpCloudService_GetServerByHostname_def UpCloudService_GetBlockStorageByUUID_def
      UpCloudService_RequireBlockStorageOnline_def UpCloudService_AttachBlockStorage_def waitForServerOnline_def
      Storage.truncate_def Server.truncate_def Let_def call_def io_app)

lemma sample_staging_run:
  "fst (NewMiddleware info_entry ms fresh ''1'' fm (node_handler up os mtab_node) ctx (StageReq pc sample_stage_request)
     (Map.empty, lines)) = Ok NodeEmptyResp"
  using logging_interceptor.wrap_result [of info_entry ms fresh "''1''" fm "node_handler up os mtab_node" ctx
      "StageReq pc sample_stage_request" "(Map.empty, lines)"] sample_stage
  by (simp add: node_handler_def answer_def call_def io_app)

theorem correlation_propagates_witness:
  "\<exists>l1 l2. snd (snd (NewMiddleware info_entry (node_messages (\<lambda>_. None) (\<lambda>_. None)) ''new'' ''1'' ''/csi.v1.Node/NodeStageVolume''
       (node_handler (\<lambda>_. True) mtab_os mtab_node) \<lparr>ctx_correlation = None, ctx_called_method = None\<rparr>
       (StageReq [CtxCorrelationIDKey \<mapsto> ''abc''] sample_stage_request) (Map.empty, []))) = [l1, l2] \<and>
     names_request ''abc'' ''/csi.v1.Node/NodeStageVolume'' l1 \<and> names_request ''abc'' ''/csi.v1.Node/NodeStageVolume'' l2"
proof -
  let ?h = "plugin_handle (\<lambda>_. []) info_entry (ctrl_messages (\<lambda>_. None) (\<lambda>_. None)) ''abc'' ''1'' []
      (ctrl_handler (\<lambda>_. True) sample_controller) (PublishReq [] sample_publish_request)"
  let ?v = "((sample_with_volume 2, []), csi_metrics.make {#} {#} (\<lambda>_. 0))"
  let ?n = "NewMiddleware info_entry (node_messages (\<lambda>_. None) (\<lambda>_. None)) ''new'' ''1'' ''/csi.v1.Node/NodeStageVolume''
       (node_handler (\<lambda>_. True) mtab_os mtab_node) \<lparr>ctx_correlation = None, ctx_called_method = None\<rparr>
       (StageReq [CtxCorrelationIDKey \<mapsto> ''abc''] sample_stage_request) (Map.empty, [])"
  have id: "request_id (ctrl_messages (\<lambda>_. None) (\<lambda>_. None)) ''abc'' (PublishReq [] sample_publish_request) = ''abc''"
    by (rule request_id_fresh) (simp add: ctrl_messages_def)
  have "fst (?h ?v) = Ok (PublishResp [CtxCorrelationIDKey \<mapsto> ''abc''])"
    using arg_cong [OF io_simD [OF plugin_handle_sim, of "\<lambda>_. []" info_entry "ctrl_messages (\<lambda>_. None) (\<lambda>_. None)" "''abc''" "''1''" "[]"
        "ctrl_handler (\<lambda>_. True) sample_controller" "PublishReq [] sample_publish_request" ?v], of fst] sample_publish_answer id
    by (simp add: ctrl_handler_def ContextCorrelationID_def)
  then have pub: "?h ?v = (Ok (PublishResp [CtxCorrelationIDKey \<mapsto> ''abc'']), snd (?h ?v))" by (simp add: prod_eq_iff)
  have block: "map_get (Publish_VolumeContext sample_publish_request) volumeContextTypeKey \<noteq> volumeTypeFileStorage"
    by (simp add: sample_publish_request_def map_get_def volumeTypeFileStorage_def)
  have node: "?n = (Ok NodeEmptyResp, (fst (snd ?n), snd (snd ?n)))"
    using sample_staging_run by (simp add: prod_eq_iff)
  have "\<exists>l1 l2. snd (snd ?n) = [] @ [l1, l2] \<and> names_request ''abc'' ''/csi.v1.Node/NodeStageVolume'' l1 \<and>
      names_request ''abc'' ''/csi.v1.Node/NodeStageVolume'' l2"
    by (rule correlation_propagates [OF pub block _ _ _ node]) (simp_all add: info_entry_def)
  then show ?thesis by simp
qed

end
