(* ===== verification/Plugin_Config.thy ===== *)
theory Plugin_Config
  imports UpCloud_Service Filesystem_Iface
begin

text \<open>
  What the plugin starts from: the configuration read from flags and environment (\<open>internal/plugin/config/config.go\<close>),
  the API credentials (\<open>NewUpCloudServiceFromCredentials\<close> of \<open>internal/service/upcloud_service.go\<close>) and the zone read from the
  instance metadata (\<open>internal/node/zone.go\<close>). The flag library, the environment, the HTTP client and the constructor of an API
  client are arguments.
\<close>

section \<open>Configuration\<close>

definition DefaultDriverName :: string where
  "DefaultDriverName = ''storage.csi.upcloud.com''"

definition DefaultHealthServerAddress :: string where
  "DefaultHealthServerAddress = ''tcp://127.0.0.1:13071''"

definition DefaultMetricsServerAddress :: string where
  "DefaultMetricsServerAddress = ''tcp://0.0.0.0:8090''"

definition DefaultPluginServerAddress :: string where
  "DefaultPluginServerAddress = ''unix:///var/lib/kubelet/plugins/'' @ DefaultDriverName @ ''/csi.sock''"

definition MaxVolumesPerNode :: int where
  "MaxVolumesPerNode = 14"

definition DriverModeMonolith :: string where "DriverModeMonolith = ''monolith''"

definition DriverModeNode :: string where "DriverModeNode = ''node''"

definition DriverModeController :: string where "DriverModeController = ''controller''"

definition DefaultDriverMode :: string where "DefaultDriverMode = DriverModeMonolith"

lemmas mode_defs = DriverModeMonolith_def DriverModeNode_def DriverModeController_def DefaultDriverMode_def

record 'n Config =
  cfg_NodeHost :: string
  cfg_Zone :: string
  cfg_Username :: string
  cfg_Password :: string
  cfg_Token :: string
  cfg_DriverName :: string
  cfg_PrintVersion :: bool
  cfg_Mode :: string
  cfg_LogLevel :: string
  cfg_Labels :: "string list"
  cfg_FilesystemTypes :: "string list"
  cfg_PluginServerAddress :: string
  cfg_HealthServerAddress :: string
  cfg_MetricsServerAddress :: string
  cfg_Filesystem :: "'n Filesystem option"

text \<open>The values the arguments set, by flag name, or why parsing ended: \<open>pflag.ErrHelp\<close> or another error.\<close>

datatype flag_value = FlagString string | FlagBool bool | FlagSlice "string list"

datatype parsed = Parsed "string \<Rightarrow> flag_value option" | HelpRequested | BadFlags err

definition StringVar :: "(string \<Rightarrow> flag_value option) \<Rightarrow> string \<Rightarrow> string \<Rightarrow> string" where
  "StringVar f name dflt = (case f name of Some (FlagString s) \<Rightarrow> s | _ \<Rightarrow> dflt)"

definition BoolVar :: "(string \<Rightarrow> flag_value option) \<Rightarrow> string \<Rightarrow> bool \<Rightarrow> bool" where
  "BoolVar f name dflt = (case f name of Some (FlagBool b) \<Rightarrow> b | _ \<Rightarrow> dflt)"

definition StringSliceVar :: "(string \<Rightarrow> flag_value option) \<Rightarrow> string \<Rightarrow> string list \<Rightarrow> string list" where
  "StringSliceVar f name dflt = (case f name of Some (FlagSlice l) \<Rightarrow> l | _ \<Rightarrow> dflt)"

lemmas flag_defs = StringVar_def BoolVar_def StringSliceVar_def

text \<open>\<open>Parse\<close> of the flags \<open>f\<close>: each field is bound to its flag; labels and credentials fall back to the environment. No flag is
  bound to the zone or the filesystem.\<close>

definition config_of :: "(string \<Rightarrow> string) \<Rightarrow> (string \<Rightarrow> flag_value option) \<Rightarrow> 'n Config" where
  "config_of getenv f =
     (let or_env = (\<lambda>v name. if v = [] then getenv name else v);
          labels = StringSliceVar f ''label'' [] in
      \<lparr>cfg_NodeHost = StringVar f ''nodehost'' [],
       cfg_Zone = [],
       cfg_Username = or_env (StringVar f ''username'' []) ''UPCLOUD_USERNAME'',
       cfg_Password = or_env (StringVar f ''password'' []) ''UPCLOUD_PASSWORD'',
       cfg_Token = or_env (StringVar f ''token'' []) ''UPCLOUD_TOKEN'',
       cfg_DriverName = StringVar f ''driver-name'' DefaultDriverName,
       cfg_PrintVersion = BoolVar f ''version'' False,
       cfg_Mode = StringVar f ''mode'' DefaultDriverMode,
       cfg_LogLevel = StringVar f ''log-level'' ''info'',
       cfg_Labels = (if length labels = 0 then Split (getenv ''STORAGE_LABELS'') (CHR '','') else labels),
       cfg_FilesystemTypes = StringSliceVar f ''fs-types'' [''ext3'', ''ext4'', ''xfs''],
       cfg_PluginServerAddress = StringVar f ''endpoint'' DefaultPluginServerAddress,
       cfg_HealthServerAddress = StringVar f ''address'' DefaultHealthServerAddress,
       cfg_MetricsServerAddress = StringVar f ''metrics-address'' DefaultMetricsServerAddress,
       cfg_Filesystem = None\<rparr>)"

datatype 'n parse_result = Configured "'n Config" | HelpShown | ParseFailed err

definition Parse :: "(string list \<Rightarrow> parsed) \<Rightarrow> (string \<Rightarrow> string) \<Rightarrow> string list \<Rightarrow> 'n parse_result" where
  "Parse parseFlags getenv osArgs =
     (case parseFlags osArgs of
        Parsed f \<Rightarrow> Configured (config_of getenv f)
      | HelpRequested \<Rightarrow> HelpShown
      | BadFlags e \<Rightarrow> ParseFailed e)"

section \<open>Credentials\<close>

text \<open>What \<open>client.New\<close> is given.\<close>

datatype credentials = BearerAuth string | BasicAuth string string

definition select_credentials :: "string \<Rightarrow> string \<Rightarrow> string \<Rightarrow> credentials res" where
  "select_credentials username password token =
     (if username = [] \<and> password = [] \<and> token = [] then Err (Errorf ''UpCloud API credentials missing'')
      else if token \<noteq> [] then Ok (BearerAuth token)
      else if username = [] then Err (Errorf ''UpCloud API username is missing'')
      else if password = [] then Err (Errorf ''UpCloud API password is missing'')
      else Ok (BasicAuth username password))"

definition NewUpCloudServiceFromCredentials ::
    "(credentials \<Rightarrow> 'w upCloudClient) \<Rightarrow> string \<Rightarrow> string \<Rightarrow> string \<Rightarrow> 'w Service res" where
  "NewUpCloudServiceFromCredentials newClient username password token =
     (case select_credentials username password token of
        Ok cred \<Rightarrow> Ok (NewUpCloudService (newClient cred))
      | Err e \<Rightarrow> Err e
      | Panic \<Rightarrow> Panic)"

text \<open>A token wins; without one both name and password are needed.\<close>

lemma select_credentials_Ok:
  "select_credentials u p t = Ok cred \<longleftrightarrow>
     t \<noteq> [] \<and> cred = BearerAuth t \<or> t = [] \<and> u \<noteq> [] \<and> p \<noteq> [] \<and> cred = BasicAuth u p"
  by (auto simp: select_credentials_def)

lemma select_credentials_not_panic [simp]: "select_credentials u p t \<noteq> Panic"
  by (simp add: select_credentials_def)

section \<open>The zone of the instance\<close>

text \<open>A response: status, the bytes the body delivers and how it ends (\<open>None\<close> for the end of the body).\<close>

record http_response =
  http_StatusCode :: int
  http_Body :: string
  http_BodyError :: "err option"

record 'w http =
  http_NewRequest :: "string \<Rightarrow> unit res"
  http_Do :: "string \<Rightarrow> (http_response, 'w) io"

text \<open>\<open>io.ReadAll(io.LimitReader(body, n))\<close>: an error beyond the limit is not seen.\<close>

definition ReadAll_limited :: "nat \<Rightarrow> http_response \<Rightarrow> string res" where
  "ReadAll_limited n resp =
     (if n \<le> length (http_Body resp) then Ok (take n (http_Body resp))
      else case http_BodyError resp of Some e \<Rightarrow> Err e | None \<Rightarrow> Ok (http_Body resp))"

definition ResolveZone :: "'w http \<Rightarrow> string \<Rightarrow> (string, 'w) io" where
  "ResolveZone h endpoint =
     (case http_NewRequest h endpoint of
        Err e \<Rightarrow> throw (Wrapped ''creating metadata request'' e)
      | Panic \<Rightarrow> panic
      | Ok _ \<Rightarrow>
          call (http_Do h endpoint) (\<lambda>e. throw (Wrapped ''fetching zone from instance metadata'' e)) (\<lambda>resp.
            if http_StatusCode resp \<noteq> 200 then throw (Errorf ''instance metadata returned status'')
            else case ReadAll_limited 64 resp of
              Err e \<Rightarrow> throw (Wrapped ''reading instance metadata response'' e)
            | Panic \<Rightarrow> panic
            | Ok body \<Rightarrow>
                let zone = TrimSpace body in
                if zone = [] then throw (Errorf ''instance metadata reported an empty region'') else ret zone))"

lemma TrimSpace_ends:
  assumes "TrimSpace s \<noteq> []"
  shows "\<not> is_space (hd (TrimSpace s)) \<and> \<not> is_space (last (TrimSpace s))"
proof
  let ?t = "dropWhile is_space s"
  have ne: "dropWhile is_space (rev ?t) \<noteq> []" using assms by (simp add: TrimSpace_def)
  show "\<not> is_space (last (TrimSpace s))"
    using hd_dropWhile [of is_space "rev ?t"] ne by (simp add: TrimSpace_def last_rev del: dropWhile_eq_Nil_conv)
  have t: "?t \<noteq> []"
  proof
    assume "?t = []"
    then have "dropWhile is_space (rev ?t) = []" by (simp only: rev.simps dropWhile.simps)
    with ne show False by contradiction
  qed
  have "TrimSpace s @ rev (takeWhile is_space (rev ?t)) = ?t"
    unfolding TrimSpace_def by (metis rev_append rev_rev_ident takeWhile_dropWhile_id)
  with assms have "hd (TrimSpace s) = hd ?t" by (metis hd_append2)
  with hd_dropWhile [of is_space s] t show "\<not> is_space (hd (TrimSpace s))" by simp
qed

lemma TrimSpace_length: "length (TrimSpace s) \<le> length s"
  unfolding TrimSpace_def by (metis length_rev length_dropWhile_le order.trans)

text \<open>A resolved zone is the trimmed front of the body of a successful response; it has no spaces at its ends and at most 64
  bytes.\<close>

lemma ResolveZone_Ok:
  assumes "ResolveZone h endpoint w = (Ok z, w')"
  shows "\<exists>resp. http_Do h endpoint w = (Ok resp, w') \<and> http_StatusCode resp = 200 \<and> z = TrimSpace (take 64 (http_Body resp)) \<and>
    z \<noteq> [] \<and> length z \<le> 64 \<and> \<not> is_space (hd z) \<and> \<not> is_space (last z)"
proof -
  obtain resp body where r: "http_Do h endpoint w = (Ok resp, w')" "http_StatusCode resp = 200"
    and b: "ReadAll_limited 64 resp = Ok body" "z = TrimSpace body" "z \<noteq> []"
    using assms
    by (auto simp: ResolveZone_def Let_def io_defs split: res.splits prod.splits if_splits)
  have body: "body = take 64 (http_Body resp)"
    using b(1) by (auto simp: ReadAll_limited_def split: if_splits option.splits)
  have "length z \<le> 64" using TrimSpace_length [of body] b(2) body by simp
  with r b body TrimSpace_ends [of body] show ?thesis by auto
qed

end
