(* ===== verification/Identity.thy ===== *)
theory Identity
  imports Prelude
begin

text \<open>
  The identity service (\<open>internal/identity/identity.go\<close>) and the version strings the build sets
  (\<open>internal/plugin/version.go\<close>).
\<close>

record Identity =
  driverName :: string
  driverVersion :: string
  ready :: bool

definition NewIdentity :: "string \<Rightarrow> string \<Rightarrow> Identity" where
  "NewIdentity name version = \<lparr>driverName = name, driverVersion = version, ready = True\<rparr>"

definition GetPluginInfo :: "Identity \<Rightarrow> (string \<times> string, 'w) io" where
  "GetPluginInfo i = ret (driverName i, driverVersion i)"

datatype plugin_capability =
    CONTROLLER_SERVICE | VOLUME_ACCESSIBILITY_CONSTRAINTS | VOLUME_EXPANSION_ONLINE

definition GetPluginCapabilities :: "(plugin_capability list, 'w) io" where
  "GetPluginCapabilities = ret [CONTROLLER_SERVICE, VOLUME_ACCESSIBILITY_CONSTRAINTS, VOLUME_EXPANSION_ONLINE]"

definition Probe :: "Identity \<Rightarrow> (bool, 'w) io" where
  "Probe i = ret (ready i)"

text \<open>The variables of \<open>version.go\<close>: what the linker set.\<close>

record build_info =
  build_version :: string
  build_commit :: string
  build_gitTreeState :: string

definition GetVersion :: "build_info \<Rightarrow> string" where
  "GetVersion b = build_version b"

definition GetCommit :: "build_info \<Rightarrow> string" where
  "GetCommit b = build_commit b"

definition GetTreeState :: "build_info \<Rightarrow> string" where
  "GetTreeState b = build_gitTreeState b"

text \<open>The line \<open>PrintVersion\<close> writes to standard output.\<close>

definition PrintVersion :: "build_info \<Rightarrow> string" where
  "PrintVersion b = GetVersion b @ '' - '' @ GetCommit b @ '' ('' @ GetTreeState b @ '')'' @ [CHR 0x0A]"

end
