(* ===== verification/Plugin.thy ===== *)
theory Plugin
  imports Plugin_Config Identity Metrics_Service Controller Node_Server Linux_Filesystem
begin

text \<open>
  How the plugin is put together (\<open>internal/plugin/plugin.go\<close>, the constructors of \<open>internal/server/plugin.go\<close> and
  \<open>cmd/upcloud-csi-plugin/main.go\<close>): the mode selects which CSI services run, on which filesystem, service and zone. Logging and the
  running of the servers are left out here; \<open>log.Fatal\<close> ends the process with status 1, an uncaught panic with status 2.
\<close>

datatype 'a start = Started 'a | Failed err | Exited nat

fun start_of :: "'a res \<Rightarrow> 'a start" where
  "start_of (Ok x) = Started x"
| "start_of (Err e) = Failed e"
| "start_of Panic = Exited 2"

definition and_then :: "'a start \<Rightarrow> ('a \<Rightarrow> 'b start) \<Rightarrow> 'b start" where
  "and_then s f = (case s of Started x \<Rightarrow> f x | Failed e \<Rightarrow> Failed e | Exited n \<Rightarrow> Exited n)"

lemma and_then_Started: "and_then s f = Started y \<longleftrightarrow> (\<exists>x. s = Started x \<and> f x = Started y)"
  by (auto simp: and_then_def split: start.splits)

lemma start_of_Started [simp]: "start_of r = Started x \<longleftrightarrow> r = Ok x"
  by (cases r) auto

section \<open>The gRPC server\<close>

record URL =
  URL_Scheme :: string
  URL_Host :: string
  URL_Path :: string

text \<open>The services registered at the server: identity always, controller and node when given.\<close>

record ('c, 'n) PluginServer =
  srv_identity :: Identity
  srv_controller :: "'c Controller option"
  srv_node :: "'n Node option"
  srv_listen :: URL

definition NewPluginServer ::
    "(string \<Rightarrow> URL res) \<Rightarrow> string \<Rightarrow> 'c Controller option \<Rightarrow> 'n Node option \<Rightarrow> Identity option \<Rightarrow> ('c, 'n) PluginServer start" where
  "NewPluginServer parseURL addr controllerServer nodeServer identity =
     (case identity of
        None \<Rightarrow> Failed (Errorf ''identity service is not defined'')
      | Some i \<Rightarrow> and_then (start_of (parseURL addr)) (\<lambda>listen.
          if URL_Scheme listen \<noteq> ''unix'' then Exited 1
          else Started \<lparr>srv_identity = i, srv_controller = controllerServer, srv_node = nodeServer, srv_listen = listen\<rparr>))"

definition NewControllerPluginServer ::
    "(string \<Rightarrow> URL res) \<Rightarrow> string \<Rightarrow> 'c Controller \<Rightarrow> Identity \<Rightarrow> ('c, 'n) PluginServer start" where
  "NewControllerPluginServer parseURL addr controllerServer identity =
     NewPluginServer parseURL addr (Some controllerServer) None (Some identity)"

definition NewNodePluginServer ::
    "(string \<Rightarrow> URL res) \<Rightarrow> string \<Rightarrow> 'n Node \<Rightarrow> Identity \<Rightarrow> ('c, 'n) PluginServer start" where
  "NewNodePluginServer parseURL addr nodeServer identity =
     NewPluginServer parseURL addr None (Some nodeServer) (Some identity)"

section \<open>Assembling the plugin\<close>

text \<open>What the process finds around it: URL parser, API clients, operating system (with the rounds its clock grants a poll),
  instance metadata and build.\<close>

record ('w, 'n) surroundings =
  env_parseURL :: "string \<Rightarrow> URL res"
  env_newClient :: "credentials \<Rightarrow> 'w upCloudClient"
  env_os :: "'n os"
  env_polls :: nat
  env_http :: "'n http"
  env_build :: build_info

text \<open>The service of the controller: the API service, instrumented. Its metrics are part of the world.\<close>

definition plugin_service :: "('w, 'n) surroundings \<Rightarrow> 'n Config \<Rightarrow> ('w \<times> api_metrics) Service res" where
  "plugin_service env c =
     (case NewUpCloudServiceFromCredentials (env_newClient env) (cfg_Username c) (cfg_Password c) (cfg_Token c) of
        Ok sv \<Rightarrow> Ok (NewInstrumentedService sv) | Err e \<Rightarrow> Err e | Panic \<Rightarrow> Panic)"

definition plugin_controller :: "('w, 'n) surroundings \<Rightarrow> 'n Config \<Rightarrow> ('w \<times> api_metrics) Controller start" where
  "plugin_controller env c =
     and_then (start_of (plugin_service env c)) (\<lambda>sv.
       start_of (NewController sv (cfg_Zone c) (cfg_NodeHost c) MaxVolumesPerNode (cfg_Labels c)))"

definition plugin_node :: "'n Config \<Rightarrow> 'n Filesystem \<Rightarrow> 'n Node start" where
  "plugin_node c fs = start_of (NewNode (cfg_NodeHost c) (cfg_Zone c) MaxVolumesPerNode fs)"

definition plugin_identity :: "('w, 'n) surroundings \<Rightarrow> 'n Config \<Rightarrow> Identity" where
  "plugin_identity env c = NewIdentity (cfg_DriverName c) (GetVersion (env_build env))"

definition newControllerPluginServer ::
    "('w, 'n) surroundings \<Rightarrow> 'n Config \<Rightarrow> ('w \<times> api_metrics, 'n) PluginServer start" where
  "newControllerPluginServer env c =
     and_then (plugin_controller env c) (\<lambda>csiController.
       NewControllerPluginServer (env_parseURL env) (cfg_PluginServerAddress c) csiController (plugin_identity env c))"

definition newNodePluginServer ::
    "('w, 'n) surroundings \<Rightarrow> 'n Config \<Rightarrow> 'n Filesystem \<Rightarrow> ('w \<times> api_metrics, 'n) PluginServer start" where
  "newNodePluginServer env c fs =
     and_then (plugin_node c fs) (\<lambda>csiNode.
       NewNodePluginServer (env_parseURL env) (cfg_PluginServerAddress c) csiNode (plugin_identity env c))"

definition newMonolithPluginServer ::
    "('w, 'n) surroundings \<Rightarrow> 'n Config \<Rightarrow> 'n Filesystem \<Rightarrow> ('w \<times> api_metrics, 'n) PluginServer start" where
  "newMonolithPluginServer env c fs =
     and_then (plugin_controller env c) (\<lambda>csiController.
     and_then (plugin_node c fs) (\<lambda>csiNode.
       NewPluginServer (env_parseURL env) (cfg_PluginServerAddress c) (Some csiController) (Some csiNode)
         (Some (plugin_identity env c))))"

definition metadataRegionEndpoint :: string where
  "metadataRegionEndpoint = ''http://169.254.169.254/metadata/v1/region''"

definition resolveConfigZone :: "'n http \<Rightarrow> 'n Config \<Rightarrow> string \<Rightarrow> ('n Config, 'n) io" where
  "resolveConfigZone h c endpoint =
     (if cfg_Zone c \<noteq> [] then ret c
      else call (ResolveZone h endpoint) (\<lambda>e. throw (Wrapped ''resolving zone from instance metadata'' e))
        (\<lambda>zone. ret (c\<lparr>cfg_Zone := zone\<rparr>)))"

text \<open>The filesystem of the configuration, or Linux after the check of its tools.\<close>

definition plugin_filesystem :: "('w, 'n) surroundings \<Rightarrow> 'n Config \<Rightarrow> ('n Filesystem, 'n) io" where
  "plugin_filesystem env c =
     (case cfg_Filesystem c of
        Some fs \<Rightarrow> ret fs
      | None \<Rightarrow> (\<lambda>w. case NewLinuxFilesystem (env_os env) (cfg_FilesystemTypes c) w of
          ((fs, r), w') \<Rightarrow> ((case r of Ok _ \<Rightarrow> Ok (linux_filesystem (env_polls env) (env_os env) fs) | Err e \<Rightarrow> Err e | Panic \<Rightarrow> Panic), w')))"

definition newPluginServer ::
    "('w, 'n) surroundings \<Rightarrow> 'n Config \<Rightarrow> 'n \<Rightarrow> ('w \<times> api_metrics, 'n) PluginServer start \<times> 'n" where
  "newPluginServer env c0 w =
     (case call (plugin_filesystem env c0) throw (\<lambda>fs.
              call (resolveConfigZone (env_http env) c0 metadataRegionEndpoint) throw (\<lambda>c. ret (c, fs))) w of
        (r, w') \<Rightarrow> (and_then (start_of r) (\<lambda>(c, fs).
           if cfg_Mode c = DriverModeController then newControllerPluginServer env c
           else if cfg_Mode c = DriverModeNode then newNodePluginServer env c fs
           else if cfg_Mode c = DriverModeMonolith then newMonolithPluginServer env c fs
           else Failed (Errorf ''unknown driver mode'')), w'))"

section \<open>Running\<close>

definition hostname :: "string res \<Rightarrow> string" where
  "hostname r = (case r of Ok n \<Rightarrow> n | _ \<Rightarrow> [])"

text \<open>An HTTP server is its listen URL.\<close>

definition NewHealthServer :: "(string \<Rightarrow> URL res) \<Rightarrow> string \<Rightarrow> URL res" where
  "NewHealthServer parseURL addr = parseURL addr"

text \<open>\<open>Run\<close>: \<open>levelOk\<close> tells whether the logger accepts the level, \<open>serveAll\<close> runs the servers until they have all returned, with the
  first error. Of \<open>NewMetricsServer\<close> only the parsing of the address can fail here; its registration is in \<open>Servers\<close>.\<close>

definition Run ::
    "('w, 'n) surroundings \<Rightarrow> (string \<Rightarrow> bool) \<Rightarrow>
     (('w \<times> api_metrics, 'n) PluginServer \<Rightarrow> URL \<Rightarrow> URL \<Rightarrow> 'n \<Rightarrow> unit res \<times> 'n) \<Rightarrow> 'n Config \<Rightarrow> 'n \<Rightarrow> unit start \<times> 'n" where
  "Run env levelOk serveAll c w =
     (if \<not> levelOk (cfg_LogLevel c) then (Exited 1, w)
      else case start_of (NewHealthServer (env_parseURL env) (cfg_HealthServerAddress c)) of
        Failed e \<Rightarrow> (Failed e, w) | Exited n \<Rightarrow> (Exited n, w)
      | Started healthURL \<Rightarrow>
          (case start_of (env_parseURL env (cfg_MetricsServerAddress c)) of
             Failed e \<Rightarrow> (Failed e, w) | Exited n \<Rightarrow> (Exited n, w)
           | Started metricsURL \<Rightarrow>
               (case newPluginServer env c w of
                  (Failed e, w') \<Rightarrow> (Failed e, w') | (Exited n, w') \<Rightarrow> (Exited n, w')
                | (Started pluginServer, w') \<Rightarrow>
                    (case serveAll pluginServer healthURL metricsURL w' of (r, w'') \<Rightarrow> (start_of r, w'')))))"

text \<open>\<open>main\<close>: the exit status, what is written to standard output, the error that is logged. \<open>serverClosed\<close> recognises
  \<open>http.ErrServerClosed\<close>.\<close>

definition main ::
    "('w, 'n) surroundings \<Rightarrow> (string \<Rightarrow> bool) \<Rightarrow> (('w \<times> api_metrics, 'n) PluginServer \<Rightarrow> URL \<Rightarrow> URL \<Rightarrow> 'n \<Rightarrow> unit res \<times> 'n) \<Rightarrow>
     (err \<Rightarrow> bool) \<Rightarrow> 'n parse_result \<Rightarrow> 'n \<Rightarrow> (nat \<times> string \<times> err option) \<times> 'n" where
  "main env levelOk serveAll serverClosed parsed w =
     (case parsed of
        HelpShown \<Rightarrow> ((0, [], None), w)
      | ParseFailed e \<Rightarrow> ((1, [], Some e), w)
      | Configured c \<Rightarrow>
          if cfg_PrintVersion c then ((0, PrintVersion (env_build env), None), w)
          else (case Run env levelOk serveAll c w of
              (Started _, w') \<Rightarrow> ((0, [], None), w')
            | (Failed e, w') \<Rightarrow> ((0, [], if serverClosed e then None else Some e), w')
            | (Exited n, w') \<Rightarrow> ((n, [], None), w')))"

end
