(* ===== verification/Plugin_Laws.thy ===== *)
theory Plugin_Laws
  imports Plugin Storage_API Node_Laws
begin

text \<open>
  What a started plugin is: the services its mode promises, for one zone, on the API credentials the flags or the environment
  give; and what the process does when it cannot start.
\<close>

section \<open>Starting\<close>

lemma NewPluginServer_Started:
  "NewPluginServer pu addr k n (Some i) = Started s \<longleftrightarrow>
     (\<exists>u. pu addr = Ok u \<and> URL_Scheme u = ''unix'' \<and>
        s = \<lparr>srv_identity = i, srv_controller = k, srv_node = n, srv_listen = u\<rparr>)"
  by (auto simp: NewPluginServer_def and_then_Started)

lemma plugin_controller_Started:
  "plugin_controller env c = Started k \<longleftrightarrow>
     (\<exists>cred. select_credentials (cfg_Username c) (cfg_Password c) (cfg_Token c) = Ok cred \<and> cfg_Zone c \<noteq> [] \<and>
        k = \<lparr>zone = cfg_Zone c, nodeHost = cfg_NodeHost c, maxVolumesPerNode = MaxVolumesPerNode,
             svc = NewInstrumentedService (NewUpCloudService (env_newClient env cred)), storageLabels = upcloudLabels (cfg_Labels c)\<rparr>)"
  by (auto simp: plugin_controller_def plugin_service_def NewUpCloudServiceFromCredentials_def NewController_def and_then_Started
      split: res.splits if_splits)

lemma plugin_node_Started:
  "plugin_node c fs = Started n \<longleftrightarrow> cfg_NodeHost c \<noteq> [] \<and> cfg_Zone c \<noteq> [] \<and>
     n = \<lparr>node_name = cfg_NodeHost c, node_zone = cfg_Zone c, node_maxVolumesPerNode = MaxVolumesPerNode, node_fs = fs\<rparr>"
  by (auto simp: plugin_node_def NewNode_def)

text \<open>A controller on the instrumented API service with the credentials of the configuration.\<close>

definition serves_controller :: "('w, 'n) surroundings \<Rightarrow> 'n Config \<Rightarrow> string \<Rightarrow> ('w \<times> api_metrics) Controller \<Rightarrow> bool" where
  "serves_controller env c z k \<longleftrightarrow>
     (\<exists>cred. (cfg_Token c \<noteq> [] \<and> cred = BearerAuth (cfg_Token c) \<or>
              cfg_Token c = [] \<and> cfg_Username c \<noteq> [] \<and> cfg_Password c \<noteq> [] \<and> cred = BasicAuth (cfg_Username c) (cfg_Password c)) \<and>
        svc k = NewInstrumentedService (NewUpCloudService (env_newClient env cred))) \<and>
     zone k = z \<and> nodeHost k = cfg_NodeHost c \<and> maxVolumesPerNode k = 14 \<and> storageLabels k = upcloudLabels (cfg_Labels c)"

definition serves_node :: "'n Config \<Rightarrow> string \<Rightarrow> 'n Filesystem \<Rightarrow> 'n Node \<Rightarrow> bool" where
  "serves_node c z fs n \<longleftrightarrow> cfg_NodeHost c \<noteq> [] \<and>
     n = \<lparr>node_name = cfg_NodeHost c, node_zone = z, node_maxVolumesPerNode = 14, node_fs = fs\<rparr>"

lemmas started_rules = NewPluginServer_Started plugin_controller_Started plugin_node_Started and_then_Started
  select_credentials_Ok NewControllerPluginServer_def NewNodePluginServer_def newControllerPluginServer_def
  newNodePluginServer_def newMonolithPluginServer_def

lemma newPluginServer_cases:
  assumes "newPluginServer env c w = (Started s, w')"
  obtains c' fs w1 where "plugin_filesystem env c w = (Ok fs, w1)"
    and "resolveConfigZone (env_http env) c metadataRegionEndpoint w1 = (Ok c', w')"
    and "if cfg_Mode c' = DriverModeController then newControllerPluginServer env c' = Started s
         else if cfg_Mode c' = DriverModeNode then newNodePluginServer env c' fs = Started s
         else cfg_Mode c' = DriverModeMonolith \<and> newMonolithPluginServer env c' fs = Started s"
  using assms by (auto simp: newPluginServer_def and_then_Started io_app elim!: call_throw_OkE split: prod.splits if_splits)

lemma resolveConfigZone_Ok:
  assumes "resolveConfigZone h c endpoint w = (Ok c', w')"
  shows "c' = c\<lparr>cfg_Zone := cfg_Zone c'\<rparr> \<and> cfg_Zone c' \<noteq> [] \<and> (cfg_Zone c \<noteq> [] \<longrightarrow> c' = c)"
proof (cases "cfg_Zone c = []")
  case True
  with assms obtain z where "ResolveZone h endpoint w = (Ok z, w')" "c' = c\<lparr>cfg_Zone := z\<rparr>"
    by (auto simp: resolveConfigZone_def io_app elim!: call_OkE)
  with True ResolveZone_Ok show ?thesis by fastforce
next
  case False
  with assms show ?thesis by (auto simp: resolveConfigZone_def io_app)
qed

text \<open>C16. A plugin that starts has the shape its mode promises: it listens on a Unix socket, runs the controller in every mode but
  node and the node service in every mode but controller, both for the same non-empty zone, which is the configured one when
  there is one; the controller runs on the instrumented API service with the token, or else with name and password. No
  other mode starts.\<close>

theorem newPluginServer_shape:
  assumes "newPluginServer env c w = (Started s, w')"
  shows "\<exists>z. z \<noteq> [] \<and> (cfg_Zone c \<noteq> [] \<longrightarrow> z = cfg_Zone c) \<and> URL_Scheme (srv_listen s) = ''unix'' \<and>
    srv_identity s = \<lparr>driverName = cfg_DriverName c, driverVersion = build_version (env_build env), ready = True\<rparr> \<and>
    (cfg_Mode c = ''controller'' \<and> srv_node s = None \<and> (\<exists>k. srv_controller s = Some k \<and> serves_controller env c z k) \<or>
     cfg_Mode c = ''node'' \<and> srv_controller s = None \<and> (\<exists>n fs. srv_node s = Some n \<and> serves_node c z fs n) \<or>
     cfg_Mode c = ''monolith'' \<and> (\<exists>k. srv_controller s = Some k \<and> serves_controller env c z k) \<and>
       (\<exists>n fs. srv_node s = Some n \<and> serves_node c z fs n))"
proof -
  obtain c' fs w1 where z: "resolveConfigZone (env_http env) c metadataRegionEndpoint w1 = (Ok c', w')"
    and m: "if cfg_Mode c' = DriverModeController then newControllerPluginServer env c' = Started s
         else if cfg_Mode c' = DriverModeNode then newNodePluginServer env c' fs = Started s
         else cfg_Mode c' = DriverModeMonolith \<and> newMonolithPluginServer env c' fs = Started s"
    using newPluginServer_cases [OF assms] by metis
  from resolveConfigZone_Ok [OF z] obtain y where c': "c' = c\<lparr>cfg_Zone := y\<rparr>" "y \<noteq> []" "cfg_Zone c \<noteq> [] \<longrightarrow> y = cfg_Zone c"
    by (metis Config.select_convs(2) Config.surjective Config.update_convs(2))
  show ?thesis
    using m c'(2,3) unfolding c'(1)
    by (intro exI [of _ y])
      (auto simp: started_rules mode_defs serves_controller_def serves_node_def plugin_identity_def NewIdentity_def
        GetVersion_def MaxVolumesPerNode_def split: if_splits)
qed

text \<open>A plugin in controller mode on a Linux system with its tools: the token comes from a flag, the zone from the metadata.\<close>

definition sample_surroundings :: "(sample_world, string \<Rightarrow> string option) surroundings" where
  "sample_surroundings =
     \<lparr>env_parseURL = (\<lambda>s. Ok \<lparr>URL_Scheme = ''unix'', URL_Host = [], URL_Path = s\<rparr>), env_newClient = (\<lambda>_. Sample_Client),
      env_os = mtab_os, env_polls = 30,
      env_http = \<lparr>http_NewRequest = (\<lambda>_. Ok ()),
        http_Do = (\<lambda>_. ret \<lparr>http_StatusCode = 200, http_Body = ''fi-hel1'' @ [CHR 0x0A], http_BodyError = None\<rparr>)\<rparr>,
      env_build = \<lparr>build_version = ''1'', build_commit = [], build_gitTreeState = ''clean''\<rparr>\<rparr>"

definition sample_flags :: "string \<Rightarrow> flag_value option" where
  "sample_flags = [''mode'' \<mapsto> FlagString ''controller'', ''token'' \<mapsto> FlagString ''secret'']"

definition sample_config :: "(string \<Rightarrow> string option) Config" where
  "sample_config = config_of (\<lambda>_. []) sample_flags"

lemma sample_config_simps:
  "cfg_Zone sample_config = []" "cfg_Mode sample_config = ''controller''" "cfg_Token sample_config = ''secret''"
  "cfg_Filesystem sample_config = None" "cfg_FilesystemTypes sample_config = [''ext3'', ''ext4'', ''xfs'']"
  "cfg_Username sample_config = []" "cfg_Password sample_config = []"
  by (simp_all add: sample_config_def config_of_def sample_flags_def flag_defs)

lemma sample_zone:
  "cfg_Zone c = [] \<Longrightarrow> resolveConfigZone (env_http sample_surroundings) c e w = (Ok (c\<lparr>cfg_Zone := ''fi-hel1''\<rparr>), w)"
  by (simp add: resolveConfigZone_def sample_surroundings_def ResolveZone_def ReadAll_limited_def
      TrimSpace_def is_space_def call_def io_app)

lemma sample_filesystem:
  assumes "cfg_Filesystem c = None"
  shows "\<exists>fs. plugin_filesystem sample_surroundings c w = (Ok fs, w)"
proof -
  have tools: "checkToolsExists mtab_os ts w = (Ok (), w)" for ts
    by (induction ts) (simp_all add: mtab_os_def look_path_def io_app)
  show ?thesis
    using tools assms by (simp add: plugin_filesystem_def NewLinuxFilesystem_def sample_surroundings_def)
qed

lemma sample_started:
  "\<exists>s k. newPluginServer sample_surroundings sample_config w = (Started s, w) \<and> srv_controller s = Some k"
proof -
  obtain fs where fs: "plugin_filesystem sample_surroundings sample_config w = (Ok fs, w)" using sample_filesystem [OF sample_config_simps(4)] by blast
  have "\<exists>s k. newControllerPluginServer sample_surroundings (sample_config\<lparr>cfg_Zone := ''fi-hel1''\<rparr>) = Started s \<and>
      srv_controller s = Some k"
    by (simp add: started_rules sample_config_simps) (simp add: sample_surroundings_def)
  with fs sample_zone [OF sample_config_simps(1), of metadataRegionEndpoint w] show ?thesis
    by (auto simp: newPluginServer_def call_Ok io_app and_then_def sample_config_simps mode_defs)
qed

theorem newPluginServer_shape_witness:
  "\<exists>s k. newPluginServer sample_surroundings sample_config Map.empty = (Started s, Map.empty) \<and>
     srv_controller s = Some k \<and> srv_node s = None \<and> zone k \<noteq> []"
proof -
  obtain s where s: "newPluginServer sample_surroundings sample_config Map.empty = (Started s, Map.empty)"
    using sample_started by blast
  from newPluginServer_shape [OF s] s show ?thesis
    by (auto simp: sample_config_simps serves_controller_def)
qed

text \<open>C26. From the command line to the API client: a plugin started on parsed flags runs its controller with the token of the flags,
  or else of the environment, and only without one with the user name and the password, each from the flags or else from the
  environment; its zone is the trimmed answer of the instance metadata, since no flag sets it.\<close>

theorem started_from_flags:
  assumes "pf args = Parsed f" and "Parse pf getenv args = Configured c"
    and run: "newPluginServer env c w = (Started s, w')" and k: "srv_controller s = Some k"
  shows "\<exists>resp w1. http_Do (env_http env) metadataRegionEndpoint w1 = (Ok resp, w') \<and>
    zone k = TrimSpace (take 64 (http_Body resp)) \<and>
    (let var = (\<lambda>flag name. if StringVar f flag [] = [] then getenv name else StringVar f flag []);
         token = var ''token'' ''UPCLOUD_TOKEN'' in
     svc k = NewInstrumentedService (NewUpCloudService (env_newClient env
       (if token \<noteq> [] then BearerAuth token
        else BasicAuth (var ''username'' ''UPCLOUD_USERNAME'') (var ''password'' ''UPCLOUD_PASSWORD'')))))"
proof -
  have c: "c = config_of getenv f" using assms(1,2) by (simp add: Parse_def)
  obtain c' fs w1 where z: "resolveConfigZone (env_http env) c metadataRegionEndpoint w1 = (Ok c', w')"
    and m: "if cfg_Mode c' = DriverModeController then newControllerPluginServer env c' = Started s
         else if cfg_Mode c' = DriverModeNode then newNodePluginServer env c' fs = Started s
         else cfg_Mode c' = DriverModeMonolith \<and> newMonolithPluginServer env c' fs = Started s"
    using newPluginServer_cases [OF run] by metis
  have "cfg_Zone c = []" by (simp add: c config_of_def Let_def)
  with z obtain y where y: "ResolveZone (env_http env) metadataRegionEndpoint w1 = (Ok y, w')" and c': "c' = c\<lparr>cfg_Zone := y\<rparr>"
    by (auto simp: resolveConfigZone_def io_app elim!: call_OkE)
  have "zone k = y \<and> (\<exists>cred. select_credentials (cfg_Username c) (cfg_Password c) (cfg_Token c) = Ok cred \<and>
      svc k = NewInstrumentedService (NewUpCloudService (env_newClient env cred)))"
    using m k unfolding c' by (auto simp: started_rules mode_defs split: if_splits)
  moreover obtain resp where "http_Do (env_http env) metadataRegionEndpoint w1 = (Ok resp, w')"
      "y = TrimSpace (take 64 (http_Body resp))"
    using ResolveZone_Ok [OF y] by blast
  ultimately show ?thesis
    by (intro exI [of _ resp] exI [of _ w1]) (auto simp: c config_of_def select_credentials_Ok Let_def)
qed

theorem started_from_flags_witness:
  "\<exists>s k. newPluginServer sample_surroundings sample_config Map.empty = (Started s, Map.empty) \<and> srv_controller s = Some k \<and>
     zone k = ''fi-hel1'' \<and> svc k = NewInstrumentedService (NewUpCloudService (env_newClient sample_surroundings (BearerAuth ''secret'')))"
proof -
  obtain s k where s: "newPluginServer sample_surroundings sample_config Map.empty = (Started s, Map.empty)"
    and k: "srv_controller s = Some k"
    using sample_started by blast
  have "Parse (\<lambda>_. Parsed sample_flags) (\<lambda>_. []) [] = Configured sample_config" by (simp add: Parse_def sample_config_def)
  from started_from_flags [OF _ this s k] s k show ?thesis
    by (auto simp: sample_flags_def flag_defs sample_surroundings_def io_app TrimSpace_def is_space_def Let_def)
qed

section \<open>Not starting\<close>

lemma no_credentials:
  assumes "cfg_Username c = []" "cfg_Password c = []" "cfg_Token c = []"
  shows "plugin_controller env c = Failed (Errorf ''UpCloud API credentials missing'')"
  using assms by (simp add: plugin_controller_def plugin_service_def NewUpCloudServiceFromCredentials_def select_credentials_def
      and_then_def)

lemma no_credentials_server:
  assumes "plugin_filesystem env c w = (Ok fs, w1)"
    and "resolveConfigZone (env_http env) c metadataRegionEndpoint w1 = (Ok c', w2)"
    and "cfg_Mode c = DriverModeController \<or> cfg_Mode c = DriverModeMonolith"
    and "cfg_Username c = []" "cfg_Password c = []" "cfg_Token c = []"
  shows "newPluginServer env c w = (Failed (Errorf ''UpCloud API credentials missing''), w2)"
proof -
  have "cfg_Mode c' = cfg_Mode c \<and> cfg_Username c' = [] \<and> cfg_Password c' = [] \<and> cfg_Token c' = []"
    using resolveConfigZone_Ok [OF assms(2)] assms(4-6) by (metis Config.surjective Config.update_convs(2) Config.select_convs)
  with assms(3) have "plugin_controller env c' = Failed (Errorf ''UpCloud API credentials missing'')"
      "cfg_Mode c' = DriverModeController \<or> cfg_Mode c' = DriverModeMonolith"
    by (simp_all add: no_credentials)
  then show ?thesis
    using assms(1,2) by (auto simp: newPluginServer_def call_Ok io_app and_then_def newControllerPluginServer_def
        newMonolithPluginServer_def mode_defs)
qed



end
