(* ===== verification/Servers.thy ===== *)
theory Servers
  imports Plugin Server_Metrics
begin

text \<open>
  The servers of the process (\<open>internal/server\<close>): the gRPC server with its Unix socket (\<open>plugin.go\<close>), the health and metrics HTTP
  servers (\<open>health.go\<close>, \<open>metrics.go\<close>), and the group that runs them until a signal stops them (\<open>server.go\<close>). Listening, serving and
  closing are the Go libraries', given as arguments. The group is a step relation over the states of the servers, the error
  group and the goroutine that waits for a signal.
\<close>

section \<open>One server\<close>

record 'w network =
  net_Listen :: "string \<Rightarrow> string \<Rightarrow> (unit, 'w) io"
  grpc_Serve :: "(unit, 'w) io"
  grpc_GracefulStop :: "(unit, 'w) io"
  http_Serve :: "(unit, 'w) io"
  http_Close :: "(unit, 'w) io"

definition cleanUpSocket :: "(err \<Rightarrow> bool) \<Rightarrow> 'w os \<Rightarrow> string \<Rightarrow> (unit, 'w) io" where
  "cleanUpSocket isNotExist os socketPath =
     stat os socketPath (\<lambda>r. if r = StatNotExist then ret ()
       else call (os_Remove os socketPath)
         (\<lambda>e. if \<not> isNotExist e then throw (Wrapped ''failed to remove unix domain socket file'' e) else ret ()) ret)"

definition PluginServer_Run :: "(err \<Rightarrow> bool) \<Rightarrow> 'w os \<Rightarrow> 'w network \<Rightarrow> ('c, 'n) PluginServer \<Rightarrow> (unit, 'w) io" where
  "PluginServer_Run isNotExist os net s =
     call (cleanUpSocket isNotExist os (URL_Path (srv_listen s))) throw (\<lambda>_.
     call (net_Listen net (URL_Scheme (srv_listen s)) (URL_Path (srv_listen s)))
       (\<lambda>e. throw (Wrapped ''failed to listen'' e)) (\<lambda>_.
     grpc_Serve net))"

text \<open>An error of the removal is only logged.\<close>

definition PluginServer_Stop :: "(err \<Rightarrow> bool) \<Rightarrow> 'w os \<Rightarrow> 'w network \<Rightarrow> ('c, 'n) PluginServer \<Rightarrow> (unit, 'w) io" where
  "PluginServer_Stop isNotExist os net s =
     call (grpc_GracefulStop net) (\<lambda>_. ret ()) (\<lambda>_.
     call (cleanUpSocket isNotExist os (URL_Path (srv_listen s))) (\<lambda>_. ret ()) ret)"

text \<open>The metrics server registers the collectors when its URL parses.\<close>

definition NewMetricsServer ::
    "(string \<Rightarrow> URL res) \<Rightarrow> (string \<Rightarrow> (unit, 'r) io) \<Rightarrow> 'r \<Rightarrow> string \<Rightarrow> (URL, 'r metrics_vars) io" where
  "NewMetricsServer parseURL mustRegister newRegistry addr =
     (case parseURL addr of
        Err e \<Rightarrow> throw e
      | Panic \<Rightarrow> panic
      | Ok listen \<Rightarrow> call (initMetrics mustRegister newRegistry) throw (\<lambda>_. ret listen))"

definition HealthServer_Run :: "'w network \<Rightarrow> URL \<Rightarrow> (unit, 'w) io" where
  "HealthServer_Run net listen =
     call (net_Listen net (URL_Scheme listen) (URL_Host listen)) (\<lambda>e. throw (Wrapped ''failed to listen'' e)) (\<lambda>_.
       http_Serve net)"

definition HealthServer_Stop :: "'w network \<Rightarrow> (unit, 'w) io" where
  "HealthServer_Stop net = call (http_Close net) (\<lambda>_. ret ()) ret"

definition MetricsServer_Run :: "'w network \<Rightarrow> URL \<Rightarrow> (unit, 'w) io" where
  "MetricsServer_Run net listen =
     call (net_Listen net (URL_Scheme listen) (URL_Host listen)) (\<lambda>e. throw (Wrapped ''failed to listen'' e)) (\<lambda>_.
       http_Serve net)"

definition MetricsServer_Stop :: "'w network \<Rightarrow> (unit, 'w) io" where
  "MetricsServer_Stop net = call (http_Close net) (\<lambda>_. ret ()) ret"

text \<open>The services a plugin server answers for.\<close>

datatype csi_service = IdentityService | ControllerService | NodeService

definition GetServiceInfo :: "('c, 'n) PluginServer \<Rightarrow> csi_service set" where
  "GetServiceInfo s = {IdentityService} \<union> (if srv_controller s = None then {} else {ControllerService}) \<union>
     (if srv_node s = None then {} else {NodeService})"

text \<open>The health server's multiplexer: its one handler answers 200 to every request, other paths are not found.\<close>

definition healthHandlerFn :: "string \<Rightarrow> int" where
  "healthHandlerFn req = 200"

definition health_response :: "string \<Rightarrow> int" where
  "health_response path = (if path = ''/health'' then healthHandlerFn path else 404)"

text \<open>What the socket clean-up relies on: \<open>os.Stat\<close> tells a missing file, a removal that succeeds or reports a missing file leaves none.\<close>

definition removes_files :: "(err \<Rightarrow> bool) \<Rightarrow> 'w os \<Rightarrow> ('w \<Rightarrow> string \<Rightarrow> bool) \<Rightarrow> bool" where
  "removes_files isNotExist os there \<longleftrightarrow>
     (\<forall>p w w'. os_Stat os p w = (StatNotExist, w') \<longrightarrow> \<not> there w' p) \<and>
     (\<forall>p w w'. os_Remove os p w = (Ok (), w') \<longrightarrow> \<not> there w' p) \<and>
     (\<forall>p w e w'. os_Remove os p w = (Err e, w') \<longrightarrow> isNotExist e \<longrightarrow> \<not> there w' p)"

lemma cleanUpSocket_removes:
  assumes "removes_files isNotExist os there" and "cleanUpSocket isNotExist os p w = (Ok (), w')"
  shows "\<not> there w' p"
  using assms unfolding removes_files_def
  by (auto simp: cleanUpSocket_def stat_def io_defs split: prod.splits if_splits res.splits)

text \<open>The server never listens on a stale socket: when it starts listening the file of an earlier run is gone.\<close>

lemma PluginServer_Run_listens_fresh:
  assumes "removes_files isNotExist os there" and "PluginServer_Run isNotExist os net s w = (Ok (), w')"
  shows "\<exists>w1 w2. \<not> there w1 (URL_Path (srv_listen s)) \<and>
    net_Listen net (URL_Scheme (srv_listen s)) (URL_Path (srv_listen s)) w1 = (Ok (), w2) \<and> grpc_Serve net w2 = (Ok (), w')"
  using assms(2) unfolding PluginServer_Run_def
  by (auto simp: io_app elim!: call_throw_OkE call_OkE) (metis cleanUpSocket_removes [OF assms(1)])

section \<open>The group\<close>

datatype server_status = Pending | Running | Returned "err option"

text \<open>The goroutine of \<open>listenSyscalls\<close>: waiting for a signal, about to stop server \<open>i\<close>, at its end.\<close>

datatype signal_pc = Waiting | Stopping nat | Ended

text \<open>\<open>group_log\<close> is the order in which servers returned, for the statement of the properties.\<close>

record server_group =
  group_status :: "nat \<Rightarrow> server_status"
  group_err :: "err option"
  group_signal :: signal_pc
  group_stopped :: "nat set"
  group_result :: "err option option"
  group_log :: "err option list"

definition group_initial :: server_group where
  "group_initial = \<lparr>group_status = (\<lambda>_. Pending), group_err = None, group_signal = Waiting, group_stopped = {},
     group_result = None, group_log = []\<rparr>"

text \<open>The steps of \<open>Run\<close> with \<open>n\<close> servers. A running server may return at any time, with or without an error; the group keeps the
  first error; \<open>Wait\<close> returns when all have returned.\<close>

inductive group_step :: "nat \<Rightarrow> server_group \<Rightarrow> server_group \<Rightarrow> bool" for n where
  run: "i < n \<Longrightarrow> group_status s i = Pending \<Longrightarrow>
     group_step n s (s\<lparr>group_status := (group_status s)(i := Running)\<rparr>)"
| returns: "i < n \<Longrightarrow> group_status s i = Running \<Longrightarrow>
     group_step n s (s\<lparr>group_status := (group_status s)(i := Returned r),
       group_err := (case group_err s of Some e \<Rightarrow> Some e | None \<Rightarrow> r), group_log := group_log s @ [r]\<rparr>)"
| signal: "group_signal s = Waiting \<Longrightarrow> group_step n s (s\<lparr>group_signal := Stopping 0\<rparr>)"
| stop: "group_signal s = Stopping i \<Longrightarrow> i < n \<Longrightarrow>
     group_step n s (s\<lparr>group_signal := Stopping (Suc i), group_stopped := insert i (group_stopped s)\<rparr>)"
| close: "group_signal s = Stopping n \<Longrightarrow> group_step n s (s\<lparr>group_signal := Ended\<rparr>)"
| wait: "group_result s = None \<Longrightarrow> \<forall>i < n. \<exists>r. group_status s i = Returned r \<Longrightarrow>
     group_step n s (s\<lparr>group_result := Some (group_err s)\<rparr>)"

inductive group_reach :: "nat \<Rightarrow> server_group \<Rightarrow> bool" for n where
  init: "group_reach n group_initial"
| step: "group_reach n s \<Longrightarrow> group_step n s s' \<Longrightarrow> group_reach n s'"

text \<open>The first error among the results, in their order.\<close>

fun first_error :: "err option list \<Rightarrow> err option" where
  "first_error [] = None"
| "first_error (Some e # rs) = Some e"
| "first_error (None # rs) = first_error rs"

lemma first_error_append: "first_error (rs @ [r]) = (case first_error rs of Some e \<Rightarrow> Some e | None \<Rightarrow> r)"
  by (induction rs rule: first_error.induct) (cases r; auto)+

fun stopped_so_far :: "nat \<Rightarrow> signal_pc \<Rightarrow> nat set" where
  "stopped_so_far n Waiting = {}"
| "stopped_so_far n (Stopping i) = {..<i}"
| "stopped_so_far n Ended = {..<n}"

definition group_inv :: "nat \<Rightarrow> server_group \<Rightarrow> bool" where
  "group_inv n s \<longleftrightarrow> group_err s = first_error (group_log s) \<and>
     group_stopped s = stopped_so_far n (group_signal s) \<and> (\<forall>i. group_signal s = Stopping i \<longrightarrow> i \<le> n) \<and>
     (\<forall>r. group_result s = Some r \<longrightarrow> r = group_err s \<and> (\<forall>i < n. \<exists>x. group_status s i = Returned x))"

lemma group_step_inv: "group_step n s s' \<Longrightarrow> group_inv n s \<Longrightarrow> group_inv n s'"
proof (induction rule: group_step.induct)
  case (run i s)
  then have "group_result s = None" by (cases "group_result s") (auto simp: group_inv_def)
  with run show ?case by (auto simp: group_inv_def)
next
  case (returns i s r)
  then have "group_result s = None" by (cases "group_result s") (auto simp: group_inv_def)
  with returns show ?case by (auto simp: group_inv_def first_error_append split: option.splits)
qed (auto simp: group_inv_def lessThan_Suc)

lemma group_reach_inv: "group_reach n s \<Longrightarrow> group_inv n s"
proof (induction rule: group_reach.induct)
  case init
  show ?case by (simp add: group_inv_def group_initial_def)
next
  case (step s s')
  then show ?case by (blast intro: group_step_inv)
qed

text \<open>The steps a state still allows.\<close>

fun status_rank :: "server_status \<Rightarrow> nat" where
  "status_rank Pending = 2"
| "status_rank Running = 1"
| "status_rank (Returned _) = 0"

fun signal_rank :: "nat \<Rightarrow> signal_pc \<Rightarrow> nat" where
  "signal_rank n Waiting = n + 3"
| "signal_rank n (Stopping i) = n + 2 - i"
| "signal_rank n Ended = 0"

definition group_rank :: "nat \<Rightarrow> server_group \<Rightarrow> nat" where
  "group_rank n s = (\<Sum>i<n. status_rank (group_status s i)) + signal_rank n (group_signal s) +
     (if group_result s = None then 1 else 0)"

lemma status_rank_upd:
  assumes "(i::nat) < n"
  shows "(\<Sum>j<n. status_rank ((f(i := y)) j)) + status_rank (f i) = (\<Sum>j<n. status_rank (f j)) + status_rank y"
proof -
  have i: "i \<in> {..<n}" using assms by simp
  have "(\<Sum>j\<in>{..<n} - {i}. status_rank ((f(i := y)) j)) = (\<Sum>j\<in>{..<n} - {i}. status_rank (f j))" by (rule sum.cong) auto
  then show ?thesis
    using sum.remove [of "{..<n}" i "\<lambda>j. status_rank ((f(i := y)) j)"] sum.remove [of "{..<n}" i "\<lambda>j. status_rank (f j)"] i by simp
qed

lemma group_step_rank: "group_step n s s' \<Longrightarrow> group_rank n s' < group_rank n s"
proof (induction rule: group_step.induct)
  case (run i s)
  with status_rank_upd [of i n "group_status s" Running] show ?case by (simp add: group_rank_def)
next
  case (returns i s r)
  with status_rank_upd [of i n "group_status s" "Returned r"] show ?case by (simp add: group_rank_def)
qed (simp_all add: group_rank_def)

lemma group_step_terminates: "wfP (\<lambda>s' s. group_step n s s')"
  by (rule wfp_if_convertible_to_nat [of _ "group_rank n"]) (rule group_step_rank)

text \<open>A settled state: every goroutine of the group has gone as far as it can, and the servers that were told to stop have
  returned.\<close>

definition settled :: "nat \<Rightarrow> server_group \<Rightarrow> bool" where
  "settled n s \<longleftrightarrow> (\<forall>i < n. group_status s i \<noteq> Pending) \<and> (\<forall>i \<in> group_stopped s. group_status s i \<noteq> Running) \<and>
     (\<forall>i. group_signal s = Stopping i \<longrightarrow> \<not> i < n \<and> i \<noteq> n) \<and>
     (group_result s = None \<longrightarrow> (\<exists>i < n. \<forall>r. group_status s i \<noteq> Returned r))"

lemma settled_returns:
  assumes "group_inv n s" and "settled n s" and "group_signal s \<noteq> Waiting"
  shows "group_result s \<noteq> None"
proof
  assume "group_result s = None"
  with assms(2) obtain i where i: "i < n" "\<And>r. group_status s i \<noteq> Returned r" by (auto simp: settled_def)
  have "group_signal s = Ended"
    using assms by (cases "group_signal s") (auto simp: group_inv_def settled_def)
  with assms(1) i(1) have "i \<in> group_stopped s" by (simp add: group_inv_def)
  with assms(2) i show False by (cases "group_status s i") (auto simp: settled_def)
qed


text \<open>One server that a signal stops.\<close>

definition one_stopped :: server_group where
  "one_stopped = \<lparr>group_status = (\<lambda>_. Pending)(0 := Returned (Some (Errorf ''closed''))), group_err = Some (Errorf ''closed''),
     group_signal = Ended, group_stopped = {0}, group_result = Some (Some (Errorf ''closed'')),
     group_log = [Some (Errorf ''closed'')]\<rparr>"

lemma one_stopped_reach: "group_reach (Suc 0) one_stopped"
proof -
  let ?s1 = "group_initial\<lparr>group_status := (group_status group_initial)(0 := Running)\<rparr>"
  let ?s2 = "?s1\<lparr>group_signal := Stopping 0\<rparr>"
  let ?s3 = "?s2\<lparr>group_signal := Stopping (Suc 0), group_stopped := insert 0 (group_stopped ?s2)\<rparr>"
  let ?s4 = "?s3\<lparr>group_status := (group_status ?s3)(0 := Returned (Some (Errorf ''closed''))),
    group_err := (case group_err ?s3 of Some e \<Rightarrow> Some e | None \<Rightarrow> Some (Errorf ''closed'')), group_log := group_log ?s3 @ [Some (Errorf ''closed'')]\<rparr>"
  let ?s5 = "?s4\<lparr>group_signal := Ended\<rparr>"
  let ?s6 = "?s5\<lparr>group_result := Some (group_err ?s5)\<rparr>"
  have "group_step (Suc 0) group_initial ?s1" by (rule group_step.run) (simp_all add: group_initial_def)
  moreover have "group_step (Suc 0) ?s1 ?s2" by (rule group_step.signal) (simp add: group_initial_def)
  moreover have "group_step (Suc 0) ?s2 ?s3" by (rule group_step.stop) simp_all
  moreover have "group_step (Suc 0) ?s3 ?s4" by (rule group_step.returns) simp_all
  moreover have "group_step (Suc 0) ?s4 ?s5" by (rule group_step.close) simp
  moreover have "group_step (Suc 0) ?s5 ?s6" by (rule group_step.wait) (simp_all add: group_initial_def)
  ultimately have "group_reach (Suc 0) ?s6" by (meson group_reach.init group_reach.step)
  then show ?thesis by (simp add: one_stopped_def group_initial_def)
qed


end
