(* ===== verification/Spec2Isabelle.thy ===== *)
theory Spec2Isabelle
  imports Controller_Attach Controller_Refinement Controller_Volumes Controller_Files Node_Sync Linux_Laws Node_Laws
    Mock_Filesystem Mock_Client Request_Path Plugin_Laws Servers
begin

text \<open>
  A verification of the UpCloud CSI driver, the storage plugin that lets Kubernetes use UpCloud block and file storages as
  volumes. Paths below are relative to the root of the repository.

  \<^bold>\<open>The program.\<close> One process (\<open>cmd/upcloud-csi-plugin/main.go\<close>) reads its flags and environment
  (\<open>internal/plugin/config\<close>) and assembles, by its mode, a gRPC server on a Unix socket with up to three CSI services
  (\<open>internal/plugin/plugin.go\<close>): identity, controller and node. Every request passes two interceptors, the Prometheus metrics
  (\<open>internal/server/metrics.go\<close>) around the logging middleware (\<open>internal/logger\<close>). The controller
  (\<open>internal/controller\<close>) provisions, attaches, expands and snapshots volumes through the interface \<open>Service\<close>
  (\<open>internal/service/service.go\<close>), whose provider is the API-backed \<open>UpCloudService\<close> inside the wrapper
  \<open>instrumentedService\<close>. The node service (\<open>internal/node\<close>) stages and publishes volumes through the interface
  \<open>Filesystem\<close> (\<open>internal/filesystem\<close>), whose provider runs the commands of a Linux system. Beside the gRPC server run a
  health and a metrics HTTP server (\<open>internal/server\<close>).

  \<^bold>\<open>How Go is modelled.\<close> A call is a function from a world to a result and a world (\<open>Prelude\<close>, type \<open>io\<close>): the
  result is a value (\<open>Ok\<close>), an error value (\<open>Err\<close>) or a runtime panic (\<open>Panic\<close>), and effects made before a failure stay.
  \<open>call m h k\<close> is a call with its \<open>if err != nil\<close>. Errors are a datatype with Go's \<open>errors.Is\<close> and
  \<open>errors.As\<close>; integers that may overflow are \<open>int\<close> with the wrap-around of \<open>int64\<close> written out (\<open>i64\<close>, \<open>sdiv\<close>); slices, strings,
  \<open>strconv\<close> and \<open>path\<close> functions are in \<open>Go_Lib\<close> and \<open>Go_Path\<close>, \<open>encoding/json\<close> in \<open>Go_Json\<close>. Names are those of the
  source; fields carry the name of their struct.

  \<^bold>\<open>Theories and sources.\<close>
  \<^item> \<open>Cloud_Types\<close>, \<open>CSI_Types\<close>: the messages of the API and of CSI that the driver uses, the client interface
    \<open>upCloudClient\<close> (\<open>upcloud_service.go\<close>).
  \<^item> \<open>Service_Iface\<close>: \<open>service.go\<close>, with the locales \<open>service_errors\<close> (what is missing is reported by a sentinel) and
    \<open>service_wrapper\<close>. \<open>UpCloud_Service\<close>: \<open>upcloud_block_storage.go\<close>, \<open>upcloud_file_storage.go\<close> and
    \<open>upcloud_service.go\<close>, on any client. \<open>Metrics_Service\<close>: \<open>metrics.go\<close>. \<open>Mock_Client\<close>: the client of the unit tests
    (\<open>mock/upcloud_client.go\<close>).
  \<^item> \<open>Node_Sync\<close>: the locking of \<open>AttachBlockStorage\<close> and \<open>DetachBlockStorage\<close> by server, as a step relation of goroutines over
    the registry of mutexes, one step for each API request.
  \<^item> \<open>Controller_Utils\<close>, \<open>Controller\<close>: the controller package, handler by handler, with \<open>serve\<close>, the dispatch of its
    requests.
  \<^item> \<open>Filesystem_Iface\<close>: \<open>filesystem.go\<close> and what the driver calls of the operating system (record \<open>os\<close>).
    \<open>Linux_Filesystem\<close>: \<open>linux_filesystem.go\<close> and \<open>linux_utils.go\<close>, command by command. \<open>Mock_Filesystem\<close>: the filesystem of the unit
    tests. \<open>Node_Server\<close>: \<open>node.go\<close>.
  \<^item> \<open>Logger\<close>: \<open>logger.go\<close>. \<open>Server_Metrics\<close>: the interceptor and the registration of \<open>server/metrics.go\<close>, and the interceptor as
    a step relation of concurrent requests. \<open>Request_Path\<close>: the interceptor chain of \<open>NewPluginServer\<close>, the locales
    \<open>interceptor\<close> and \<open>interceptor_chain\<close>, the dispatch of the node service.
  \<^item> \<open>Plugin_Config\<close>: \<open>config.go\<close>, credentials, \<open>zone.go\<close>. \<open>Identity\<close>: \<open>identity.go\<close>, \<open>version.go\<close>. \<open>Plugin\<close>: \<open>plugin.go\<close>, the
    constructors of \<open>server/plugin.go\<close>, \<open>main.go\<close>. \<open>Servers\<close>: \<open>server.go\<close>, \<open>health.go\<close> and the rest of the server package; the group of
    servers is a step relation.

  \<^bold>\<open>What is proved.\<close>
  \<^item> \<open>Controller_Lifecycle\<close>, \<open>Controller_Volumes\<close>, \<open>Controller_Files\<close>: what \<open>CreateVolume\<close>, \<open>DeleteVolume\<close>,
    \<open>ControllerExpandVolume\<close> and the snapshot handlers leave behind and answer, and what a retry answers, for block and file
    storages; the complete enumeration of \<open>ListVolumes\<close> by its tokens; the answers for volumes that do not exist; the panics.
    \<open>Controller_Capacity\<close> and \<open>Controller_Pages\<close> have the lemmas on sizes and pages.
  \<^item> \<open>Controller_Attach\<close>: no volume is ever attached to two servers, over any sequence of requests; detaching from all
    servers. \<open>Node_Sync\<close>: mutual exclusion by server, absence of deadlock, and that a body run alone is the service's operation.
  \<^item> \<open>Controller_Refinement\<close>, \<open>Controller_Frame\<close>, \<open>Request_Path\<close> and this theory: the wrappers are transparent (a
    simulation), their metrics stay consistent, the correlation identifier of a request reaches the node.
  \<^item> \<open>Linux_Laws\<close>, \<open>Node_Laws\<close>: formatting touches one partition only, staging and publishing are idempotent and undone by
    their counterparts, never over a mounted path; findmnt's answer is read back; parsing and statistics.
  \<^item> \<open>Server_Metrics\<close>, \<open>Servers\<close>, \<open>Plugin_Laws\<close>: gauge and counters of concurrent requests; when the group of servers
    returns; which plugin starts from which flags and environment, and what happens without credentials.

  \<^bold>\<open>What is assumed.\<close> Code outside the repository is an argument: the API client (contracts \<open>storage_api\<close>, \<open>attach_api\<close>, \<open>detach_api\<close>,
  \<open>file_api\<close>, each with an in-memory client that satisfies it), the UUID parser, the operating system and its commands (contracts in
  \<open>Linux_Laws\<close> and \<open>Node_Laws\<close>, with a system that satisfies them), the HTTP client, the flag library, the URL parser, the Prometheus
  registry, listening and serving, random bytes. Contracts are hypotheses of the properties that need them.

  \<^bold>\<open>Bounds.\<close> \<open>collect\<close> follows page tokens with fuel one more than the number of volumes, which is proved enough. \<open>parse_json\<close>
  has fuel twice the length of the text and two, and \<open>parse_value_fuel\<close> shows that more changes nothing. The poll for a disk takes the
  number of rounds the clock grants as an argument. The bodies of \<open>Node_Sync\<close> make at most four requests.

  \<^bold>\<open>Not modelled.\<close> Texts of error messages and log messages; durations, deadlines and cancellation of contexts; helpers that only
  build such texts (\<open>displayByteString\<close>, \<open>formatCmdError\<close>); the canned answers of \<open>UpCloudServiceMock\<close>
  (\<open>internal/service/mock/service.go\<close>); the end-to-end tests (\<open>test/e2e\<close>), which drive a real cluster. HTTP and gRPC themselves
  are the libraries'.
\<close>

section \<open>Properties that span components\<close>

text \<open>C24. Over any sequence of controller requests on the instrumented service the request counters never decrease,
  and the number of observed durations of each method stays the number of its counted requests.\<close>

theorem metrics_stay_consistent:
  assumes "reaches up (on_service (NewInstrumentedService sv) c) v v'" and "metrics_consistent (snd v)"
  shows "metrics_consistent (snd v') \<and> (\<forall>m res. requests (snd v) m res \<le> requests (snd v') m res)"
proof -
  have "metrics_kept v v'"
    using assms(1)
  proof (induction rule: reaches.induct)
    case (start w)
    show ?case by (rule reflpD [OF metrics_kept_refl])
  next
    case (step w w' r x w'')
    have "metrics_kept w' w''" by (rule io_relD [OF metrics_frame.frame_serve step.hyps(2)])
    with step.IH show ?case using metrics_kept_trans by (blast dest: transpD)
  qed
  with assms(2) show ?thesis by (simp add: metrics_kept_def)
qed

definition zero_metrics :: api_metrics where
  "zero_metrics = \<lparr>requests = (\<lambda>_ _. 0), observations = (\<lambda>_. 0)\<rparr>"

theorem metrics_stay_consistent_witness:
  "metrics_consistent (snd (snd (serve (\<lambda>_. True) (on_service (NewInstrumentedService (svc sample_controller)) sample_controller)
      (DeleteVolumeReq ''01'') (sample_empty, zero_metrics))))"
proof -
  let ?c = "on_service (NewInstrumentedService (svc sample_controller)) sample_controller"
  let ?v = "serve (\<lambda>_. True) ?c (DeleteVolumeReq ''01'') (sample_empty, zero_metrics)"
  have "reaches (\<lambda>_. True) ?c (sample_empty, zero_metrics) (snd ?v)"
    by (rule reaches.step [OF reaches.start]) (rule prod.collapse [symmetric])
  from metrics_stay_consistent [OF this] show ?thesis
    by (simp add: metrics_consistent_def zero_metrics_def)
qed

text \<open>C25. The error contract the controller relies on, for the service the plugin builds on any API client: a volume, a file storage or a
  deletion of one that the API does not know is reported by the service's sentinel error, never as a bare API problem with
  status 404.\<close>

theorem service_never_404:
  "never_404 (svc_GetBlockStorageByUUID (NewInstrumentedService (NewUpCloudService cl)) u) \<and>
   never_404 (svc_DeleteBlockStorage (NewInstrumentedService (NewUpCloudService cl)) u) \<and>
   never_404 (svc_GetFileStorageByUUID (NewInstrumentedService (NewUpCloudService cl)) u) \<and>
   never_404 (svc_DeleteFileStorage (NewInstrumentedService (NewUpCloudService cl)) u)"
proof -
  have "service_errors (NewInstrumentedService (NewUpCloudService cl))"
    by (intro instrumented_service_errors upcloud_errors.service_errors_axioms)
  then show ?thesis
    by (simp add: service_errors.volume_errors service_errors.delete_errors service_errors.file_errors
        service_errors.file_delete_errors)
qed



text \<open>C40. Storage labels survive their parsing: labels printed as key, equals sign and value, with keys free of equals signs, are read
  back as they were, values with equals signs included.\<close>

theorem labels_roundtrip:
  assumes "\<forall>l \<in> set ls. CHR ''='' \<notin> set (Label_Key l)"
  shows "upcloudLabels (map print_label ls) = ls"
  by (rule upcloudLabels_roundtrip [OF assms])

theorem labels_roundtrip_witness:
  "upcloudLabels [''env=a=b''] = [\<lparr>Label_Key = ''env'', Label_Value = ''a=b''\<rparr>]"
  using labels_roundtrip [of "[\<lparr>Label_Key = ''env'', Label_Value = ''a=b''\<rparr>]"] by (simp add: print_label_def)

end
